(* ===== verification/Prelude.thy ===== *)
theory Prelude
  imports Complex_Main "HOL-Library.AList" "HOL-Library.Char_ord" "HOL-Library.List_Lexorder"
begin

text \<open>
  Shared vocabulary of the development.

  \<^item> Go strings and byte slices are \<open>string\<close> (one \<open>char\<close> per byte). The part of the
    packages strings, strconv and fmt that the code calls is written out here on byte strings:
    TrimSpace, HasPrefix, TrimPrefix, Cut, Split, SplitN, Fields, Join, ParseInt and the verb
    percent-d. White space is the ASCII white space.
  \<^item> A Go map is a \<open>gomap\<close>: an association list with distinct keys. The order of the list
    is the order in which a range loop over the map happens to visit the keys. Go fixes no such
    order, so a statement about every list is a statement about every visiting order.
  \<^item> A Go int or int64 is an \<open>int\<close>; where arithmetic may leave the 64-bit range the
    wrap-around is written out with \<open>wrap64\<close>.
\<close>

named_theorems gomap_simps "lookup after an update of a Go map"
named_theorems wf_intros "preservation of the invariants"

section \<open>Go maps\<close>

type_synonym 'v gomap = "(string \<times> 'v) list"

definition gm_ok :: "'v gomap \<Rightarrow> bool" where
  "gm_ok m \<longleftrightarrow> distinct (map fst m)"

abbreviation gm_get :: "'v gomap \<Rightarrow> string \<Rightarrow> 'v option" where
  "gm_get m k \<equiv> map_of m k"

abbreviation gm_set :: "string \<Rightarrow> 'v \<Rightarrow> 'v gomap \<Rightarrow> 'v gomap" where
  "gm_set k v m \<equiv> AList.update k v m"

abbreviation gm_del :: "string \<Rightarrow> 'v gomap \<Rightarrow> 'v gomap" where
  "gm_del k m \<equiv> AList.delete k m"

text \<open>\<open>maps.Copy(dst, src)\<close>: every entry of the source is stored in the destination.\<close>

fun gm_copy :: "'v gomap \<Rightarrow> 'v gomap \<Rightarrow> 'v gomap" where
  "gm_copy dst [] = dst"
| "gm_copy dst ((k, v) # src) = gm_copy (gm_set k v dst) src"

lemma gm_get_set [gomap_simps]: "gm_get (gm_set k v m) k' = (if k' = k then Some v else gm_get m k')"
  by (simp add: update_conv')

lemma gm_get_del [gomap_simps]: "gm_get (gm_del k m) k' = (if k' = k then None else gm_get m k')"
  by (simp add: delete_conv')

lemma gm_ok_Nil [simp]: "gm_ok []"
  by (simp add: gm_ok_def)

lemma gm_ok_set [simp, intro]: "gm_ok m \<Longrightarrow> gm_ok (gm_set k v m)"
  by (simp add: gm_ok_def distinct_update)

lemma gm_ok_del [simp, intro]: "gm_ok m \<Longrightarrow> gm_ok (gm_del k m)"
  by (simp add: gm_ok_def distinct_delete)

lemma gm_set_cases: "(k', v') \<in> set (gm_set k v m) \<Longrightarrow> (k' = k \<and> v' = v) \<or> (k', v') \<in> set m"
  by (induction m) (auto split: if_splits)

lemma gm_set_elem: "gm_ok m \<Longrightarrow> (k', v') \<in> set (gm_set k v m) \<longleftrightarrow>
    (k' = k \<and> v' = v) \<or> (k' \<noteq> k \<and> (k', v') \<in> set m)"
proof -
  assume ok: "gm_ok m"
  have "(k', v') \<in> set (gm_set k v m) \<longleftrightarrow> gm_get (gm_set k v m) k' = Some v'"
    using gm_ok_set [OF ok, of k v] by (simp add: gm_ok_def)
  also have "\<dots> \<longleftrightarrow> (k' = k \<and> v' = v) \<or> (k' \<noteq> k \<and> gm_get m k' = Some v')"
    by (auto simp: gomap_simps)
  also have "\<dots> \<longleftrightarrow> (k' = k \<and> v' = v) \<or> (k' \<noteq> k \<and> (k', v') \<in> set m)"
    using ok by (simp add: gm_ok_def)
  finally show ?thesis .
qed

lemma gm_del_elem [simp]: "(k', v') \<in> set (gm_del k m) \<longleftrightarrow> k' \<noteq> k \<and> (k', v') \<in> set m"
  by (auto simp: AList.delete_eq)

lemma gm_ok_get: "gm_ok m \<Longrightarrow> (k, v) \<in> set m \<longleftrightarrow> gm_get m k = Some v"
  by (simp add: gm_ok_def)

lemma gm_ok_fun: "gm_ok m \<Longrightarrow> (k, v) \<in> set m \<Longrightarrow> (k, w) \<in> set m \<Longrightarrow> v = w"
  by (simp add: gm_ok_get)

lemma gm_set_same: "gm_get m k = Some v \<Longrightarrow> gm_set k v m = m"
  by (induction m) (auto split: if_splits)

lemma gm_set_keys: "gm_get m k \<noteq> None \<Longrightarrow> map fst (gm_set k v m) = map fst m"
  by (induction m) (auto split: if_splits)

lemma gm_set_set [simp]: "gm_set k v (gm_set k w m) = gm_set k v m"
  by (induction m) auto

lemma gm_del_set: "gm_get m k = None \<Longrightarrow> gm_del k (gm_set k v m) = m"
proof (induction m)
  case (Cons e m)
  then show ?case
    by (cases e) (auto simp: AList.delete_eq split: if_splits)
qed (simp add: AList.delete_eq)

lemma gm_ok_copy [simp, intro]: "gm_ok dst \<Longrightarrow> gm_ok (gm_copy dst src)"
  by (induction dst src rule: gm_copy.induct) auto

lemma gm_get_copy: "gm_ok src \<Longrightarrow> gm_get (gm_copy dst src) k =
    (case gm_get src k of Some v \<Rightarrow> Some v | None \<Rightarrow> gm_get dst k)"
proof (induction dst src rule: gm_copy.induct)
  case (2 dst k' v src)
  then have "gm_ok src" and fresh: "k' \<notin> fst ` set src"
    by (auto simp: gm_ok_def)
  moreover have "gm_get src k' = None"
    using fresh by (metis map_of_eq_None_iff)
  ultimately show ?case
    using "2.IH" by (auto simp: gomap_simps split: option.splits)
qed simp

section \<open>64-bit arithmetic\<close>

definition int64_min :: int where "int64_min = - (2 ^ 63)"
definition int64_max :: int where "int64_max = 2 ^ 63 - 1"

text \<open>The value a Go int64 holds after an operation whose exact result is \<open>x\<close>.\<close>

definition wrap64 :: "int \<Rightarrow> int" where
  "wrap64 x = (x + 2 ^ 63) mod 2 ^ 64 - 2 ^ 63"

definition in_int64 :: "int \<Rightarrow> bool" where
  "in_int64 x \<longleftrightarrow> int64_min \<le> x \<and> x \<le> int64_max"

lemma wrap64_range: "in_int64 (wrap64 x)"
  by (simp add: in_int64_def wrap64_def int64_min_def int64_max_def)

lemma wrap64_id: "in_int64 x \<Longrightarrow> wrap64 x = x"
  by (simp add: in_int64_def wrap64_def int64_min_def int64_max_def)

lemma wrap64_eq_iff: "wrap64 x = x \<longleftrightarrow> in_int64 x"
  using wrap64_id wrap64_range by metis

section \<open>Byte strings\<close>

definition is_space :: "char \<Rightarrow> bool" where
  "is_space c \<longleftrightarrow> c = CHR 0x09 \<or> c = CHR 0x0A \<or> c = CHR 0x0B \<or> c = CHR 0x0C
     \<or> c = CHR 0x0D \<or> c = CHR 0x20"

definition trim_right :: "string \<Rightarrow> string" where
  "trim_right s = rev (dropWhile is_space (rev s))"

definition trim_space :: "string \<Rightarrow> string" where
  "trim_space s = trim_right (dropWhile is_space s)"

definition has_prefix :: "string \<Rightarrow> string \<Rightarrow> bool" where
  "has_prefix p s \<longleftrightarrow> take (length p) s = p"

definition trim_prefix :: "string \<Rightarrow> string \<Rightarrow> string" where
  "trim_prefix p s = (if has_prefix p s then drop (length p) s else s)"

text \<open>\<open>strings.Cut(s, sep)\<close>, for a non-empty separator: before, after, found.\<close>

fun cut :: "string \<Rightarrow> string \<Rightarrow> string \<times> string \<times> bool" where
  "cut [] sep = ([], [], False)"
| "cut (c # s) sep =
     (if has_prefix sep (c # s) then ([], drop (length sep) (c # s), True)
      else (case cut s sep of (a, b, f) \<Rightarrow> (c # a, b, f)))"

text \<open>\<open>strings.Split(s, c)\<close> and \<open>strings.SplitN(s, c, n)\<close>, for a one-byte separator.\<close>

fun split_on :: "char \<Rightarrow> string \<Rightarrow> string list" where
  "split_on d [] = [[]]"
| "split_on d (c # s) =
     (if c = d then [] # split_on d s
      else (case split_on d s of [] \<Rightarrow> [[c]] | w # ws \<Rightarrow> (c # w) # ws))"

fun split_n :: "nat \<Rightarrow> char \<Rightarrow> string \<Rightarrow> string list" where
  "split_n 0 d s = []"
| "split_n (Suc 0) d s = [s]"
| "split_n (Suc (Suc n)) d s =
     (case cut s [d] of (a, b, f) \<Rightarrow> if f then a # split_n (Suc n) d b else [s])"

fun join :: "string \<Rightarrow> string list \<Rightarrow> string" where
  "join sep [] = []"
| "join sep [w] = w"
| "join sep (w # ws) = w @ sep @ join sep ws"

text \<open>\<open>strings.Fields(s)\<close>: the maximal runs of non-space bytes.\<close>

fun str_fields_aux :: "string \<Rightarrow> string \<Rightarrow> string list" where
  "str_fields_aux acc [] = (if acc = [] then [] else [rev acc])"
| "str_fields_aux acc (c # s) =
     (if is_space c then (if acc = [] then str_fields_aux [] s else rev acc # str_fields_aux [] s)
      else str_fields_aux (c # acc) s)"

definition str_fields :: "string \<Rightarrow> string list" where
  "str_fields s = str_fields_aux [] s"

lemma has_prefix_append [simp]: "has_prefix p (p @ s)"
  by (simp add: has_prefix_def)

lemma has_prefix_iff: "has_prefix p s \<longleftrightarrow> (\<exists>t. s = p @ t)"
  by (metis append_eq_conv_conj append_take_drop_id has_prefix_def)

lemma trim_prefix_append [simp]: "trim_prefix p (p @ s) = s"
  by (simp add: trim_prefix_def)

lemma trim_right_snoc: "\<not> is_space c \<Longrightarrow> trim_right (s @ [c]) = s @ [c]"
  by (simp add: trim_right_def)

lemma dropWhile_space_Cons: "\<not> is_space c \<Longrightarrow> dropWhile is_space (c # s) = c # s"
  by simp

lemma trim_space_id:
  "s \<noteq> [] \<Longrightarrow> \<not> is_space (hd s) \<Longrightarrow> \<not> is_space (last s) \<Longrightarrow> trim_space s = s"
  by (cases s) (auto simp: trim_space_def trim_right_def hd_rev dropWhile_eq_self_iff hd_append)

lemma trim_space_Nil [simp]: "trim_space [] = []"
  by (simp add: trim_space_def trim_right_def)

lemma trim_right_last: "trim_right s \<noteq> [] \<Longrightarrow> \<not> is_space (last (trim_right s))"
  by (metis trim_right_def hd_dropWhile last_rev rev_is_Nil_conv)

lemma trim_right_prefix: "\<exists>t. s = trim_right s @ t \<and> (\<forall>c \<in> set t. is_space c)"
proof -
  have "rev s = takeWhile is_space (rev s) @ dropWhile is_space (rev s)" by simp
  then have "s = rev (dropWhile is_space (rev s)) @ rev (takeWhile is_space (rev s))"
    by (metis rev_append rev_rev_ident)
  then show ?thesis
    by (metis trim_right_def set_rev set_takeWhileD)
qed

lemma trim_space_ends:
  assumes "trim_space s \<noteq> []"
  shows "\<not> is_space (hd (trim_space s)) \<and> \<not> is_space (last (trim_space s))"
proof -
  let ?d = "dropWhile is_space s"
  obtain t where t: "?d = trim_right ?d @ t"
    using trim_right_prefix by blast
  have ne: "trim_right ?d \<noteq> []"
    using assms by (simp add: trim_space_def)
  then have "hd (trim_right ?d) = hd ?d"
    by (metis t hd_append2)
  moreover have "?d \<noteq> []"
    using ne t by (metis append_is_Nil_conv)
  then have "\<not> is_space (hd ?d)"
    by (rule hd_dropWhile)
  ultimately show ?thesis
    unfolding trim_space_def using trim_right_last [OF ne] by simp
qed

lemma trim_space_idem [simp]: "trim_space (trim_space s) = trim_space s"
  using trim_space_ends trim_space_id by (cases "trim_space s = []") auto

lemma cut_none: "d \<notin> set s \<Longrightarrow> cut s [d] = (s, [], False)"
  by (induction s) (auto simp: has_prefix_def)

lemma cut_found: "d \<notin> set a \<Longrightarrow> cut (a @ d # b) [d] = (a, b, True)"
  by (induction a) (auto simp: has_prefix_def)

lemma cut_cases:
  "cut s [d] = (if d \<in> set s then (takeWhile (\<lambda>c. c \<noteq> d) s, tl (dropWhile (\<lambda>c. c \<noteq> d) s), True)
     else (s, [], False))"
  by (induction s) (auto simp: has_prefix_def)

lemma split_on_not_Nil [simp]: "split_on d s \<noteq> []"
  by (induction s) (auto split: list.splits)

lemma split_on_none: "d \<notin> set s \<Longrightarrow> split_on d s = [s]"
  by (induction s) auto

lemma split_on_append: "d \<notin> set a \<Longrightarrow> split_on d (a @ d # b) = a # split_on d b"
  by (induction a) (auto split: list.splits)

section \<open>Decimal numbers\<close>

definition is_digit :: "char \<Rightarrow> bool" where
  "is_digit c \<longleftrightarrow> 48 \<le> (of_char c :: nat) \<and> (of_char c :: nat) \<le> 57"

definition digit_char :: "nat \<Rightarrow> char" where
  "digit_char n = char_of (48 + n)"

fun digits_val :: "nat \<Rightarrow> string \<Rightarrow> nat option" where
  "digits_val acc [] = Some acc"
| "digits_val acc (c # cs) =
     (if is_digit c then digits_val (10 * acc + (of_char c - 48)) cs else None)"

text \<open>The verb percent-d.\<close>

fun show_nat :: "nat \<Rightarrow> string" where
  "show_nat n = (if n < 10 then [digit_char n]
     else show_nat (n div 10) @ [digit_char (n mod 10)])"

declare show_nat.simps [simp del]

definition show_int :: "int \<Rightarrow> string" where
  "show_int i = (if i < 0 then CHR ''-'' # show_nat (nat (- i)) else show_nat (nat i))"

text \<open>
  \<open>strconv.ParseInt(s, 10, 64)\<close> (and \<open>strconv.Atoi\<close> on a 64-bit platform): an optional
  sign, at least one digit, nothing else, and a value in range. \<open>None\<close> is the error.
\<close>

definition parse_int64 :: "string \<Rightarrow> int option" where
  "parse_int64 s =
     (let neg = (s \<noteq> [] \<and> hd s = CHR ''-'');
          ds = (if s \<noteq> [] \<and> (hd s = CHR ''-'' \<or> hd s = CHR ''+'') then tl s else s)
      in if ds = [] then None
         else case digits_val 0 ds of
                None \<Rightarrow> None
              | Some n \<Rightarrow> let x = (if neg then - int n else int n)
                          in if in_int64 x then Some x else None)"

lemma of_char_digit_char [simp]: "n < 10 \<Longrightarrow> of_char (digit_char n) = 48 + n"
  by (simp add: digit_char_def)

lemma is_digit_digit_char [simp]: "n < 10 \<Longrightarrow> is_digit (digit_char n)"
  by (simp add: is_digit_def)

lemma is_digit_not_space: "is_digit c \<Longrightarrow> \<not> is_space c"
  by (auto simp: is_digit_def is_space_def)

lemma digits_val_append:
  "digits_val a (xs @ ys) = (case digits_val a xs of None \<Rightarrow> None | Some b \<Rightarrow> digits_val b ys)"
  by (induction a xs rule: digits_val.induct) auto

lemma digits_val_show_nat [simp]: "digits_val 0 (show_nat n) = Some n"
proof (induction n rule: show_nat.induct)
  case (1 n)
  show ?case
  proof (cases "n < 10")
    case True
    then show ?thesis by (subst show_nat.simps) simp
  next
    case False
    then show ?thesis
      using 1 by (subst show_nat.simps) (simp add: digits_val_append)
  qed
qed

lemma show_nat_not_Nil [simp]: "show_nat n \<noteq> []"
  by (subst show_nat.simps) simp

lemma show_nat_digits: "c \<in> set (show_nat n) \<Longrightarrow> is_digit c"
proof (induction n rule: show_nat.induct)
  case (1 n)
  then show ?case
    by (subst (asm) (2) show_nat.simps) (auto split: if_splits)
qed

lemma digit_not_sign: "is_digit c \<Longrightarrow> c \<noteq> CHR ''-'' \<and> c \<noteq> CHR ''+''"
  by (auto simp: is_digit_def)

lemma show_nat_hd: "is_digit (hd (show_nat n))"
  using show_nat_digits list.set_sel(1) show_nat_not_Nil by blast

lemma parse_int64_show_nat: "parse_int64 (show_nat n) = (if in_int64 (int n) then Some (int n) else None)"
  using digit_not_sign [OF show_nat_hd, of n] by (simp add: parse_int64_def)

lemma parse_int64_range: "parse_int64 s = Some x \<Longrightarrow> in_int64 x"
  by (auto simp: parse_int64_def Let_def split: if_splits option.splits)

section \<open>Results\<close>

text \<open>A call that may fail is a sum: \<open>Inl\<close> the error, which the caller returns at once.\<close>

definition and_then :: "'e + 'a \<Rightarrow> ('a \<Rightarrow> 'e + 'b) \<Rightarrow> 'e + 'b" where
  "and_then m f = (case m of Inl e \<Rightarrow> Inl e | Inr x \<Rightarrow> f x)"

definition map_err :: "('e \<Rightarrow> 'f) \<Rightarrow> 'e + 'a \<Rightarrow> 'f + 'a" where
  "map_err g m = (case m of Inl e \<Rightarrow> Inl (g e) | Inr x \<Rightarrow> Inr x)"

definition is_ok :: "'e + 'a \<Rightarrow> bool" where
  "is_ok m \<longleftrightarrow> (case m of Inl e \<Rightarrow> False | Inr x \<Rightarrow> True)"

text \<open>A loop that appends one result per element and returns at the first error.\<close>

fun collect :: "('a \<Rightarrow> 'e + 'b) \<Rightarrow> 'a list \<Rightarrow> 'e + 'b list" where
  "collect f [] = Inr []"
| "collect f (x # xs) = and_then (f x) (\<lambda>y. and_then (collect f xs) (\<lambda>ys. Inr (y # ys)))"

lemma and_then_simps [simp]: "and_then (Inl e) f = Inl e" "and_then (Inr x) f = f x"
  by (simp_all add: and_then_def)

lemma and_then_Inr: "and_then m f = Inr y \<longleftrightarrow> (\<exists>x. m = Inr x \<and> f x = Inr y)"
  by (cases m) auto

lemma map_err_simps [simp]: "map_err g (Inl e) = Inl (g e)" "map_err g (Inr x) = Inr x"
  by (simp_all add: map_err_def)

lemma map_err_Inr [simp]: "map_err g m = Inr y \<longleftrightarrow> m = Inr y"
  by (cases m) auto

lemma is_ok_simps [simp]: "\<not> is_ok (Inl e)" "is_ok (Inr x)"
  by (simp_all add: is_ok_def)

lemma is_ok_iff: "is_ok m \<longleftrightarrow> (\<exists>x. m = Inr x)"
  by (cases m) auto

lemma collect_map: "(\<And>x. x \<in> set xs \<Longrightarrow> f (g x) = Inr (h x)) \<Longrightarrow> collect f (map g xs) = Inr (map h xs)"
  by (induction xs) auto

lemma collect_Inr: "collect f xs = Inr ys \<longleftrightarrow> list_all2 (\<lambda>x y. f x = Inr y) xs ys"
  by (induction xs arbitrary: ys) (auto simp: and_then_Inr list_all2_Cons1)

section \<open>Lines\<close>

text \<open>The lines of \<open>bufio.Scanner\<close>: split at line feeds, without a last empty line and without a
  final carriage return; a line of 64 kB or more is an error.\<close>

definition drop_cr :: "string \<Rightarrow> string" where
  "drop_cr l = (if l \<noteq> [] \<and> last l = CHR 0x0D then butlast l else l)"

definition scan_lines :: "string \<Rightarrow> string list" where
  "scan_lines text =
     (let ls = split_on CHR 0x0A text
      in if last ls = [] then butlast ls else ls)"

definition max_token :: nat where "max_token = 64 * 1024"

definition scan_file :: "string \<Rightarrow> string list option" where
  "scan_file text =
     (if \<exists>l \<in> set (scan_lines text). max_token \<le> length l then None
      else Some (map drop_cr (scan_lines text)))"

lemma split_on_lines:
  "\<forall>l \<in> set ls. d \<notin> set l \<Longrightarrow> split_on d (concat (map (\<lambda>l. l @ [d]) ls)) = ls @ [[]]"
  by (induction ls) (auto simp: split_on_append)

lemma scan_lines_concat:
  "\<forall>l \<in> set ls. CHR 0x0A \<notin> set l \<Longrightarrow> scan_lines (concat (map (\<lambda>l. l @ [CHR 0x0A]) ls)) = ls"
  by (simp add: scan_lines_def split_on_lines)

lemma scan_file_concat:
  assumes "\<forall>l \<in> set ls. CHR 0x0A \<notin> set l \<and> length l < max_token"
  shows "scan_file (concat (map (\<lambda>l. l @ [CHR 0x0A]) ls)) = Some (map drop_cr ls)"
proof -
  have "scan_lines (concat (map (\<lambda>l. l @ [CHR 0x0A]) ls)) = ls"
    by (rule scan_lines_concat) (use assms in auto)
  then show ?thesis using assms by (auto simp: scan_file_def)
qed

end
