(* ===== verification/Paths.thy ===== *)
theory Paths
  imports Prelude
begin

text \<open>
  The lexical part of the package path/filepath that the code calls: \<open>Clean\<close>, \<open>Join\<close>,
  \<open>IsAbs\<close>, \<open>Base\<close> and \<open>Dir\<close> on slash-separated paths. Symbolic links are not followed by these
  functions, so a path is its list of components.
\<close>

text \<open>
  The component loop of \<open>Clean\<close>: \<open>rooted\<close> tells whether the path starts with a slash, \<open>acc\<close>
  is the output stack. Empty and dot components are dropped; a dot-dot component removes the
  component before it, is dropped at the root and kept at the start of a relative path.
\<close>

definition clean_step :: "bool \<Rightarrow> string list \<Rightarrow> string \<Rightarrow> string list" where
  "clean_step rooted acc c =
     (if c = [] \<or> c = ''.'' then acc
      else if c = ''..'' then
        (case acc of
           [] \<Rightarrow> if rooted then [] else [''..'']
         | a # as \<Rightarrow> if a = ''..'' then ''..'' # acc else as)
      else c # acc)"

definition clean_comps :: "bool \<Rightarrow> string list \<Rightarrow> string list \<Rightarrow> string list" where
  "clean_comps rooted acc cs = rev (foldl (clean_step rooted) acc cs)"

definition is_abs :: "string \<Rightarrow> bool" where
  "is_abs p \<longleftrightarrow> p \<noteq> [] \<and> hd p = CHR ''/''"

definition path_comps :: "string \<Rightarrow> string list" where
  "path_comps p = clean_comps (is_abs p) [] (split_on CHR ''/'' p)"

definition filepath_clean :: "string \<Rightarrow> string" where
  "filepath_clean p =
     (if is_abs p then CHR ''/'' # join ''/'' (path_comps p)
      else if path_comps p = [] then ''.'' else join ''/'' (path_comps p))"

definition filepath_join :: "string \<Rightarrow> string \<Rightarrow> string" where
  "filepath_join a b =
     (if a = [] \<and> b = [] then []
      else if a = [] then filepath_clean b
      else if b = [] then filepath_clean a
      else filepath_clean (a @ ''/'' @ b))"

text \<open>\<open>filepath.Dir\<close> and \<open>filepath.Base\<close>: what is before and after the last slash.\<close>

definition filepath_dir :: "string \<Rightarrow> string" where
  "filepath_dir p =
     filepath_clean (rev (dropWhile (\<lambda>c. c \<noteq> CHR ''/'') (rev p)))"

definition filepath_base :: "string \<Rightarrow> string" where
  "filepath_base p =
     (if p = [] then ''.''
      else let q = rev (dropWhile (\<lambda>c. c = CHR ''/'') (rev p)) in
           if q = [] then ''/'' else rev (takeWhile (\<lambda>c. c \<noteq> CHR ''/'') (rev q)))"

section \<open>Components\<close>

text \<open>A component that can stand in a cleaned rooted path.\<close>

definition proper_comp :: "string \<Rightarrow> bool" where
  "proper_comp c \<longleftrightarrow> c \<noteq> [] \<and> c \<noteq> ''.'' \<and> c \<noteq> ''..'' \<and> CHR ''/'' \<notin> set c"

lemma split_on_no_sep: "w \<in> set (split_on d s) \<Longrightarrow> d \<notin> set w"
  by (induction s arbitrary: w) (auto split: list.splits if_splits)

lemma split_on_plain: "\<forall>w \<in> set (split_on d s). d \<notin> set w"
  using split_on_no_sep by blast

lemma clean_comps_append:
  "clean_comps r acc (xs @ ys) = clean_comps r (rev (clean_comps r acc xs)) ys"
  by (simp add: clean_comps_def)

lemma clean_step_proper: "proper_comp c \<Longrightarrow> clean_step r acc c = c # acc"
  by (simp add: proper_comp_def clean_step_def)

lemma clean_step_set: "set (clean_step r acc c) \<subseteq> insert c (set acc)"
  by (cases acc) (auto simp: clean_step_def)

lemma clean_step_new:
  "x \<in> set (clean_step r acc c) \<Longrightarrow> x \<in> set acc \<or> (x = c \<and> c \<noteq> [] \<and> c \<noteq> ''.'' \<and> (c = ''..'' \<longrightarrow> \<not> r \<or> ''..'' \<in> set acc))"
  by (cases acc) (simp_all add: clean_step_def split: if_splits, blast+)

lemma foldl_inv:
  "(\<And>a c. I a \<Longrightarrow> c \<in> set cs \<Longrightarrow> I (f a c)) \<Longrightarrow> I a \<Longrightarrow> I (foldl f a cs)"
  by (induction cs arbitrary: a) simp_all

definition all_proper :: "string list \<Rightarrow> bool" where
  "all_proper cs \<longleftrightarrow> (\<forall>c \<in> set cs. proper_comp c)"

definition all_plain :: "string list \<Rightarrow> bool" where
  "all_plain cs \<longleftrightarrow> (\<forall>c \<in> set cs. c \<noteq> [] \<and> CHR ''/'' \<notin> set c)"

lemma clean_step_all_proper:
  "all_proper acc \<Longrightarrow> CHR ''/'' \<notin> set c \<Longrightarrow> all_proper (clean_step True acc c)"
  using clean_step_new [of _ True acc c] unfolding all_proper_def proper_comp_def by blast

lemma clean_step_all_plain:
  "all_plain acc \<Longrightarrow> CHR ''/'' \<notin> set c \<Longrightarrow> all_plain (clean_step r acc c)"
  using clean_step_new [of _ r acc c] unfolding all_plain_def by blast

lemma clean_comps_proper:
  assumes "\<forall>c \<in> set cs. CHR ''/'' \<notin> set c"
  shows "\<forall>c \<in> set (clean_comps True [] cs). proper_comp c"
proof -
  have "all_proper (foldl (clean_step True) [] cs)"
    by (rule foldl_inv) (use assms in \<open>simp_all add: clean_step_all_proper\<close>, simp add: all_proper_def)
  then show ?thesis by (simp add: clean_comps_def all_proper_def)
qed

lemma clean_comps_plain:
  assumes "\<forall>c \<in> set cs. CHR ''/'' \<notin> set c"
  shows "\<forall>c \<in> set (clean_comps False [] cs). c \<noteq> [] \<and> CHR ''/'' \<notin> set c"
proof -
  have "all_plain (foldl (clean_step False) [] cs)"
    by (rule foldl_inv) (use assms in \<open>simp_all add: clean_step_all_plain\<close>, simp add: all_plain_def)
  then show ?thesis by (simp add: clean_comps_def all_plain_def)
qed

lemma path_comps_proper: "is_abs p \<Longrightarrow> \<forall>c \<in> set (path_comps p). proper_comp c"
  using clean_comps_proper [OF split_on_plain] by (simp add: path_comps_def)

lemma clean_comps_id: "\<forall>c \<in> set cs. proper_comp c \<Longrightarrow> clean_comps r [] cs = cs"
proof -
  have "\<forall>c \<in> set cs. proper_comp c \<Longrightarrow> foldl (clean_step r) acc cs = rev cs @ acc" for acc
    by (induction cs arbitrary: acc) (simp_all add: clean_step_proper)
  then show "\<forall>c \<in> set cs. proper_comp c \<Longrightarrow> clean_comps r [] cs = cs"
    by (simp add: clean_comps_def)
qed

lemma split_on_snoc_comp:
  "d \<notin> set w \<Longrightarrow> split_on d (s @ d # w) = split_on d s @ [w]"
  by (induction s) (auto simp: split_on_none split: list.splits)

lemma split_on_join:
  "cs \<noteq> [] \<Longrightarrow> \<forall>c \<in> set cs. d \<notin> set c \<Longrightarrow> split_on d (join [d] cs) = cs"
proof (induction "[d]" cs rule: join.induct)
  case (3 w v ws)
  then show ?case by (simp add: split_on_append)
qed (auto simp: split_on_none)

lemma split_on_Cons_sep: "split_on d (d # s) = [] # split_on d s"
  by simp

lemma clean_comps_Nil_comp [simp]: "clean_comps r [] ([] # cs) = clean_comps r [] cs"
  by (simp add: clean_comps_def clean_step_def)

lemma proper_no_slash: "proper_comp c \<Longrightarrow> CHR ''/'' \<notin> set c"
  by (simp add: proper_comp_def)

lemma proper_not_Nil: "proper_comp c \<Longrightarrow> c \<noteq> []"
  by (simp add: proper_comp_def)

lemma path_comps_of_join:
  assumes "\<forall>c \<in> set cs. proper_comp c"
  shows "path_comps (CHR ''/'' # join ''/'' cs) = cs"
proof (cases "cs = []")
  case False
  then have "split_on CHR ''/'' (join ''/'' cs) = cs"
    using assms by (simp add: split_on_join proper_no_slash)
  then show ?thesis
    using assms by (simp add: path_comps_def is_abs_def clean_comps_id)
qed (simp add: path_comps_def is_abs_def clean_comps_def clean_step_def)

lemma path_comps_clean: "is_abs p \<Longrightarrow> path_comps (filepath_clean p) = path_comps p"
  by (simp add: filepath_clean_def path_comps_of_join path_comps_proper)

lemma join_Cons_hd: "c \<noteq> [] \<Longrightarrow> hd (join sep (c # cs)) = hd c \<and> join sep (c # cs) \<noteq> []"
  by (cases cs) simp_all

lemma is_abs_clean [simp]: "is_abs (filepath_clean p) \<longleftrightarrow> is_abs p"
proof (cases "is_abs p")
  case rel: False
  then have pl: "\<forall>c \<in> set (path_comps p). c \<noteq> [] \<and> CHR ''/'' \<notin> set c"
    using clean_comps_plain [OF split_on_plain] by (simp add: path_comps_def)
  show ?thesis
  proof (cases "path_comps p")
    case (Cons c cs)
    then have "c \<noteq> []" and "hd c \<noteq> CHR ''/''"
      using pl by (auto dest: hd_in_set)
    then show ?thesis
      using rel Cons join_Cons_hd [of c "''/''" cs] by (simp add: filepath_clean_def is_abs_def)
  qed (use rel in \<open>simp add: filepath_clean_def is_abs_def\<close>)
qed (simp add: filepath_clean_def is_abs_def)

lemma filepath_clean_idem: "is_abs p \<Longrightarrow> filepath_clean (filepath_clean p) = filepath_clean p"
  by (subst filepath_clean_def) (simp add: path_comps_clean, simp add: filepath_clean_def)

lemma is_abs_join: "is_abs a \<Longrightarrow> is_abs (filepath_join a b)"
  by (simp add: filepath_join_def) (auto simp: is_abs_def)

lemma path_comps_join:
  assumes "is_abs dir" and "CHR ''/'' \<notin> set name" and "name \<noteq> []"
  shows "path_comps (filepath_join dir name) = clean_comps True (rev (path_comps dir)) [name]"
proof -
  have abs: "is_abs (dir @ CHR ''/'' # name)" and ne: "dir \<noteq> []"
    using assms(1) by (auto simp: is_abs_def)
  then have "path_comps (filepath_join dir name) = path_comps (dir @ CHR ''/'' # name)"
    using assms(3) by (simp add: filepath_join_def path_comps_clean)
  also have "\<dots> = clean_comps True (rev (path_comps dir)) [name]"
    using abs assms(1,2)
    by (simp add: path_comps_def split_on_snoc_comp clean_comps_append [of _ _ _ "[name]"])
  finally show ?thesis .
qed

lemma path_comps_join_proper:
  "is_abs dir \<Longrightarrow> proper_comp name \<Longrightarrow> path_comps (filepath_join dir name) = path_comps dir @ [name]"
  by (frule proper_no_slash, frule proper_not_Nil)
    (simp add: path_comps_join clean_comps_def clean_step_proper)

lemma filepath_join_proper:
  "is_abs dir \<Longrightarrow> proper_comp name \<Longrightarrow>
   filepath_join dir name = CHR ''/'' # join ''/'' (path_comps dir @ [name])"
proof -
  assume a: "is_abs dir" "proper_comp name"
  let ?p = "filepath_join dir name"
  have "filepath_clean ?p = ?p"
    using a by (auto simp: filepath_join_def is_abs_def proper_comp_def intro!: filepath_clean_idem)
  moreover have "filepath_clean ?p = CHR ''/'' # join ''/'' (path_comps ?p)"
    using a(1) by (simp add: filepath_clean_def is_abs_join)
  ultimately show ?thesis
    using a by (simp add: path_comps_join_proper)
qed

lemma filepath_join_inj:
  assumes "is_abs dir" "proper_comp a" "proper_comp b"
    and "filepath_join dir a = filepath_join dir b"
  shows "a = b"
  using assms path_comps_join_proper by (metis last_snoc)

lemma abs_comps_eqI:
  "is_abs p \<Longrightarrow> filepath_clean p = p \<Longrightarrow> is_abs q \<Longrightarrow> filepath_clean q = q \<Longrightarrow>
   path_comps p = path_comps q \<Longrightarrow> p = q"
  by (metis filepath_clean_def)

end
