(* ===== verification/Entities.thy ===== *)
theory Entities
  imports Paths
begin

text \<open>
  The domain types of pkg/domain/entities: projects, instances, nodes, applications, virtual
  hardware, host capabilities and the persisted local state, with their validators.

  A struct is a record, a typed string constant group is a datatype whose last constructor holds
  any other string, a nil-able pointer is an \<open>option\<close>, a float64 is a \<open>rat\<close> (the code
  compares, truncates and prints these numbers only) and a time stamp is the \<open>int\<close> the clock
  showed. A Go slice is a list: the code never distinguishes a nil slice from an empty one here,
  nor a nil map from an empty one: it allocates before it writes.
\<close>

type_synonym float64 = rat
type_synonym timestamp = int

section \<open>Applications (app.go)\<close>

datatype execution_mode = ModeUnset | ModeContainer | ModeProcess | ModeOther string

datatype app_state = AppPending | AppRunning | AppStopped | AppFailed

datatype restart_policy = RestartUnset | RestartAlways | RestartOnFailure | RestartNever
  | RestartOther string

record port_mapping =
  host_port :: int
  container_port :: int
  protocol :: string

record volume_mount =
  vol_source :: string
  vol_destination :: string
  vol_read_only :: bool

record health_check =
  hc_path :: string
  hc_port :: int
  hc_interval_seconds :: int
  hc_timeout_seconds :: int
  hc_retries :: int

record resources =
  res_cpu :: float64
  res_memory_mb :: int
  res_disk_mb :: int

record app_spec =
  app_name :: string
  app_execution_mode :: execution_mode
  app_image :: string
  app_tag :: string
  app_binary :: string
  app_replicas :: int
  app_command :: "string list"
  app_args :: "string list"
  app_env :: "string gomap"
  app_ports :: "port_mapping list"
  app_volumes :: "volume_mount list"
  app_resources :: resources
  app_health_check :: "health_check option"
  app_restart_policy :: restart_policy
  app_working_dir :: string
  app_hostname :: string
  app_available :: "bool option"
  app_description :: string
  app_tags :: "string list"
  app_created_at :: timestamp

definition zero_resources :: resources where
  "zero_resources = \<lparr>res_cpu = 0, res_memory_mb = 0, res_disk_mb = 0\<rparr>"

text \<open>The zero value of the struct.\<close>

definition zero_app :: app_spec where
  "zero_app = \<lparr>app_name = [], app_execution_mode = ModeUnset, app_image = [], app_tag = [],
     app_binary = [], app_replicas = 0, app_command = [], app_args = [], app_env = [],
     app_ports = [], app_volumes = [], app_resources = zero_resources, app_health_check = None,
     app_restart_policy = RestartUnset, app_working_dir = [], app_hostname = [],
     app_available = None, app_description = [], app_tags = [], app_created_at = 0\<rparr>"

definition is_available :: "app_spec \<Rightarrow> bool" where
  "is_available a \<longleftrightarrow> (case app_available a of None \<Rightarrow> True | Some b \<Rightarrow> b)"

definition get_hostname :: "app_spec \<Rightarrow> string" where
  "get_hostname a = (if app_hostname a \<noteq> [] then app_hostname a else app_name a)"

definition is_container_mode :: "app_spec \<Rightarrow> bool" where
  "is_container_mode a \<longleftrightarrow>
     app_execution_mode a = ModeUnset \<or> app_execution_mode a = ModeContainer"

definition is_process_mode :: "app_spec \<Rightarrow> bool" where
  "is_process_mode a \<longleftrightarrow> app_execution_mode a = ModeProcess"

section \<open>Virtual hardware (vm.go, capabilities.go)\<close>

record memory_backing =
  mb_hugepages :: bool
  mb_hugepage_size :: int
  mb_source :: string
  mb_locked :: bool

record disk_device =
  disk_path :: string
  disk_format :: string
  disk_bus :: string
  disk_read_only :: bool
  disk_cache :: string

record network_device =
  net_type :: string
  net_source :: string
  net_mac :: string
  net_model :: string

record serial_device =
  ser_type :: string
  ser_socket_path :: string
  ser_port_name :: string

record cpu_topology =
  cpu_sockets :: int
  cpu_cores :: int
  cpu_threads :: int
  cpu_model :: string
  cpu_features :: "string list"

record vm_topology =
  topo_cpu :: cpu_topology
  topo_memory_backing :: "memory_backing option"
  topo_disks :: "disk_device list"
  topo_networks :: "network_device list"
  topo_serials :: "serial_device list"

text \<open>\<open>TotalVCPUs\<close>: a zero field counts as one; the product is an int product.\<close>

definition total_vcpus :: "cpu_topology \<Rightarrow> int" where
  "total_vcpus t =
     (let sockets = (if cpu_sockets t = 0 then 1 else cpu_sockets t);
          cores = (if cpu_cores t = 0 then 1 else cpu_cores t);
          threads = (if cpu_threads t = 0 then 1 else cpu_threads t)
      in wrap64 (wrap64 (sockets * cores) * threads))"

section \<open>Projects, instances, nodes (project.go, instance.go, node.go)\<close>

datatype runtime_type = RuntimeQEMU | RuntimeKata | RuntimeFirecracker | RuntimeOther string

datatype project_state = ProjPending | ProjCreating | ProjRunning | ProjStopping | ProjStopped
  | ProjFailed | ProjOther string

datatype instance_state = InstPending | InstStarting | InstRunning | InstStopping | InstStopped
  | InstFailed | InstOther string

datatype node_status = NodeOnline | NodeOffline | NodeDraining | NodeOther string

record project =
  proj_id :: string
  proj_name :: string
  proj_runtime :: runtime_type
  proj_resources :: resources
  proj_topology :: "vm_topology option"
  proj_state :: project_state
  proj_labels :: "string gomap"
  proj_domains :: "string list"
  proj_default_domain :: string
  proj_env :: "string gomap"
  proj_created_at :: timestamp
  proj_updated_at :: timestamp

record proj_instance =
  inst_id :: string
  inst_project_id :: string
  inst_node_id :: string
  inst_state :: instance_state
  inst_ip_address :: string
  inst_ssh_port :: int
  inst_domain_name :: string
  inst_domain_uuid :: string
  inst_topology :: "vm_topology option"
  inst_error :: string
  inst_created_at :: timestamp
  inst_updated_at :: timestamp

record node =
  node_id :: string
  node_hostname :: string
  node_endpoint :: string
  node_status :: node_status
  node_resources :: resources
  node_labels :: "string gomap"
  node_last_heartbeat :: timestamp
  node_created_at :: timestamp
  node_updated_at :: timestamp

section \<open>Validators\<close>

datatype entity_error = NameRequired string | NotPathComponent string string
  | ProjectRequired | InstanceRequired
  | WrongProject string string string
  | WrongDomain string string string

text \<open>
  \<open>validatePathComponent\<close>. The path separator of the platforms the program is built for is the
  slash, so the third and the fourth test of the source coincide.
\<close>

definition validate_path_component :: "string \<Rightarrow> string \<Rightarrow> entity_error option" where
  "validate_path_component kind name =
     (if name = [] then Some (NameRequired kind)
      else if name = ''.'' \<or> name = ''..'' \<or> CHR ''/'' \<in> set name \<or> CHR 0x00 \<in> set name
      then Some (NotPathComponent kind name)
      else None)"

definition validate_project_name :: "string \<Rightarrow> entity_error option" where
  "validate_project_name name = validate_path_component ''project'' name"

definition validate_app_name :: "string \<Rightarrow> entity_error option" where
  "validate_app_name name = validate_path_component ''app'' name"

definition libvirt_domain_prefix :: string where
  "libvirt_domain_prefix = ''goship-''"

definition validate_project_instance_binding ::
    "project option \<Rightarrow> proj_instance option \<Rightarrow> entity_error option" where
  "validate_project_instance_binding po io =
     (case po of None \<Rightarrow> Some ProjectRequired | Some p \<Rightarrow>
      (case io of None \<Rightarrow> Some InstanceRequired | Some i \<Rightarrow>
        (if inst_project_id i \<noteq> proj_id p
         then Some (WrongProject (inst_id i) (inst_project_id i) (proj_id p))
         else if inst_domain_name i = [] then None
         else if inst_domain_name i \<noteq> libvirt_domain_prefix @ proj_name p
         then Some (WrongDomain (inst_id i) (inst_domain_name i) (proj_name p))
         else None)))"

section \<open>The local state (state.go)\<close>

record local_state =
  ls_version :: string
  ls_projects :: "project gomap"
  ls_instances :: "proj_instance gomap"
  ls_apps :: "app_spec gomap gomap"
  ls_nodes :: "node gomap"
  ls_updated_at :: timestamp

definition new_local_state :: "timestamp \<Rightarrow> local_state" where
  "new_local_state now = \<lparr>ls_version = ''v1'', ls_projects = [], ls_instances = [],
     ls_apps = [], ls_nodes = [], ls_updated_at = now\<rparr>"

definition get_project_apps :: "string \<Rightarrow> local_state \<Rightarrow> app_spec gomap" where
  "get_project_apps pid s = (case gm_get (ls_apps s) pid of Some apps \<Rightarrow> apps | None \<Rightarrow> [])"

definition ls_set_app :: "timestamp \<Rightarrow> string \<Rightarrow> app_spec \<Rightarrow> local_state \<Rightarrow> local_state" where
  "ls_set_app now pid app s =
     s\<lparr>ls_apps := gm_set pid (gm_set (app_name app) app (get_project_apps pid s)) (ls_apps s),
       ls_updated_at := now\<rparr>"

definition ls_remove_app :: "timestamp \<Rightarrow> string \<Rightarrow> string \<Rightarrow> local_state \<Rightarrow> local_state" where
  "ls_remove_app now pid name s =
     (case gm_get (ls_apps s) pid of
        Some apps \<Rightarrow> s\<lparr>ls_apps := gm_set pid (gm_del name apps) (ls_apps s), ls_updated_at := now\<rparr>
      | None \<Rightarrow> s\<lparr>ls_updated_at := now\<rparr>)"

text \<open>\<open>GetInstance\<close> returns the first instance of the project that the range loop visits.\<close>

definition ls_get_instance :: "string \<Rightarrow> local_state \<Rightarrow> proj_instance option" where
  "ls_get_instance pid s =
     map_option snd (find (\<lambda>(k, i). inst_project_id i = pid) (ls_instances s))"

section \<open>Properties\<close>

definition plain_component :: "string \<Rightarrow> bool" where
  "plain_component s \<longleftrightarrow> s \<noteq> [] \<and> s \<noteq> ''.'' \<and> s \<noteq> ''..'' \<and> CHR ''/'' \<notin> set s \<and> CHR 0x00 \<notin> set s"

lemma validate_path_component_None [simp]:
  "validate_path_component kind s = None \<longleftrightarrow> plain_component s"
  by (auto simp: validate_path_component_def plain_component_def)

lemma validate_project_name_None [simp]: "validate_project_name s = None \<longleftrightarrow> plain_component s"
  by (simp add: validate_project_name_def)

lemma validate_app_name_None [simp]: "validate_app_name s = None \<longleftrightarrow> plain_component s"
  by (simp add: validate_app_name_def)

lemma validate_plain [simp]:
  assumes "plain_component s"
  shows "validate_path_component kind s = None" "validate_project_name s = None" "validate_app_name s = None"
  using assms by simp_all

lemma plain_component_proper: "plain_component s \<longleftrightarrow> proper_comp s \<and> CHR 0x00 \<notin> set s"
  by (auto simp: plain_component_def proper_comp_def)

text \<open>A name that \<open>validatePathComponent\<close> accepts, joined to any rooted directory, gives
  exactly that directory plus one component, so it can neither stay in place nor escape; every
  other name free of zero bytes fails to do so for some directory, and is refused.\<close>

theorem valid_name_stays_below:
  assumes "CHR 0x00 \<notin> set name"
  shows "validate_path_component kind name = None \<longleftrightarrow>
    (\<forall>d. path_comps (filepath_join (CHR ''/'' # d) name) = path_comps (CHR ''/'' # d) @ [name])"
    (is "?ok \<longleftrightarrow> ?below")
proof
  assume ?ok
  then show ?below
    by (simp add: plain_component_proper path_comps_join_proper is_abs_def)
next
  assume ?below
  then have "name \<in> set (path_comps (filepath_join ''/'' name))" by simp
  moreover have "is_abs (filepath_join ''/'' name)"
    by (rule is_abs_join) (simp add: is_abs_def)
  ultimately show ?ok
    using assms path_comps_proper by (simp add: plain_component_proper)
qed

theorem valid_name_stays_below_witness:
  "path_comps (filepath_join ''/var/log'' ''web'') = path_comps ''/var/log'' @ [''web'']"
proof -
  have "validate_path_component ''app'' ''web'' = None"
    by (simp add: plain_component_def)
  moreover have "CHR 0x00 \<notin> set ''web''" by simp
  ultimately have "\<forall>d. path_comps (filepath_join (CHR ''/'' # d) ''web'') =
      path_comps (CHR ''/'' # d) @ [''web'']"
    using valid_name_stays_below [of "''web''" "''app''"] by blast
  then show ?thesis by blast
qed

lemma binding_None_iff:
  "validate_project_instance_binding (Some p) (Some i) = None \<longleftrightarrow>
     inst_project_id i = proj_id p \<and>
     (inst_domain_name i = [] \<or> inst_domain_name i = libvirt_domain_prefix @ proj_name p)"
  by (auto simp: validate_project_instance_binding_def)

lemma total_vcpus_small:
  "cpu_sockets t = 1 \<Longrightarrow> cpu_threads t = 1 \<Longrightarrow> in_int64 (cpu_cores t) \<Longrightarrow>
   total_vcpus t = (if cpu_cores t = 0 then 1 else cpu_cores t)"
  by (simp add: total_vcpus_def wrap64_id in_int64_def int64_min_def int64_max_def)

end
