(* ===== verification/Store.thy ===== *)
theory Store
  imports Entities
begin

text \<open>
  The state store of internal/shared/state/local.go. A store is the local state in memory and the
  contents of its state file. JSON is not modelled as text: a file holds a decoded state in which
  the maps and the entries may be null, as a hand-written file may have them; null nodes, which
  the code does not check for, are left out. Every operation runs under the store's mutex, so it is
  one step. The clock, the generated identifiers and the outcome of writing the file are
  arguments.
\<close>

section \<open>State\<close>

record raw_state =
  raw_version :: string
  raw_projects :: "project option gomap option"
  raw_instances :: "proj_instance option gomap option"
  raw_apps :: "app_spec option gomap option gomap option"
  raw_nodes :: "node gomap option"
  raw_updated_at :: timestamp

datatype disk_file = NoFile | ReadError | NotJson | StateFile raw_state

record store =
  st_path :: string
  st_data_dir :: string
  st_mem :: local_state
  st_disk :: disk_file

datatype store_error =
    EntityErr entity_error
  | ProjectExists string | ProjectNotFound string | ProjectNil
  | InstanceNil | InstanceNotFound string | UnknownProject string string
  | AppNil | NodeNotFound string
  | SaveFailed
  | NullProject string | BadProject string entity_error
  | NullApp string string | BadApp string string entity_error
  | BadInstance string store_error
  | ReadFailed | ParseFailed | HomeFailed | MkdirFailed

text \<open>What the write of the state file does: it succeeds, or it fails and leaves some contents.\<close>

datatype save_env = SaveOk | SaveFails disk_file

definition marshal_state :: "local_state \<Rightarrow> raw_state" where
  "marshal_state s = \<lparr>raw_version = ls_version s,
     raw_projects = Some (map (\<lambda>(k, p). (k, Some p)) (ls_projects s)),
     raw_instances = Some (map (\<lambda>(k, i). (k, Some i)) (ls_instances s)),
     raw_apps = Some (map (\<lambda>(k, m). (k, Some (map (\<lambda>(n, a). (n, Some a)) m))) (ls_apps s)),
     raw_nodes = Some (ls_nodes s),
     raw_updated_at = ls_updated_at s\<rparr>"

section \<open>Loading\<close>

fun first_err :: "('a \<Rightarrow> 'e option) \<Rightarrow> 'a list \<Rightarrow> 'e option" where
  "first_err f [] = None"
| "first_err f (x # xs) = (case f x of Some e \<Rightarrow> Some e | None \<Rightarrow> first_err f xs)"

fun gm_somes :: "'v option gomap \<Rightarrow> 'v gomap" where
  "gm_somes [] = []"
| "gm_somes ((k, Some v) # m) = (k, v) # gm_somes m"
| "gm_somes ((k, None) # m) = gm_somes m"

definition or_empty :: "'v gomap option \<Rightarrow> 'v gomap" where
  "or_empty m = (case m of None \<Rightarrow> [] | Some x \<Rightarrow> x)"

definition check_project :: "string \<times> project option \<Rightarrow> store_error option" where
  "check_project = (\<lambda>(id, po). case po of None \<Rightarrow> Some (NullProject id)
     | Some p \<Rightarrow> map_option (BadProject id) (validate_project_name (proj_name p)))"

definition check_app :: "string \<Rightarrow> string \<times> app_spec option \<Rightarrow> store_error option" where
  "check_app pid = (\<lambda>(name, ao). case ao of None \<Rightarrow> Some (NullApp name pid)
     | Some a \<Rightarrow> map_option (BadApp name pid) (validate_app_name (app_name a)))"

definition check_apps :: "string \<times> app_spec option gomap option \<Rightarrow> store_error option" where
  "check_apps = (\<lambda>(pid, m). first_err (check_app pid) (or_empty m))"

definition validate_instance_binding ::
    "project gomap \<Rightarrow> proj_instance option \<Rightarrow> store_error option" where
  "validate_instance_binding projects io =
     (case io of None \<Rightarrow> Some InstanceNil
      | Some i \<Rightarrow>
        (case gm_get projects (inst_project_id i) of
           None \<Rightarrow> Some (UnknownProject (inst_id i) (inst_project_id i))
         | Some p \<Rightarrow> map_option EntityErr (validate_project_instance_binding (Some p) (Some i))))"

definition check_instance ::
    "project gomap \<Rightarrow> string \<times> proj_instance option \<Rightarrow> store_error option" where
  "check_instance projects =
     (\<lambda>(id, io). map_option (BadInstance id) (validate_instance_binding projects io))"

text \<open>\<open>load\<close>: \<open>Inr None\<close> is the missing file, which \<open>NewStore\<close> tolerates.\<close>

definition load_state :: "disk_file \<Rightarrow> store_error + local_state option" where
  "load_state d =
     (case d of
        NoFile \<Rightarrow> Inr None
      | ReadError \<Rightarrow> Inl ReadFailed
      | NotJson \<Rightarrow> Inl ParseFailed
      | StateFile r \<Rightarrow>
          let rp = or_empty (raw_projects r); ri = or_empty (raw_instances r);
              ra = or_empty (raw_apps r); rn = or_empty (raw_nodes r)
          in case first_err check_project rp of Some e \<Rightarrow> Inl e
           | None \<Rightarrow> (case first_err check_apps ra of Some e \<Rightarrow> Inl e
           | None \<Rightarrow> (case first_err (check_instance (gm_somes rp)) ri of Some e \<Rightarrow> Inl e
           | None \<Rightarrow> Inr (Some \<lparr>ls_version = raw_version r, ls_projects = gm_somes rp,
               ls_instances = gm_somes ri,
               ls_apps = map (\<lambda>(k, m). (k, gm_somes (or_empty m))) ra,
               ls_nodes = rn, ls_updated_at = raw_updated_at r\<rparr>))))"

text \<open>
  \<open>NewStore\<close>: \<open>home\<close> is the home directory if it can be found, \<open>mkdir_ok\<close> whether the
  directory can be created and \<open>disk\<close> the state file found there.
\<close>

definition state_file_name :: string where "state_file_name = ''state.json''"

definition new_store ::
    "timestamp \<Rightarrow> string option \<Rightarrow> bool \<Rightarrow> disk_file \<Rightarrow> string \<Rightarrow> store_error + store" where
  "new_store now home mkdir_ok disk dir0 =
     (case (if dir0 \<noteq> [] \<and> hd dir0 = CHR ''~''
            then map_option (\<lambda>h. filepath_join h (tl dir0)) home else Some dir0) of
        None \<Rightarrow> Inl HomeFailed
      | Some dir \<Rightarrow>
        if \<not> mkdir_ok then Inl MkdirFailed
        else (case load_state disk of
           Inl e \<Rightarrow> Inl e
         | Inr l \<Rightarrow> Inr \<lparr>st_path = filepath_join dir state_file_name, st_data_dir = dir,
             st_mem = (case l of None \<Rightarrow> new_local_state now | Some s \<Rightarrow> s), st_disk = disk\<rparr>))"

section \<open>Saving\<close>

definition save :: "timestamp \<Rightarrow> save_env \<Rightarrow> store \<Rightarrow> store \<times> store_error option" where
  "save now io st =
     (let s = (st_mem st)\<lparr>ls_updated_at := now\<rparr>; st' = st\<lparr>st_mem := s\<rparr>
      in case io of
           SaveOk \<Rightarrow> (st'\<lparr>st_disk := StateFile (marshal_state s)\<rparr>, None)
         | SaveFails d \<Rightarrow> (st'\<lparr>st_disk := d\<rparr>, Some SaveFailed))"

definition set_projects :: "project gomap \<Rightarrow> store \<Rightarrow> store" where
  "set_projects m st = st\<lparr>st_mem := (st_mem st)\<lparr>ls_projects := m\<rparr>\<rparr>"

definition set_instances :: "proj_instance gomap \<Rightarrow> store \<Rightarrow> store" where
  "set_instances m st = st\<lparr>st_mem := (st_mem st)\<lparr>ls_instances := m\<rparr>\<rparr>"

definition set_nodes :: "node gomap \<Rightarrow> store \<Rightarrow> store" where
  "set_nodes m st = st\<lparr>st_mem := (st_mem st)\<lparr>ls_nodes := m\<rparr>\<rparr>"

abbreviation projects :: "store \<Rightarrow> project gomap" where "projects st \<equiv> ls_projects (st_mem st)"
abbreviation instances :: "store \<Rightarrow> proj_instance gomap" where
  "instances st \<equiv> ls_instances (st_mem st)"
abbreviation apps_of :: "store \<Rightarrow> app_spec gomap gomap" where "apps_of st \<equiv> ls_apps (st_mem st)"
abbreviation nodes :: "store \<Rightarrow> node gomap" where "nodes st \<equiv> ls_nodes (st_mem st)"

section \<open>Projects\<close>

definition create_project ::
    "timestamp \<Rightarrow> string \<Rightarrow> save_env \<Rightarrow> string \<Rightarrow> runtime_type \<Rightarrow> resources \<Rightarrow> store \<Rightarrow>
     store \<times> (store_error + project)" where
  "create_project now uuid io name rt res st =
     (case validate_project_name name of Some e \<Rightarrow> (st, Inl (EntityErr e))
      | None \<Rightarrow>
        if \<exists>(k, p) \<in> set (projects st). proj_name p = name then (st, Inl (ProjectExists name))
        else
          let p = \<lparr>proj_id = uuid, proj_name = name, proj_runtime = rt, proj_resources = res,
                proj_topology = None, proj_state = ProjPending, proj_labels = [],
                proj_domains = [], proj_default_domain = [], proj_env = [],
                proj_created_at = now, proj_updated_at = now\<rparr>;
              st1 = set_projects (gm_set uuid p (projects st)) st
          in case save now io st1 of
               (st2, Some e) \<Rightarrow> (set_projects (gm_del uuid (projects st2)) st2, Inl e)
             | (st2, None) \<Rightarrow> (st2, Inr p))"

text \<open>
  \<open>GetProject\<close>. The code returns a pointer into the map; \<open>find_project\<close> also tells under which
  key the project is stored, which identifies the pointer.
\<close>

definition find_project :: "string \<Rightarrow> store \<Rightarrow> (string \<times> project) option" where
  "find_project x st =
     (case gm_get (projects st) x of
        Some p \<Rightarrow> Some (x, p)
      | None \<Rightarrow> find (\<lambda>(k, p). proj_name p = x) (projects st))"

definition get_project :: "string \<Rightarrow> store \<Rightarrow> store_error + project" where
  "get_project x st =
     (case find_project x st of Some (k, p) \<Rightarrow> Inr p | None \<Rightarrow> Inl (ProjectNotFound x))"

definition list_projects :: "store \<Rightarrow> project list" where
  "list_projects st = map snd (projects st)"

definition update_project ::
    "timestamp \<Rightarrow> save_env \<Rightarrow> project option \<Rightarrow> store \<Rightarrow> store \<times> store_error option" where
  "update_project now io po st =
     (case po of None \<Rightarrow> (st, Some ProjectNil)
      | Some p \<Rightarrow>
        (case validate_project_name (proj_name p) of Some e \<Rightarrow> (st, Some (EntityErr e))
         | None \<Rightarrow>
           if gm_get (projects st) (proj_id p) = None then (st, Some (ProjectNotFound (proj_id p)))
           else save now io (set_projects
                  (gm_set (proj_id p) (p\<lparr>proj_updated_at := now\<rparr>) (projects st)) st)))"

definition delete_project ::
    "timestamp \<Rightarrow> save_env \<Rightarrow> string \<Rightarrow> store \<Rightarrow> store \<times> store_error option" where
  "delete_project now io x st =
     (let pid = (if gm_get (projects st) x \<noteq> None then x
                 else case find (\<lambda>(k, p). proj_name p = x) (projects st) of
                        Some (k, p) \<Rightarrow> proj_id p | None \<Rightarrow> [])
      in if pid = [] then (st, Some (ProjectNotFound x))
         else let s = st_mem st;
                  s' = s\<lparr>ls_projects := gm_del pid (ls_projects s),
                         ls_instances := gm_del pid (ls_instances s),
                         ls_apps := gm_del pid (ls_apps s)\<rparr>
              in save now io (st\<lparr>st_mem := s'\<rparr>))"

section \<open>Instances\<close>

definition set_instance ::
    "timestamp \<Rightarrow> save_env \<Rightarrow> proj_instance option \<Rightarrow> store \<Rightarrow> store \<times> store_error option" where
  "set_instance now io io' st =
     (case validate_instance_binding (projects st) io' of Some e \<Rightarrow> (st, Some e)
      | None \<Rightarrow> (case io' of None \<Rightarrow> (st, None)
         | Some i \<Rightarrow> save now io (set_instances (gm_set (inst_id i) i (instances st)) st)))"

definition get_instance :: "string \<Rightarrow> store \<Rightarrow> proj_instance option" where
  "get_instance pid st = ls_get_instance pid (st_mem st)"

definition get_instance_by_id :: "string \<Rightarrow> store \<Rightarrow> proj_instance option" where
  "get_instance_by_id iid st = gm_get (instances st) iid"

definition update_instance ::
    "timestamp \<Rightarrow> save_env \<Rightarrow> proj_instance option \<Rightarrow> store \<Rightarrow> store \<times> store_error option" where
  "update_instance now io io' st =
     (case io' of None \<Rightarrow> (st, Some InstanceNil)
      | Some i \<Rightarrow>
        if gm_get (instances st) (inst_id i) = None then (st, Some (InstanceNotFound (inst_id i)))
        else (case validate_instance_binding (projects st) (Some i) of Some e \<Rightarrow> (st, Some e)
          | None \<Rightarrow> save now io (set_instances
              (gm_set (inst_id i) (i\<lparr>inst_updated_at := now\<rparr>) (instances st)) st)))"

definition delete_instance ::
    "timestamp \<Rightarrow> save_env \<Rightarrow> string \<Rightarrow> store \<Rightarrow> store \<times> store_error option" where
  "delete_instance now io iid st = save now io (set_instances (gm_del iid (instances st)) st)"

section \<open>Applications\<close>

definition set_app ::
    "timestamp \<Rightarrow> save_env \<Rightarrow> string \<Rightarrow> app_spec option \<Rightarrow> store \<Rightarrow> store \<times> store_error option" where
  "set_app now io pid ao st =
     (case ao of None \<Rightarrow> (st, Some AppNil)
      | Some a \<Rightarrow>
        (case validate_app_name (app_name a) of Some e \<Rightarrow> (st, Some (EntityErr e))
         | None \<Rightarrow> save now io (st\<lparr>st_mem := ls_set_app now pid a (st_mem st)\<rparr>)))"

definition get_app :: "string \<Rightarrow> string \<Rightarrow> store \<Rightarrow> app_spec option" where
  "get_app pid name st = gm_get (get_project_apps pid (st_mem st)) name"

definition get_apps :: "string \<Rightarrow> store \<Rightarrow> app_spec list" where
  "get_apps pid st = map snd (get_project_apps pid (st_mem st))"

definition delete_app ::
    "timestamp \<Rightarrow> save_env \<Rightarrow> string \<Rightarrow> string \<Rightarrow> store \<Rightarrow> store \<times> store_error option" where
  "delete_app now io pid name st =
     save now io (st\<lparr>st_mem := ls_remove_app now pid name (st_mem st)\<rparr>)"

section \<open>Nodes\<close>

definition set_node :: "timestamp \<Rightarrow> save_env \<Rightarrow> node \<Rightarrow> store \<Rightarrow> store \<times> store_error option" where
  "set_node now io n st = save now io (set_nodes (gm_set (node_id n) n (nodes st)) st)"

definition get_node :: "string \<Rightarrow> store \<Rightarrow> store_error + node" where
  "get_node x st =
     (case gm_get (nodes st) x of
        Some n \<Rightarrow> Inr n
      | None \<Rightarrow> (case find (\<lambda>(k, n). node_hostname n = x) (nodes st) of
          Some (k, n) \<Rightarrow> Inr n | None \<Rightarrow> Inl (NodeNotFound x)))"

definition list_nodes :: "store \<Rightarrow> node list" where
  "list_nodes st = map snd (nodes st)"

definition delete_node ::
    "timestamp \<Rightarrow> save_env \<Rightarrow> string \<Rightarrow> store \<Rightarrow> store \<times> store_error option" where
  "delete_node now io x st =
     (if gm_get (nodes st) x \<noteq> None then save now io (set_nodes (gm_del x (nodes st)) st)
      else (case find (\<lambda>(k, n). node_hostname n = x) (nodes st) of
          Some (k, n) \<Rightarrow> save now io (set_nodes (gm_del k (nodes st)) st)
        | None \<Rightarrow> (st, Some (NodeNotFound x))))"

end
