(* ===== verification/Store_Inv.thy ===== *)
theory Store_Inv
  imports Store
begin

text \<open>
  The invariant of the local state, its preservation by the operations of the store, and the
  persistence contract: what an operation saved is what a later process loads.
\<close>

section \<open>The invariant\<close>

definition projects_wf :: "project gomap \<Rightarrow> bool" where
  "projects_wf ps \<longleftrightarrow> gm_ok ps \<and> distinct (map (\<lambda>e. proj_name (snd e)) ps) \<and>
     (\<forall>(k, p) \<in> set ps. k \<noteq> [] \<and> proj_id p = k \<and> plain_component (proj_name p))"

definition instances_wf :: "project gomap \<Rightarrow> proj_instance gomap \<Rightarrow> bool" where
  "instances_wf ps im \<longleftrightarrow> gm_ok im \<and>
     (\<forall>(k, i) \<in> set im. inst_id i = k \<and> validate_instance_binding ps (Some i) = None)"

definition app_map_wf :: "app_spec gomap \<Rightarrow> bool" where
  "app_map_wf m \<longleftrightarrow> gm_ok m \<and> (\<forall>(n, a) \<in> set m. app_name a = n \<and> plain_component n)"

definition apps_wf :: "app_spec gomap gomap \<Rightarrow> bool" where
  "apps_wf am \<longleftrightarrow> gm_ok am \<and> (\<forall>(pid, m) \<in> set am. app_map_wf m)"

definition nodes_wf :: "node gomap \<Rightarrow> bool" where
  "nodes_wf nm \<longleftrightarrow> gm_ok nm \<and> (\<forall>(k, n) \<in> set nm. node_id n = k)"

definition state_wf :: "local_state \<Rightarrow> bool" where
  "state_wf s \<longleftrightarrow> projects_wf (ls_projects s) \<and> instances_wf (ls_projects s) (ls_instances s) \<and>
     apps_wf (ls_apps s) \<and> nodes_wf (ls_nodes s)"

lemma projects_wfD:
  "projects_wf ps \<Longrightarrow> gm_get ps k = Some p \<Longrightarrow> k \<noteq> [] \<and> proj_id p = k \<and> plain_component (proj_name p)"
  by (fastforce simp: projects_wf_def gm_ok_get [symmetric])

lemma projects_wf_name_unique:
  assumes "projects_wf ps" "gm_get ps k = Some p" "gm_get ps k' = Some q" "proj_name p = proj_name q"
  shows "k = k'"
proof -
  have "(k, p) \<in> set ps" "(k', q) \<in> set ps"
    using assms by (auto dest: map_of_SomeD)
  moreover have "inj_on (\<lambda>e. proj_name (snd e)) (set ps)"
    using assms(1) by (simp add: projects_wf_def distinct_map)
  ultimately have "(k, p) = (k', q)"
    using inj_onD [of "\<lambda>e. proj_name (snd e)" _ "(k, p)" "(k', q)"] assms(4) by simp
  then show ?thesis by simp
qed

section \<open>Loading what was saved\<close>

lemma first_err_None: "first_err f xs = None \<longleftrightarrow> (\<forall>x \<in> set xs. f x = None)"
  by (induction xs) (auto split: option.splits)

lemma gm_somes_Some [simp]: "gm_somes (map (\<lambda>(k, v). (k, Some v)) m) = m"
  by (induction m) auto

lemma or_empty_Some [simp]: "or_empty (Some m) = m"
  by (simp add: or_empty_def)

lemma somes_apps [simp]:
  "map (\<lambda>(k, m). (k, gm_somes (or_empty m)))
     (map (\<lambda>(k, m). (k, Some (map (\<lambda>(n, a). (n, Some a)) m))) am) = am"
  by (induction am) auto

lemma load_marshal_checks:
  "load_state (StateFile (marshal_state s)) = Inr (Some s) \<longleftrightarrow>
     (\<forall>(k, p) \<in> set (ls_projects s). plain_component (proj_name p)) \<and>
     (\<forall>(pid, m) \<in> set (ls_apps s). \<forall>(n, a) \<in> set m. plain_component (app_name a)) \<and>
     (\<forall>(k, i) \<in> set (ls_instances s). validate_instance_binding (ls_projects s) (Some i) = None)"
proof -
  have 1: "first_err check_project (map (\<lambda>(k, p). (k, Some p)) (ls_projects s)) = None \<longleftrightarrow>
      (\<forall>(k, p) \<in> set (ls_projects s). plain_component (proj_name p))"
    by (auto simp: first_err_None check_project_def)
  have 2: "first_err check_apps (map (\<lambda>(k, m). (k, Some (map (\<lambda>(n, a). (n, Some a)) m))) (ls_apps s)) = None \<longleftrightarrow>
      (\<forall>(pid, m) \<in> set (ls_apps s). \<forall>(n, a) \<in> set m. plain_component (app_name a))"
    by (auto simp: first_err_None check_apps_def check_app_def split_beta)
  have 3: "first_err (check_instance (ls_projects s)) (map (\<lambda>(k, i). (k, Some i)) (ls_instances s)) = None \<longleftrightarrow>
      (\<forall>(k, i) \<in> set (ls_instances s). validate_instance_binding (ls_projects s) (Some i) = None)"
    by (auto simp: first_err_None check_instance_def)
  show ?thesis
    unfolding 1 [symmetric] 2 [symmetric] 3 [symmetric]
    by (auto simp: load_state_def marshal_state_def Let_def simp del: map_map
        split: option.split)
qed

lemma load_marshal_total:
  "load_state (StateFile (marshal_state s)) = Inr (Some s) \<or>
   (\<exists>e. load_state (StateFile (marshal_state s)) = Inl e)"
  by (auto simp: load_state_def marshal_state_def Let_def simp del: map_map
        split: option.split)

lemma state_wf_loads:
  assumes "state_wf s"
  shows "load_state (StateFile (marshal_state s)) = Inr (Some s)"
  using assms unfolding load_marshal_checks state_wf_def projects_wf_def instances_wf_def
    apps_wf_def app_map_wf_def by fastforce

section \<open>Preservation of the parts\<close>

lemma gm_set_fresh: "gm_get m k = None \<Longrightarrow> gm_set k v m = m @ [(k, v)]"
  by (induction m) (auto split: if_splits)

lemma gm_set_map_same:
  "gm_get m k = Some w \<Longrightarrow> f v = f w \<Longrightarrow> map (\<lambda>e. f (snd e)) (gm_set k v m) = map (\<lambda>e. f (snd e)) m"
  by (induction m) (auto split: if_splits)

lemma projects_wf_add [wf_intros]:
  assumes "projects_wf ps" "gm_get ps (proj_id p) = None" "proj_id p \<noteq> []"
    "plain_component (proj_name p)" "\<not> (\<exists>(k, q) \<in> set ps. proj_name q = proj_name p)"
  shows "projects_wf (gm_set (proj_id p) p ps)"
proof -
  have "distinct (map (\<lambda>e. proj_name (snd e)) (ps @ [(proj_id p, p)]))"
    using assms(1,5) by (auto simp: projects_wf_def)
  then show ?thesis
    using assms by (auto simp: projects_wf_def gm_set_elem gm_set_fresh [OF assms(2)] gm_ok_def
        map_of_eq_None_iff)
qed

lemma projects_wf_update [wf_intros]:
  assumes "projects_wf ps" "gm_get ps (proj_id p) = Some q" "proj_name p = proj_name q"
  shows "projects_wf (gm_set (proj_id p) p ps)"
proof -
  have "map (\<lambda>e. proj_name (snd e)) (gm_set (proj_id p) p ps) = map (\<lambda>e. proj_name (snd e)) ps"
    by (rule gm_set_map_same [OF assms(2) assms(3)])
  then show ?thesis
    using assms projects_wfD [OF assms(1,2)]
    by (auto simp: projects_wf_def gm_set_elem)
qed

lemma projects_wf_del [wf_intros]: "projects_wf ps \<Longrightarrow> projects_wf (gm_del k ps)"
  by (auto simp: projects_wf_def AList.delete_eq gm_ok_def distinct_map_filter)

lemma instances_wf_transfer:
  assumes "instances_wf ps im" "gm_ok im'" "set im' \<subseteq> set im"
    "\<And>k i p. (k, i) \<in> set im' \<Longrightarrow> gm_get ps (inst_project_id i) = Some p \<Longrightarrow>
       \<exists>p'. gm_get ps' (inst_project_id i) = Some p' \<and> proj_id p' = proj_id p \<and> proj_name p' = proj_name p"
  shows "instances_wf ps' im'"
proof -
  have "inst_id i = k \<and> validate_instance_binding ps' (Some i) = None" if e: "(k, i) \<in> set im'" for k i
  proof -
    have 1: "inst_id i = k" "validate_instance_binding ps (Some i) = None"
      using assms(1,3) e by (auto simp: instances_wf_def)
    then obtain p where p: "gm_get ps (inst_project_id i) = Some p"
        "validate_project_instance_binding (Some p) (Some i) = None"
      by (auto simp: validate_instance_binding_def split: option.splits)
    show ?thesis
      using assms(4) [OF e p(1)] p 1 by (auto simp: validate_instance_binding_def binding_None_iff)
  qed
  then show ?thesis using assms(2) by (auto simp: instances_wf_def)
qed

lemma instances_wf_set [wf_intros]:
  "instances_wf ps im \<Longrightarrow> validate_instance_binding ps (Some i) = None \<Longrightarrow>
   instances_wf ps (gm_set (inst_id i) i im)"
  by (auto simp: instances_wf_def gm_set_elem)

lemma instances_wf_del [wf_intros]: "instances_wf ps im \<Longrightarrow> instances_wf ps (gm_del k im)"
  by (auto simp: instances_wf_def)

lemma app_map_wf_Nil [simp]: "app_map_wf []"
  by (simp add: app_map_wf_def)

lemma app_map_wf_set: "app_map_wf m \<Longrightarrow> plain_component (app_name a) \<Longrightarrow> app_map_wf (gm_set (app_name a) a m)"
  by (auto simp: app_map_wf_def gm_set_elem)

lemma app_map_wf_del: "app_map_wf m \<Longrightarrow> app_map_wf (gm_del n m)"
  by (auto simp: app_map_wf_def)

lemma apps_wf_set: "apps_wf am \<Longrightarrow> app_map_wf m \<Longrightarrow> apps_wf (gm_set pid m am)"
  by (auto simp: apps_wf_def gm_set_elem)

lemma apps_wf_del [wf_intros]: "apps_wf am \<Longrightarrow> apps_wf (gm_del pid am)"
  by (auto simp: apps_wf_def)

lemma apps_wf_get: "apps_wf am \<Longrightarrow> gm_get am pid = Some m \<Longrightarrow> app_map_wf m"
  by (auto simp: apps_wf_def dest: map_of_SomeD)

lemma apps_wf_set_app [wf_intros]:
  "apps_wf (ls_apps s) \<Longrightarrow> plain_component (app_name a) \<Longrightarrow> apps_wf (ls_apps (ls_set_app now pid a s))"
  by (auto simp: ls_set_app_def get_project_apps_def
      intro!: apps_wf_set app_map_wf_set split: option.split dest: apps_wf_get
      simp del: AList.update.simps)

lemma apps_wf_remove_app [wf_intros]:
  "apps_wf (ls_apps s) \<Longrightarrow> apps_wf (ls_apps (ls_remove_app now pid n s))"
  by (auto simp: ls_remove_app_def intro!: apps_wf_set app_map_wf_del split: option.split dest: apps_wf_get)

lemma nodes_wf_set [wf_intros]: "nodes_wf nm \<Longrightarrow> nodes_wf (gm_set (node_id n) n nm)"
  by (auto simp: nodes_wf_def gm_set_elem)

lemma nodes_wf_del [wf_intros]: "nodes_wf nm \<Longrightarrow> nodes_wf (gm_del k nm)"
  by (auto simp: nodes_wf_def)

section \<open>The operations as steps\<close>

datatype store_op =
    OpCreateProject timestamp string save_env string runtime_type resources
  | OpUpdateProject timestamp save_env "project option"
  | OpDeleteProject timestamp save_env string
  | OpSetInstance timestamp save_env "proj_instance option"
  | OpUpdateInstance timestamp save_env "proj_instance option"
  | OpDeleteInstance timestamp save_env string
  | OpSetApp timestamp save_env string "app_spec option"
  | OpDeleteApp timestamp save_env string string
  | OpSetNode timestamp save_env node
  | OpDeleteNode timestamp save_env string

fun exec_op :: "store_op \<Rightarrow> store \<Rightarrow> store \<times> store_error option" where
  "exec_op (OpCreateProject now uuid io name rt res) st =
     (case create_project now uuid io name rt res st of
        (st', Inl e) \<Rightarrow> (st', Some e) | (st', Inr p) \<Rightarrow> (st', None))"
| "exec_op (OpUpdateProject now io po) st = update_project now io po st"
| "exec_op (OpDeleteProject now io x) st = delete_project now io x st"
| "exec_op (OpSetInstance now io i) st = set_instance now io i st"
| "exec_op (OpUpdateInstance now io i) st = update_instance now io i st"
| "exec_op (OpDeleteInstance now io iid) st = delete_instance now io iid st"
| "exec_op (OpSetApp now io pid a) st = set_app now io pid a st"
| "exec_op (OpDeleteApp now io pid name) st = delete_app now io pid name st"
| "exec_op (OpSetNode now io n) st = set_node now io n st"
| "exec_op (OpDeleteNode now io x) st = delete_node now io x st"

text \<open>
  What the callers see to: the identifier of a new project is fresh, an update keeps the name,
  and a project is deleted when no instance refers to it. Nothing in the store enforces the last
  two conditions.
\<close>

fun op_fits :: "store_op \<Rightarrow> store \<Rightarrow> bool" where
  "op_fits (OpCreateProject now uuid io name rt res) st \<longleftrightarrow>
     uuid \<noteq> [] \<and> gm_get (projects st) uuid = None"
| "op_fits (OpUpdateProject now io (Some p)) st \<longleftrightarrow>
     (case gm_get (projects st) (proj_id p) of None \<Rightarrow> True | Some q \<Rightarrow> proj_name p = proj_name q)"
| "op_fits (OpDeleteProject now io x) st \<longleftrightarrow>
     (case find_project x st of None \<Rightarrow> True
      | Some (k, p) \<Rightarrow> (\<forall>e \<in> set (instances st). inst_project_id (snd e) \<noteq> k))"
| "op_fits _ st \<longleftrightarrow> True"

text \<open>The file holds what the memory holds: the next process starts from this very state.\<close>

definition synced :: "store \<Rightarrow> bool" where
  "synced st \<longleftrightarrow> load_state (st_disk st) = Inr (Some (st_mem st))"

definition saved :: "store \<times> store_error option \<Rightarrow> bool" where
  "saved r \<longleftrightarrow> state_wf (st_mem (fst r)) \<and> (snd r = None \<longrightarrow> synced (fst r))"

lemma save_saved [wf_intros]: "state_wf (st_mem st) \<Longrightarrow> saved (save now io st)"
proof (cases io)
  case SaveOk
  assume wf: "state_wf (st_mem st)"
  then have "state_wf ((st_mem st)\<lparr>ls_updated_at := now\<rparr>)"
    by (simp add: state_wf_def)
  then show ?thesis
    using state_wf_loads by (simp add: SaveOk save_def Let_def saved_def synced_def)
next
  case (SaveFails d)
  assume "state_wf (st_mem st)"
  then show ?thesis by (simp add: SaveFails save_def Let_def saved_def state_wf_def)
qed

lemma saved_err [wf_intros]: "state_wf (st_mem st) \<Longrightarrow> saved (st, Some e)"
  by (simp add: saved_def)

lemma find_Some_mem: "find P xs = Some x \<Longrightarrow> x \<in> set xs \<and> P x"
  by (induction xs) (auto split: if_splits)

lemma get_project_key: "gm_get (projects st) x = Some p \<Longrightarrow> get_project x st = Inr p"
  by (simp add: get_project_def find_project_def)

lemma get_project_name:
  "gm_get (projects st) x = None \<Longrightarrow> find (\<lambda>(k, p). proj_name p = x) (projects st) = Some (k, p) \<Longrightarrow>
   get_project x st = Inr p"
  by (simp add: get_project_def find_project_def)

lemma find_unique:
  assumes "\<And>a b. a \<in> set xs \<Longrightarrow> b \<in> set xs \<Longrightarrow> P a \<Longrightarrow> P b \<Longrightarrow> a = b" "set ys = set xs"
  shows "find P ys = find P xs"
proof (cases "find P xs")
  case None
  then have "find P ys = None" using assms(2) by (metis find_None_iff)
  then show ?thesis using None by simp
next
  case (Some a)
  then have a: "a \<in> set xs" "P a" using find_Some_mem by fast+
  then obtain b where b: "find P ys = Some b"
    using assms(2) by (metis find_None_iff option.exhaust)
  then have "b \<in> set xs" "P b" using find_Some_mem assms(2) by fast+
  then show ?thesis using assms(1) a b Some by metis
qed

lemma map_of_eqI_set:
  "distinct (map fst xs) \<Longrightarrow> distinct (map fst ys) \<Longrightarrow> set xs = set ys \<Longrightarrow> map_of xs = map_of ys"
  using map_of_inject_set by blast

lemma find_append_none: "\<forall>x \<in> set xs. \<not> P x \<Longrightarrow> find P (xs @ ys) = find P ys"
  by (induction xs) auto

lemma find_project_Some:
  assumes "projects_wf (projects st)" "find_project x st = Some (k, p)"
  shows "gm_get (projects st) k = Some p \<and> (k = x \<or> proj_name p = x)"
  using assms find_Some_mem [of "\<lambda>(k, p). proj_name p = x" "projects st" "(k, p)"]
  by (auto simp: find_project_def projects_wf_def gm_ok_get split: option.splits)

lemma update_project_saved:
  assumes wf: "state_wf (st_mem st)" and fits: "op_fits (OpUpdateProject now io po) st"
  shows "saved (update_project now io po st)"
proof (cases "\<exists>p q. po = Some p \<and> plain_component (proj_name p) \<and> gm_get (projects st) (proj_id p) = Some q")
  case True
  then obtain p q where p: "po = Some p" "plain_component (proj_name p)"
      "gm_get (projects st) (proj_id p) = Some q" by blast
  let ?p = "p\<lparr>proj_updated_at := now\<rparr>"
  let ?ps = "gm_set (proj_id p) ?p (projects st)"
  have q: "proj_name p = proj_name q" using fits p by simp
  have 1: "projects_wf ?ps"
    using projects_wf_update [of "projects st" ?p q] wf p q by (simp add: state_wf_def)
  have 2: "instances_wf ?ps (instances st)"
    by (rule instances_wf_transfer [of "projects st" "instances st"])
      (use wf p q in \<open>auto simp: state_wf_def instances_wf_def gomap_simps projects_wfD\<close>)
  show ?thesis
    using 1 2 wf p by (auto simp: update_project_def set_projects_def state_wf_def intro!: save_saved)
qed (use wf in \<open>auto simp: update_project_def intro!: saved_err split: option.splits\<close>)

lemma delete_project_saved:
  assumes wf: "state_wf (st_mem st)" and fits: "op_fits (OpDeleteProject now io x) st"
  shows "saved (delete_project now io x st)"
proof (cases "find_project x st")
  case None
  then show ?thesis
    using wf by (auto simp: delete_project_def find_project_def intro!: saved_err split: option.splits)
next
  case (Some kp)
  then obtain k p where kp: "find_project x st = Some (k, p)" by (cases kp) auto
  have ps: "projects_wf (projects st)" using wf by (simp add: state_wf_def)
  note k = find_project_Some [OF ps kp]
  have pid: "delete_project now io x st = save now io (st\<lparr>st_mem := (st_mem st)
      \<lparr>ls_projects := gm_del k (projects st), ls_instances := gm_del k (instances st),
       ls_apps := gm_del k (apps_of st)\<rparr>\<rparr>)"
    using kp k projects_wfD [OF ps, of k p]
    by (auto simp: delete_project_def find_project_def Let_def split: option.splits)
  have "instances_wf (gm_del k (projects st)) (gm_del k (instances st))"
    by (rule instances_wf_transfer [of "projects st" "instances st"])
      (use wf fits kp in \<open>auto simp: state_wf_def instances_wf_def gomap_simps\<close>)
  then show ?thesis
    unfolding pid using wf by (auto simp: state_wf_def intro!: wf_intros)
qed

lemma create_project_saved:
  assumes wf: "state_wf (st_mem st)" and fits: "op_fits (OpCreateProject now uuid io name rt res) st"
  shows "saved (exec_op (OpCreateProject now uuid io name rt res) st)"
proof (cases "plain_component name \<and> \<not> (\<exists>(k, p) \<in> set (projects st). proj_name p = name)")
  case True
  let ?p = "\<lparr>proj_id = uuid, proj_name = name, proj_runtime = rt, proj_resources = res,
                proj_topology = None, proj_state = ProjPending, proj_labels = [],
                proj_domains = [], proj_default_domain = [], proj_env = [],
                proj_created_at = now, proj_updated_at = now\<rparr>"
  let ?st = "set_projects (gm_set uuid ?p (projects st)) st"
  have 1: "projects_wf (gm_set uuid ?p (projects st))"
    using projects_wf_add [of "projects st" ?p] wf fits True by (simp add: state_wf_def)
  have 2: "instances_wf (gm_set uuid ?p (projects st)) (instances st)"
    by (rule instances_wf_transfer [of "projects st" "instances st"])
      (use wf fits in \<open>auto simp: state_wf_def instances_wf_def gomap_simps\<close>)
  have wf': "state_wf (st_mem ?st)"
    using 1 2 wf by (simp add: state_wf_def set_projects_def)
  show ?thesis
  proof (cases io)
    case SaveOk
    then show ?thesis
      using True save_saved [OF wf', of now SaveOk]
      by (auto simp: create_project_def Let_def saved_def save_def)
  next
    case (SaveFails d)
    then show ?thesis
      using True wf fits
      by (auto simp: create_project_def Let_def saved_def save_def set_projects_def gm_del_set
          state_wf_def)
  qed
qed (use wf in \<open>auto simp: create_project_def saved_def split: option.split\<close>)

lemma binding_keeps_updated [simp]:
  "validate_instance_binding ps (Some (i\<lparr>inst_updated_at := now\<rparr>)) = validate_instance_binding ps (Some i)"
  by (simp add: validate_instance_binding_def validate_project_instance_binding_def split: option.split)

lemma binding_nil [simp]: "validate_instance_binding ps None = Some InstanceNil"
  by (simp add: validate_instance_binding_def)

lemma update_instance_saved:
  assumes wf: "state_wf (st_mem st)"
  shows "saved (update_instance now io (Some i) st)"
  using wf instances_wf_set [of "projects st" "instances st" "i\<lparr>inst_updated_at := now\<rparr>"]
  by (auto simp: update_instance_def set_instances_def state_wf_def intro!: wf_intros split: option.split)

lemmas op_defs = set_instance_def delete_instance_def set_app_def delete_app_def set_node_def
  delete_node_def set_instances_def set_nodes_def

lemma ls_app_fields [simp]:
  "ls_projects (ls_set_app now pid a s) = ls_projects s"
  "ls_instances (ls_set_app now pid a s) = ls_instances s"
  "ls_nodes (ls_set_app now pid a s) = ls_nodes s"
  "ls_projects (ls_remove_app now pid n s) = ls_projects s"
  "ls_instances (ls_remove_app now pid n s) = ls_instances s"
  "ls_nodes (ls_remove_app now pid n s) = ls_nodes s"
  by (auto simp: ls_set_app_def ls_remove_app_def split: option.split)

lemma exec_op_keeps: "state_wf (st_mem st) \<Longrightarrow> op_fits op st \<Longrightarrow> saved (exec_op op st)"
proof (cases op)
  case (OpUpdateInstance now io i)
  assume "state_wf (st_mem st)"
  then show ?thesis
    unfolding OpUpdateInstance
    by (cases i) (auto simp: update_instance_def [of _ _ None] intro!: saved_err update_instance_saved)
qed (auto simp: op_defs state_wf_def create_project_saved update_project_saved delete_project_saved
    intro!: wf_intros split: option.split simp del: exec_op.simps(1) op_fits.simps(1,2,3))

section \<open>Reachable stores\<close>

text \<open>
  The life of a store: it is opened where there is no file yet, its operations run, and it is
  opened again from a file whose last write succeeded.
\<close>

inductive reached :: "store \<Rightarrow> bool" where
  reached_new: "new_store now home True NoFile dir = Inr st \<Longrightarrow> reached st"
| reached_op: "reached st \<Longrightarrow> op_fits op st \<Longrightarrow> reached (fst (exec_op op st))"
| reached_again: "reached st \<Longrightarrow> synced st \<Longrightarrow> new_store now home True (st_disk st) dir = Inr st' \<Longrightarrow>
    reached st'"

inductive_cases new_store_reachedE: "reached st"

lemma new_state_wf [simp]: "state_wf (new_local_state now)"
  by (simp add: state_wf_def new_local_state_def projects_wf_def instances_wf_def apps_wf_def nodes_wf_def)

lemma new_store_mem:
  "new_store now home mk disk dir = Inr st \<Longrightarrow> \<exists>l. load_state disk = Inr l \<and>
     st_mem st = (case l of None \<Rightarrow> new_local_state now | Some s \<Rightarrow> s)"
  by (auto simp: new_store_def split: if_splits option.splits sum.splits)

lemma reached_wf: "reached st \<Longrightarrow> state_wf (st_mem st)"
proof (induction rule: reached.induct)
  case (reached_new now home dir st)
  then show ?case by (auto dest!: new_store_mem simp: load_state_def)
next
  case (reached_op st op)
  then show ?case using exec_op_keeps by (auto simp: saved_def)
next
  case (reached_again st now home dir st')
  then show ?case by (auto dest!: new_store_mem simp: synced_def)
qed


definition demo_inst :: proj_instance where
  "demo_inst = \<lparr>inst_id = ''i1'', inst_project_id = ''u1'', inst_node_id = ''n1'',
     inst_state = InstRunning, inst_ip_address = ''10.0.0.2'', inst_ssh_port = 22,
     inst_domain_name = ''goship-web'', inst_domain_uuid = [], inst_topology = None, inst_error = [],
     inst_created_at = 2, inst_updated_at = 2\<rparr>"

definition demo_store0 :: store where
  "demo_store0 = \<lparr>st_path = filepath_join ''/d'' state_file_name, st_data_dir = ''/d'',
     st_mem = new_local_state 0, st_disk = NoFile\<rparr>"

definition demo_ops :: "store_op list" where
  "demo_ops = [OpCreateProject 1 ''u1'' SaveOk ''web'' RuntimeQEMU zero_resources,
     OpSetInstance 2 SaveOk (Some demo_inst)]"

definition demo_store :: store where
  "demo_store = fold (\<lambda>op st. fst (exec_op op st)) demo_ops demo_store0"

lemma web_plain [simp]: "plain_component ''web''"
  by (simp add: plain_component_def)

lemma demo_projects: "map_option proj_name (gm_get (projects demo_store) ''u1'') = Some ''web''"
  and demo_instances: "instances demo_store = [(''i1'', demo_inst)]"
  and demo_project_keys: "map fst (projects demo_store) = [''u1'']"
  by code_simp+

lemma demo_reached: "reached demo_store"
proof -
  have 0: "reached demo_store0"
    by (rule reached_new [of 0 None "''/d''"]) (simp add: new_store_def load_state_def demo_store0_def)
  let ?st1 = "fst (exec_op (OpCreateProject 1 ''u1'' SaveOk ''web'' RuntimeQEMU zero_resources) demo_store0)"
  have "op_fits (OpCreateProject 1 ''u1'' SaveOk ''web'' RuntimeQEMU zero_resources) demo_store0"
    by code_simp
  then have "reached ?st1" by (rule reached_op [OF 0])
  moreover have "op_fits (OpSetInstance 2 SaveOk (Some demo_inst)) ?st1" by simp
  ultimately have "reached (fst (exec_op (OpSetInstance 2 SaveOk (Some demo_inst)) ?st1))"
    by (rule reached_op)
  then show ?thesis by (simp add: demo_store_def demo_ops_def)
qed


section \<open>What the store promises\<close>



text \<open>Deleting a project that still has an instance succeeds, also when the state is written;
  the entry it removes from the instances is the one keyed by the project's identifier, so the
  instance stays behind, and the written file is refused by every later load.\<close>

theorem delete_project_orphan:
  assumes "state_wf (st_mem st)" "find_project x st = Some (k, p)"
    and "gm_get (instances st) iid = Some i" "inst_project_id i = k" "iid \<noteq> k"
  shows "\<exists>st' e. delete_project now SaveOk x st = (st', None) \<and>
    gm_get (instances st') iid = Some i \<and> load_state (st_disk st') = Inl e"
proof -
  have ps: "projects_wf (projects st)" using assms(1) by (simp add: state_wf_def)
  note k = find_project_Some [OF ps assms(2)]
  let ?s = "(st_mem st)\<lparr>ls_projects := gm_del k (projects st), ls_instances := gm_del k (instances st),
       ls_apps := gm_del k (apps_of st)\<rparr>"
  let ?m = "?s\<lparr>ls_updated_at := now\<rparr>"
  have del: "delete_project now SaveOk x st = (st\<lparr>st_mem := ?m, st_disk := StateFile (marshal_state ?m)\<rparr>, None)"
    using assms(2) k projects_wfD [OF ps, of k p]
    by (auto simp: delete_project_def find_project_def Let_def save_def split: option.splits)
  have i: "gm_get (gm_del k (instances st)) iid = Some i"
    using assms(3,5) by (simp add: gomap_simps)
  have "validate_instance_binding (gm_del k (projects st)) (Some i) \<noteq> None"
    using assms(4) by (simp add: validate_instance_binding_def gomap_simps)
  moreover have "(iid, i) \<in> set (ls_instances ?m)"
    using map_of_SomeD [OF i] by simp
  ultimately have "\<not> (\<forall>(k', i') \<in> set (ls_instances ?m).
      validate_instance_binding (ls_projects ?m) (Some i') = None)"
    by fastforce
  then have "load_state (StateFile (marshal_state ?m)) \<noteq> Inr (Some ?m)"
    unfolding load_marshal_checks by blast
  then obtain e where "load_state (StateFile (marshal_state ?m)) = Inl e"
    using load_marshal_total [of ?m] by blast
  then show ?thesis
    using del i by simp
qed

theorem delete_project_orphan_witness:
  "\<exists>st' e. delete_project 5 SaveOk ''web'' demo_store = (st', None) \<and>
    gm_get (instances st') ''i1'' = Some demo_inst \<and> load_state (st_disk st') = Inl e"
proof -
  obtain p where "find_project ''web'' demo_store = Some (''u1'', p)"
  proof -
    have "map_option fst (find_project ''web'' demo_store) = Some ''u1''" by code_simp
    then show ?thesis using that by fastforce
  qed
  then show ?thesis
    using delete_project_orphan [OF reached_wf [OF demo_reached], of "''web''" "''u1''" p "''i1''" demo_inst]
    by (simp add: demo_instances demo_inst_def)
qed

text \<open>A project is created exactly when its name is a plain path component nobody has, and the
  state can be written; it is then found under its identifier and under its name. In every other
  case the projects, instances, applications and nodes in memory are what they were.\<close>

theorem create_project_outcome:
  assumes "state_wf (st_mem st)" "uuid \<noteq> []" "gm_get (projects st) uuid = None"
    and fresh: "\<forall>(k, q) \<in> set (projects st). proj_name q \<noteq> uuid \<and> k \<noteq> name"
  shows "case create_project now uuid io name rt res st of
      (st', Inr p) \<Rightarrow> plain_component name \<and> (\<forall>(k, q) \<in> set (projects st). proj_name q \<noteq> name) \<and>
         io = SaveOk \<and> proj_name p = name \<and> proj_id p = uuid \<and> proj_state p = ProjPending \<and>
         get_project uuid st' = Inr p \<and> get_project name st' = Inr p
    | (st', Inl e) \<Rightarrow> (io = SaveOk \<longrightarrow> \<not> plain_component name \<or> (\<exists>(k, q) \<in> set (projects st). proj_name q = name)) \<and>
         projects st' = projects st \<and> instances st' = instances st \<and>
         apps_of st' = apps_of st \<and> nodes st' = nodes st"
proof (cases "plain_component name \<and> \<not> (\<exists>(k, p) \<in> set (projects st). proj_name p = name)")
  case True
  let ?p = "\<lparr>proj_id = uuid, proj_name = name, proj_runtime = rt, proj_resources = res,
                proj_topology = None, proj_state = ProjPending, proj_labels = [],
                proj_domains = [], proj_default_domain = [], proj_env = [],
                proj_created_at = now, proj_updated_at = now\<rparr>"
  show ?thesis
  proof (cases io)
    case SaveOk
    have none: "gm_get (projects st) name = None"
      using fresh by (auto simp: map_of_eq_None_iff)
    have find_new: "find (\<lambda>(k, p). proj_name p = name) (projects st @ [(uuid, ?p)]) = Some (uuid, ?p)"
      using True by (subst find_append_none) auto
    show ?thesis
    proof (cases "create_project now uuid io name rt res st")
      case (Pair st' r)
      then have r: "r = Inr ?p" and ps: "projects st' = projects st @ [(uuid, ?p)]"
        using True SaveOk assms(3)
        by (auto simp: create_project_def Let_def save_def set_projects_def gm_set_fresh)
      have "get_project uuid st' = Inr ?p"
        by (rule get_project_key) (simp add: ps assms(3) map_add_def)
      moreover have "get_project name st' = Inr ?p"
      proof (cases "name = uuid")
        case False
        show ?thesis
          by (rule get_project_name [of _ _ uuid]) (use False none find_new in \<open>simp_all add: ps map_add_def\<close>)
      qed (use calculation in simp)
      ultimately show ?thesis
        using True SaveOk unfolding Pair r by auto
    qed
  next
    case (SaveFails d)
    then show ?thesis
      using True assms(3)
      by (auto simp: create_project_def Let_def save_def set_projects_def gm_del_set)
  qed
qed (auto simp: create_project_def split: option.split)

definition demo_uuid :: string where "demo_uuid = ''u2''"

theorem create_project_outcome_witness:
  "\<exists>p st'. create_project 7 demo_uuid SaveOk ''api'' RuntimeQEMU zero_resources demo_store = (st', Inr p) \<and>
     get_project ''api'' st' = Inr p"
proof -
  let ?r = "create_project 7 demo_uuid SaveOk ''api'' RuntimeQEMU zero_resources demo_store"
  have wf: "state_wf (st_mem demo_store)" by (rule reached_wf [OF demo_reached])
  have ne: "demo_uuid \<noteq> []" "gm_get (projects demo_store) demo_uuid = None" by code_simp+
  have fresh: "\<forall>(k, q) \<in> set (projects demo_store). proj_name q \<noteq> demo_uuid \<and> k \<noteq> ''api''"
    by code_simp
  have ok: "(case snd ?r of Inl e \<Rightarrow> False | Inr p \<Rightarrow> True)" by code_simp
  show ?thesis
    using create_project_outcome [OF wf ne fresh, where now = 7 and io = SaveOk and rt = RuntimeQEMU
        and res = zero_resources] ok
    by (cases ?r) (auto split: sum.splits)
qed

text \<open>A lookup of a project by identifier or name does not depend on the order in which the
  range loop visits the map, as long as project names are unique.\<close>

theorem get_project_any_order:
  assumes "state_wf (st_mem st)" "set (projects st') = set (projects st)" "gm_ok (projects st')"
  shows "get_project x st' = get_project x st"
proof -
  have ps: "projects_wf (projects st)" using assms(1) by (simp add: state_wf_def)
  have lookup: "gm_get (projects st') k = gm_get (projects st) k" for k
    using assms(2,3) ps by (metis map_of_eqI_set gm_ok_def projects_wf_def)
  have find: "find (\<lambda>(k, p). proj_name p = x) (projects st') = find (\<lambda>(k, p). proj_name p = x) (projects st)"
  proof (rule find_unique)
    fix a b assume "a \<in> set (projects st)" "b \<in> set (projects st)"
      "(\<lambda>(k, p). proj_name p = x) a" "(\<lambda>(k, p). proj_name p = x) b"
    moreover obtain k p k' q where "a = (k, p)" "b = (k', q)" by (cases a, cases b) blast
    moreover have "gm_ok (projects st)" using ps by (simp add: projects_wf_def)
    ultimately show "a = b"
      using projects_wf_name_unique [OF ps, of k p k' q] gm_ok_get [of "projects st"] by auto
  qed (simp add: assms(2))
  show ?thesis
    by (simp add: get_project_def find_project_def lookup find split: option.split)
qed

theorem get_project_any_order_witness:
  "get_project ''web'' (set_projects (rev (projects demo_store)) demo_store) = get_project ''web'' demo_store"
proof (rule get_project_any_order [OF reached_wf [OF demo_reached]])
  show "gm_ok (projects (set_projects (rev (projects demo_store)) demo_store))"
    using reached_wf [OF demo_reached]
    by (simp add: set_projects_def state_wf_def projects_wf_def gm_ok_def rev_map [symmetric])
qed (simp add: set_projects_def)

end
