(* ===== verification/Sizes.thy ===== *)
theory Sizes
  imports Prelude
begin

text \<open>
  Human-readable sizes: \<open>ParseSizeMB\<close> (internal/shared/size/parse.go) and its counterpart
  \<open>formatMB\<close> (cmd/goship/commands/deploy.go). The product with 1024 is an int64 product and
  wraps around.
\<close>

datatype size_error = EmptySize | InvalidSize string | NegativeSize string

definition bytes_per_gb :: int where "bytes_per_gb = 1024"

definition parse_size_mb :: "string \<Rightarrow> size_error + int" where
  "parse_size_mb s0 =
     (let s = trim_space s0 in
      if length s = 0 then Inl EmptySize
      else
        let suffix = s ! (length s - 1) in
        if suffix = CHR ''m'' \<or> suffix = CHR ''M'' then
          (case parse_int64 (take (length s - 1) s) of
             None \<Rightarrow> Inl (InvalidSize s)
           | Some val \<Rightarrow> if val < 0 then Inl (NegativeSize s) else Inr val)
        else if suffix = CHR ''g'' \<or> suffix = CHR ''G'' then
          (case parse_int64 (take (length s - 1) s) of
             None \<Rightarrow> Inl (InvalidSize s)
           | Some val \<Rightarrow> if val < 0 then Inl (NegativeSize s)
               else Inr (wrap64 (val * bytes_per_gb)))
        else
          (case parse_int64 s of
             None \<Rightarrow> Inl (InvalidSize s)
           | Some val \<Rightarrow> if val < 0 then Inl (NegativeSize s) else Inr val))"

text \<open>\<open>formatMB\<close>: Go's remainder of a non-negative number is \<open>mod\<close>.\<close>

definition format_mb :: "int \<Rightarrow> string" where
  "format_mb mb =
     (if mb = 0 then ''default''
      else if 1024 \<le> mb \<and> mb mod 1024 = 0 then show_int (mb div 1024) @ ''G''
      else show_int mb @ ''M'')"

lemma show_nat_suffix_trim: "\<not> is_space c \<Longrightarrow> trim_space (show_nat n @ [c]) = show_nat n @ [c]"
proof -
  assume "\<not> is_space c"
  moreover have "\<not> is_space (hd (show_nat n @ [c]))"
    using is_digit_not_space [OF show_nat_hd] by simp
  ultimately show ?thesis
    by (intro trim_space_id) auto
qed

lemma nth_last_append [simp]: "(xs @ [c]) ! (length xs) = c"
  by simp

lemma parse_size_mb_M:
  "parse_size_mb (show_nat n @ ''M'') =
     (if in_int64 (int n) then Inr (int n) else Inl (InvalidSize (show_nat n @ ''M'')))"
  using show_nat_suffix_trim [of "CHR ''M''" n]
  by (simp add: parse_size_mb_def is_space_def parse_int64_show_nat)

lemma parse_size_mb_G:
  "parse_size_mb (show_nat n @ ''G'') =
     (if in_int64 (int n) then Inr (wrap64 (int n * 1024))
      else Inl (InvalidSize (show_nat n @ ''G'')))"
  using show_nat_suffix_trim [of "CHR ''G''" n]
  by (simp add: parse_size_mb_def is_space_def parse_int64_show_nat bytes_per_gb_def)

text \<open>What \<open>formatMB\<close> prints for a positive int64 is read back by \<open>ParseSizeMB\<close> as the same
  number, for both units.\<close>

theorem parse_format_mb:
  assumes "0 < mb" and "mb \<le> int64_max"
  shows "parse_size_mb (format_mb mb) = Inr mb"
proof (cases "1024 \<le> mb \<and> mb mod 1024 = 0")
  case True
  then have "in_int64 (mb div 1024)" and "mb div 1024 * 1024 = mb" and "in_int64 mb"
    using assms by (auto simp: in_int64_def int64_min_def int64_max_def)
  then show ?thesis
    using True assms parse_size_mb_G [of "nat (mb div 1024)"]
    by (simp add: format_mb_def show_int_def wrap64_id)
next
  case False
  then have "format_mb mb = show_nat (nat mb) @ ''M''"
    using assms by (auto simp: format_mb_def show_int_def)
  moreover have "in_int64 mb"
    using assms by (simp add: in_int64_def int64_min_def)
  ultimately show ?thesis
    using assms parse_size_mb_M [of "nat mb"] by simp
qed

theorem parse_format_mb_witness: "parse_size_mb (format_mb 8192) = Inr 8192"
  by (rule parse_format_mb) (simp_all add: int64_max_def)

text \<open>C36: a plain number of gigabytes below 2 to the 53 is multiplied exactly; from 2 to the 53 on
  the product leaves the int64 range and the accepted value is another number, although the
  check for negative values has passed.\<close>

theorem parse_size_gb_exact_iff:
  assumes "int n \<le> int64_max"
  shows "parse_size_mb (show_nat n @ ''G'') = Inr (int n * 1024) \<longleftrightarrow> n < 2 ^ 53"
proof -
  have "in_int64 (int n)"
    using assms by (simp add: in_int64_def int64_min_def)
  then have "parse_size_mb (show_nat n @ ''G'') = Inr (wrap64 (int n * 1024))"
    by (simp add: parse_size_mb_G)
  moreover have "in_int64 (int n * 1024) \<longleftrightarrow> n < 2 ^ 53"
    by (auto simp: in_int64_def int64_min_def int64_max_def)
  ultimately show ?thesis
    by (simp add: wrap64_eq_iff)
qed

theorem parse_size_gb_exact_iff_witness:
  "parse_size_mb (show_nat (2 ^ 53) @ ''G'') \<noteq> Inr (int (2 ^ 53) * 1024)"
  using parse_size_gb_exact_iff [of "2 ^ 53"] by (simp add: int64_max_def)

text \<open>A concrete instance: 9007199254740992G is accepted as a negative size.\<close>

lemma parse_size_gb_negative: "parse_size_mb (show_nat (2 ^ 53) @ ''G'') = Inr (- (2 ^ 63))"
  by (simp add: parse_size_mb_G in_int64_def int64_min_def int64_max_def wrap64_def)

lemma parse_size_error_no_value:
  "parse_size_mb s = Inr v \<Longrightarrow> in_int64 v"
  by (auto simp: parse_size_mb_def Let_def wrap64_range split: if_splits option.splits
      dest: parse_int64_range)

end
