(* ===== verification/Proxy.thy ===== *)
theory Proxy
  imports Prelude "HOL-Library.Multiset"
begin

text \<open>
  The reverse proxy of internal/proxy: the route table (routes.go) and the request handler with its
  cache of backend proxies (proxy.go). The parser of backend URLs is a parameter: it maps the text
  to the target the request is forwarded to, or fails. The interface \<open>route_map\<close> states what the
  handlers of the API server rely on when they add and remove the routes of a project.
\<close>

section \<open>The interface of a route table\<close>

locale route_map =
  fixes put :: "string \<Rightarrow> string \<Rightarrow> 't \<Rightarrow> 't"
    and drop_route :: "string \<Rightarrow> 't \<Rightarrow> 't"
    and find_route :: "string \<Rightarrow> 't \<Rightarrow> string option"
    and ok :: "'t \<Rightarrow> bool"
  assumes find_put: "find_route d (put d' b t) = (if d = d' then Some b else find_route d t)"
    and find_drop: "find_route d (drop_route d' t) = (if d = d' then None else find_route d t)"
    and ok_put: "ok t \<Longrightarrow> ok (put d b t)"
    and ok_drop: "ok t \<Longrightarrow> ok (drop_route d t)"
begin

lemma find_put_all:
  "find_route d (fold (\<lambda>x. put x b) ds t) = (if d \<in> set ds then Some b else find_route d t)"
  by (induction ds arbitrary: t) (auto simp: find_put)

lemma find_drop_all:
  "find_route d (fold drop_route ds t) = (if d \<in> set ds then None else find_route d t)"
  by (induction ds arbitrary: t) (auto simp: find_drop)

lemma find_put_pairs:
  "distinct (map fst rs) \<Longrightarrow>
   find_route d (fold (\<lambda>(x, b). put x b) rs t) = (case map_of rs d of Some b \<Rightarrow> Some b | None \<Rightarrow> find_route d t)"
proof (induction rs arbitrary: t)
  case (Cons r rs)
  obtain x b where r: "r = (x, b)" by (cases r)
  then have "x \<notin> fst ` set rs" using Cons.prems by simp
  then have "map_of rs x = None" by (metis map_of_eq_None_iff)
  then show ?case
    using Cons r by (auto simp: find_put split: option.split)
qed simp

lemma ok_put_all: "ok t \<Longrightarrow> ok (fold (\<lambda>x. put x b) ds t)"
  by (induction ds arbitrary: t) (auto simp: ok_put)

lemma ok_drop_all: "ok t \<Longrightarrow> ok (fold drop_route ds t)"
  by (induction ds arbitrary: t) (auto simp: ok_drop)

end

section \<open>The route table (routes.go)\<close>

record route =
  route_domain :: string
  route_backend :: string

type_synonym route_table = "string gomap"

definition new_route_table :: route_table where "new_route_table = []"

definition rt_set :: "string \<Rightarrow> string \<Rightarrow> route_table \<Rightarrow> route_table" where
  "rt_set domain backend rt = gm_set domain backend rt"

definition rt_delete :: "string \<Rightarrow> route_table \<Rightarrow> route_table" where
  "rt_delete domain rt = gm_del domain rt"

definition rt_lookup :: "string \<Rightarrow> route_table \<Rightarrow> string option" where
  "rt_lookup domain rt = gm_get rt domain"

definition rt_all :: "route_table \<Rightarrow> route list" where
  "rt_all rt = sort_key route_domain (map (\<lambda>(d, b). \<lparr>route_domain = d, route_backend = b\<rparr>) rt)"

interpretation rt: route_map rt_set rt_delete rt_lookup gm_ok
  by unfold_locales (auto simp: rt_set_def rt_delete_def rt_lookup_def gomap_simps)

lemma rt_lookup_new [simp]: "rt_lookup d new_route_table = None"
  by (simp add: rt_lookup_def new_route_table_def)

section \<open>The handler (proxy.go)\<close>

text \<open>\<open>host[:idx]\<close> for the last colon, if there is one.\<close>

definition strip_port :: "string \<Rightarrow> string" where
  "strip_port host = (if CHR '':'' \<in> set host
     then rev (tl (dropWhile (\<lambda>c. c \<noteq> CHR '':'') (rev host))) else host)"

datatype 'u proxy_response = NoBackend | InvalidBackend | Forwarded 'u

text \<open>
  \<open>getOrCreateProxy\<close>: the cache maps a backend to its reverse proxy, which is determined by the
  parsed target. The result is the cache afterwards and the proxy, if there is one.
\<close>

definition get_or_create_proxy ::
    "(string \<Rightarrow> 'u option) \<Rightarrow> string \<Rightarrow> 'u gomap \<Rightarrow> 'u gomap \<times> 'u option" where
  "get_or_create_proxy parse_url backend cache =
     (case gm_get cache backend of
        Some rp \<Rightarrow> (cache, Some rp)
      | None \<Rightarrow> (case parse_url (''http://'' @ backend) of
          None \<Rightarrow> (cache, None)
        | Some target \<Rightarrow> (gm_set backend target cache, Some target)))"

definition serve_http ::
    "(string \<Rightarrow> 'u option) \<Rightarrow> route_table \<Rightarrow> string \<Rightarrow> 'u gomap \<Rightarrow> 'u gomap \<times> 'u proxy_response" where
  "serve_http parse_url rt host0 cache =
     (let host = strip_port host0
      in case rt_lookup host rt of
           None \<Rightarrow> (cache, NoBackend)
         | Some backend \<Rightarrow>
           (case get_or_create_proxy parse_url backend cache of
              (cache', None) \<Rightarrow> (cache', InvalidBackend)
            | (cache', Some rp) \<Rightarrow> (cache', Forwarded rp)))"

text \<open>What the proxy does over its life: routes change, requests are served.\<close>

datatype proxy_event = SetRoute string string | DeleteRoute string | Request string

fun proxy_run :: "(string \<Rightarrow> 'u option) \<Rightarrow> proxy_event list \<Rightarrow> route_table \<Rightarrow> 'u gomap \<Rightarrow>
    'u proxy_response list" where
  "proxy_run parse_url [] rt cache = []"
| "proxy_run parse_url (SetRoute d b # es) rt cache = proxy_run parse_url es (rt_set d b rt) cache"
| "proxy_run parse_url (DeleteRoute d # es) rt cache = proxy_run parse_url es (rt_delete d rt) cache"
| "proxy_run parse_url (Request h # es) rt cache =
     (case serve_http parse_url rt h cache of
        (cache', r) \<Rightarrow> r # proxy_run parse_url es rt cache')"

section \<open>Specification\<close>

text \<open>A proxy without a cache, over routes as a function.\<close>

fun spec_answer :: "(string \<Rightarrow> 'u option) \<Rightarrow> (string \<Rightarrow> string option) \<Rightarrow> string \<Rightarrow> 'u proxy_response" where
  "spec_answer parse_url routes host =
     (case routes (strip_port host) of
        None \<Rightarrow> NoBackend
      | Some b \<Rightarrow> (case parse_url (''http://'' @ b) of
          None \<Rightarrow> InvalidBackend | Some u \<Rightarrow> Forwarded u))"

fun spec_run :: "(string \<Rightarrow> 'u option) \<Rightarrow> proxy_event list \<Rightarrow> (string \<Rightarrow> string option) \<Rightarrow>
    'u proxy_response list" where
  "spec_run parse_url [] routes = []"
| "spec_run parse_url (SetRoute d b # es) routes = spec_run parse_url es (routes(d := Some b))"
| "spec_run parse_url (DeleteRoute d # es) routes = spec_run parse_url es (routes(d := None))"
| "spec_run parse_url (Request h # es) routes = spec_answer parse_url routes h # spec_run parse_url es routes"

definition cache_ok :: "(string \<Rightarrow> 'u option) \<Rightarrow> 'u gomap \<Rightarrow> bool" where
  "cache_ok parse_url cache \<longleftrightarrow> (\<forall>b u. gm_get cache b = Some u \<longrightarrow> parse_url (''http://'' @ b) = Some u)"

lemma get_or_create_proxy_ok:
  assumes "cache_ok parse_url cache"
  shows "snd (get_or_create_proxy parse_url b cache) = parse_url (''http://'' @ b)"
    and "cache_ok parse_url (fst (get_or_create_proxy parse_url b cache))"
  using assms by (auto simp: get_or_create_proxy_def cache_ok_def gomap_simps split: option.splits)

lemma serve_http_ok:
  assumes "cache_ok parse_url cache"
  shows "snd (serve_http parse_url rt h cache) = spec_answer parse_url (\<lambda>d. rt_lookup d rt) h"
    and "cache_ok parse_url (fst (serve_http parse_url rt h cache))"
proof -
  have "snd (serve_http parse_url rt h cache) = spec_answer parse_url (\<lambda>d. rt_lookup d rt) h \<and>
    cache_ok parse_url (fst (serve_http parse_url rt h cache))"
  proof (cases "rt_lookup (strip_port h) rt")
    case None
    then show ?thesis using assms by (simp add: serve_http_def)
  next
    case (Some b)
    then show ?thesis
      using get_or_create_proxy_ok [OF assms, of b]
      by (cases "get_or_create_proxy parse_url b cache")
        (auto simp: serve_http_def split: option.split)
  qed
  then show "snd (serve_http parse_url rt h cache) = spec_answer parse_url (\<lambda>d. rt_lookup d rt) h"
    and "cache_ok parse_url (fst (serve_http parse_url rt h cache))" by blast+
qed

lemma proxy_run_refines:
  "cache_ok parse_url cache \<Longrightarrow>
   proxy_run parse_url es rt cache = spec_run parse_url es (\<lambda>d. rt_lookup d rt)"
proof (induction parse_url es rt cache rule: proxy_run.induct)
  case (2 parse_url d b es rt cache)
  moreover have "(\<lambda>x. rt_lookup x (rt_set d b rt)) = (\<lambda>x. rt_lookup x rt)(d := Some b)"
    by (auto simp: rt.find_put)
  ultimately show ?case by simp
next
  case (3 parse_url d es rt cache)
  moreover have "(\<lambda>x. rt_lookup x (rt_delete d rt)) = (\<lambda>x. rt_lookup x rt)(d := None)"
    by (auto simp: rt.find_drop)
  ultimately show ?case by simp
next
  case (4 parse_url h es rt cache)
  then show ?case
    using serve_http_ok [OF 4(2), of rt h]
    by (cases "serve_http parse_url rt h cache") (auto simp del: spec_answer.simps)
qed simp

text \<open>C9: over any sequence of route changes and requests, the proxy answers as one that keeps no
  cache and a plain function from domains to backends would: each request goes to the backend
  last set for its host without the port, or is refused with 502.\<close>

theorem proxy_refines_routes:
  "proxy_run parse_url es new_route_table [] = spec_run parse_url es (\<lambda>_. None)"
  by (simp add: proxy_run_refines cache_ok_def)

lemma strip_port_none: "CHR '':'' \<notin> set host \<Longrightarrow> strip_port host = host"
  by (simp add: strip_port_def)

lemma strip_port_port: "CHR '':'' \<notin> set port \<Longrightarrow> strip_port (host @ CHR '':'' # port) = host"
  by (simp add: strip_port_def dropWhile_append)

text \<open>A host with or without a port is served alike, by the route of the host; the bracketed
  address of an IPv6 request without a port loses its last group and its bracket, so that a route
  set for it is never found.\<close>

theorem serve_http_host:
  assumes "CHR '':'' \<notin> set port"
  shows "(CHR '':'' \<notin> set host \<longrightarrow>
      serve_http parse_url rt (host @ CHR '':'' # port) cache = serve_http parse_url rt host cache \<and>
      (snd (serve_http parse_url rt host cache) = NoBackend \<longleftrightarrow> rt_lookup host rt = None)) \<and>
    strip_port (host @ CHR '':'' # port) = host \<and>
    snd (serve_http parse_url (rt_set ''[::1]'' backend new_route_table) ''[::1]'' cache) = NoBackend"
proof -
  have "strip_port ''[::1]'' = ''[:''" by (simp add: strip_port_def)
  then have "snd (serve_http parse_url (rt_set ''[::1]'' backend new_route_table) ''[::1]'' cache) = NoBackend"
    by (simp add: serve_http_def rt.find_put)
  moreover have "snd (serve_http parse_url rt host cache) = NoBackend \<longleftrightarrow> rt_lookup host rt = None"
    if "CHR '':'' \<notin> set host"
    using that by (auto simp: serve_http_def strip_port_none split: option.splits prod.splits)
  ultimately show ?thesis
    using assms by (simp add: strip_port_port strip_port_none serve_http_def)
qed

theorem serve_http_host_witness:
  "serve_http Some [(''web'', ''10.0.0.2:80'')] ''web:8080'' [] =
   serve_http Some [(''web'', ''10.0.0.2:80'')] ''web'' []"
proof -
  have "CHR '':'' \<notin> set ''8080''" "CHR '':'' \<notin> set ''web''" by simp_all
  then have "serve_http Some [(''web'', ''10.0.0.2:80'')] (''web'' @ CHR '':'' # ''8080'') [] =
      serve_http Some [(''web'', ''10.0.0.2:80'')] ''web'' []"
    using serve_http_host [of "''8080''" "''web''" Some "[(''web'', ''10.0.0.2:80'')]" "[]"] by blast
  then show ?thesis by simp
qed

lemma rt_all_set: "set (rt_all rt) = (\<lambda>(d, b). \<lparr>route_domain = d, route_backend = b\<rparr>) ` set rt"
  by (simp add: rt_all_def)

lemma rt_all_sorted: "sorted (map route_domain (rt_all rt))"
  by (simp add: rt_all_def)

lemma rt_all_distinct: "gm_ok rt \<Longrightarrow> distinct (map route_domain (rt_all rt))"
proof -
  assume ok: "gm_ok rt"
  have "map route_domain (map (\<lambda>(d, b). \<lparr>route_domain = d, route_backend = b\<rparr>) rt) = map fst rt"
    by (induction rt) auto
  then have "mset (map route_domain (rt_all rt)) = mset (map fst rt)"
    unfolding rt_all_def mset_map mset_sort by (metis mset_map)
  then show ?thesis
    using ok by (metis gm_ok_def mset_eq_imp_distinct_iff)
qed

lemma sorted_distinct_key_unique:
  assumes "sorted (map f xs)" "distinct (map f xs)" "sorted (map f ys)" "distinct (map f ys)"
    "set xs = set ys"
  shows "xs = ys"
proof -
  have "map f xs = map f ys"
    by (rule sorted_distinct_set_unique) (use assms in auto)
  moreover have "inj_on f (set xs \<union> set ys)"
    using assms(2,5) by (simp add: distinct_map)
  ultimately show ?thesis
    by (rule map_inj_on)
qed

text \<open>The listing of a route table is sorted by domain, holds exactly the current routes, and is
  the same for every order in which the range loop visits the map.\<close>

theorem rt_all_canonical:
  assumes "gm_ok rt"
  shows "sorted (map route_domain (rt_all rt)) \<and> distinct (map route_domain (rt_all rt)) \<and>
    (\<forall>d b. \<lparr>route_domain = d, route_backend = b\<rparr> \<in> set (rt_all rt) \<longleftrightarrow> rt_lookup d rt = Some b) \<and>
    (\<forall>rt'. gm_ok rt' \<longrightarrow> set rt' = set rt \<longrightarrow> rt_all rt' = rt_all rt)"
proof -
  have "\<lparr>route_domain = d, route_backend = b\<rparr> \<in> set (rt_all rt) \<longleftrightarrow> rt_lookup d rt = Some b" for d b
    unfolding rt_all_set rt_lookup_def using gm_ok_get [OF assms, of d b] by auto
  moreover have "rt_all rt' = rt_all rt" if "gm_ok rt'" "set rt' = set rt" for rt'
    by (rule sorted_distinct_key_unique [of route_domain])
      (use that assms in \<open>simp_all add: rt_all_sorted rt_all_distinct rt_all_set\<close>)
  ultimately show ?thesis
    using assms rt_all_sorted rt_all_distinct by blast
qed

theorem rt_all_canonical_witness:
  "rt_all [(''b.local'', ''10.0.0.3:80''), (''a.local'', ''10.0.0.2:80'')] =
   rt_all [(''a.local'', ''10.0.0.2:80''), (''b.local'', ''10.0.0.3:80'')]"
proof -
  have "gm_ok [(''a.local'', ''10.0.0.2:80''), (''b.local'', ''10.0.0.3:80'')]"
    by (simp add: gm_ok_def)
  moreover have "gm_ok [(''b.local'', ''10.0.0.3:80''), (''a.local'', ''10.0.0.2:80'')]"
    by (simp add: gm_ok_def)
  moreover have "set [(''b.local'', ''10.0.0.3:80''), (''a.local'', ''10.0.0.2:80'')] =
      set [(''a.local'', ''10.0.0.2:80''), (''b.local'', ''10.0.0.3:80'')]"
    by auto
  ultimately show ?thesis using rt_all_canonical by blast
qed

end
