(* ===== verification/Compose.thy ===== *)
theory Compose
  imports Entities Sizes
begin

text \<open>
  The compose importer of internal/compose: the env-file reader (envfile.go), the substitution of
  variables (substitute.go) and the translation of compose services to applications (parser.go,
  types.go). The YAML text is a decoded value; the files, the environment of the host, the clock
  and \<open>strconv.ParseFloat\<close>, whose rounding is not modelled, are arguments.
\<close>

section \<open>Data (types.go)\<close>

text \<open>
  A decoded YAML value of the Go type \<open>any\<close>. A float is given by the text that percent-v prints for
  it; \<open>YAnyMap\<close> is a mapping with a key that is not a
  string, given by its percent-v text.
\<close>

datatype yaml = YNull | YStr string | YInt int | YBool bool | YFloat string
  | YSeq "yaml list" | YMap "(string \<times> yaml) list" | YAnyMap string

record compose_resource_spec =
  spec_cpus :: string
  spec_memory :: string

type_synonym compose_resources = "compose_resource_spec option"

type_synonym compose_deploy = "compose_resources option"

record compose_service =
  svc_image :: string
  svc_command :: "yaml option"
  svc_ports :: "string list"
  svc_env_file :: "yaml option"
  svc_environment :: "yaml option"
  svc_volumes :: "string list"
  svc_restart :: string
  svc_deploy :: "compose_deploy option"
  svc_depends_on :: "yaml option"
  svc_networks :: "yaml option"
  svc_build :: "yaml option"

type_synonym compose_file = "compose_service gomap"

record build_context =
  bc_context :: string
  bc_dockerfile :: string
  bc_image_name :: string

datatype env_file_error = EnvOpenFailed | EnvReadFailed

datatype compose_error = ReadComposeFailed | ResolvePathFailed | InvalidCompose | NoServices
  | InvalidEnvFileElement yaml | InvalidEnvFileType yaml
  | InvalidCommandElement yaml | InvalidCommandType yaml
  | InvalidPortMapping string | InvalidHostPort string | InvalidContainerPort string
  | InvalidEnvElement yaml | InvalidEnvType yaml
  | InvalidVolume string
  | InvalidCpus string | InvalidMemory string size_error
  | InvalidBuildContext yaml | InvalidBuildDockerfile yaml | InvalidBuild yaml
  | InService string compose_error

datatype compose_warning = EnvFileSkipped string string env_file_error | NoImage string
  | DependsOnIgnored string | NetworksIgnored string

section \<open>Env files (envfile.go)\<close>

definition strip_quotes :: "string \<Rightarrow> string" where
  "strip_quotes s =
     (if 2 \<le> length s \<and> ((hd s = CHR 0x22 \<and> last s = CHR 0x22) \<or> (hd s = CHR 0x27 \<and> last s = CHR 0x27))
      then butlast (tl s)
      else (case cut s '' #'' of (before, _, found) \<Rightarrow> if found then trim_space before else s))"

definition env_line :: "string \<Rightarrow> string gomap \<Rightarrow> string gomap" where
  "env_line raw env =
     (let line = trim_space raw
      in if line = [] \<or> has_prefix ''#'' line then env
         else (case cut (trim_prefix ''export '' line) ''='' of (key0, value, ok) \<Rightarrow>
           if \<not> ok then env
           else let key = trim_space key0
                in if key = [] then env else gm_set key (strip_quotes (trim_space value)) env))"

definition load_env_file :: "string option \<Rightarrow> env_file_error + string gomap" where
  "load_env_file file =
     (case file of None \<Rightarrow> Inl EnvOpenFailed
      | Some text \<Rightarrow>
        (case scan_file text of None \<Rightarrow> Inl EnvReadFailed
         | Some ls \<Rightarrow> Inr (fold env_line ls [])))"

definition parse_env_file_field :: "yaml \<Rightarrow> compose_error + string list" where
  "parse_env_file_field v =
     (case v of
        YStr s \<Rightarrow> Inr [s]
      | YSeq items \<Rightarrow> collect (\<lambda>i. case i of YStr s \<Rightarrow> Inr s | _ \<Rightarrow> Inl (InvalidEnvFileElement i)) items
      | _ \<Rightarrow> Inl (InvalidEnvFileType v))"

section \<open>Variables (substitute.go)\<close>

definition is_ident_start :: "char \<Rightarrow> bool" where
  "is_ident_start c \<longleftrightarrow> (let n = (of_char c :: nat) in (65 \<le> n \<and> n \<le> 90) \<or> (97 \<le> n \<and> n \<le> 122) \<or> n = 95)"

definition is_ident :: "char \<Rightarrow> bool" where
  "is_ident c \<longleftrightarrow> is_ident_start c \<or> is_digit c"

datatype var_match = Braced string | Bare string

text \<open>The pattern at a dollar sign: the match and the text that follows it.\<close>

definition match_var :: "string \<Rightarrow> (var_match \<times> string) option" where
  "match_var s =
     (case s of [] \<Rightarrow> None
      | c # t \<Rightarrow>
        if c = CHR ''{''
        then (let inner = takeWhile (\<lambda>x. x \<noteq> CHR ''}'') t; rest = dropWhile (\<lambda>x. x \<noteq> CHR ''}'') t
              in if inner \<noteq> [] \<and> rest \<noteq> [] then Some (Braced inner, tl rest) else None)
        else if is_ident_start c then Some (Bare (c # takeWhile is_ident t), dropWhile is_ident t)
        else None)"

definition lookup_var :: "(string \<Rightarrow> string option) \<Rightarrow> string \<Rightarrow> string gomap \<Rightarrow> string option" where
  "lookup_var host name context = (case gm_get context name of Some v \<Rightarrow> Some v | None \<Rightarrow> host name)"

definition or_blank :: "string option \<Rightarrow> string" where
  "or_blank v = (case v of Some x \<Rightarrow> x | None \<Rightarrow> [])"

definition expand_match :: "(string \<Rightarrow> string option) \<Rightarrow> string gomap \<Rightarrow> var_match \<Rightarrow> string" where
  "expand_match host context m =
     (case m of
        Braced inner \<Rightarrow>
          (case cut inner '':-'' of (name, default_val, ok) \<Rightarrow>
             if ok then (let v = or_blank (lookup_var host name context)
                         in if v \<noteq> [] then v else default_val)
             else or_blank (lookup_var host inner context))
      | Bare name \<Rightarrow> or_blank (lookup_var host name context))"

lemma match_var_shorter: "match_var s = Some (m, rest) \<Longrightarrow> length rest < length s"
  by (auto simp: match_var_def Let_def split: list.splits if_splits)
    (metis length_dropWhile_le le_imp_less_Suc length_tl diff_le_self le_trans)+

function resolve_value :: "(string \<Rightarrow> string option) \<Rightarrow> string gomap \<Rightarrow> string \<Rightarrow> string" where
  "resolve_value host context [] = []"
| "resolve_value host context (c # s) =
     (if c = CHR ''$''
      then (case match_var s of
              Some (m, rest) \<Rightarrow> expand_match host context m @ resolve_value host context rest
            | None \<Rightarrow> c # resolve_value host context s)
      else c # resolve_value host context s)"
  by pat_completeness auto

termination
  by (relation "measure (\<lambda>(h, c, s). length s)") (auto dest: match_var_shorter)

definition substitute_vars ::
    "(string \<Rightarrow> string option) \<Rightarrow> string gomap \<Rightarrow> string gomap \<Rightarrow> string gomap" where
  "substitute_vars host env context = map (\<lambda>(k, v). (k, resolve_value host context v)) env"

section \<open>Fields of a service (parser.go)\<close>

definition parse_command :: "yaml \<Rightarrow> compose_error + string list" where
  "parse_command v =
     (case v of
        YStr s \<Rightarrow> Inr (str_fields s)
      | YSeq items \<Rightarrow> collect (\<lambda>i. case i of YStr s \<Rightarrow> Inr s | _ \<Rightarrow> Inl (InvalidCommandElement i)) items
      | _ \<Rightarrow> Inl (InvalidCommandType v))"

definition parse_port :: "string \<Rightarrow> compose_error + port_mapping" where
  "parse_port s0 =
     (case cut s0 ''/'' of (before, after, found) \<Rightarrow>
        let protocol = (if found then after else ''tcp''); s = before;
            parts = split_on CHR '':'' s
        in (case (if length parts = 2 then Some parts
                  else if length parts = 3 then Some (tl parts) else None) of
              None \<Rightarrow> Inl (InvalidPortMapping s)
            | Some ps \<Rightarrow>
              (case parse_int64 (ps ! 0) of None \<Rightarrow> Inl (InvalidHostPort s)
               | Some h \<Rightarrow>
                 (case parse_int64 (ps ! 1) of None \<Rightarrow> Inl (InvalidContainerPort s)
                  | Some c \<Rightarrow> Inr \<lparr>host_port = h, container_port = c, protocol = protocol\<rparr>))))"

definition parse_ports :: "string list \<Rightarrow> compose_error + port_mapping list" where
  "parse_ports = collect parse_port"

text \<open>The verb percent-v on a decoded value.\<close>

fun fmt_v :: "yaml \<Rightarrow> string" where
  "fmt_v YNull = ''<nil>''"
| "fmt_v (YStr s) = s"
| "fmt_v (YInt i) = show_int i"
| "fmt_v (YBool b) = (if b then ''true'' else ''false'')"
| "fmt_v (YFloat s) = s"
| "fmt_v (YSeq vs) = ''['' @ join '' '' (map fmt_v vs) @ '']''"
| "fmt_v (YMap m) = ''map['' @
     join '' '' (map (\<lambda>(k, v). k @ '':'' @ v) (sort_key fst (map (\<lambda>(k, v). (k, fmt_v v)) m))) @ '']''"
| "fmt_v (YAnyMap s) = s"

fun env_items :: "yaml list \<Rightarrow> string gomap \<Rightarrow> compose_error + string gomap" where
  "env_items [] env = Inr env"
| "env_items (YStr s # items) env =
     (case cut s ''='' of (key, value, found) \<Rightarrow> env_items items (gm_set key value env))"
| "env_items (i # items) env = Inl (InvalidEnvElement i)"

definition parse_environment :: "yaml \<Rightarrow> compose_error + string gomap" where
  "parse_environment v =
     (case v of
        YMap m \<Rightarrow> Inr (fold (\<lambda>(k, x) env. gm_set k (fmt_v x) env) m [])
      | YSeq items \<Rightarrow> env_items items []
      | _ \<Rightarrow> Inl (InvalidEnvType v))"

definition parse_volume :: "string \<Rightarrow> compose_error + volume_mount" where
  "parse_volume s =
     (let parts = split_n 3 CHR '':'' s
      in if length parts < 2 then Inl (InvalidVolume s)
         else Inr \<lparr>vol_source = parts ! 0, vol_destination = parts ! 1,
                vol_read_only = (length parts = 3 \<and> parts ! 2 = ''ro'')\<rparr>)"

definition parse_volumes :: "string list \<Rightarrow> compose_error + volume_mount list" where
  "parse_volumes = collect parse_volume"

definition map_restart_policy :: "string \<Rightarrow> restart_policy" where
  "map_restart_policy policy =
     (if policy = ''always'' \<or> policy = ''unless-stopped'' then RestartAlways
      else if policy = ''on-failure'' then RestartOnFailure else RestartNever)"

definition parse_resources ::
    "(string \<Rightarrow> float64 option) \<Rightarrow> compose_resource_spec \<Rightarrow> compose_error + resources" where
  "parse_resources parse_float spec =
     and_then (if spec_cpus spec = [] then Inr zero_resources
               else case parse_float (spec_cpus spec) of
                      None \<Rightarrow> Inl (InvalidCpus (spec_cpus spec))
                    | Some cpu \<Rightarrow> Inr (zero_resources\<lparr>res_cpu := cpu\<rparr>))
       (\<lambda>res. if spec_memory spec = [] then Inr res
         else map_err (InvalidMemory (spec_memory spec))
                (map_sum id (\<lambda>mem. res\<lparr>res_memory_mb := mem\<rparr>) (parse_size_mb (spec_memory spec))))"

text \<open>\<open>parseBuild\<close>; the image name is set by the caller.\<close>

definition parse_build :: "yaml \<Rightarrow> compose_error + build_context" where
  "parse_build v =
     (let str = (\<lambda>k m err. case map_of m k of None \<Rightarrow> Inr []
            | Some (YStr s) \<Rightarrow> Inr s | Some x \<Rightarrow> Inl (err x))
      in case v of
        YStr s \<Rightarrow> Inr \<lparr>bc_context = s, bc_dockerfile = [], bc_image_name = []\<rparr>
      | YMap m \<Rightarrow>
          and_then (str ''context'' m InvalidBuildContext) (\<lambda>ctx.
          and_then (str ''dockerfile'' m InvalidBuildDockerfile) (\<lambda>df.
            Inr \<lparr>bc_context = (if ctx = [] then ''.'' else ctx), bc_dockerfile = df,
                 bc_image_name = []\<rparr>))
      | _ \<Rightarrow> Inl (InvalidBuild v))"

section \<open>The environment of a service\<close>

record host_env =
  he_files :: "string \<Rightarrow> string option"
  he_vars :: "string \<Rightarrow> string option"
  he_float :: "string \<Rightarrow> float64 option"
  he_now :: "string \<Rightarrow> timestamp"

fun load_env_files :: "host_env \<Rightarrow> string \<Rightarrow> string \<Rightarrow> string list \<Rightarrow> string gomap \<Rightarrow>
    string gomap \<times> compose_warning list" where
  "load_env_files h name base_dir [] base = (base, [])"
| "load_env_files h name base_dir (p0 # ps) base =
     (let p = (if \<not> is_abs p0 \<and> base_dir \<noteq> [] then filepath_join base_dir p0 else p0)
      in case load_env_file (he_files h p) of
           Inl e \<Rightarrow> (case load_env_files h name base_dir ps base of
               (b, ws) \<Rightarrow> (b, EnvFileSkipped name p e # ws))
         | Inr vars \<Rightarrow> load_env_files h name base_dir ps (gm_copy base vars))"

definition resolve_service_env ::
    "host_env \<Rightarrow> string \<Rightarrow> compose_service \<Rightarrow> string \<Rightarrow> compose_error + string gomap \<times> compose_warning list" where
  "resolve_service_env h name svc base_dir =
     and_then (case svc_env_file svc of None \<Rightarrow> Inr []
               | Some v \<Rightarrow> map_err (InService name) (parse_env_file_field v))
       (\<lambda>paths. case load_env_files h name base_dir paths [] of (base, warnings) \<Rightarrow>
     and_then (case svc_environment svc of None \<Rightarrow> Inr []
               | Some v \<Rightarrow> map_err (InService name) (parse_environment v))
       (\<lambda>raw. Inr (gm_copy (gm_copy [] base) (substitute_vars (he_vars h) raw base), warnings)))"

section \<open>The file\<close>

record parse_config =
  cfg_base_dir :: string
  cfg_registry_addr :: string
  cfg_project_name :: string

definition with_base_dir :: "string \<Rightarrow> parse_config \<Rightarrow> parse_config" where
  "with_base_dir dir c = c\<lparr>cfg_base_dir := dir\<rparr>"

definition with_registry :: "string \<Rightarrow> string \<Rightarrow> parse_config \<Rightarrow> parse_config" where
  "with_registry addr project c = c\<lparr>cfg_registry_addr := addr, cfg_project_name := project\<rparr>"

definition build_image_name :: "parse_config \<Rightarrow> string \<Rightarrow> string" where
  "build_image_name cfg name =
     (if cfg_registry_addr cfg \<noteq> [] \<and> cfg_project_name cfg \<noteq> []
      then cfg_registry_addr cfg @ ''/goship-'' @ cfg_project_name cfg @ ''/'' @ name @ '':latest''
      else ''goship-'' @ name @ '':latest'')"

definition optional :: "bool \<Rightarrow> 'e + 'a \<Rightarrow> 'a \<Rightarrow> 'e + 'a" where
  "optional c m d = (if c then m else Inr d)"

text \<open>
  One round of the loop over the services: the application, unless the service is skipped, the
  build context, if any, and the warnings.
\<close>

definition parse_service ::
    "host_env \<Rightarrow> parse_config \<Rightarrow> string \<Rightarrow> compose_service \<Rightarrow>
     compose_error + app_spec option \<times> build_context option \<times> compose_warning list" where
  "parse_service h cfg name svc =
     and_then (case svc_command svc of None \<Rightarrow> Inr []
               | Some v \<Rightarrow> map_err (InService name) (parse_command v)) (\<lambda>cmd.
     and_then (optional (svc_ports svc \<noteq> []) (map_err (InService name) (parse_ports (svc_ports svc))) []) (\<lambda>ports.
     and_then (resolve_service_env h name svc (cfg_base_dir cfg)) (\<lambda>(env, ws).
     and_then (optional (svc_volumes svc \<noteq> []) (map_err (InService name) (parse_volumes (svc_volumes svc))) []) (\<lambda>vols.
     and_then (case svc_deploy svc of Some (Some (Some limits)) \<Rightarrow>
                 map_err (InService name) (parse_resources (he_float h) limits)
               | _ \<Rightarrow> Inr zero_resources) (\<lambda>res.
     and_then (case svc_build svc of
                 Some b \<Rightarrow> if svc_image svc = []
                   then map_sum id (\<lambda>bc. Some (bc\<lparr>bc_image_name := build_image_name cfg name\<rparr>))
                          (map_err (InService name) (parse_build b))
                   else Inr None
               | None \<Rightarrow> Inr None) (\<lambda>bc.
       let app = zero_app\<lparr>app_name := name, app_execution_mode := ModeContainer,
             app_image := (case bc of Some b \<Rightarrow> bc_image_name b | None \<Rightarrow> svc_image svc),
             app_replicas := 1, app_created_at := he_now h name, app_command := cmd,
             app_ports := ports, app_env := env, app_volumes := vols, app_resources := res,
             app_restart_policy := (if svc_restart svc = [] then RestartUnset
               else map_restart_policy (svc_restart svc))\<rparr>
       in if svc_image svc = [] \<and> svc_build svc = None
          then Inr (None, None, ws @ [NoImage name])
          else Inr (Some app, bc, ws
                 @ (if svc_depends_on svc \<noteq> None then [DependsOnIgnored name] else [])
                 @ (if svc_networks svc \<noteq> None then [NetworksIgnored name] else []))))))))"

fun parse_services ::
    "host_env \<Rightarrow> parse_config \<Rightarrow> compose_file \<Rightarrow> string list \<Rightarrow>
     compose_error + app_spec list \<times> build_context gomap \<times> compose_warning list" where
  "parse_services h cfg cf [] = Inr ([], [], [])"
| "parse_services h cfg cf (name # names) =
     and_then (parse_service h cfg name (the (gm_get cf name))) (\<lambda>(app, bc, ws).
     and_then (parse_services h cfg cf names) (\<lambda>(apps, builds, ws').
       Inr ((case app of None \<Rightarrow> apps | Some a \<Rightarrow> a # apps),
            (case bc of None \<Rightarrow> builds | Some b \<Rightarrow> (name, b) # builds), ws @ ws')))"

definition parse_bytes ::
    "host_env \<Rightarrow> parse_config \<Rightarrow> compose_file option \<Rightarrow>
     compose_error + app_spec list \<times> build_context gomap \<times> compose_warning list" where
  "parse_bytes h cfg doc =
     (case doc of None \<Rightarrow> Inl InvalidCompose
      | Some cf \<Rightarrow> if cf = [] then Inl NoServices
          else parse_services h cfg cf (sort (map fst cf)))"

text \<open>
  \<open>Parse\<close>: the caller's options come after the base directory, so they may change it. The YAML
  decoder and the working directory, if there is one, are arguments.
\<close>

definition parse_path ::
    "host_env \<Rightarrow> (string \<Rightarrow> compose_file option) \<Rightarrow> string option \<Rightarrow> (parse_config \<Rightarrow> parse_config) list \<Rightarrow>
     string \<Rightarrow> compose_error + app_spec list \<times> build_context gomap \<times> compose_warning list" where
  "parse_path h unmarshal cwd opts path =
     (case he_files h path of None \<Rightarrow> Inl ReadComposeFailed
      | Some data \<Rightarrow>
        (case (if is_abs path then Some (filepath_clean path)
               else map_option (\<lambda>d. filepath_join d path) cwd) of
           None \<Rightarrow> Inl ResolvePathFailed
         | Some abs_path \<Rightarrow>
           parse_bytes h (fold (\<lambda>opt c. opt c) (with_base_dir (filepath_dir abs_path) # opts)
             \<lparr>cfg_base_dir = [], cfg_registry_addr = [], cfg_project_name = []\<rparr>) (unmarshal data)))"

end
