(* ===== verification/Compose_Spec.thy ===== *)
theory Compose_Spec
  imports Compose
begin

text \<open>
  What the compose importer promises: env files and variable references are read as they are
  written, the environment of a service has the documented precedence, and the result of an import
  is the same for every order of the services in memory.
\<close>

section \<open>Env files\<close>

definition env_entry_ok :: "string \<times> string \<Rightarrow> bool" where
  "env_entry_ok = (\<lambda>(k, v). k \<noteq> [] \<and> trim_space k = k \<and> CHR ''='' \<notin> set k \<and> CHR 0x0A \<notin> set k \<and>
     hd k \<noteq> CHR ''#'' \<and> \<not> has_prefix ''export '' k \<and> CHR 0x0A \<notin> set v \<and>
     length k + length v < 65000)"

definition render_entry :: "string \<times> string \<Rightarrow> string" where
  "render_entry = (\<lambda>(k, v). k @ CHR ''='' # CHR 0x22 # v @ [CHR 0x22])"

definition render_env :: "(string \<times> string) list \<Rightarrow> string" where
  "render_env kvs = concat (map (\<lambda>e. render_entry e @ [CHR 0x0A]) kvs)"

lemma strip_quotes_quoted: "strip_quotes (CHR 0x22 # v @ [CHR 0x22]) = v"
  by (simp add: strip_quotes_def)

lemma trim_space_quoted: "trim_space (CHR 0x22 # v @ [CHR 0x22]) = CHR 0x22 # v @ [CHR 0x22]"
  by (rule trim_space_id) (simp_all add: is_space_def)

lemma no_prefix_before:
  assumes "\<not> has_prefix p k" "c \<notin> set p"
  shows "\<not> has_prefix p (k @ c # s)"
proof
  assume "has_prefix p (k @ c # s)"
  then obtain r where "k @ c # s = p @ r" by (auto simp: has_prefix_iff)
  then obtain us where "k = p @ us \<and> us @ c # s = r \<or> k @ us = p \<and> c # s = us @ r"
    by (auto simp: append_eq_append_conv2)
  then show False
    using assms by (cases us) (auto simp: has_prefix_iff)
qed

lemma env_line_render:
  assumes "env_entry_ok (k, v)"
  shows "env_line (drop_cr (render_entry (k, v))) env = gm_set k v env"
proof -
  let ?l = "k @ CHR ''='' # CHR 0x22 # v @ [CHR 0x22]"
  have k: "k \<noteq> []" "trim_space k = k" "CHR ''='' \<notin> set k" "hd k \<noteq> CHR ''#''" "\<not> has_prefix ''export '' k"
    using assms by (simp_all add: env_entry_ok_def)
  have "\<not> is_space (hd k)" using trim_space_ends [of k] k by simp
  then have "\<not> is_space (hd ?l)" using k(1) by simp
  then have t: "trim_space ?l = ?l"
    by (intro trim_space_id) (simp_all add: is_space_def)
  have e: "\<not> has_prefix ''export '' ?l"
    by (rule no_prefix_before [OF k(5)]) simp
  have h: "\<not> has_prefix ''#'' ?l" using k(1,4) by (cases k) (simp_all add: has_prefix_def)
  have c: "cut ?l ''='' = (k, CHR 0x22 # v @ [CHR 0x22], True)"
    using cut_found [OF k(3)] by simp
  have d: "drop_cr (render_entry (k, v)) = ?l" by (simp add: drop_cr_def render_entry_def)
  show ?thesis
    unfolding d env_line_def t using k(1,2) e h c
    by (simp add: trim_prefix_def trim_space_quoted strip_quotes_quoted)
qed

lemma render_entry_line: "env_entry_ok e \<Longrightarrow> CHR 0x0A \<notin> set (render_entry e) \<and> length (render_entry e) < max_token"
  by (cases e) (simp add: env_entry_ok_def render_entry_def max_token_def)

lemma fold_env_lines:
  "\<forall>e \<in> set kvs. env_entry_ok e \<Longrightarrow>
   fold env_line (map (\<lambda>e. drop_cr (render_entry e)) kvs) env = fold (\<lambda>(k, v). gm_set k v) kvs env"
  by (induction kvs arbitrary: env) (auto simp: env_line_render)

text \<open>Reading an env file with one quoted line per entry gives back the entries, the last
  one winning, for every key without an equals sign, line break or outer space that starts neither
  a comment nor an export, and every value without a line break, quotes and hashes included.\<close>

theorem load_env_file_render:
  assumes "\<forall>e \<in> set kvs. env_entry_ok e"
  shows "load_env_file (Some (render_env kvs)) = Inr (fold (\<lambda>(k, v). gm_set k v) kvs [])"
proof -
  have "scan_file (concat (map (\<lambda>l. l @ [CHR 0x0A]) (map render_entry kvs))) =
      Some (map drop_cr (map render_entry kvs))"
    using assms render_entry_line by (intro scan_file_concat) auto
  then show ?thesis
    using fold_env_lines [OF assms] by (simp add: load_env_file_def render_env_def o_def)
qed

theorem load_env_file_render_witness:
  "load_env_file (Some (render_env [(''A'', ''x # y''), (''B'', ''it is \"ok\"'')])) =
     Inr [(''A'', ''x # y''), (''B'', ''it is \"ok\"'')]"
proof -
  have "env_entry_ok (''A'', ''x # y'')" "env_entry_ok (''B'', ''it is \"ok\"'')"
    by (simp_all add: env_entry_ok_def trim_space_def trim_right_def is_space_def has_prefix_def)
  then have "\<forall>e \<in> set [(''A'', ''x # y''), (''B'', ''it is \"ok\"'')]. env_entry_ok e" by simp
  from load_env_file_render [OF this] show ?thesis by simp
qed

section \<open>Variable references\<close>

text \<open>A value as a user writes it: text, a reference in braces, one with a default, a bare one.\<close>

datatype segment = Lit string | Ref string | RefDefault string string | BareRef string

fun show_segment :: "segment \<Rightarrow> string" where
  "show_segment (Lit t) = t"
| "show_segment (Ref n) = ''${'' @ n @ ''}''"
| "show_segment (RefDefault n d) = ''${'' @ n @ '':-'' @ d @ ''}''"
| "show_segment (BareRef n) = ''$'' @ n"

definition show_segments :: "segment list \<Rightarrow> string" where
  "show_segments segs = concat (map show_segment segs)"

fun is_name :: "string \<Rightarrow> bool" where
  "is_name [] = False"
| "is_name (c # s) = (is_ident_start c \<and> list_all is_ident s)"

text \<open>A bare reference must not be followed by text that continues its name.\<close>

fun segments_ok :: "segment list \<Rightarrow> bool" where
  "segments_ok [] = True"
| "segments_ok (Lit t # segs) = (CHR ''$'' \<notin> set t \<and> segments_ok segs)"
| "segments_ok (Ref n # segs) = (is_name n \<and> segments_ok segs)"
| "segments_ok (RefDefault n d # segs) = (is_name n \<and> CHR ''}'' \<notin> set d \<and> segments_ok segs)"
| "segments_ok (BareRef n # segs) = (is_name n \<and> segments_ok segs \<and>
     (case show_segments segs of [] \<Rightarrow> True | c # _ \<Rightarrow> \<not> is_ident c))"

fun value_of :: "(string \<Rightarrow> string option) \<Rightarrow> segment \<Rightarrow> string" where
  "value_of vars (Lit t) = t"
| "value_of vars (Ref n) = or_blank (vars n)"
| "value_of vars (RefDefault n d) = (case vars n of None \<Rightarrow> d | Some v \<Rightarrow> if v = [] then d else v)"
| "value_of vars (BareRef n) = or_blank (vars n)"

lemma resolve_lit:
  "CHR ''$'' \<notin> set t \<Longrightarrow> resolve_value host ctx (t @ s) = t @ resolve_value host ctx s"
  by (induction t) auto

lemma is_ident_plain: "is_ident c \<Longrightarrow> c \<noteq> CHR ''}'' \<and> c \<noteq> CHR ''{'' \<and> c \<noteq> CHR '':''"
  by (auto simp: is_ident_def is_ident_start_def is_digit_def Let_def)

lemma is_name_chars: "is_name n \<Longrightarrow> n \<noteq> [] \<and> (\<forall>c \<in> set n. is_ident c)"
  by (cases n) (auto simp: is_ident_def list_all_iff)

lemma match_braced:
  "inner \<noteq> [] \<Longrightarrow> CHR ''}'' \<notin> set inner \<Longrightarrow>
   match_var (CHR ''{'' # inner @ CHR ''}'' # s) = Some (Braced inner, s)"
  by (simp add: match_var_def takeWhile_append dropWhile_append Let_def)

lemma takeWhile_ident:
  "list_all P xs \<Longrightarrow> (case s of [] \<Rightarrow> True | c # _ \<Rightarrow> \<not> P c) \<Longrightarrow>
   takeWhile P (xs @ s) = xs \<and> dropWhile P (xs @ s) = s"
  by (induction xs) (auto split: list.splits)

lemma match_bare:
  assumes "is_name n" "case s of [] \<Rightarrow> True | c # _ \<Rightarrow> \<not> is_ident c"
  shows "match_var (n @ s) = Some (Bare n, s)"
proof (cases n)
  case (Cons c t)
  then have "is_ident_start c" "c \<noteq> CHR ''{''" "list_all is_ident t"
    using assms(1) is_ident_plain [of c] by (auto simp: is_ident_def)
  then show ?thesis
    using takeWhile_ident [of is_ident t s] assms(2) Cons by (simp add: match_var_def)
qed (use assms in simp)

lemma cut_name_default: "CHR '':'' \<notin> set n \<Longrightarrow> cut (n @ '':-'' @ d) '':-'' = (n, d, True)"
  by (induction n) (auto simp: has_prefix_def)

lemma cut_name: "CHR '':'' \<notin> set n \<Longrightarrow> cut n '':-'' = (n, [], False)"
  by (induction n) (auto simp: has_prefix_def)

lemma name_no_colon: "is_name n \<Longrightarrow> CHR '':'' \<notin> set n \<and> CHR ''}'' \<notin> set n"
  using is_name_chars is_ident_plain by blast

text \<open>A value with variable references is expanded segment by segment: text is kept, a
  reference becomes the value in the context or else on the host, and a default stands in for a
  variable that is missing or empty; what a variable expands to is not expanded again.\<close>

theorem resolve_value_segments:
  assumes "segments_ok segs"
  shows "resolve_value host ctx (show_segments segs) =
    concat (map (value_of (\<lambda>n. lookup_var host n ctx)) segs)"
  using assms
proof (induction segs rule: segments_ok.induct)
  case (2 t segs)
  then show ?case by (simp add: show_segments_def resolve_lit)
next
  case (3 n segs)
  have "match_var (CHR ''{'' # n @ CHR ''}'' # show_segments segs) = Some (Braced n, show_segments segs)"
    using 3 name_no_colon is_name_chars by (intro match_braced) auto
  then show ?case
    using 3 cut_name name_no_colon by (simp add: show_segments_def expand_match_def)
next
  case (4 n d segs)
  let ?i = "n @ '':-'' @ d"
  have "match_var (CHR ''{'' # ?i @ CHR ''}'' # show_segments segs) = Some (Braced ?i, show_segments segs)"
    using 4 name_no_colon by (intro match_braced) auto
  moreover have "expand_match host ctx (Braced ?i) = value_of (\<lambda>n. lookup_var host n ctx) (RefDefault n d)"
    using 4(2) cut_name_default name_no_colon
    by (simp add: expand_match_def or_blank_def Let_def split: option.split)
  ultimately show ?case
    using 4 by (simp add: show_segments_def)
next
  case (5 n segs)
  then have "match_var (n @ show_segments segs) = Some (Bare n, show_segments segs)"
    by (intro match_bare) auto
  then show ?case
    using 5 by (simp add: show_segments_def expand_match_def)
qed (simp add: show_segments_def)

theorem resolve_value_segments_witness:
  "resolve_value (\<lambda>_. None) [(''HOST'', ''db'')] ''pg://${HOST}:${PORT:-5432}/$HOST-x'' = ''pg://db:5432/db-x''"
proof -
  let ?segs = "[Lit ''pg://'', Ref ''HOST'', Lit '':'', RefDefault ''PORT'' ''5432'', Lit ''/'', BareRef ''HOST'', Lit ''-x'']"
  have "segments_ok ?segs" by code_simp
  from resolve_value_segments [OF this, of "\<lambda>_. None" "[(''HOST'', ''db'')]"]
  show ?thesis by (simp add: show_segments_def lookup_var_def or_blank_def)
qed

section \<open>The environment of a service\<close>

definition file_vars :: "host_env \<Rightarrow> string \<Rightarrow> string \<Rightarrow> string gomap" where
  "file_vars h dir p0 =
     (let p = (if \<not> is_abs p0 \<and> dir \<noteq> [] then filepath_join dir p0 else p0)
      in case load_env_file (he_files h p) of Inl e \<Rightarrow> [] | Inr m \<Rightarrow> m)"

lemma env_line_ok: "gm_ok env \<Longrightarrow> gm_ok (env_line l env)"
  by (auto simp: env_line_def Let_def split: prod.split)

lemma fold_gm_ok: "(\<And>x m. gm_ok m \<Longrightarrow> gm_ok (f x m)) \<Longrightarrow> gm_ok m \<Longrightarrow> gm_ok (fold f xs m)"
  by (induction xs arbitrary: m) auto

lemma load_env_file_ok: "load_env_file f = Inr m \<Longrightarrow> gm_ok m"
  by (auto simp: load_env_file_def intro!: fold_gm_ok env_line_ok split: option.splits if_splits)

lemma file_vars_ok: "gm_ok (file_vars h dir p)"
  by (auto simp: file_vars_def Let_def split: sum.split dest: load_env_file_ok)

lemma env_items_ok: "env_items items env = Inr m \<Longrightarrow> gm_ok env \<Longrightarrow> gm_ok m"
  by (induction items env rule: env_items.induct) (auto split: prod.splits)

lemma parse_environment_ok: "parse_environment v = Inr m \<Longrightarrow> gm_ok m"
  by (cases v) (auto simp: parse_environment_def intro!: fold_gm_ok dest: env_items_ok)

lemma load_env_files_base:
  "fst (load_env_files h name dir ps base) = fold (\<lambda>p b. gm_copy b (file_vars h dir p)) ps base"
  by (induction h name dir ps base rule: load_env_files.induct)
    (auto simp: file_vars_def Let_def split: sum.splits prod.splits)

lemma base_lookup:
  "gm_get (fold (\<lambda>p b. gm_copy b (file_vars h dir p)) ps base) k =
   (case find (\<lambda>p. gm_get (file_vars h dir p) k \<noteq> None) (rev ps) of
      Some p \<Rightarrow> gm_get (file_vars h dir p) k | None \<Rightarrow> gm_get base k)"
proof (induction ps rule: rev_induct)
  case (snoc p ps)
  then show ?case by (simp add: gm_get_copy [OF file_vars_ok] split: option.split)
qed simp

lemma substitute_vars_get: "gm_get (substitute_vars host env ctx) k = map_option (resolve_value host ctx) (gm_get env k)"
  by (simp add: substitute_vars_def map_of_map)

lemma substitute_vars_ok: "gm_ok env \<Longrightarrow> gm_ok (substitute_vars host env ctx)"
  by (simp add: gm_ok_def substitute_vars_def o_def split_beta)

lemma collect_strings [simp]:
  "collect (\<lambda>i. case i of YStr s \<Rightarrow> Inr s | _ \<Rightarrow> Inl (g i)) (map YStr ps) = Inr ps"
  using collect_map [of ps "\<lambda>i. case i of YStr s \<Rightarrow> Inr s | _ \<Rightarrow> Inl (g i)" YStr id] by simp

text \<open>In the environment of a service an entry of the environment section wins over the env
  files, a later env file wins over an earlier one, a file that cannot be read counts as empty, and
  only the values of the environment section are expanded, over the variables of the env files.\<close>

theorem service_env_precedence:
  assumes "resolve_service_env h name svc dir = Inr (env, ws)"
    and "svc_env_file svc = Some (YSeq (map YStr ps))"
    and "svc_environment svc = Some v" "parse_environment v = Inr raw"
  shows "\<exists>base. (\<forall>k. gm_get base k =
        (case find (\<lambda>p. gm_get (file_vars h dir p) k \<noteq> None) (rev ps) of
           Some p \<Rightarrow> gm_get (file_vars h dir p) k | None \<Rightarrow> None)) \<and>
      (\<forall>k. gm_get env k =
        (case gm_get raw k of Some x \<Rightarrow> Some (resolve_value (he_vars h) base x) | None \<Rightarrow> gm_get base k))"
proof -
  let ?base = "fold (\<lambda>p b. gm_copy b (file_vars h dir p)) ps []"
  have base: "gm_ok ?base" by (rule fold_gm_ok) auto
  have "env = gm_copy (gm_copy [] ?base) (substitute_vars (he_vars h) raw ?base)"
    using assms load_env_files_base [of h name dir ps "[]"]
    by (auto simp: resolve_service_env_def parse_env_file_field_def and_then_Inr split: prod.splits)
  moreover have "gm_ok (substitute_vars (he_vars h) raw ?base)"
    using parse_environment_ok [OF assms(4)] by (rule substitute_vars_ok)
  ultimately have "gm_get env k =
      (case gm_get raw k of Some x \<Rightarrow> Some (resolve_value (he_vars h) ?base x) | None \<Rightarrow> gm_get ?base k)" for k
    using base by (simp add: gm_get_copy substitute_vars_get split: option.split)
  then show ?thesis
    using base_lookup [of h dir ps "[]"] by (intro exI [of _ ?base]) (simp split: option.split)
qed

definition demo_host :: host_env where
  "demo_host = \<lparr>he_files = (\<lambda>p. if p = ''/p/.env'' then Some (render_env [(''HOST'', ''db'')]) else None),
     he_vars = (\<lambda>_. None), he_float = (\<lambda>_. None), he_now = (\<lambda>_. 0)\<rparr>"

definition demo_service :: compose_service where
  "demo_service = \<lparr>svc_image = ''nginx'', svc_command = None, svc_ports = [], svc_env_file = Some (YSeq [YStr ''.env'']),
     svc_environment = Some (YSeq [YStr ''URL=http://$HOST'']), svc_volumes = [], svc_restart = [], svc_deploy = None,
     svc_depends_on = None, svc_networks = None, svc_build = None\<rparr>"

theorem service_env_precedence_witness:
  "\<exists>env ws. resolve_service_env demo_host ''web'' demo_service ''/p'' = Inr (env, ws) \<and>
     gm_get env ''HOST'' = gm_get (file_vars demo_host ''/p'' ''.env'') ''HOST''"
proof -
  have ok: "is_ok (resolve_service_env demo_host ''web'' demo_service ''/p'')"
    by (simp add: resolve_service_env_def demo_service_def parse_env_file_field_def
        parse_environment_def has_prefix_def split: prod.split)
  then obtain env ws where r: "resolve_service_env demo_host ''web'' demo_service ''/p'' = Inr (env, ws)"
    by (auto simp: is_ok_iff)
  have f: "svc_env_file demo_service = Some (YSeq (map YStr [''.env'']))"
    and e: "svc_environment demo_service = Some (YSeq [YStr ''URL=http://$HOST''])"
    and p: "parse_environment (YSeq [YStr ''URL=http://$HOST'']) = Inr [(''URL'', ''http://$HOST'')]"
    by (simp_all add: demo_service_def parse_environment_def has_prefix_def)
  let ?f = "file_vars demo_host ''/p''"
  obtain base where b1: "\<forall>k. gm_get base k =
        (case find (\<lambda>p. gm_get (?f p) k \<noteq> None) (rev [''.env'']) of
           Some p \<Rightarrow> gm_get (?f p) k | None \<Rightarrow> None)"
      and b2: "\<forall>k. gm_get env k = (case gm_get [(''URL'', ''http://$HOST'')] k of
           Some x \<Rightarrow> Some (resolve_value (he_vars demo_host) base x) | None \<Rightarrow> gm_get base k)"
    using service_env_precedence [OF r f e p] by blast
  have "gm_get base ''HOST'' = gm_get (?f ''.env'') ''HOST''"
    using spec [OF b1, of "''HOST''"] by (cases "gm_get (?f ''.env'') ''HOST''") simp_all
  moreover have "gm_get env ''HOST'' = gm_get base ''HOST''"
    using spec [OF b2, of "''HOST''"] by simp
  ultimately show ?thesis using r by metis
qed

section \<open>Ports\<close>

definition render_port :: "string option \<Rightarrow> nat \<Rightarrow> nat \<Rightarrow> string option \<Rightarrow> string" where
  "render_port ip h c proto =
     (case ip of None \<Rightarrow> [] | Some a \<Rightarrow> a @ '':'') @ show_nat h @ '':'' @ show_nat c @
     (case proto of None \<Rightarrow> [] | Some p \<Rightarrow> ''/'' @ p)"

lemma show_nat_no: "\<not> is_digit c \<Longrightarrow> c \<notin> set (show_nat n)"
  using show_nat_digits by blast

lemma parse_port_parts:
  assumes "cut s0 ''/'' = (s, after, found)" "split_on CHR '':'' s = pre @ [show_nat h, show_nat c]"
    and "length pre \<le> 1" "in_int64 (int h)" "in_int64 (int c)"
  shows "parse_port s0 = Inr \<lparr>host_port = int h, container_port = int c,
    protocol = (if found then after else ''tcp'')\<rparr>"
  using assms by (cases pre) (simp_all add: parse_port_def Let_def parse_int64_show_nat)

lemma not_digit_marks [simp]: "\<not> is_digit CHR '':''" "\<not> is_digit CHR ''/''"
  by (simp_all add: is_digit_def)

text \<open>A port mapping written as container port after host port, with or without an address in
  front and a protocol behind, is read back as these ports whenever both fit in an int (there is no
  check that they are port numbers); the address is dropped and the default protocol is tcp.\<close>

theorem parse_port_render:
  assumes "\<forall>a. ip = Some a \<longrightarrow> CHR '':'' \<notin> set a \<and> CHR ''/'' \<notin> set a"
    and "in_int64 (int h)" "in_int64 (int c)"
  shows "parse_port (render_port ip h c proto) =
    Inr \<lparr>host_port = int h, container_port = int c,
          protocol = (case proto of None \<Rightarrow> ''tcp'' | Some p \<Rightarrow> p)\<rparr>"
proof -
  let ?addr = "case ip of None \<Rightarrow> [] | Some a \<Rightarrow> a @ '':''"
  let ?s = "?addr @ show_nat h @ CHR '':'' # show_nat c"
  have "CHR ''/'' \<notin> set ?s"
    using assms(1) by (auto simp: show_nat_no split: option.splits)
  then have cut: "cut (render_port ip h c proto) ''/'' =
      (?s, (case proto of None \<Rightarrow> [] | Some p \<Rightarrow> p), proto \<noteq> None)"
    using cut_found [of "CHR ''/''" ?s] cut_none [of "CHR ''/''" ?s]
    by (cases proto) (simp_all add: render_port_def)
  have "split_on CHR '':'' (show_nat h @ CHR '':'' # show_nat c) = [show_nat h, show_nat c]"
    by (simp add: split_on_append split_on_none show_nat_no)
  then have split: "split_on CHR '':'' ?s =
      (case ip of None \<Rightarrow> [] | Some a \<Rightarrow> [a]) @ [show_nat h, show_nat c]"
    using assms(1) by (cases ip) (simp_all add: split_on_append)
  show ?thesis
    using parse_port_parts [OF cut split _ assms(2,3)] by (cases ip; cases proto) simp_all
qed

theorem parse_port_render_witness:
  "parse_port (render_port (Some ''127.0.0.1'') 8080 80 (Some ''udp'')) =
     Inr \<lparr>host_port = int 8080, container_port = int 80, protocol = ''udp''\<rparr>"
  using parse_port_render [of "Some ''127.0.0.1''" 8080 80 "Some ''udp''"]
  by (simp add: in_int64_def int64_min_def int64_max_def)

section \<open>The import as a whole\<close>

lemma and_thenE: "and_then m f = Inr y \<Longrightarrow> (\<And>x. m = Inr x \<Longrightarrow> f x = Inr y \<Longrightarrow> thesis) \<Longrightarrow> thesis"
  by (auto simp: and_then_Inr)

lemma build_image_name_not_Nil [simp]: "build_image_name cfg name \<noteq> []"
  by (simp add: build_image_name_def)

definition service_result_ok ::
    "parse_config \<Rightarrow> string \<Rightarrow> compose_service \<Rightarrow> app_spec option \<times> build_context option \<times> compose_warning list \<Rightarrow> bool" where
  "service_result_ok cfg name svc = (\<lambda>(app, bc, ws).
     (app \<noteq> None \<longleftrightarrow> svc_image svc \<noteq> [] \<or> svc_build svc \<noteq> None) \<and>
     (bc \<noteq> None \<longleftrightarrow> svc_image svc = [] \<and> svc_build svc \<noteq> None) \<and>
     (\<forall>a. app = Some a \<longrightarrow> app_name a = name \<and> app_execution_mode a = ModeContainer \<and> app_replicas a = 1 \<and>
        app_image a = (if svc_image svc \<noteq> [] then svc_image svc else build_image_name cfg name)) \<and>
     (\<forall>b. bc = Some b \<longrightarrow> bc_image_name b = build_image_name cfg name))"

lemma service_build:
  assumes "(case svc_build svc of
                 Some b \<Rightarrow> if svc_image svc = []
                   then map_sum id (\<lambda>bc. Some (bc\<lparr>bc_image_name := build_image_name cfg name\<rparr>))
                          (map_err (InService name) (parse_build b))
                   else Inr None
               | None \<Rightarrow> Inr None) = Inr bc"
  shows "(bc \<noteq> None \<longleftrightarrow> svc_image svc = [] \<and> svc_build svc \<noteq> None) \<and>
    (\<forall>b. bc = Some b \<longrightarrow> bc_image_name b = build_image_name cfg name)"
proof (cases "svc_build svc")
  case (Some b)
  then show ?thesis
    using assms by (cases "parse_build b") (auto split: if_splits)
qed (use assms in simp)

lemma parse_service_result:
  assumes "parse_service h cfg name svc = Inr r"
  shows "service_result_ok cfg name svc r"
proof -
  from assms obtain cmd ports env ws vols res bc where
    bc: "(case svc_build svc of
                 Some b \<Rightarrow> if svc_image svc = []
                   then map_sum id (\<lambda>bc. Some (bc\<lparr>bc_image_name := build_image_name cfg name\<rparr>))
                          (map_err (InService name) (parse_build b))
                   else Inr None
               | None \<Rightarrow> Inr None) = Inr bc"
    and fin: "(let app = zero_app\<lparr>app_name := name, app_execution_mode := ModeContainer,
             app_image := (case bc of Some b \<Rightarrow> bc_image_name b | None \<Rightarrow> svc_image svc),
             app_replicas := 1, app_created_at := he_now h name, app_command := cmd,
             app_ports := ports, app_env := env, app_volumes := vols, app_resources := res,
             app_restart_policy := (if svc_restart svc = [] then RestartUnset
               else map_restart_policy (svc_restart svc))\<rparr>
       in if svc_image svc = [] \<and> svc_build svc = None
          then Inr (None, None, ws @ [NoImage name])
          else Inr (Some app, bc, ws
                 @ (if svc_depends_on svc \<noteq> None then [DependsOnIgnored name] else [])
                 @ (if svc_networks svc \<noteq> None then [NetworksIgnored name] else []))) =
       (Inr r :: compose_error + app_spec option \<times> build_context option \<times> compose_warning list)"
    unfolding parse_service_def by (elim and_thenE) (simp only: split_paired_all case_prod_conv, elim and_thenE, blast)
  show ?thesis
    using service_build [OF bc] fin
    by (auto simp: service_result_ok_def Let_def zero_app_def split: if_splits option.splits)
qed

definition has_source :: "compose_file \<Rightarrow> string \<Rightarrow> bool" where
  "has_source cf n \<longleftrightarrow> svc_image (the (gm_get cf n)) \<noteq> [] \<or> svc_build (the (gm_get cf n)) \<noteq> None"

definition must_build :: "compose_file \<Rightarrow> string \<Rightarrow> bool" where
  "must_build cf n \<longleftrightarrow> svc_image (the (gm_get cf n)) = [] \<and> svc_build (the (gm_get cf n)) \<noteq> None"

definition app_matches :: "parse_config \<Rightarrow> compose_file \<Rightarrow> app_spec \<Rightarrow> bool" where
  "app_matches cfg cf a \<longleftrightarrow> app_execution_mode a = ModeContainer \<and> app_replicas a = 1 \<and>
     app_image a = (if must_build cf (app_name a) then build_image_name cfg (app_name a)
                    else svc_image (the (gm_get cf (app_name a)))) \<and> app_image a \<noteq> []"

lemma parse_services_result:
  "parse_services h cfg cf names = Inr (apps, builds, ws) \<Longrightarrow>
   map app_name apps = filter (has_source cf) names \<and>
   map fst builds = filter (must_build cf) names \<and>
   (\<forall>a \<in> set apps. app_matches cfg cf a) \<and>
   (\<forall>(n, b) \<in> set builds. bc_image_name b = build_image_name cfg n)"
proof (induction names arbitrary: apps builds ws)
  case (Cons name names)
  obtain app bc w apps' builds' w' where
    1: "parse_service h cfg name (the (gm_get cf name)) = Inr (app, bc, w)" and
    2: "parse_services h cfg cf names = Inr (apps', builds', w')" and
    r: "apps = (case app of None \<Rightarrow> apps' | Some a \<Rightarrow> a # apps')"
       "builds = (case bc of None \<Rightarrow> builds' | Some b \<Rightarrow> (name, b) # builds')"
    using Cons.prems by (auto elim!: and_thenE)
  note s = parse_service_result [OF 1]
  have "app \<noteq> None \<longleftrightarrow> has_source cf name" "bc \<noteq> None \<longleftrightarrow> must_build cf name"
    using s by (auto simp: service_result_ok_def has_source_def must_build_def)
  moreover have "\<forall>a. app = Some a \<longrightarrow> app_name a = name \<and> app_matches cfg cf a"
    using s by (auto simp: service_result_ok_def app_matches_def must_build_def)
  moreover have "\<forall>b. bc = Some b \<longrightarrow> bc_image_name b = build_image_name cfg name"
    using s by (simp add: service_result_ok_def)
  ultimately show ?case
    using Cons.IH [OF 2] r by (auto split: option.splits)
qed simp

text \<open>C29: a successful import yields one container application per service that names an image or
  a build, in the order of the names, each with a non-empty image (the one of the service, or the
  generated one when it must be built), and a build context for exactly the services that must be
  built, under the image name their application runs.\<close>

theorem parse_bytes_apps:
  assumes "parse_bytes h cfg (Some cf) = Inr (apps, builds, ws)" "gm_ok cf"
  shows "map app_name apps = filter (has_source cf) (sort (map fst cf)) \<and>
    distinct (map app_name apps) \<and>
    map fst builds = filter (must_build cf) (sort (map fst cf)) \<and>
    (\<forall>a \<in> set apps. app_matches cfg cf a) \<and>
    (\<forall>(n, b) \<in> set builds. bc_image_name b = build_image_name cfg n)"
proof -
  have "parse_services h cfg cf (sort (map fst cf)) = Inr (apps, builds, ws)"
    using assms(1) by (auto simp: parse_bytes_def split: if_splits)
  from parse_services_result [OF this] assms(2) show ?thesis
    by (simp add: gm_ok_def)
qed

theorem parse_bytes_apps_witness:
  "\<exists>apps builds ws. parse_bytes demo_host \<lparr>cfg_base_dir = [], cfg_registry_addr = [], cfg_project_name = []\<rparr>
     (Some [(''web'', demo_service\<lparr>svc_env_file := None\<rparr>)]) = Inr (apps, builds, ws) \<and> map app_name apps = [''web'']"
proof -
  let ?cfg = "\<lparr>cfg_base_dir = [], cfg_registry_addr = [], cfg_project_name = []\<rparr>"
  let ?cf = "[(''web'', demo_service\<lparr>svc_env_file := None\<rparr>)]"
  have "is_ok (parse_bytes demo_host ?cfg (Some ?cf))" by code_simp
  then obtain apps builds ws where r: "parse_bytes demo_host ?cfg (Some ?cf) = Inr (apps, builds, ws)"
    by (auto simp: is_ok_iff)
  have "gm_ok ?cf" by (simp add: gm_ok_def)
  from parse_bytes_apps [OF r this] have n: "map app_name apps = [''web'']"
    by (simp add: has_source_def demo_service_def)
  show ?thesis by (intro exI conjI) (rule r, rule n)
qed

lemma parse_services_cong:
  "(\<And>n. n \<in> set names \<Longrightarrow> gm_get cf n = gm_get cf' n) \<Longrightarrow>
   parse_services h cfg cf names = parse_services h cfg cf' names"
  by (induction names) auto

text \<open>C30: an import does not depend on the order in which the services come out of the map:
  applications, build contexts, warnings and the reported error are all the same.\<close>

theorem parse_bytes_any_order:
  assumes "gm_ok cf" "gm_ok cf'" "set cf = set cf'"
  shows "parse_bytes h cfg (Some cf) = parse_bytes h cfg (Some cf')"
proof -
  have "gm_get cf = gm_get cf'"
    using assms by (intro map_of_inject_set [THEN iffD2]) (auto simp: gm_ok_def)
  moreover have "sort (map fst cf) = sort (map fst cf')"
  proof (rule sorted_distinct_set_unique)
    show "set (sort (map fst cf)) = set (sort (map fst cf'))" by (simp add: assms(3))
  qed (use assms in \<open>simp_all add: gm_ok_def\<close>)
  moreover have "cf = [] \<longleftrightarrow> cf' = []" using assms(3) by auto
  ultimately show ?thesis
    using parse_services_cong [of "sort (map fst cf')" cf cf'] by (simp add: parse_bytes_def)
qed

definition demo_config :: parse_config where
  "demo_config = \<lparr>cfg_base_dir = [], cfg_registry_addr = [], cfg_project_name = []\<rparr>"

theorem parse_bytes_any_order_witness:
  "parse_bytes demo_host demo_config (Some [(''web'', demo_service), (''db'', demo_service)]) =
   parse_bytes demo_host demo_config (Some [(''db'', demo_service), (''web'', demo_service)])"
  by (rule parse_bytes_any_order) (auto simp: gm_ok_def)

end
