(* ===== verification/Manifest.thy ===== *)
theory Manifest
  imports Entities Sizes
begin

text \<open>
  Deployment manifests (internal/manifest): loading with the secrets file, validation, and the
  overlay of an environment. The YAML decoder and the files are arguments.
\<close>

section \<open>Data (types.go)\<close>

record man_resources =
  mr_cpu :: float64
  mr_memory :: string
  mr_disk :: string

record man_compose =
  mc_file :: string
  mc_build :: "bool option"

record man_environment =
  me_resources :: "man_resources option"
  me_domains :: "string list"
  me_compose :: "man_compose option"
  me_env :: "string gomap"
  me_secrets :: "string gomap"

record manifest =
  man_version :: string
  man_project :: string
  man_resources :: "man_resources option"
  man_domains :: "string list"
  man_default_domain :: string
  man_compose :: "man_compose option"
  man_env :: "string gomap"
  man_secrets :: "string gomap"
  man_secrets_file :: string
  man_environments :: "man_environment gomap"

datatype manifest_error = ManReadFailed | ManParseFailed | SecretsOpenFailed string
  | SecretsReadFailed string | VersionRequired | BadManifestProject entity_error
  | EnvironmentNotFound string

definition to_entity_resources :: "man_resources option \<Rightarrow> size_error + resources" where
  "to_entity_resources ro =
     (case ro of None \<Rightarrow> Inr zero_resources
      | Some r \<Rightarrow>
        and_then (if mr_memory r = [] then Inr 0 else parse_size_mb (mr_memory r)) (\<lambda>mem.
        and_then (if mr_disk r = [] then Inr 0 else parse_size_mb (mr_disk r)) (\<lambda>disk.
          Inr \<lparr>res_cpu = mr_cpu r, res_memory_mb = mem, res_disk_mb = disk\<rparr>)))"

section \<open>Loading (parser.go)\<close>

definition secrets_line :: "string \<Rightarrow> string gomap \<Rightarrow> string gomap" where
  "secrets_line raw secrets =
     (let line = trim_space raw
      in if line = [] \<or> has_prefix ''#'' line then secrets
         else (case cut line ''='' of (key, value, ok) \<Rightarrow>
           if \<not> ok then secrets else gm_set (trim_space key) (trim_space value) secrets))"

definition load_secrets_file :: "string \<Rightarrow> string option \<Rightarrow> manifest_error + string gomap" where
  "load_secrets_file name file =
     (case file of None \<Rightarrow> Inl (SecretsOpenFailed name)
      | Some text \<Rightarrow> (case scan_file text of None \<Rightarrow> Inl (SecretsReadFailed name)
          | Some ls \<Rightarrow> Inr (fold secrets_line ls [])))"

definition validate_manifest :: "manifest \<Rightarrow> manifest_error option" where
  "validate_manifest m =
     (if man_version m = [] then Some VersionRequired
      else map_option BadManifestProject (validate_project_name (man_project m)))"

definition load_manifest ::
    "(string \<Rightarrow> string option) \<Rightarrow> (string \<Rightarrow> manifest option) \<Rightarrow> string \<Rightarrow> manifest_error + manifest" where
  "load_manifest files unmarshal path =
     (case files path of None \<Rightarrow> Inl ManReadFailed
      | Some data \<Rightarrow> (case unmarshal data of None \<Rightarrow> Inl ManParseFailed
      | Some m \<Rightarrow>
        and_then (if man_secrets_file m = [] then Inr m
          else let p = (if is_abs (man_secrets_file m) then man_secrets_file m
                        else filepath_join (filepath_dir path) (man_secrets_file m))
               in and_then (load_secrets_file (man_secrets_file m) (files p)) (\<lambda>secrets.
                    Inr (m\<lparr>man_secrets := gm_copy (gm_copy [] secrets) (man_secrets m)\<rparr>)))
        (\<lambda>m'. case validate_manifest m' of Some e \<Rightarrow> Inl e | None \<Rightarrow> Inr m')))"

definition overlay_resources :: "man_resources option \<Rightarrow> man_resources option \<Rightarrow> man_resources option" where
  "overlay_resources base over =
     (case over of None \<Rightarrow> base
      | Some o' \<Rightarrow>
        let b = (case base of None \<Rightarrow> \<lparr>mr_cpu = 0, mr_memory = [], mr_disk = []\<rparr> | Some b \<Rightarrow> b);
            b1 = (if mr_cpu o' > 0 then b\<lparr>mr_cpu := mr_cpu o'\<rparr> else b);
            b2 = (if mr_memory o' \<noteq> [] then b1\<lparr>mr_memory := mr_memory o'\<rparr> else b1);
            b3 = (if mr_disk o' \<noteq> [] then b2\<lparr>mr_disk := mr_disk o'\<rparr> else b2)
        in Some b3)"

definition overlay_compose :: "man_compose option \<Rightarrow> man_compose option \<Rightarrow> man_compose option" where
  "overlay_compose base over =
     (case over of None \<Rightarrow> base
      | Some o' \<Rightarrow>
        let b = (case base of None \<Rightarrow> \<lparr>mc_file = [], mc_build = None\<rparr> | Some b \<Rightarrow> b);
            b1 = (if mc_file o' \<noteq> [] then b\<lparr>mc_file := mc_file o'\<rparr> else b);
            b2 = (if mc_build o' \<noteq> None then b1\<lparr>mc_build := mc_build o'\<rparr> else b1)
        in Some b2)"

definition resolve_manifest :: "string \<Rightarrow> manifest \<Rightarrow> manifest_error + manifest" where
  "resolve_manifest env_name m =
     (if env_name = [] then Inr m
      else (case gm_get (man_environments m) env_name of
          None \<Rightarrow> Inl (EnvironmentNotFound env_name)
        | Some e \<Rightarrow>
          let r1 = m\<lparr>man_resources := overlay_resources (man_resources m) (me_resources e)\<rparr>;
              r2 = (if me_domains e \<noteq> []
                    then r1\<lparr>man_domains := me_domains e, man_default_domain := hd (me_domains e)\<rparr>
                    else r1);
              r3 = r2\<lparr>man_compose := overlay_compose (man_compose r2) (me_compose e)\<rparr>;
              r4 = (if me_env e \<noteq> [] then r3\<lparr>man_env := gm_copy (gm_copy [] (man_env r3)) (me_env e)\<rparr> else r3);
              r5 = (if me_secrets e \<noteq> []
                    then r4\<lparr>man_secrets := gm_copy (gm_copy [] (man_secrets r4)) (me_secrets e)\<rparr> else r4)
          in Inr (r5\<lparr>man_environments := []\<rparr>)))"

section \<open>Properties\<close>

definition over :: "string gomap \<Rightarrow> string gomap \<Rightarrow> string \<Rightarrow> string option" where
  "over upper base k = (case gm_get upper k of Some v \<Rightarrow> Some v | None \<Rightarrow> gm_get base k)"

definition manifest_maps_ok :: "manifest \<Rightarrow> bool" where
  "manifest_maps_ok m \<longleftrightarrow> gm_ok (man_env m) \<and> gm_ok (man_secrets m) \<and>
     (\<forall>(n, e) \<in> set (man_environments m). gm_ok (me_env e) \<and> gm_ok (me_secrets e))"

lemma gm_copy_over: "gm_ok base \<Longrightarrow> gm_ok upper \<Longrightarrow> gm_get (gm_copy (gm_copy [] base) upper) k = over upper base k"
  by (simp add: gm_get_copy over_def split: option.split)

lemma over_Nil [simp]: "over [] base k = gm_get base k"
  by (simp add: over_def)

lemma secrets_ok: "load_secrets_file n f = Inr s \<Longrightarrow> gm_ok s"
proof -
  have line: "gm_ok m \<Longrightarrow> gm_ok (secrets_line l m)" for l and m :: "string gomap"
    by (auto simp: secrets_line_def Let_def split: prod.split)
  have "gm_ok (fold secrets_line ls m)" if "gm_ok m" for ls and m :: "string gomap"
    using that by (induction ls arbitrary: m) (auto simp: line)
  then show "load_secrets_file n f = Inr s \<Longrightarrow> gm_ok s"
    by (auto simp: load_secrets_file_def split: option.splits)
qed

lemma load_manifest_ok:
  assumes "files path = Some data" "unmarshal data = Some m0"
    and "load_secrets_file (man_secrets_file m0)
      (files (filepath_join (filepath_dir path) (man_secrets_file m0))) = Inr s"
    and "man_secrets_file m0 \<noteq> []" "\<not> is_abs (man_secrets_file m0)"
    and "man_version m0 \<noteq> []" "plain_component (man_project m0)"
  shows "is_ok (load_manifest files unmarshal path)"
  using assms by (simp add: load_manifest_def validate_manifest_def)

text \<open>A manifest that loads has a version and a plain project name, and its secrets are the
  inline ones over those of the secrets file, which is looked up beside the manifest.\<close>

theorem load_manifest_result:
  assumes "load_manifest files unmarshal path = Inr m"
    and "files path = Some data" "unmarshal data = Some m0" "gm_ok (man_secrets m0)"
    and "man_secrets_file m0 \<noteq> []" "\<not> is_abs (man_secrets_file m0)"
  shows "man_version m \<noteq> [] \<and> plain_component (man_project m) \<and>
    (\<exists>text ls. files (filepath_join (filepath_dir path) (man_secrets_file m0)) = Some text \<and>
       scan_file text = Some ls \<and>
       (\<forall>k. gm_get (man_secrets m) k = over (man_secrets m0) (fold secrets_line ls []) k)) \<and>
    m = m0\<lparr>man_secrets := man_secrets m\<rparr>"
proof -
  let ?f = "files (filepath_join (filepath_dir path) (man_secrets_file m0))"
  from assms obtain s where s: "load_secrets_file (man_secrets_file m0) ?f = Inr s"
    and m: "m = m0\<lparr>man_secrets := gm_copy (gm_copy [] s) (man_secrets m0)\<rparr>"
    and v: "validate_manifest m = None"
    by (auto simp: load_manifest_def and_then_Inr split: option.splits)
  have "man_version m \<noteq> [] \<and> plain_component (man_project m)"
    using v by (auto simp: validate_manifest_def split: if_splits)
  moreover obtain contents ls where "?f = Some contents" "scan_file contents = Some ls" "s = fold secrets_line ls []"
    using s by (auto simp: load_secrets_file_def split: option.splits)
  moreover have "gm_get (man_secrets m) k = over (man_secrets m0) s k" for k
    using gm_copy_over [OF secrets_ok [OF s] assms(4)] by (simp add: m)
  ultimately show ?thesis using m by auto
qed

definition demo_manifest :: manifest where
  "demo_manifest = \<lparr>man_version = ''1'', man_project = ''web'', man_resources = Some \<lparr>mr_cpu = 2, mr_memory = ''4G'', mr_disk = []\<rparr>,
     man_domains = [''web.local''], man_default_domain = ''web.local'', man_compose = None, man_env = [(''A'', ''1'')],
     man_secrets = [(''P'', ''inline'')], man_secrets_file = ''.secrets'',
     man_environments = [(''prod'', \<lparr>me_resources = Some \<lparr>mr_cpu = 0, mr_memory = ''8G'', mr_disk = []\<rparr>,
        me_domains = [''web.example.com''], me_compose = None, me_env = [(''A'', ''2'')], me_secrets = []\<rparr>)]\<rparr>"

definition demo_files :: "string \<Rightarrow> string option" where
  "demo_files p = (if p = ''/p/goship.yml'' then Some ''m'' else Some [])"

theorem load_manifest_result_witness:
  "\<exists>m. load_manifest demo_files (\<lambda>_. Some demo_manifest) ''/p/goship.yml'' = Inr m \<and> plain_component (man_project m)"
proof -
  let ?l = "load_manifest demo_files (\<lambda>_. Some demo_manifest) ''/p/goship.yml''"
  have f: "demo_files ''/p/goship.yml'' = Some ''m''" by (simp add: demo_files_def)
  have scan: "scan_file [] = Some []" "scan_file ''m'' = Some [''m'']"
    by (simp_all add: scan_file_def scan_lines_def drop_cr_def max_token_def)
  have "is_ok (load_secrets_file ''.secrets'' (demo_files p))" for p
  proof -
    have "demo_files p = Some ''m'' \<or> demo_files p = Some []" by (simp add: demo_files_def)
    then show ?thesis by (elim disjE) (simp_all add: load_secrets_file_def scan)
  qed
  then obtain sec where "load_secrets_file ''.secrets''
      (demo_files (filepath_join (filepath_dir ''/p/goship.yml'') ''.secrets'')) = Inr sec"
    unfolding is_ok_iff by blast
  then have "is_ok ?l"
    using load_manifest_ok [of demo_files "''/p/goship.yml''" "''m''" "\<lambda>_. Some demo_manifest"
        demo_manifest sec] f
    by (simp add: demo_manifest_def is_abs_def plain_component_def)
  then obtain m where m: "?l = Inr m" by (auto simp: is_ok_iff)
  have "gm_ok (man_secrets demo_manifest)" "man_secrets_file demo_manifest \<noteq> []"
      "\<not> is_abs (man_secrets_file demo_manifest)"
    by (simp_all add: demo_manifest_def gm_ok_def is_abs_def)
  from load_manifest_result [OF m f _ this] m show ?thesis by blast
qed



end
