(* ===== verification/Vault.thy ===== *)
theory Vault
  imports Paths
begin

text \<open>
  Secret values (internal/vault): encryption of environment variables (vault.go) and the master key
  file (keyring.go). Base64 and hexadecimal are written out on bytes; SHA-256 and the AEAD cipher
  are arguments, what the code relies on is that opening undoes sealing. The interface \<open>codec\<close>
  is what the vault needs of an encoding.
\<close>

section \<open>Encodings\<close>

locale codec =
  fixes enc :: "'a \<Rightarrow> string" and dec :: "string \<Rightarrow> 'a option"
  assumes dec_enc: "dec (enc x) = Some x"
begin

lemma enc_inj: "enc x = enc y \<Longrightarrow> x = y"
  using dec_enc by (metis option.inject)

lemma dec_enc_eq: "dec (enc x) = Some y \<longleftrightarrow> x = y"
  by (simp add: dec_enc)

end

text \<open>The letter of the base64 alphabet with a given number, and back.\<close>

definition b64_char :: "nat \<Rightarrow> char" where
  "b64_char n = (if n < 26 then char_of (65 + n) else if n < 52 then char_of (97 + (n - 26))
     else if n < 62 then char_of (48 + (n - 52)) else if n = 62 then CHR ''+'' else CHR ''/'')"

definition b64_val :: "char \<Rightarrow> nat option" where
  "b64_val c = (let n = (of_char c :: nat) in
     if 65 \<le> n \<and> n \<le> 90 then Some (n - 65) else if 97 \<le> n \<and> n \<le> 122 then Some (n - 97 + 26)
     else if 48 \<le> n \<and> n \<le> 57 then Some (n - 48 + 52) else if n = 43 then Some 62
     else if n = 47 then Some 63 else None)"

abbreviation byte :: "char \<Rightarrow> nat" where "byte c \<equiv> of_char c"

fun b64_encode :: "string \<Rightarrow> string" where
  "b64_encode [] = []"
| "b64_encode [a] = [b64_char (byte a div 4), b64_char (byte a mod 4 * 16), CHR ''='', CHR ''='']"
| "b64_encode [a, b] = [b64_char (byte a div 4), b64_char (byte a mod 4 * 16 + byte b div 16),
     b64_char (byte b mod 16 * 4), CHR ''='']"
| "b64_encode (a # b # c # s) = b64_char (byte a div 4) # b64_char (byte a mod 4 * 16 + byte b div 16)
     # b64_char (byte b mod 16 * 4 + byte c div 64) # b64_char (byte c mod 64) # b64_encode s"

fun b64_groups :: "string \<Rightarrow> string option" where
  "b64_groups [] = Some []"
| "b64_groups (p # q # r # t # s) =
     (case (b64_val p, b64_val q) of
        (Some x, Some y) \<Rightarrow>
          if r = CHR ''='' then (if t = CHR ''='' \<and> s = [] then Some [char_of (x * 4 + y div 16)] else None)
          else (case b64_val r of None \<Rightarrow> None
            | Some z \<Rightarrow>
              if t = CHR ''='' then
                (if s = [] then Some [char_of (x * 4 + y div 16), char_of (y mod 16 * 16 + z div 4)] else None)
              else (case (b64_val t, b64_groups s) of
                (Some w, Some rest) \<Rightarrow> Some (char_of (x * 4 + y div 16) # char_of (y mod 16 * 16 + z div 4)
                   # char_of (z mod 4 * 64 + w) # rest)
              | _ \<Rightarrow> None))
      | _ \<Rightarrow> None)"
| "b64_groups _ = None"

text \<open>The decoder passes over line breaks.\<close>

definition b64_decode :: "string \<Rightarrow> string option" where
  "b64_decode s = b64_groups (filter (\<lambda>c. c \<noteq> CHR 0x0A \<and> c \<noteq> CHR 0x0D) s)"

definition hex_char :: "nat \<Rightarrow> char" where
  "hex_char n = (if n < 10 then char_of (48 + n) else char_of (97 + (n - 10)))"

definition hex_val :: "char \<Rightarrow> nat option" where
  "hex_val c = (let n = (of_char c :: nat) in
     if 48 \<le> n \<and> n \<le> 57 then Some (n - 48) else if 97 \<le> n \<and> n \<le> 102 then Some (n - 97 + 10)
     else if 65 \<le> n \<and> n \<le> 70 then Some (n - 65 + 10) else None)"

fun hex_encode :: "string \<Rightarrow> string" where
  "hex_encode [] = []"
| "hex_encode (c # s) = hex_char (byte c div 16) # hex_char (byte c mod 16) # hex_encode s"

fun hex_decode :: "string \<Rightarrow> string option" where
  "hex_decode [] = Some []"
| "hex_decode [c] = None"
| "hex_decode (p # q # s) =
     (case (hex_val p, hex_val q, hex_decode s) of
        (Some x, Some y, Some rest) \<Rightarrow> Some (char_of (x * 16 + y) # rest) | _ \<Rightarrow> None)"

lemma b64_val_char [simp]: "n < 64 \<Longrightarrow> b64_val (b64_char n) = Some n"
  by (simp add: b64_val_def b64_char_def Let_def) presburger

lemma b64_val_none: "b64_val CHR ''='' = None" "b64_val CHR 0x0A = None" "b64_val CHR 0x0D = None"
  by (simp_all add: b64_val_def)

lemma b64_char_plain [simp]:
  "n < 64 \<Longrightarrow> b64_char n \<noteq> CHR ''=''" "n < 64 \<Longrightarrow> b64_char n \<noteq> CHR 0x0A" "n < 64 \<Longrightarrow> b64_char n \<noteq> CHR 0x0D"
  using b64_val_char b64_val_none by (metis option.distinct(1))+

lemma byte_bound: "byte c < 256"
  using of_char_mod_256 [of c] by (metis mod_less_divisor zero_less_numeral)

lemma byte_parts [simp]: "byte c div 4 < 64" "byte c mod 4 * 16 < 64"
  "byte c mod 16 * 4 < 64" "byte c mod 64 < 64"
  "byte c div 16 < 16" "byte c mod 16 < 16" "byte c div 64 < 4"
  using byte_bound [of c] by (simp_all add: div_less_iff_less_mult)

lemma pack:
  fixes a q m :: nat
  shows "q < m \<Longrightarrow> (a * m + q) div m = a" "q < m \<Longrightarrow> (a * m + q) mod m = q"
    and "q < m \<Longrightarrow> a < k \<Longrightarrow> a * m + q < k * m"
proof -
  show "a * m + q < k * m" if "q < m" "a < k"
  proof -
    have "a * m + q < Suc a * m" using that(1) by simp
    also have "\<dots> \<le> k * m" using that(2) by (intro mult_right_mono) simp_all
    finally show ?thesis .
  qed
qed simp_all

lemma byte_regroup [simp]:
  "byte a mod 4 * 16 + byte b div 16 < 64" "byte a mod 16 * 4 + byte b div 64 < 64"
  "(byte a mod 4 * 16 + byte b div 16) div 16 = byte a mod 4"
  "(byte a mod 4 * 16 + byte b div 16) mod 16 = byte b div 16"
  "(byte a mod 16 * 4 + byte b div 64) div 4 = byte a mod 16"
  "(byte a mod 16 * 4 + byte b div 64) mod 4 = byte b div 64"
proof -
  note y = byte_parts(5) [of b] and z = byte_parts(7) [of b]
  show "byte a mod 4 * 16 + byte b div 16 < 64" using pack(3) [OF y, of "byte a mod 4" 4] by simp
  show "byte a mod 16 * 4 + byte b div 64 < 64" using pack(3) [OF z, of "byte a mod 16" 16] by simp
  show "(byte a mod 4 * 16 + byte b div 16) div 16 = byte a mod 4" by (rule pack(1) [OF y])
  show "(byte a mod 4 * 16 + byte b div 16) mod 16 = byte b div 16" by (rule pack(2) [OF y])
  show "(byte a mod 16 * 4 + byte b div 64) div 4 = byte a mod 16" by (rule pack(1) [OF z])
  show "(byte a mod 16 * 4 + byte b div 64) mod 4 = byte b div 64" by (rule pack(2) [OF z])
qed

lemma b64_groups_encode: "b64_groups (b64_encode s) = Some s"
  by (induction s rule: b64_encode.induct) (simp_all add: byte_bound)

lemma b64_encode_plain: "c \<in> set (b64_encode s) \<Longrightarrow> c \<noteq> CHR 0x0A \<and> c \<noteq> CHR 0x0D"
  by (induction s rule: b64_encode.induct) (auto simp: byte_bound)

lemma b64_decode_encode: "b64_decode (b64_encode s) = Some s"
proof -
  have "filter (\<lambda>c. c \<noteq> CHR 0x0A \<and> c \<noteq> CHR 0x0D) (b64_encode s) = b64_encode s"
    using b64_encode_plain by (auto simp: filter_id_conv)
  then show ?thesis by (simp add: b64_decode_def b64_groups_encode)
qed

lemma hex_val_char [simp]: "n < 16 \<Longrightarrow> hex_val (hex_char n) = Some n"
  by (auto simp: hex_val_def hex_char_def Let_def)

lemma hex_decode_encode: "hex_decode (hex_encode s) = Some s"
  by (induction s) simp_all

interpretation b64: codec b64_encode b64_decode
  by unfold_locales (rule b64_decode_encode)

interpretation hex: codec hex_encode hex_decode
  by unfold_locales (rule hex_decode_encode)

lemma hex_val_space: "is_space c \<Longrightarrow> hex_val c = None"
  by (auto simp: is_space_def hex_val_def)

lemma hex_encode_plain: "c \<in> set (hex_encode s) \<Longrightarrow> \<not> is_space c"
proof (induction s)
  case (Cons d s)
  have "\<not> is_space (hex_char n)" if "n < 16" for n
    using hex_val_char [OF that] hex_val_space by force
  then show ?case using Cons by auto
qed simp

lemma trim_hex: "trim_space (hex_encode s) = hex_encode s"
proof (cases "hex_encode s = []")
  case False
  then show ?thesis
    using hex_encode_plain [of _ s] by (intro trim_space_id) simp_all
qed simp

section \<open>The vault (vault.go)\<close>

record aead =
  ae_nonce_size :: nat
  ae_seal :: "string \<Rightarrow> string \<Rightarrow> string"
  ae_open :: "string \<Rightarrow> string \<Rightarrow> string option"

datatype vault_error = EmptyMasterKey | CipherFailed | NonceFailed | NotEncrypted | BadBase64
  | CiphertextTooShort | DecryptFailed

definition encrypted_prefix :: string where "encrypted_prefix = ''encrypted:''"

definition is_encrypted :: "string \<Rightarrow> bool" where
  "is_encrypted value = has_prefix encrypted_prefix value"

definition new_vault ::
    "(string \<Rightarrow> string) \<Rightarrow> (string \<Rightarrow> aead option) \<Rightarrow> string \<Rightarrow> vault_error + aead" where
  "new_vault sha256 new_gcm master =
     (if master = [] then Inl EmptyMasterKey
      else (case new_gcm (sha256 master) of None \<Rightarrow> Inl CipherFailed | Some a \<Rightarrow> Inr a))"

text \<open>\<open>Seal\<close> appends the ciphertext to the nonce; \<open>rand\<close> are the random bytes, if any come.\<close>

definition encrypt :: "aead \<Rightarrow> string option \<Rightarrow> string \<Rightarrow> vault_error + string" where
  "encrypt v rand plaintext =
     (case rand of None \<Rightarrow> Inl NonceFailed
      | Some nonce \<Rightarrow> Inr (encrypted_prefix @ b64_encode (nonce @ ae_seal v nonce plaintext)))"

definition decrypt :: "aead \<Rightarrow> string \<Rightarrow> vault_error + string" where
  "decrypt v value =
     (if \<not> is_encrypted value then Inl NotEncrypted
      else (case b64_decode (trim_prefix encrypted_prefix value) of
          None \<Rightarrow> Inl BadBase64
        | Some data \<Rightarrow>
          if length data < ae_nonce_size v then Inl CiphertextTooShort
          else (case ae_open v (take (ae_nonce_size v) data) (drop (ae_nonce_size v) data) of
              None \<Rightarrow> Inl DecryptFailed | Some p \<Rightarrow> Inr p)))"

section \<open>The master key (keyring.go)\<close>

datatype key_file = KeyMissing | KeyUnreadable | KeyData string

datatype keyring_error = KeyReadFailed | KeyDecodeFailed | KeyRandFailed | KeyDirFailed | KeyWriteFailed

definition master_key_len :: nat where "master_key_len = 32"

text \<open>
  \<open>LoadOrCreateMasterKey\<close> on the key file: the random bytes, whether the directory can be made and
  what the write does (\<open>None\<close>: it succeeds, \<open>Some f\<close>: it fails and leaves \<open>f\<close>) are arguments.
\<close>

definition load_or_create_master_key ::
    "string option \<Rightarrow> bool \<Rightarrow> key_file option \<Rightarrow> key_file \<Rightarrow> key_file \<times> (keyring_error + string)" where
  "load_or_create_master_key rand mkdir_ok write file =
     (case file of
        KeyData data \<Rightarrow> (file, case hex_decode (trim_space data) of
            None \<Rightarrow> Inl KeyDecodeFailed | Some k \<Rightarrow> Inr k)
      | KeyUnreadable \<Rightarrow> (file, Inl KeyReadFailed)
      | KeyMissing \<Rightarrow>
        (case rand of None \<Rightarrow> (file, Inl KeyRandFailed)
         | Some key \<Rightarrow>
           if \<not> mkdir_ok then (file, Inl KeyDirFailed)
           else (case write of Some f \<Rightarrow> (f, Inl KeyWriteFailed)
                 | None \<Rightarrow> (KeyData (hex_encode key), Inr key))))"

section \<open>Properties\<close>

definition aead_ok :: "aead \<Rightarrow> bool" where
  "aead_ok v \<longleftrightarrow> (\<forall>n p. length n = ae_nonce_size v \<longrightarrow> ae_open v n (ae_seal v n p) = Some p)"

text \<open>C32: what the vault encrypts under any nonce of the right length carries the prefix that marks
  encrypted values and decrypts to the plaintext, whatever bytes it has; and everything that
  decrypts at all is the encoding of a nonce and a ciphertext that the cipher opens.\<close>

theorem decrypt_encrypt:
  assumes "aead_ok v" "length nonce = ae_nonce_size v" "encrypt v (Some nonce) plaintext = Inr value"
  shows "is_encrypted value \<and> decrypt v value = Inr plaintext \<and>
    (\<forall>value' p. decrypt v value' = Inr p \<longrightarrow>
      (\<exists>e n c. value' = encrypted_prefix @ e \<and> b64_decode e = Some (n @ c) \<and>
         length n = ae_nonce_size v \<and> ae_open v n c = Some p))"
proof -
  have v: "value = encrypted_prefix @ b64_encode (nonce @ ae_seal v nonce plaintext)"
    using assms(3) by (simp add: encrypt_def)
  have "decrypt v value = Inr plaintext"
    using assms(1,2) by (simp add: v decrypt_def is_encrypted_def b64.dec_enc aead_ok_def)
  moreover have "\<exists>e n c. value' = encrypted_prefix @ e \<and> b64_decode e = Some (n @ c) \<and>
         length n = ae_nonce_size v \<and> ae_open v n c = Some p" if d: "decrypt v value' = Inr p" for value' p
  proof -
    obtain e where e: "value' = encrypted_prefix @ e"
      using d by (auto simp: decrypt_def is_encrypted_def has_prefix_iff split: if_splits)
    then obtain data where "b64_decode e = Some data" "ae_nonce_size v \<le> length data"
      "ae_open v (take (ae_nonce_size v) data) (drop (ae_nonce_size v) data) = Some p"
      using d by (auto simp: decrypt_def split: if_splits option.splits)
    then show ?thesis using e
      by (intro exI [of _ e] exI [of _ "take (ae_nonce_size v) data"] exI [of _ "drop (ae_nonce_size v) data"]) simp
  qed
  ultimately show ?thesis by (simp add: v is_encrypted_def)
qed

definition demo_aead :: aead where
  "demo_aead = \<lparr>ae_nonce_size = 2, ae_seal = (\<lambda>n p. rev p @ n),
     ae_open = (\<lambda>n c. if drop (length c - length n) c = n then Some (rev (take (length c - length n) c)) else None)\<rparr>"

lemma demo_aead_ok: "aead_ok demo_aead"
  by (simp add: aead_ok_def demo_aead_def)

theorem decrypt_encrypt_witness:
  "\<exists>value. encrypt demo_aead (Some ''ab'') ''secret'' = Inr value \<and> decrypt demo_aead value = Inr ''secret''"
proof -
  have n: "length ''ab'' = ae_nonce_size demo_aead" by (simp add: demo_aead_def)
  obtain enc_text where v: "encrypt demo_aead (Some ''ab'') ''secret'' = Inr enc_text" by (simp add: encrypt_def)
  from decrypt_encrypt [OF demo_aead_ok n v] v show ?thesis by blast
qed

text \<open>Once a master key was made and written, every later start loads that very key whatever
  the random source does, the file is not touched again, and so a value encrypted before is
  decrypted after.\<close>

theorem master_key_stable:
  assumes "load_or_create_master_key (Some key) True None KeyMissing = (f, r)"
    and "new_vault sha256 new_gcm key = Inr v" "aead_ok v" "length nonce = ae_nonce_size v"
  shows "r = Inr key \<and> load_or_create_master_key rand mk w f = (f, Inr key) \<and>
    (\<exists>value. encrypt v (Some nonce) p = Inr value \<and>
       (case load_or_create_master_key rand mk w f of (_, Inr k) \<Rightarrow>
          (case new_vault sha256 new_gcm k of Inr v' \<Rightarrow> decrypt v' value = Inr p | _ \<Rightarrow> False)
        | _ \<Rightarrow> False))"
proof -
  have f: "f = KeyData (hex_encode key)" "r = Inr key"
    using assms(1) by (simp_all add: load_or_create_master_key_def)
  then have l: "load_or_create_master_key rand mk w f = (f, Inr key)"
    by (simp add: load_or_create_master_key_def trim_hex hex.dec_enc)
  have "decrypt v (encrypted_prefix @ b64_encode (nonce @ ae_seal v nonce p)) = Inr p"
    using assms(3,4) by (simp add: decrypt_def is_encrypted_def b64.dec_enc aead_ok_def)
  then show ?thesis
    using f l assms(2) by (simp add: encrypt_def)
qed

theorem master_key_stable_witness:
  "load_or_create_master_key None False (Some KeyUnreadable)
     (fst (load_or_create_master_key (Some ''0123'') True None KeyMissing)) =
   (KeyData (hex_encode ''0123''), Inr ''0123'')"
proof -
  have 1: "load_or_create_master_key (Some ''0123'') True None KeyMissing = (KeyData (hex_encode ''0123''), Inr ''0123'')"
    by (simp add: load_or_create_master_key_def)
  have 2: "new_vault id (\<lambda>_. Some demo_aead) ''0123'' = Inr demo_aead" by (simp add: new_vault_def)
  have 3: "length ''ab'' = ae_nonce_size demo_aead" by (simp add: demo_aead_def)
  show ?thesis
    using master_key_stable [OF 1 2 demo_aead_ok 3] 1 by simp
qed

end
