(* ===== verification/Protocol.thy ===== *)
theory Protocol
  imports Entities Vault
begin

text \<open>
  The messages between the host and the agent in the VM (pkg/api/v1/messages.go) and the file
  system of the guest. A message is the decoded JSON value; the texts of the errors an agent
  reports are the constructors of \<open>agent_error\<close>, one per place that makes one. A file system maps
  cleaned paths to contents.
\<close>

section \<open>Messages\<close>

definition action_deploy :: string where "action_deploy = ''deploy''"
definition action_stop :: string where "action_stop = ''stop''"
definition action_remove :: string where "action_remove = ''remove''"
definition action_status :: string where "action_status = ''status''"
definition action_ping :: string where "action_ping = ''ping''"
definition action_logs :: string where "action_logs = ''logs''"
definition action_update_init :: string where "action_update_init = ''update-init''"
definition action_upload_binary :: string where "action_upload_binary = ''upload-binary''"
definition action_upload_image :: string where "action_upload_image = ''upload-image''"

lemmas action_defs = action_deploy_def action_stop_def action_remove_def action_status_def
  action_ping_def action_logs_def action_update_init_def action_upload_binary_def
  action_upload_image_def

record init_command =
  cmd_action :: string
  cmd_app :: "app_spec option"
  cmd_app_name :: string
  cmd_lines :: int
  cmd_log_file :: string
  cmd_phase :: string
  cmd_data :: string
  cmd_size :: int
  cmd_checksum :: string
  cmd_file_name :: string
  cmd_image_ref :: string

definition blank_command :: "string \<Rightarrow> init_command" where
  "blank_command action = \<lparr>cmd_action = action, cmd_app = None, cmd_app_name = [], cmd_lines = 0,
     cmd_log_file = [], cmd_phase = [], cmd_data = [], cmd_size = 0, cmd_checksum = [],
     cmd_file_name = [], cmd_image_ref = []\<rparr>"

record vm_info =
  vi_hostname :: string
  vi_ip_addresses :: "string list"
  vi_docker_version :: string
  vi_uptime_seconds :: int

record app_status =
  as_name :: string
  as_execution_mode :: execution_mode
  as_id :: string
  as_image :: string
  as_binary :: string
  as_state :: app_state
  as_status :: string
  as_ports :: "port_mapping list"
  as_started_at :: "timestamp option"
  as_restart_count :: int

record container_status =
  cs_name :: string
  cs_id :: string
  cs_image :: string
  cs_state :: app_state
  cs_status :: string
  cs_ports :: "port_mapping list"
  cs_started_at :: "timestamp option"

definition to_container_status :: "app_status \<Rightarrow> container_status" where
  "to_container_status s = \<lparr>cs_name = as_name s, cs_id = as_id s, cs_image = as_image s,
     cs_state = as_state s, cs_status = as_status s, cs_ports = as_ports s,
     cs_started_at = as_started_at s\<rparr>"

datatype upload_file_error = FileNameRequired | FileNameNotComponent string

datatype executor_error = NoExecutor execution_mode | UnknownMode string | DockerError string
  | ProcessBinaryRequired | BinaryMissing string | LogFileFailed | StartFailed
  | ProcessNotFound string | KillFailed | AppNotFound string | NoLogs string | LogReadFailed
  | ExecNotSupported | BadAppName entity_error

datatype agent_error = InvalidJson | UnknownAction string
  | AppSpecRequired | BadName entity_error | ImageRequired | DockerUnavailable | BinaryRequired
  | ExecutorFailed executor_error | AppLogsFailed executor_error
  | LogFileOutside | ReadLogsFailed
  | UnknownPhase string string
  | BadFileName upload_file_error | ImageRefRequired | SizeNotPositive | ChecksumRequired
  | MkdirFailedAt string | CreateTempFailed | NoTransfer string | DecodeDataFailed | WriteDataFailed
  | CloseFailed | ChecksumFailed | ChecksumMismatch string string
  | BackupFailed | InstallFailed | NoDockerForImage | OpenImageFailed | LoadImageFailed

record init_response =
  resp_error :: "agent_error option"
  resp_vm_info :: "vm_info option"
  resp_logs :: string
  resp_apps :: "app_status list"
  resp_containers :: "container_status list"
  resp_bytes_received :: int

definition ok_response :: init_response where
  "ok_response = \<lparr>resp_error = None, resp_vm_info = None, resp_logs = [], resp_apps = [],
     resp_containers = [], resp_bytes_received = 0\<rparr>"

definition error_response :: "agent_error \<Rightarrow> init_response" where
  "error_response e = ok_response\<lparr>resp_error := Some e\<rparr>"

definition resp_ok :: "init_response \<Rightarrow> bool" where
  "resp_ok r \<longleftrightarrow> resp_error r = None"

lemma resp_ok_simps [simp]: "resp_ok ok_response" "\<not> resp_ok (error_response e)"
  "resp_ok (ok_response\<lparr>resp_bytes_received := n\<rparr>)" "resp_error ok_response = None"
  "resp_error (error_response e) = Some e"
  by (simp_all add: resp_ok_def ok_response_def error_response_def)

section \<open>Files of the guest\<close>

type_synonym guest_fs = "string \<Rightarrow> string option"

definition fs_write :: "string \<Rightarrow> string \<Rightarrow> guest_fs \<Rightarrow> guest_fs" where
  "fs_write p content fs = fs(p := Some content)"

definition fs_remove :: "string \<Rightarrow> guest_fs \<Rightarrow> guest_fs" where
  "fs_remove p fs = fs(p := None)"

definition fs_append :: "string \<Rightarrow> string \<Rightarrow> guest_fs \<Rightarrow> guest_fs" where
  "fs_append p content fs = fs(p := Some ((case fs p of None \<Rightarrow> [] | Some c \<Rightarrow> c) @ content))"

text \<open>\<open>os.Rename\<close> where it succeeds: the target is replaced.\<close>

definition fs_rename :: "string \<Rightarrow> string \<Rightarrow> guest_fs \<Rightarrow> guest_fs" where
  "fs_rename p q fs = (fs(p := None))(q := fs p)"

lemmas fs_defs = fs_write_def fs_remove_def fs_append_def fs_rename_def

end
