(* ===== verification/Chunked.thy ===== *)
theory Chunked
  imports Protocol
begin

text \<open>
  The chunked transfer protocol: the three receivers in the guest (internal/init/init.go,
  update-init, upload-binary and upload-image) and the two senders on the host
  (internal/agent/runtime/libvirt/runtime.go). SHA-256 in hexadecimal is an argument; every call
  of the operating system has its outcome in a record \<open>transfer_io\<close>.
\<close>

section \<open>State\<close>

record update_state =
  us_tmp :: string
  us_total_size :: int
  us_checksum :: string
  us_received :: int

record upload_state =
  ul_tmp :: string
  ul_dest_dir :: string
  ul_file_name :: string
  ul_size :: int
  ul_checksum :: string
  ul_received :: int

record image_upload_state =
  iu_tmp :: string
  iu_image_ref :: string
  iu_size :: int
  iu_checksum :: string
  iu_received :: int

record guest =
  g_init_dir :: string
  g_fs :: guest_fs
  g_docker :: bool
  g_images :: "string list"
  g_update :: "update_state option"
  g_upload :: "upload_state option"
  g_image_upload :: "image_upload_state option"

text \<open>
  \<open>io_write\<close> is \<open>None\<close> when the whole chunk is written and the number of bytes that got through
  when the write fails. A rename fails by itself when its source does not exist.
\<close>

record transfer_io =
  io_mkdir :: bool
  io_create :: bool
  io_write :: "nat option"
  io_close :: bool
  io_hash :: bool
  io_backup :: bool
  io_install :: bool
  io_restore :: bool
  io_open :: bool
  io_load :: bool

definition io_fine :: transfer_io where
  "io_fine = \<lparr>io_mkdir = True, io_create = True, io_write = None, io_close = True, io_hash = True,
     io_backup = True, io_install = True, io_restore = True, io_open = True, io_load = True\<rparr>"

definition default_binaries_dir :: string where "default_binaries_dir = ''/opt/goship/binaries''"

definition image_tmp_path :: string where "image_tmp_path = ''/tmp/goship-image-upload.tar.gz''"

definition phase_begin :: string where "phase_begin = ''begin''"
definition phase_data :: string where "phase_data = ''data''"
definition phase_finish :: string where "phase_finish = ''finish''"

lemmas phase_defs = phase_begin_def phase_data_def phase_finish_def

definition fail :: "'s \<Rightarrow> agent_error \<Rightarrow> 's \<times> init_response" where
  "fail s e = (s, error_response e)"

section \<open>Update of the agent\<close>

definition cleanup_update :: "guest \<Rightarrow> guest" where
  "cleanup_update g = (case g_update g of None \<Rightarrow> g
     | Some u \<Rightarrow> g\<lparr>g_fs := fs_remove (us_tmp u) (g_fs g), g_update := None\<rparr>)"

definition handle_update_begin :: "transfer_io \<Rightarrow> init_command \<Rightarrow> guest \<Rightarrow> guest \<times> init_response" where
  "handle_update_begin io cmd g =
     (if cmd_size cmd \<le> 0 then fail g SizeNotPositive
      else if cmd_checksum cmd = [] then fail g ChecksumRequired
      else let g1 = cleanup_update g
           in if \<not> io_mkdir io then fail g1 (MkdirFailedAt (g_init_dir g))
              else let tmp = filepath_join (g_init_dir g) ''goship-init.new''
                   in if \<not> io_create io then fail g1 CreateTempFailed
                      else (g1\<lparr>g_fs := fs_write tmp [] (g_fs g1),
                               g_update := Some \<lparr>us_tmp = tmp, us_total_size = cmd_size cmd,
                                 us_checksum = cmd_checksum cmd, us_received = 0\<rparr>\<rparr>, ok_response))"

definition handle_update_data :: "transfer_io \<Rightarrow> init_command \<Rightarrow> guest \<Rightarrow> guest \<times> init_response" where
  "handle_update_data io cmd g =
     (case g_update g of None \<Rightarrow> fail g (NoTransfer ''update'')
      | Some u \<Rightarrow>
        (case b64_decode (cmd_data cmd) of None \<Rightarrow> fail (cleanup_update g) DecodeDataFailed
         | Some decoded \<Rightarrow>
           (case io_write io of
              Some n \<Rightarrow> fail (cleanup_update (g\<lparr>g_fs := fs_append (us_tmp u) (take n decoded) (g_fs g)\<rparr>)) WriteDataFailed
            | None \<Rightarrow> let u' = u\<lparr>us_received := us_received u + int (length decoded)\<rparr>
                      in (g\<lparr>g_fs := fs_append (us_tmp u) decoded (g_fs g), g_update := Some u'\<rparr>,
                          ok_response\<lparr>resp_bytes_received := us_received u'\<rparr>))))"

definition handle_update_finish ::
    "(string \<Rightarrow> string) \<Rightarrow> transfer_io \<Rightarrow> init_command \<Rightarrow> guest \<Rightarrow> guest \<times> init_response" where
  "handle_update_finish sha io cmd g =
     (case g_update g of None \<Rightarrow> fail g (NoTransfer ''update'')
      | Some u \<Rightarrow>
        let tmp = us_tmp u;
            dropped = g\<lparr>g_update := None, g_fs := fs_remove tmp (g_fs g)\<rparr>
        in if \<not> io_close io then fail dropped CloseFailed
           else (case (if io_hash io then g_fs g tmp else None) of None \<Rightarrow> fail dropped ChecksumFailed
            | Some content \<Rightarrow>
              if sha content \<noteq> us_checksum u then fail dropped (ChecksumMismatch (us_checksum u) (sha content))
              else let cur = filepath_join (g_init_dir g) ''goship-init'';
                       old = filepath_join (g_init_dir g) ''goship-init.old'';
                       fs1 = fs_remove old (g_fs g)
                   in if fs1 cur \<noteq> None \<and> \<not> io_backup io
                      then fail (g\<lparr>g_update := None, g_fs := fs_remove tmp fs1\<rparr>) BackupFailed
                      else let fs2 = (if fs1 cur \<noteq> None then fs_rename cur old fs1 else fs1)
                           in if \<not> io_install io
                              then fail (g\<lparr>g_update := None,
                                  g_fs := (if fs2 old \<noteq> None \<and> io_restore io then fs_rename old cur fs2 else fs2)\<rparr>)
                                  InstallFailed
                              else (g\<lparr>g_update := None, g_fs := fs_rename tmp cur fs2\<rparr>, ok_response)))"

definition handle_update_init ::
    "(string \<Rightarrow> string) \<Rightarrow> transfer_io \<Rightarrow> init_command \<Rightarrow> guest \<Rightarrow> guest \<times> init_response" where
  "handle_update_init sha io cmd g =
     (if cmd_phase cmd = phase_begin then handle_update_begin io cmd g
      else if cmd_phase cmd = phase_data then handle_update_data io cmd g
      else if cmd_phase cmd = phase_finish then handle_update_finish sha io cmd g
      else fail g (UnknownPhase ''update'' (cmd_phase cmd)))"

section \<open>Upload of a binary\<close>

definition validate_upload_file_name :: "string \<Rightarrow> upload_file_error option" where
  "validate_upload_file_name name =
     (if name = [] then Some FileNameRequired
      else if name = ''.'' \<or> name = ''..'' \<or> CHR ''/'' \<in> set name \<or> CHR 0x00 \<in> set name
      then Some (FileNameNotComponent name) else None)"

definition cleanup_upload :: "guest \<Rightarrow> guest" where
  "cleanup_upload g = (case g_upload g of None \<Rightarrow> g
     | Some u \<Rightarrow> g\<lparr>g_fs := fs_remove (ul_tmp u) (g_fs g), g_upload := None\<rparr>)"

definition handle_upload_begin :: "transfer_io \<Rightarrow> init_command \<Rightarrow> guest \<Rightarrow> guest \<times> init_response" where
  "handle_upload_begin io cmd g =
     (case validate_app_name (cmd_app_name cmd) of Some e \<Rightarrow> fail g (BadName e)
      | None \<Rightarrow> (case validate_upload_file_name (cmd_file_name cmd) of Some e \<Rightarrow> fail g (BadFileName e)
      | None \<Rightarrow>
        if cmd_size cmd \<le> 0 then fail g SizeNotPositive
        else if cmd_checksum cmd = [] then fail g ChecksumRequired
        else let g1 = cleanup_upload g;
                 dest = filepath_join default_binaries_dir (cmd_app_name cmd)
             in if \<not> io_mkdir io then fail g1 (MkdirFailedAt dest)
                else let tmp = filepath_join dest (cmd_file_name cmd @ ''.new'')
                     in if \<not> io_create io then fail g1 CreateTempFailed
                        else (g1\<lparr>g_fs := fs_write tmp [] (g_fs g1),
                                 g_upload := Some \<lparr>ul_tmp = tmp, ul_dest_dir = dest,
                                   ul_file_name = cmd_file_name cmd, ul_size = cmd_size cmd,
                                   ul_checksum = cmd_checksum cmd, ul_received = 0\<rparr>\<rparr>, ok_response)))"

definition handle_upload_data :: "transfer_io \<Rightarrow> init_command \<Rightarrow> guest \<Rightarrow> guest \<times> init_response" where
  "handle_upload_data io cmd g =
     (case g_upload g of None \<Rightarrow> fail g (NoTransfer ''upload'')
      | Some u \<Rightarrow>
        (case b64_decode (cmd_data cmd) of None \<Rightarrow> fail (cleanup_upload g) DecodeDataFailed
         | Some decoded \<Rightarrow>
           (case io_write io of
              Some n \<Rightarrow> fail (cleanup_upload (g\<lparr>g_fs := fs_append (ul_tmp u) (take n decoded) (g_fs g)\<rparr>)) WriteDataFailed
            | None \<Rightarrow> let u' = u\<lparr>ul_received := ul_received u + int (length decoded)\<rparr>
                      in (g\<lparr>g_fs := fs_append (ul_tmp u) decoded (g_fs g), g_upload := Some u'\<rparr>,
                          ok_response\<lparr>resp_bytes_received := ul_received u'\<rparr>))))"

definition handle_upload_finish ::
    "(string \<Rightarrow> string) \<Rightarrow> transfer_io \<Rightarrow> init_command \<Rightarrow> guest \<Rightarrow> guest \<times> init_response" where
  "handle_upload_finish sha io cmd g =
     (case g_upload g of None \<Rightarrow> fail g (NoTransfer ''upload'')
      | Some u \<Rightarrow>
        let tmp = ul_tmp u; dest = filepath_join (ul_dest_dir u) (ul_file_name u);
            dropped = g\<lparr>g_upload := None, g_fs := fs_remove tmp (g_fs g)\<rparr>
        in if \<not> io_close io then fail dropped CloseFailed
           else (case (if io_hash io then g_fs g tmp else None) of None \<Rightarrow> fail dropped ChecksumFailed
            | Some content \<Rightarrow>
              if sha content \<noteq> ul_checksum u then fail dropped (ChecksumMismatch (ul_checksum u) (sha content))
              else if \<not> io_install io then fail dropped InstallFailed
              else (g\<lparr>g_upload := None, g_fs := fs_rename tmp dest (g_fs g)\<rparr>, ok_response)))"

definition handle_upload_binary ::
    "(string \<Rightarrow> string) \<Rightarrow> transfer_io \<Rightarrow> init_command \<Rightarrow> guest \<Rightarrow> guest \<times> init_response" where
  "handle_upload_binary sha io cmd g =
     (if cmd_phase cmd = phase_begin then handle_upload_begin io cmd g
      else if cmd_phase cmd = phase_data then handle_upload_data io cmd g
      else if cmd_phase cmd = phase_finish then handle_upload_finish sha io cmd g
      else fail g (UnknownPhase ''upload'' (cmd_phase cmd)))"

section \<open>Upload of an image\<close>

definition cleanup_image_upload :: "guest \<Rightarrow> guest" where
  "cleanup_image_upload g = (case g_image_upload g of None \<Rightarrow> g
     | Some u \<Rightarrow> g\<lparr>g_fs := fs_remove (iu_tmp u) (g_fs g), g_image_upload := None\<rparr>)"

definition handle_image_upload_begin :: "transfer_io \<Rightarrow> init_command \<Rightarrow> guest \<Rightarrow> guest \<times> init_response" where
  "handle_image_upload_begin io cmd g =
     (if cmd_image_ref cmd = [] then fail g ImageRefRequired
      else if cmd_size cmd \<le> 0 then fail g SizeNotPositive
      else if cmd_checksum cmd = [] then fail g ChecksumRequired
      else let g1 = cleanup_image_upload g
           in if \<not> io_create io then fail g1 CreateTempFailed
              else (g1\<lparr>g_fs := fs_write image_tmp_path [] (g_fs g1),
                       g_image_upload := Some \<lparr>iu_tmp = image_tmp_path, iu_image_ref = cmd_image_ref cmd,
                         iu_size = cmd_size cmd, iu_checksum = cmd_checksum cmd, iu_received = 0\<rparr>\<rparr>, ok_response))"

definition handle_image_upload_data :: "transfer_io \<Rightarrow> init_command \<Rightarrow> guest \<Rightarrow> guest \<times> init_response" where
  "handle_image_upload_data io cmd g =
     (case g_image_upload g of None \<Rightarrow> fail g (NoTransfer ''image upload'')
      | Some u \<Rightarrow>
        (case b64_decode (cmd_data cmd) of None \<Rightarrow> fail (cleanup_image_upload g) DecodeDataFailed
         | Some decoded \<Rightarrow>
           (case io_write io of
              Some n \<Rightarrow> fail (cleanup_image_upload (g\<lparr>g_fs := fs_append (iu_tmp u) (take n decoded) (g_fs g)\<rparr>)) WriteDataFailed
            | None \<Rightarrow> let u' = u\<lparr>iu_received := iu_received u + int (length decoded)\<rparr>
                      in (g\<lparr>g_fs := fs_append (iu_tmp u) decoded (g_fs g), g_image_upload := Some u'\<rparr>,
                          ok_response\<lparr>resp_bytes_received := iu_received u'\<rparr>))))"

text \<open>The docker daemon keeps the archives it loaded.\<close>

definition handle_image_upload_finish ::
    "(string \<Rightarrow> string) \<Rightarrow> transfer_io \<Rightarrow> init_command \<Rightarrow> guest \<Rightarrow> guest \<times> init_response" where
  "handle_image_upload_finish sha io cmd g =
     (case g_image_upload g of None \<Rightarrow> fail g (NoTransfer ''image upload'')
      | Some u \<Rightarrow>
        let tmp = iu_tmp u;
            dropped = g\<lparr>g_image_upload := None, g_fs := fs_remove tmp (g_fs g)\<rparr>
        in if \<not> io_close io then fail dropped CloseFailed
           else (case (if io_hash io then g_fs g tmp else None) of None \<Rightarrow> fail dropped ChecksumFailed
            | Some content \<Rightarrow>
              if sha content \<noteq> iu_checksum u then fail dropped (ChecksumMismatch (iu_checksum u) (sha content))
              else if \<not> g_docker g then fail dropped NoDockerForImage
              else if \<not> io_open io then fail dropped OpenImageFailed
              else if \<not> io_load io then fail dropped LoadImageFailed
              else (dropped\<lparr>g_images := content # g_images g\<rparr>, ok_response)))"

definition handle_upload_image ::
    "(string \<Rightarrow> string) \<Rightarrow> transfer_io \<Rightarrow> init_command \<Rightarrow> guest \<Rightarrow> guest \<times> init_response" where
  "handle_upload_image sha io cmd g =
     (if cmd_phase cmd = phase_begin then handle_image_upload_begin io cmd g
      else if cmd_phase cmd = phase_data then handle_image_upload_data io cmd g
      else if cmd_phase cmd = phase_finish then handle_image_upload_finish sha io cmd g
      else fail g (UnknownPhase ''upload-image'' (cmd_phase cmd)))"

end
