(* ===== verification/Chunked_Spec.thy ===== *)
theory Chunked_Spec
  imports Chunked
begin

text \<open>
  What the transfer protocol promises. The contract of a receiver is the locale \<open>receiver\<close>, which
  the update, the upload of a binary and the upload of an image each satisfy; the delivery of a
  whole stream is proved once from it. The senders of the host are modelled here too, over any
  transport of commands.
\<close>

section \<open>The contract of a receiver\<close>

text \<open>
  \<open>view\<close> is the transfer in progress: the bytes so far, the expected checksum and the target;
  \<open>installed\<close> what is in place at a target.
\<close>

locale receiver =
  fixes sha :: "string \<Rightarrow> string"
    and start :: "init_command \<Rightarrow> 's \<Rightarrow> 's \<times> init_response"
    and feed :: "init_command \<Rightarrow> 's \<Rightarrow> 's \<times> init_response"
    and finish :: "init_command \<Rightarrow> 's \<Rightarrow> 's \<times> init_response"
    and good :: "init_command \<Rightarrow> bool"
    and target :: "init_command \<Rightarrow> 'd"
    and view :: "'s \<Rightarrow> (string \<times> string \<times> 'd) option"
    and installed :: "'d \<Rightarrow> 's \<Rightarrow> string option"
    and inv :: "'s \<Rightarrow> bool"
  assumes start_good: "inv s \<Longrightarrow> good c \<Longrightarrow>
      resp_ok (snd (start c s)) \<and> inv (fst (start c s)) \<and>
      view (fst (start c s)) = Some ([], cmd_checksum c, target c) \<and>
      (view s = None \<longrightarrow> installed (target c) (fst (start c s)) = installed (target c) s)"
    and start_bad: "\<not> good c \<Longrightarrow> \<not> resp_ok (snd (start c s))"
    and feed_more: "inv s \<Longrightarrow> view s = Some (x, k, d) \<Longrightarrow> b64_decode (cmd_data c) = Some y \<Longrightarrow>
      resp_ok (snd (feed c s)) \<and> inv (fst (feed c s)) \<and> view (fst (feed c s)) = Some (x @ y, k, d) \<and>
      installed d (fst (feed c s)) = installed d s"
    and finish_it: "inv s \<Longrightarrow> view s = Some (x, k, d) \<Longrightarrow>
      (resp_ok (snd (finish c s)) \<longleftrightarrow> sha x = k) \<and> inv (fst (finish c s)) \<and> view (fst (finish c s)) = None \<and>
      installed d (fst (finish c s)) = (if sha x = k then Some x else installed d s)"
begin

text \<open>The sender's loop: a command per chunk, until one is refused.\<close>

fun feed_all :: "(string \<Rightarrow> init_command) \<Rightarrow> string list \<Rightarrow> 's \<Rightarrow> 's \<times> bool" where
  "feed_all mk [] s = (s, True)"
| "feed_all mk (y # ys) s =
     (case feed (mk y) s of (s', r) \<Rightarrow> if resp_ok r then feed_all mk ys s' else (s', False))"

lemma feed_all_view:
  assumes "inv s" "view s = Some (x, k, d)" "\<And>y. b64_decode (cmd_data (mk y)) = Some y"
  shows "snd (feed_all mk ys s) \<and> inv (fst (feed_all mk ys s)) \<and>
    view (fst (feed_all mk ys s)) = Some (x @ concat ys, k, d) \<and>
    installed d (fst (feed_all mk ys s)) = installed d s"
  using assms
proof (induction ys arbitrary: s x)
  case (Cons y ys)
  obtain s' r where f: "feed (mk y) s = (s', r)" by (cases "feed (mk y) s")
  have "resp_ok r \<and> inv s' \<and> view s' = Some (x @ y, k, d) \<and> installed d s' = installed d s"
    using feed_more [OF Cons.prems(1,2), of "mk y" y] Cons.prems(3) f by simp
  then show ?case
    using Cons.IH [of s' "x @ y"] Cons.prems(3) by (simp add: f)
qed simp

lemma delivery:
  assumes "inv s" "good c" "\<And>y. b64_decode (cmd_data (mk y)) = Some y"
    "feed_all mk ys (fst (start c s)) = (s1, ok)" "finish e s1 = (s2, r)"
  shows "ok \<and> (resp_ok r \<longleftrightarrow> sha (concat ys) = cmd_checksum c) \<and> view s2 = None \<and> inv s2 \<and>
    (sha (concat ys) = cmd_checksum c \<longrightarrow> installed (target c) s2 = Some (concat ys)) \<and>
    (sha (concat ys) \<noteq> cmd_checksum c \<longrightarrow> view s = None \<longrightarrow>
       installed (target c) s2 = installed (target c) s)"
proof -
  note st = start_good [OF assms(1,2)]
  have v: "ok" "inv s1" "view s1 = Some (concat ys, cmd_checksum c, target c)"
      "installed (target c) s1 = installed (target c) (fst (start c s))"
    using feed_all_view [of "fst (start c s)" "[]" _ _ mk ys] st assms(3,4) by auto
  show ?thesis
    using finish_it [OF v(2,3), of e] v st assms(5) by simp
qed

end

section \<open>The update of the agent is a receiver\<close>

definition update_current :: "guest \<Rightarrow> string" where
  "update_current g = filepath_join (g_init_dir g) ''goship-init''"

definition update_view :: "guest \<Rightarrow> (string \<times> string \<times> unit) option" where
  "update_view g = (case g_update g of None \<Rightarrow> None
     | Some u \<Rightarrow> map_option (\<lambda>c. (c, us_checksum u, ())) (g_fs g (us_tmp u)))"

definition update_inv :: "guest \<Rightarrow> bool" where
  "update_inv g \<longleftrightarrow> is_abs (g_init_dir g) \<and> (case g_update g of None \<Rightarrow> True
     | Some u \<Rightarrow> us_tmp u = filepath_join (g_init_dir g) ''goship-init.new'' \<and> g_fs g (us_tmp u) \<noteq> None)"

definition update_good :: "init_command \<Rightarrow> bool" where
  "update_good c \<longleftrightarrow> 0 < cmd_size c \<and> cmd_checksum c \<noteq> []"

lemma init_names_distinct:
  assumes "is_abs d"
  shows "filepath_join d ''goship-init'' \<noteq> filepath_join d ''goship-init.new''"
    "filepath_join d ''goship-init'' \<noteq> filepath_join d ''goship-init.old''"
    "filepath_join d ''goship-init.old'' \<noteq> filepath_join d ''goship-init.new''"
  using filepath_join_inj [OF assms, of "''goship-init''" "''goship-init.new''"]
    filepath_join_inj [OF assms, of "''goship-init''" "''goship-init.old''"]
    filepath_join_inj [OF assms, of "''goship-init.old''" "''goship-init.new''"]
  by (auto simp: proper_comp_def)

lemma cleanup_update_simps [simp]:
  "g_update (cleanup_update g) = None" "g_init_dir (cleanup_update g) = g_init_dir g"
  by (simp_all add: cleanup_update_def split: option.split)

lemma cleanup_update_keeps:
  "update_inv g \<Longrightarrow> g_fs (cleanup_update g) (update_current g) = g_fs g (update_current g)"
  using init_names_distinct(1) [of "g_init_dir g"]
  by (auto simp: cleanup_update_def update_inv_def update_current_def fs_defs split: option.splits)

lemma update_start:
  assumes "update_inv g" "update_good c"
  shows "resp_ok (snd (handle_update_begin io_fine c g)) \<and> update_inv (fst (handle_update_begin io_fine c g)) \<and>
    update_view (fst (handle_update_begin io_fine c g)) = Some ([], cmd_checksum c, ()) \<and>
    (update_view g = None \<longrightarrow>
      g_fs (fst (handle_update_begin io_fine c g)) (update_current (fst (handle_update_begin io_fine c g))) =
      g_fs g (update_current g))"
  using assms cleanup_update_keeps [OF assms(1)] init_names_distinct(1) [of "g_init_dir g"]
  by (simp add: handle_update_begin_def update_good_def io_fine_def Let_def update_inv_def
      update_view_def fs_defs update_current_def)

lemma update_feed:
  assumes "update_inv g" "update_view g = Some (x, k, d)" "b64_decode (cmd_data c) = Some y"
  shows "resp_ok (snd (handle_update_data io_fine c g)) \<and> update_inv (fst (handle_update_data io_fine c g)) \<and>
    update_view (fst (handle_update_data io_fine c g)) = Some (x @ y, k, d) \<and>
    g_fs (fst (handle_update_data io_fine c g)) (update_current (fst (handle_update_data io_fine c g))) =
      g_fs g (update_current g)"
proof -
  obtain u where u: "g_update g = Some u" "g_fs g (us_tmp u) = Some x" "us_checksum u = k"
    using assms(2) by (auto simp: update_view_def split: option.splits)
  have "us_tmp u \<noteq> update_current g"
    using assms(1) u(1) init_names_distinct(1) [of "g_init_dir g"]
    by (auto simp: update_inv_def update_current_def)
  then show ?thesis
    using assms u by (simp add: handle_update_data_def io_fine_def Let_def update_inv_def
        update_view_def fs_defs update_current_def)
qed

lemma update_finish:
  assumes "update_inv g" "update_view g = Some (x, k, d)"
  shows "(resp_ok (snd (handle_update_finish sha io_fine c g)) \<longleftrightarrow> sha x = k) \<and>
    update_inv (fst (handle_update_finish sha io_fine c g)) \<and>
    update_view (fst (handle_update_finish sha io_fine c g)) = None \<and>
    g_fs (fst (handle_update_finish sha io_fine c g)) (update_current (fst (handle_update_finish sha io_fine c g))) =
      (if sha x = k then Some x else g_fs g (update_current g))"
proof -
  obtain u where u: "g_update g = Some u" "g_fs g (us_tmp u) = Some x" "us_checksum u = k"
    using assms(2) by (auto simp: update_view_def split: option.splits)
  have t: "us_tmp u = filepath_join (g_init_dir g) ''goship-init.new''" "is_abs (g_init_dir g)"
    using assms(1) u(1) by (auto simp: update_inv_def)
  show ?thesis
    using init_names_distinct [OF t(2)] u t
    by (auto simp: handle_update_finish_def io_fine_def Let_def fail_def update_inv_def
        update_view_def fs_defs update_current_def)
qed

lemma update_start_bad: "\<not> update_good c \<Longrightarrow> \<not> resp_ok (snd (handle_update_begin io c g))"
  by (auto simp: update_good_def handle_update_begin_def fail_def)

interpretation update: receiver sha "handle_update_begin io_fine" "handle_update_data io_fine"
    "handle_update_finish sha io_fine" update_good "\<lambda>c. ()" update_view
    "\<lambda>d g. g_fs g (update_current g)" update_inv
  for sha
  by unfold_locales (erule (1) update_start | erule update_start_bad | erule (2) update_feed | erule (1) update_finish)+

section \<open>The upload of a binary is a receiver\<close>

text \<open>A target is the name of an application and of a file.\<close>

definition upload_path :: "string \<times> string \<Rightarrow> string" where
  "upload_path = (\<lambda>(app, file). filepath_join (filepath_join default_binaries_dir app) file)"

definition upload_view :: "guest \<Rightarrow> (string \<times> string \<times> string \<times> string) option" where
  "upload_view g = (case g_upload g of None \<Rightarrow> None
     | Some u \<Rightarrow> map_option (\<lambda>c. (c, ul_checksum u, last (path_comps (ul_dest_dir u)), ul_file_name u))
         (g_fs g (ul_tmp u)))"

definition upload_inv :: "guest \<Rightarrow> bool" where
  "upload_inv g \<longleftrightarrow> (case g_upload g of None \<Rightarrow> True
     | Some u \<Rightarrow> \<exists>app. plain_component app \<and> plain_component (ul_file_name u) \<and>
         ul_dest_dir u = filepath_join default_binaries_dir app \<and>
         ul_tmp u = filepath_join (ul_dest_dir u) (ul_file_name u @ ''.new'') \<and> g_fs g (ul_tmp u) \<noteq> None)"

definition upload_good :: "init_command \<Rightarrow> bool" where
  "upload_good c \<longleftrightarrow> plain_component (cmd_app_name c) \<and> plain_component (cmd_file_name c) \<and>
     0 < cmd_size c \<and> cmd_checksum c \<noteq> []"

lemma validate_upload_file_name_None [simp]:
  "validate_upload_file_name n = None \<longleftrightarrow> plain_component n"
  by (auto simp: validate_upload_file_name_def plain_component_def)

lemma validate_upload_file_name_plain [simp]: "plain_component n \<Longrightarrow> validate_upload_file_name n = None"
  by simp

lemma binaries_abs [simp]: "is_abs default_binaries_dir"
  by (simp add: is_abs_def default_binaries_dir_def)

lemma plain_new: "plain_component f \<Longrightarrow> plain_component (f @ ''.new'')"
  unfolding plain_component_def
proof (elim conjE, intro conjI)
  have "length (f @ ''.new'') \<noteq> length ''.''" "length (f @ ''.new'') \<noteq> length ''..''" by simp_all
  then show "f @ ''.new'' \<noteq> ''.''" "f @ ''.new'' \<noteq> ''..''" by metis+
qed simp_all

lemma dest_comps:
  "plain_component app \<Longrightarrow> path_comps (filepath_join default_binaries_dir app) = path_comps default_binaries_dir @ [app]"
  by (simp add: path_comps_join_proper plain_component_proper)

lemma upload_tmp_distinct:
  assumes "plain_component app" "plain_component f"
  shows "filepath_join (filepath_join default_binaries_dir app) (f @ ''.new'') \<noteq>
    filepath_join (filepath_join default_binaries_dir app) f"
proof -
  have "proper_comp f" "proper_comp (f @ ''.new'')"
    using assms(2) plain_new [OF assms(2)] by (simp_all only: plain_component_proper)
  then have "f @ ''.new'' = f" if "filepath_join (filepath_join default_binaries_dir app) (f @ ''.new'') =
      filepath_join (filepath_join default_binaries_dir app) f"
    using that filepath_join_inj [OF is_abs_join [OF binaries_abs], of "f @ ''.new''" f app] by blast
  then show ?thesis by fastforce
qed

lemma cleanup_upload_idle: "upload_inv g \<Longrightarrow> upload_view g = None \<Longrightarrow> cleanup_upload g = g"
  by (auto simp: upload_inv_def upload_view_def cleanup_upload_def split: option.splits)

lemma upload_start:
  assumes "upload_inv g" "upload_good c"
  shows "resp_ok (snd (handle_upload_begin io_fine c g)) \<and> upload_inv (fst (handle_upload_begin io_fine c g)) \<and>
    upload_view (fst (handle_upload_begin io_fine c g)) =
      Some ([], cmd_checksum c, cmd_app_name c, cmd_file_name c) \<and>
    (upload_view g = None \<longrightarrow>
      g_fs (fst (handle_upload_begin io_fine c g)) (upload_path (cmd_app_name c, cmd_file_name c)) =
      g_fs g (upload_path (cmd_app_name c, cmd_file_name c)))"
proof -
  let ?dest = "filepath_join default_binaries_dir (cmd_app_name c)"
  let ?tmp = "filepath_join ?dest (cmd_file_name c @ ''.new'')"
  have good: "plain_component (cmd_app_name c)" "plain_component (cmd_file_name c)" "0 < cmd_size c" "cmd_checksum c \<noteq> []"
    using assms(2) by (simp_all add: upload_good_def)
  have h: "handle_upload_begin io_fine c g =
      ((cleanup_upload g)\<lparr>g_fs := fs_write ?tmp [] (g_fs (cleanup_upload g)),
        g_upload := Some \<lparr>ul_tmp = ?tmp, ul_dest_dir = ?dest, ul_file_name = cmd_file_name c,
          ul_size = cmd_size c, ul_checksum = cmd_checksum c, ul_received = 0\<rparr>\<rparr>, ok_response)"
    using good by (simp add: handle_upload_begin_def io_fine_def Let_def)
  have "upload_inv (fst (handle_upload_begin io_fine c g))"
    unfolding h using good by (auto simp: upload_inv_def fs_write_def)
  moreover have "last (path_comps ?dest) = cmd_app_name c"
    using dest_comps [OF good(1)] by simp
  then have "upload_view (fst (handle_upload_begin io_fine c g)) =
      Some ([], cmd_checksum c, cmd_app_name c, cmd_file_name c)"
    unfolding h by (simp add: upload_view_def fs_write_def)
  moreover have "g_fs (fst (handle_upload_begin io_fine c g)) (upload_path (cmd_app_name c, cmd_file_name c)) =
      g_fs (cleanup_upload g) (upload_path (cmd_app_name c, cmd_file_name c))"
    unfolding h using upload_tmp_distinct [OF good(1,2)] by (simp add: upload_path_def fs_write_def)
  moreover have "resp_ok (snd (handle_upload_begin io_fine c g))" by (simp add: h)
  ultimately show ?thesis
    using cleanup_upload_idle [OF assms(1)] by metis
qed

lemma upload_progress:
  assumes "upload_inv g" "upload_view g = Some (x, k, d)"
  obtains u app where "g_upload g = Some u" "g_fs g (ul_tmp u) = Some x" "ul_checksum u = k"
    "d = (app, ul_file_name u)" "plain_component app" "plain_component (ul_file_name u)"
    "ul_dest_dir u = filepath_join default_binaries_dir app"
    "ul_tmp u = filepath_join (ul_dest_dir u) (ul_file_name u @ ''.new'')" "ul_tmp u \<noteq> upload_path d"
proof -
  obtain u where u: "g_upload g = Some u" "g_fs g (ul_tmp u) = Some x" "ul_checksum u = k"
      "d = (last (path_comps (ul_dest_dir u)), ul_file_name u)"
    using assms(2) by (auto simp: upload_view_def split: option.splits)
  obtain app where app: "plain_component app" "plain_component (ul_file_name u)"
      "ul_dest_dir u = filepath_join default_binaries_dir app"
      "ul_tmp u = filepath_join (ul_dest_dir u) (ul_file_name u @ ''.new'')"
    using assms(1) u(1) by (auto simp: upload_inv_def)
  have d: "d = (app, ul_file_name u)" using u(4) app dest_comps by simp
  then have "ul_tmp u \<noteq> upload_path d"
    using upload_tmp_distinct [OF app(1,2)] app by (simp add: upload_path_def)
  then show thesis using that u(1-3) d app by blast
qed

lemma upload_feed:
  assumes "upload_inv g" "upload_view g = Some (x, k, d)" "b64_decode (cmd_data c) = Some y"
  shows "resp_ok (snd (handle_upload_data io_fine c g)) \<and> upload_inv (fst (handle_upload_data io_fine c g)) \<and>
    upload_view (fst (handle_upload_data io_fine c g)) = Some (x @ y, k, d) \<and>
    g_fs (fst (handle_upload_data io_fine c g)) (upload_path d) = g_fs g (upload_path d)"
proof -
  obtain u app where u: "g_upload g = Some u" "g_fs g (ul_tmp u) = Some x" "ul_checksum u = k"
    "d = (app, ul_file_name u)" "plain_component app" "plain_component (ul_file_name u)"
    "ul_dest_dir u = filepath_join default_binaries_dir app"
    "ul_tmp u = filepath_join (ul_dest_dir u) (ul_file_name u @ ''.new'')" "ul_tmp u \<noteq> upload_path d"
    using upload_progress [OF assms(1,2)] by blast
  have h: "handle_upload_data io_fine c g = (g\<lparr>g_fs := fs_append (ul_tmp u) y (g_fs g),
      g_upload := Some (u\<lparr>ul_received := ul_received u + int (length y)\<rparr>)\<rparr>,
      ok_response\<lparr>resp_bytes_received := ul_received u + int (length y)\<rparr>)"
    using u(1) assms(3) by (simp add: handle_upload_data_def io_fine_def Let_def)
  have "upload_inv (fst (handle_upload_data io_fine c g))"
    unfolding h using u(5-8) by (auto simp: upload_inv_def fs_append_def)
  moreover have "upload_view (fst (handle_upload_data io_fine c g)) = Some (x @ y, k, d)"
    unfolding h using u dest_comps by (simp add: upload_view_def fs_append_def)
  ultimately show ?thesis
    using u(9) by (simp add: h fs_append_def)
qed

lemma upload_finish:
  assumes "upload_inv g" "upload_view g = Some (x, k, d)"
  shows "(resp_ok (snd (handle_upload_finish sha io_fine c g)) \<longleftrightarrow> sha x = k) \<and>
    upload_inv (fst (handle_upload_finish sha io_fine c g)) \<and>
    upload_view (fst (handle_upload_finish sha io_fine c g)) = None \<and>
    g_fs (fst (handle_upload_finish sha io_fine c g)) (upload_path d) =
      (if sha x = k then Some x else g_fs g (upload_path d))"
proof -
  obtain u app where u: "g_upload g = Some u" "g_fs g (ul_tmp u) = Some x" "ul_checksum u = k"
    "d = (app, ul_file_name u)" "ul_dest_dir u = filepath_join default_binaries_dir app" "ul_tmp u \<noteq> upload_path d"
    using upload_progress [OF assms(1,2)] by blast
  have p: "filepath_join (ul_dest_dir u) (ul_file_name u) = upload_path d"
    using u by (simp add: upload_path_def)
  show ?thesis
    using u(1,2,3,6) by (auto simp: handle_upload_finish_def io_fine_def Let_def fail_def p
        upload_inv_def upload_view_def fs_defs)
qed

lemma upload_start_bad: "\<not> upload_good c \<Longrightarrow> \<not> resp_ok (snd (handle_upload_begin io c g))"
  by (auto simp: upload_good_def handle_upload_begin_def fail_def Let_def split: option.split)

interpretation upload: receiver sha "handle_upload_begin io_fine" "handle_upload_data io_fine"
    "handle_upload_finish sha io_fine" upload_good "\<lambda>c. (cmd_app_name c, cmd_file_name c)" upload_view
    "\<lambda>d g. g_fs g (upload_path d)" upload_inv
  for sha
  by unfold_locales (erule (1) upload_start | erule upload_start_bad | erule (2) upload_feed | erule (1) upload_finish)+

section \<open>The upload of an image is a receiver where docker runs\<close>

definition image_view :: "guest \<Rightarrow> (string \<times> string \<times> unit) option" where
  "image_view g = (case g_image_upload g of None \<Rightarrow> None
     | Some u \<Rightarrow> map_option (\<lambda>c. (c, iu_checksum u, ())) (g_fs g (iu_tmp u)))"

definition image_inv :: "guest \<Rightarrow> bool" where
  "image_inv g \<longleftrightarrow> g_docker g \<and> (case g_image_upload g of None \<Rightarrow> True | Some u \<Rightarrow> g_fs g (iu_tmp u) \<noteq> None)"

definition image_good :: "init_command \<Rightarrow> bool" where
  "image_good c \<longleftrightarrow> cmd_image_ref c \<noteq> [] \<and> 0 < cmd_size c \<and> cmd_checksum c \<noteq> []"

text \<open>The archive the daemon loaded last.\<close>

definition last_image :: "guest \<Rightarrow> string option" where
  "last_image g = (case g_images g of [] \<Rightarrow> None | i # _ \<Rightarrow> Some i)"

lemma cleanup_image_simps [simp]:
  "g_docker (cleanup_image_upload g) = g_docker g" "g_images (cleanup_image_upload g) = g_images g"
  by (simp_all add: cleanup_image_upload_def split: option.split)

lemma image_start:
  assumes "image_inv g" "image_good c"
  shows "resp_ok (snd (handle_image_upload_begin io_fine c g)) \<and> image_inv (fst (handle_image_upload_begin io_fine c g)) \<and>
    image_view (fst (handle_image_upload_begin io_fine c g)) = Some ([], cmd_checksum c, ()) \<and>
    (image_view g = None \<longrightarrow> last_image (fst (handle_image_upload_begin io_fine c g)) = last_image g)"
  using assms by (simp add: handle_image_upload_begin_def image_good_def io_fine_def Let_def image_inv_def
      image_view_def fs_defs last_image_def)

lemma image_feed:
  assumes "image_inv g" "image_view g = Some (x, k, d)" "b64_decode (cmd_data c) = Some y"
  shows "resp_ok (snd (handle_image_upload_data io_fine c g)) \<and> image_inv (fst (handle_image_upload_data io_fine c g)) \<and>
    image_view (fst (handle_image_upload_data io_fine c g)) = Some (x @ y, k, d) \<and>
    last_image (fst (handle_image_upload_data io_fine c g)) = last_image g"
  using assms by (auto simp: handle_image_upload_data_def io_fine_def Let_def image_inv_def
        image_view_def fs_defs last_image_def split: option.splits)

lemma image_finish:
  assumes "image_inv g" "image_view g = Some (x, k, d)"
  shows "(resp_ok (snd (handle_image_upload_finish sha io_fine c g)) \<longleftrightarrow> sha x = k) \<and>
    image_inv (fst (handle_image_upload_finish sha io_fine c g)) \<and>
    image_view (fst (handle_image_upload_finish sha io_fine c g)) = None \<and>
    last_image (fst (handle_image_upload_finish sha io_fine c g)) = (if sha x = k then Some x else last_image g)"
  using assms by (auto simp: handle_image_upload_finish_def io_fine_def Let_def fail_def image_inv_def
        image_view_def fs_defs last_image_def split: option.splits)

lemma image_start_bad: "\<not> image_good c \<Longrightarrow> \<not> resp_ok (snd (handle_image_upload_begin io c g))"
  by (auto simp: image_good_def handle_image_upload_begin_def fail_def)

interpretation image: receiver sha "handle_image_upload_begin io_fine" "handle_image_upload_data io_fine"
    "handle_image_upload_finish sha io_fine" image_good "\<lambda>c. ()" image_view "\<lambda>d. last_image" image_inv
  for sha
  by unfold_locales (erule (1) image_start | erule image_start_bad | erule (2) image_feed | erule (1) image_finish)+

end
