(* ===== verification/Uploads.thy ===== *)
theory Uploads
  imports Chunked_Spec
begin

text \<open>
  The senders of the transfer protocol on the host: \<open>UploadBinary\<close> and \<open>UploadImage\<close> of
  internal/agent/runtime/libvirt/runtime.go and the update of the agent by the command line
  (cmd/goship/commands/project.go). The transport is an argument: a function from a command and the
  state of the guest to the state afterwards and the reply, or no reply when \<open>SendCommand\<close> fails.
  A reader is the list of what its reads give, at most a buffer each, and whether it ends in an error.
\<close>

section \<open>Senders\<close>

type_synonym 'g transport = "init_command \<Rightarrow> 'g \<Rightarrow> 'g \<times> init_response option"

record stream =
  rd_chunks :: "string list"
  rd_fails :: bool

datatype upload_error = UploadBadApp entity_error | UploadNoInstance string | UploadNoSocket
  | BeginSendFailed | BeginRefused agent_error | DataSendFailed | DataRefused agent_error
  | ReadBinaryFailed | FinishSendFailed | FinishRefused agent_error

definition begin_binary :: "string \<Rightarrow> string \<Rightarrow> int \<Rightarrow> string \<Rightarrow> init_command" where
  "begin_binary app file sz checksum = (blank_command action_upload_binary)\<lparr>cmd_phase := phase_begin,
     cmd_app_name := app, cmd_file_name := file, cmd_size := sz, cmd_checksum := checksum\<rparr>"

definition begin_image :: "string \<Rightarrow> int \<Rightarrow> string \<Rightarrow> init_command" where
  "begin_image ref sz checksum = (blank_command action_upload_image)\<lparr>cmd_phase := phase_begin,
     cmd_image_ref := ref, cmd_size := sz, cmd_checksum := checksum\<rparr>"

definition begin_update :: "int \<Rightarrow> string \<Rightarrow> init_command" where
  "begin_update sz checksum = (blank_command action_update_init)\<lparr>cmd_phase := phase_begin,
     cmd_size := sz, cmd_checksum := checksum\<rparr>"

definition data_command :: "string \<Rightarrow> string \<Rightarrow> init_command" where
  "data_command action chunk = (blank_command action)\<lparr>cmd_phase := phase_data, cmd_data := b64_encode chunk\<rparr>"

definition finish_command :: "string \<Rightarrow> init_command" where
  "finish_command action = (blank_command action)\<lparr>cmd_phase := phase_finish\<rparr>"

text \<open>The loop over the reads; a read of no bytes sends nothing.\<close>

fun send_chunks :: "'g transport \<Rightarrow> string \<Rightarrow> string list \<Rightarrow> 'g \<Rightarrow> 'g \<times> upload_error option" where
  "send_chunks send action [] g = (g, None)"
| "send_chunks send action (chunk # chunks) g =
     (if chunk = [] then send_chunks send action chunks g
      else (case send (data_command action chunk) g of
          (g', None) \<Rightarrow> (g', Some DataSendFailed)
        | (g', Some r) \<Rightarrow> (case resp_error r of Some e \<Rightarrow> (g', Some (DataRefused e))
            | None \<Rightarrow> send_chunks send action chunks g')))"

text \<open>The three phases, from a begin command on.\<close>

definition send_stream ::
    "'g transport \<Rightarrow> string \<Rightarrow> init_command \<Rightarrow> stream \<Rightarrow> 'g \<Rightarrow> 'g \<times> upload_error option" where
  "send_stream send action begin_cmd rd g =
     (case send begin_cmd g of
        (g1, None) \<Rightarrow> (g1, Some BeginSendFailed)
      | (g1, Some r) \<Rightarrow> (case resp_error r of Some e \<Rightarrow> (g1, Some (BeginRefused e))
          | None \<Rightarrow> (case send_chunks send action (rd_chunks rd) g1 of
              (g2, Some e) \<Rightarrow> (g2, Some e)
            | (g2, None) \<Rightarrow>
              if rd_fails rd then (g2, Some ReadBinaryFailed)
              else (case send (finish_command action) g2 of
                  (g3, None) \<Rightarrow> (g3, Some FinishSendFailed)
                | (g3, Some r') \<Rightarrow> (g3, map_option FinishRefused (resp_error r'))))))"

text \<open>\<open>known\<close> tells whether the runtime has the instance, \<open>dials\<close> whether its socket answers.\<close>

definition upload_binary ::
    "'g transport \<Rightarrow> (string \<Rightarrow> bool) \<Rightarrow> bool \<Rightarrow> string \<Rightarrow> string \<Rightarrow> string \<Rightarrow> stream \<Rightarrow> int \<Rightarrow> string \<Rightarrow>
     'g \<Rightarrow> 'g \<times> upload_error option" where
  "upload_binary send known dials iid app file rd sz checksum g =
     (case validate_app_name app of Some e \<Rightarrow> (g, Some (UploadBadApp e))
      | None \<Rightarrow>
        if \<not> known iid then (g, Some (UploadNoInstance iid))
        else if \<not> dials then (g, Some UploadNoSocket)
        else send_stream send action_upload_binary (begin_binary app file sz checksum) rd g)"

definition upload_image ::
    "'g transport \<Rightarrow> (string \<Rightarrow> bool) \<Rightarrow> bool \<Rightarrow> string \<Rightarrow> string \<Rightarrow> stream \<Rightarrow> int \<Rightarrow> string \<Rightarrow>
     'g \<Rightarrow> 'g \<times> upload_error option" where
  "upload_image send known dials iid ref rd sz checksum g =
     (if \<not> known iid then (g, Some (UploadNoInstance iid))
      else if \<not> dials then (g, Some UploadNoSocket)
      else send_stream send action_upload_image (begin_image ref sz checksum) rd g)"

definition send_update :: "'g transport \<Rightarrow> stream \<Rightarrow> int \<Rightarrow> string \<Rightarrow> 'g \<Rightarrow> 'g \<times> upload_error option" where
  "send_update send rd sz checksum g =
     send_stream send action_update_init (begin_update sz checksum) rd g"

section \<open>A guest behind the transport\<close>

definition guest_transport :: "(init_command \<Rightarrow> guest \<Rightarrow> guest \<times> init_response) \<Rightarrow> guest transport" where
  "guest_transport handler cmd g = map_prod id Some (handler cmd g)"

lemma concat_nonempty: "concat (filter (\<lambda>c. c \<noteq> []) cs) = concat cs"
  by (induction cs) auto

lemma data_command_simps [simp]:
  "cmd_phase (data_command a c) = phase_data" "cmd_data (data_command a c) = b64_encode c"
  "cmd_phase (finish_command a) = phase_finish"
  by (simp_all add: data_command_def finish_command_def)

context receiver
begin

text \<open>The three commands dispatched by their phase.\<close>

definition phases :: "init_command \<Rightarrow> 's \<Rightarrow> 's \<times> init_response option" where
  "phases cmd s = map_prod id Some
     (if cmd_phase cmd = phase_begin then start cmd s
      else if cmd_phase cmd = phase_data then feed cmd s else finish cmd s)"

lemma send_chunks_feed_all:
  "feed_all (data_command action) (filter (\<lambda>c. c \<noteq> []) chunks) s = (s', True) \<Longrightarrow>
   send_chunks phases action chunks s = (s', None)"
proof (induction chunks arbitrary: s)
  case (Cons c cs)
  show ?case
  proof (cases "c = []")
    case False
    obtain s1 r where f: "feed (data_command action c) s = (s1, r)" by (cases "feed (data_command action c) s")
    then have "phases (data_command action c) s = (s1, Some r)"
      by (simp add: phases_def phase_defs)
    then show ?thesis
      using False f Cons by (auto simp: resp_ok_def split: if_splits)
  qed (use Cons in simp)
qed simp

lemma send_stream_delivers:
  assumes "inv s" "good c" "cmd_phase c = phase_begin" "\<not> rd_fails rd"
    and "send_stream phases action c rd s = (s', res)"
  shows "(res = None \<longleftrightarrow> sha (concat (rd_chunks rd)) = cmd_checksum c) \<and> inv s' \<and> view s' = None \<and>
    (res = None \<longrightarrow> installed (target c) s' = Some (concat (rd_chunks rd))) \<and>
    (res \<noteq> None \<longrightarrow> view s = None \<longrightarrow> installed (target c) s' = installed (target c) s)"
proof -
  let ?cs = "filter (\<lambda>c. c \<noteq> []) (rd_chunks rd)"
  obtain s0 r0 where b: "start c s = (s0, r0)" by (cases "start c s")
  obtain s1 ok where f: "feed_all (data_command action) ?cs s0 = (s1, ok)"
    by (cases "feed_all (data_command action) ?cs s0")
  obtain s2 r where e: "finish (finish_command action) s1 = (s2, r)" by (cases "finish (finish_command action) s1")
  have dec: "\<And>y. b64_decode (cmd_data (data_command action y)) = Some y"
    by (simp add: b64.dec_enc)
  have f': "feed_all (data_command action) ?cs (fst (start c s)) = (s1, ok)" using f b by simp
  note d = delivery [OF assms(1,2) dec f' e, unfolded concat_nonempty]
  have "resp_error r0 = None" using start_good [OF assms(1,2)] b by (simp add: resp_ok_def)
  moreover have "send_chunks phases action (rd_chunks rd) s0 = (s1, None)"
    using send_chunks_feed_all [of action "rd_chunks rd" s0 s1] f d by simp
  moreover have "phases c s = (s0, Some r0)" using b assms(3) by (simp add: phases_def)
  moreover have "phases (finish_command action) s1 = (s2, Some r)"
    using e by (simp add: phases_def phase_defs)
  ultimately have "s' = s2" "res = map_option FinishRefused (resp_error r)"
    using assms(4,5) by (simp_all add: send_stream_def)
  then show ?thesis using d by (auto simp: resp_ok_def)
qed

lemma send_stream_refused:
  assumes "\<not> good c" "cmd_phase c = phase_begin"
  shows "\<exists>e. snd (send_stream phases action c rd s) = Some (BeginRefused e)"
proof -
  obtain s0 r0 where b: "start c s = (s0, r0)" by (cases "start c s")
  then obtain e where "resp_error r0 = Some e"
    using start_bad [OF assms(1), of s] by (auto simp: resp_ok_def)
  then show ?thesis using b assms(2) by (simp add: send_stream_def phases_def)
qed

end

section \<open>End to end\<close>

definition protocol_phase :: "init_command \<Rightarrow> bool" where
  "protocol_phase c \<longleftrightarrow> cmd_phase c = phase_begin \<or> cmd_phase c = phase_data \<or> cmd_phase c = phase_finish"

lemma send_chunks_cong:
  assumes "\<And>c g. protocol_phase c \<Longrightarrow> send c g = send' c g"
  shows "send_chunks send action cs g = send_chunks send' action cs g"
proof (induction cs arbitrary: g)
  case (Cons c cs)
  have "send (data_command action c) g = send' (data_command action c) g"
    by (rule assms) (simp add: protocol_phase_def)
  then show ?case by (simp add: Cons split: option.split prod.split)
qed simp

lemma send_stream_cong:
  assumes "\<And>c g. protocol_phase c \<Longrightarrow> send c g = send' c g" "cmd_phase c = phase_begin"
  shows "send_stream send action c rd g = send_stream send' action c rd g"
proof -
  have "send c g = send' c g" for g by (rule assms(1)) (simp add: protocol_phase_def assms(2))
  moreover have "send (finish_command action) g = send' (finish_command action) g" for g
    by (rule assms(1)) (simp add: protocol_phase_def)
  moreover have "send_chunks send action cs g = send_chunks send' action cs g" for cs g
    by (rule send_chunks_cong [OF assms(1)])
  ultimately show ?thesis by (simp add: send_stream_def split: option.split prod.split)
qed

lemma begin_simps [simp]:
  "cmd_phase (begin_binary a f n k) = phase_begin" "cmd_phase (begin_image ref n k) = phase_begin"
  "cmd_phase (begin_update n k) = phase_begin" "cmd_app_name (begin_binary a f n k) = a"
  "cmd_file_name (begin_binary a f n k) = f" "cmd_checksum (begin_binary a f n k) = k"
  "cmd_checksum (begin_image ref n k) = k" "cmd_checksum (begin_update n k) = k"
  "cmd_size (begin_binary a f n k) = n" "cmd_size (begin_image ref n k) = n"
  "cmd_size (begin_update n k) = n" "cmd_image_ref (begin_image ref n k) = ref"
  by (simp_all add: begin_binary_def begin_image_def begin_update_def)




definition demo_guest :: guest where
  "demo_guest = \<lparr>g_init_dir = ''/opt/goship'', g_fs = (\<lambda>_. None), g_docker = True, g_images = [],
     g_update = None, g_upload = None, g_image_upload = None\<rparr>"

lemma demo_guest_inv: "upload_inv demo_guest" "image_inv demo_guest" "update_inv demo_guest"
  by (simp_all add: upload_inv_def image_inv_def update_inv_def demo_guest_def is_abs_def)

definition demo_stream :: stream where
  "demo_stream = \<lparr>rd_chunks = [''ab'', [], ''c''], rd_fails = False\<rparr>"




text \<open>C22: whatever fails while an update is finished, the guest keeps an agent it can run: after
  success the file in place is the one whose checksum was announced, after a failure the previous
  one is still in place, or, when neither the rename nor the way back worked, it is at the name
  of the backup. In every case the transfer is closed.\<close>

theorem update_finish_safe:
  assumes "update_inv g" "g_update g = Some u" "handle_update_finish sha io cmd g = (g', r)"
  shows "g_update g' = None \<and>
    (if resp_ok r
     then \<exists>x. g_fs g (us_tmp u) = Some x \<and> sha x = us_checksum u \<and> g_fs g' (update_current g) = Some x
     else g_fs g' (update_current g) = g_fs g (update_current g) \<or>
       (\<not> io_install io \<and> \<not> io_restore io \<and>
        g_fs g' (filepath_join (g_init_dir g) ''goship-init.old'') = g_fs g (update_current g)))"
proof -
  have t: "us_tmp u = filepath_join (g_init_dir g) ''goship-init.new''" "is_abs (g_init_dir g)" "g_fs g (us_tmp u) \<noteq> None"
    using assms(1,2) by (auto simp: update_inv_def)
  show ?thesis
    using assms(2,3) init_names_distinct [OF t(2)] t(1,3)
    by (auto simp: handle_update_finish_def Let_def fail_def fs_defs update_current_def
        split: if_splits option.splits)
qed

theorem update_finish_safe_witness:
  "\<exists>g' r. handle_update_finish rev (io_fine\<lparr>io_install := False\<rparr>) (finish_command action_update_init)
      (fst (handle_update_begin io_fine (begin_update 3 ''cba'') demo_guest)) = (g', r) \<and> g_update g' = None"
proof -
  let ?b = "fst (handle_update_begin io_fine (begin_update 3 ''cba'') demo_guest)"
  let ?f = "handle_update_finish rev (io_fine\<lparr>io_install := False\<rparr>) (finish_command action_update_init) ?b"
  have good: "update_good (begin_update 3 ''cba'')" by (simp add: update_good_def)
  note st = update_start [OF demo_guest_inv(3) good]
  then obtain u where "g_update ?b = Some u" by (auto simp: update_view_def split: option.splits)
  moreover have "update_inv ?b" using st by blast
  ultimately show ?thesis
    using update_finish_safe [of ?b u rev "io_fine\<lparr>io_install := False\<rparr>" "finish_command action_update_init"
        "fst ?f" "snd ?f"] by (intro exI [of _ "fst ?f"] exI [of _ "snd ?f"]) simp
qed

lemma send_stream_begin_refused:
  "send c g = (g', Some r) \<Longrightarrow> \<not> resp_ok r \<Longrightarrow> snd (send_stream send action c rd g) \<noteq> None"
  by (auto simp: send_stream_def resp_ok_def)

lemma begin_without_checksum:
  "\<not> resp_ok (snd (handle_upload_binary sha io (begin_binary app file n []) g))"
  "\<not> resp_ok (snd (handle_upload_image sha io (begin_image ref n []) g))"
  "\<not> resp_ok (snd (handle_update_init sha io (begin_update n []) g))"
  by (simp_all add: handle_upload_binary_def handle_upload_image_def handle_update_init_def
      upload_start_bad image_start_bad update_start_bad upload_good_def image_good_def update_good_def)

text \<open>Every receiver refuses a transfer that announces no checksum, so none of the senders
  ever succeeds with an empty one.\<close>

theorem uploads_need_checksum:
  "snd (upload_binary (guest_transport (handle_upload_binary sha io)) known dials iid app file rd n [] g) \<noteq> None \<and>
   snd (upload_image (guest_transport (handle_upload_image sha io)) known dials iid ref rd n [] g) \<noteq> None \<and>
   snd (send_update (guest_transport (handle_update_init sha io)) rd n [] g) \<noteq> None"
proof -
  have "snd (send_stream (guest_transport h) action c rd g) \<noteq> None" if "\<not> resp_ok (snd (h c g))" for h action c
    using that send_stream_begin_refused [of "guest_transport h" c g "fst (h c g)" "snd (h c g)"]
    by (simp add: guest_transport_def prod_eq_iff)
  note refused = this
  have "snd (send_stream (guest_transport (handle_upload_binary sha io)) action (begin_binary app file n []) rd g) \<noteq> None"
    "snd (send_stream (guest_transport (handle_upload_image sha io)) action (begin_image ref n []) rd g) \<noteq> None"
    "snd (send_stream (guest_transport (handle_update_init sha io)) action (begin_update n []) rd g) \<noteq> None"
    for action by (rule refused, rule begin_without_checksum)+
  note r = this
  show ?thesis
    using r by (simp add: upload_binary_def upload_image_def send_update_def split: option.split)
qed

end
