(* ===== verification/Procs.thy ===== *)
theory Procs
  imports Protocol
begin

text \<open>
  The process manager of the guest (internal/init/process.go) as a state machine. A
  \<open>managedProcess\<close> is a heap cell, because its monitor keeps the pointer after the entry left the
  map; the map sends an application name to the cell. What the goroutine \<open>monitorProcess\<close> waits
  for is the phase of the cell: the operating system process runs, it has exited and the monitor
  has not taken the lock yet, the monitor sleeps before a restart, or it has returned.
  Each function below is one section under the manager's lock (or one event outside); \<open>pm_step\<close>
  interleaves them.
\<close>

section \<open>State\<close>

datatype phase = Alive | Exited bool | Backoff nat | Finished

record managed_process =
  mp_name :: string
  mp_binary :: string
  mp_args :: "string list"
  mp_env :: "string list"
  mp_work_dir :: string
  mp_pid :: nat
  mp_started_at :: timestamp
  mp_state :: app_state
  mp_phase :: phase
  mp_log_open :: bool
  mp_restart_policy :: restart_policy
  mp_restart_count :: nat
  mp_stopping :: bool

record process_manager =
  pm_heap :: "nat \<Rightarrow> managed_process option"
  pm_processes :: "nat gomap"
  pm_next :: nat

definition new_process_manager :: process_manager where
  "new_process_manager = \<lparr>pm_heap = (\<lambda>_. None), pm_processes = [], pm_next = 0\<rparr>"

definition max_restarts :: nat where "max_restarts = 5"
definition max_backoff :: nat where "max_backoff = 30"

definition put_cell :: "nat \<Rightarrow> managed_process \<Rightarrow> process_manager \<Rightarrow> process_manager" where
  "put_cell c p m = m\<lparr>pm_heap := (pm_heap m)(c := Some p)\<rparr>"

text \<open>The environment of one deploy: what the calls to the operating system give.\<close>

record spawn_env =
  sp_binary_exists :: bool
  sp_killed_err :: bool
  sp_log_opens :: bool
  sp_start :: "nat option"
  sp_now :: timestamp
  sp_environ :: "string list"

section \<open>Operations\<close>

definition process_log_path :: "string \<Rightarrow> executor_error + string" where
  "process_log_path name =
     (case validate_app_name name of Some e \<Rightarrow> Inl (BadAppName e)
      | None \<Rightarrow> Inr (filepath_join ''/var/log'' (''goship-'' @ name @ ''.log'')))"

definition validate_process_app :: "bool \<Rightarrow> app_spec \<Rightarrow> executor_error option" where
  "validate_process_app binary_exists app =
     (case validate_app_name (app_name app) of Some e \<Rightarrow> Some (BadAppName e)
      | None \<Rightarrow> if app_binary app = [] then Some ProcessBinaryRequired
          else if \<not> binary_exists then Some (BinaryMissing (app_binary app)) else None)"

text \<open>
  \<open>stopProcess\<close> returns when the process has exited, by the signal or by the kill after ten
  seconds; \<open>err\<close> is whether \<open>Wait\<close> reports a failure for it.
\<close>

definition stop_process :: "bool \<Rightarrow> managed_process \<Rightarrow> managed_process" where
  "stop_process err p = (if mp_phase p = Alive then p\<lparr>mp_phase := Exited err\<rparr> else p)"

definition env_list :: "string gomap \<Rightarrow> string list" where
  "env_list env = map (\<lambda>(k, v). k @ ''='' @ v) env"

definition new_process :: "spawn_env \<Rightarrow> app_spec \<Rightarrow> nat \<Rightarrow> managed_process" where
  "new_process sp app pid = \<lparr>mp_name = app_name app, mp_binary = app_binary app,
     mp_args = app_command app @ app_args app,
     mp_env = sp_environ sp @ env_list (app_env app), mp_work_dir = app_working_dir app,
     mp_pid = pid, mp_started_at = sp_now sp, mp_state = AppRunning, mp_phase = Alive,
     mp_log_open = True, mp_restart_policy = app_restart_policy app,
     mp_restart_count = 0, mp_stopping = False\<rparr>"

definition pm_deploy :: "spawn_env \<Rightarrow> app_spec \<Rightarrow> process_manager \<Rightarrow> process_manager \<times> executor_error option" where
  "pm_deploy sp app m =
     (case validate_process_app (sp_binary_exists sp) app of Some e \<Rightarrow> (m, Some e)
      | None \<Rightarrow>
        let m1 = (case gm_get (pm_processes m) (app_name app) of None \<Rightarrow> m
                  | Some c \<Rightarrow> (case pm_heap m c of None \<Rightarrow> m
                      | Some p \<Rightarrow> (put_cell c (stop_process (sp_killed_err sp) (p\<lparr>mp_stopping := True\<rparr>)) m)
                          \<lparr>pm_processes := gm_del (app_name app) (pm_processes m)\<rparr>))
        in if \<not> sp_log_opens sp then (m1, Some LogFileFailed)
           else (case sp_start sp of None \<Rightarrow> (m1, Some StartFailed)
             | Some pid \<Rightarrow>
               let c = pm_next m1
               in ((put_cell c (new_process sp app pid) m1)\<lparr>pm_processes := gm_set (app_name app) c (pm_processes m1),
                     pm_next := Suc c\<rparr>, None)))"

definition pm_stop :: "bool \<Rightarrow> string \<Rightarrow> process_manager \<Rightarrow> process_manager" where
  "pm_stop err name m =
     (case gm_get (pm_processes m) name of None \<Rightarrow> m
      | Some c \<Rightarrow> (case pm_heap m c of None \<Rightarrow> m
          | Some p \<Rightarrow> put_cell c ((stop_process err (p\<lparr>mp_stopping := True\<rparr>))\<lparr>mp_state := AppStopped\<rparr>) m))"

definition pm_remove :: "bool \<Rightarrow> string \<Rightarrow> process_manager \<Rightarrow> process_manager" where
  "pm_remove err name m =
     (case gm_get (pm_processes m) name of None \<Rightarrow> m
      | Some c \<Rightarrow> (case pm_heap m c of None \<Rightarrow> m
          | Some p \<Rightarrow> (put_cell c ((stop_process err (p\<lparr>mp_stopping := True\<rparr>))\<lparr>mp_log_open := False\<rparr>) m)
              \<lparr>pm_processes := gm_del name (pm_processes m)\<rparr>))"

text \<open>\<open>Close\<close> stops every process of the map, one after the other; no two names share a cell.\<close>

definition close_process :: "bool \<Rightarrow> managed_process \<Rightarrow> managed_process" where
  "close_process err p = (stop_process err (p\<lparr>mp_stopping := True\<rparr>))\<lparr>mp_log_open := False\<rparr>"

definition pm_close :: "bool \<Rightarrow> process_manager \<Rightarrow> process_manager" where
  "pm_close err m = m\<lparr>pm_heap := (\<lambda>c. if c \<in> snd ` set (pm_processes m)
       then map_option (close_process err) (pm_heap m c) else pm_heap m c), pm_processes := []\<rparr>"

section \<open>The monitor\<close>

text \<open>The process ends by itself: \<open>Wait\<close> returns and \<open>done\<close> is closed.\<close>

definition pm_exit :: "bool \<Rightarrow> nat \<Rightarrow> process_manager \<Rightarrow> process_manager" where
  "pm_exit err c m = (case pm_heap m c of None \<Rightarrow> m
     | Some p \<Rightarrow> if mp_phase p = Alive then put_cell c (p\<lparr>mp_phase := Exited err\<rparr>) m else m)"

definition tracked :: "nat \<Rightarrow> managed_process \<Rightarrow> process_manager \<Rightarrow> bool" where
  "tracked c p m \<longleftrightarrow> gm_get (pm_processes m) (mp_name p) = Some c"

definition should_restart :: "restart_policy \<Rightarrow> bool \<Rightarrow> bool" where
  "should_restart policy err =
     (case policy of RestartAlways \<Rightarrow> True | RestartOnFailure \<Rightarrow> err | _ \<Rightarrow> False)"

definition backoff_seconds :: "nat \<Rightarrow> nat" where
  "backoff_seconds restart_count = min (2 ^ (restart_count - 1)) max_backoff"

definition final_state :: "bool \<Rightarrow> app_state" where
  "final_state err = (if err then AppFailed else AppStopped)"

text \<open>What the monitor does once \<open>Wait\<close> has returned and it holds the lock.\<close>

definition pm_monitor :: "nat \<Rightarrow> process_manager \<Rightarrow> process_manager" where
  "pm_monitor c m =
     (case pm_heap m c of None \<Rightarrow> m
      | Some p \<Rightarrow>
        (case mp_phase p of
           Exited err \<Rightarrow>
             if \<not> tracked c p m then put_cell c (p\<lparr>mp_phase := Finished\<rparr>) m
             else if mp_stopping p \<or> \<not> should_restart (mp_restart_policy p) err
             then put_cell c (p\<lparr>mp_phase := Finished, mp_state := final_state err\<rparr>) m
             else if max_restarts \<le> mp_restart_count p
             then put_cell c (p\<lparr>mp_phase := Finished, mp_state := AppFailed\<rparr>) m
             else put_cell c (p\<lparr>mp_restart_count := Suc (mp_restart_count p),
                    mp_phase := Backoff (backoff_seconds (Suc (mp_restart_count p)))\<rparr>) m
         | _ \<Rightarrow> m))"

text \<open>\<open>restartProcess\<close>; \<open>start\<close> is the new process identifier, if it starts.\<close>

definition restart_process :: "nat option \<Rightarrow> timestamp \<Rightarrow> managed_process \<Rightarrow> managed_process" where
  "restart_process start now p =
     (case start of None \<Rightarrow> p\<lparr>mp_state := AppFailed, mp_phase := Finished\<rparr>
      | Some pid \<Rightarrow> p\<lparr>mp_pid := pid, mp_started_at := now, mp_state := AppRunning, mp_phase := Alive\<rparr>)"

text \<open>The end of the sleep.\<close>

definition pm_wake :: "nat option \<Rightarrow> timestamp \<Rightarrow> nat \<Rightarrow> process_manager \<Rightarrow> process_manager" where
  "pm_wake start now c m =
     (case pm_heap m c of None \<Rightarrow> m
      | Some p \<Rightarrow>
        (case mp_phase p of
           Backoff s \<Rightarrow>
             if \<not> tracked c p m \<or> mp_stopping p then put_cell c (p\<lparr>mp_phase := Finished\<rparr>) m
             else put_cell c (restart_process start now p) m
         | _ \<Rightarrow> m))"

section \<open>Status and logs\<close>

text \<open>\<open>proc\<close> is the text of \<open>/proc/pid/status\<close>, if it can be read.\<close>

definition get_process_status :: "string option \<Rightarrow> string" where
  "get_process_status proc =
     (case proc of None \<Rightarrow> ''exited''
      | Some data \<Rightarrow>
        (case find (\<lambda>l. has_prefix ''State:'' l \<and> 2 \<le> length (str_fields l)) (split_on CHR 0x0A data) of
           None \<Rightarrow> ''unknown'' | Some l \<Rightarrow> join '' '' (tl (str_fields l))))"

definition state_text :: "app_state \<Rightarrow> string" where
  "state_text s = (case s of AppPending \<Rightarrow> ''pending'' | AppRunning \<Rightarrow> ''running''
     | AppStopped \<Rightarrow> ''stopped'' | AppFailed \<Rightarrow> ''failed'')"

text \<open>The status of one process, and the process with the state it was found in.\<close>

definition process_status :: "(nat \<Rightarrow> string option) \<Rightarrow> managed_process \<Rightarrow> app_status \<times> managed_process" where
  "process_status proc p =
     (let ps = get_process_status (proc (mp_pid p));
          (p', base) = (if mp_state p = AppRunning
            then if ps = ''exited'' then (p\<lparr>mp_state := AppStopped\<rparr>, ''stopped (exited)'')
                 else (p, ''running (pid '' @ show_nat (mp_pid p) @ '', '' @ ps @ '')'')
            else (p, state_text (mp_state p)));
          st = (if 0 < mp_restart_count p then base @ '', restarts: '' @ show_nat (mp_restart_count p) else base)
      in (\<lparr>as_name = mp_name p, as_execution_mode = ModeProcess, as_id = show_nat (mp_pid p), as_image = [],
            as_binary = mp_binary p, as_state = mp_state p', as_status = st, as_ports = [],
            as_started_at = Some (mp_started_at p), as_restart_count = int (mp_restart_count p)\<rparr>, p'))"

fun status_cells :: "(nat \<Rightarrow> string option) \<Rightarrow> nat list \<Rightarrow> process_manager \<Rightarrow> process_manager \<times> app_status list" where
  "status_cells proc [] m = (m, [])"
| "status_cells proc (c # cs) m =
     (case pm_heap m c of None \<Rightarrow> status_cells proc cs m
      | Some p \<Rightarrow> (case process_status proc p of (s, p') \<Rightarrow>
          (case status_cells proc cs (put_cell c p' m) of (m', ss) \<Rightarrow> (m', s # ss))))"

definition pm_get_status :: "(nat \<Rightarrow> string option) \<Rightarrow> process_manager \<Rightarrow> process_manager \<times> app_status list" where
  "pm_get_status proc m = status_cells proc (map snd (pm_processes m)) m"

end
