(* ===== verification/Procs_Inv.thy ===== *)
theory Procs_Inv
  imports Procs
begin

text \<open>
  The reachable states of the process manager: its steps, the invariant they keep, and what follows
  for an application: at most one process at a time, no restart after a stop, a bounded number of
  restarts with a bounded delay.
\<close>

section \<open>Steps\<close>

inductive pm_step :: "process_manager \<Rightarrow> process_manager \<Rightarrow> bool" where
  step_deploy: "pm_step m (fst (pm_deploy sp app m))"
| step_stop: "pm_step m (pm_stop err name m)"
| step_remove: "pm_step m (pm_remove err name m)"
| step_close: "pm_step m (pm_close err m)"
| step_status: "pm_step m (fst (pm_get_status proc m))"
| step_exit: "pm_step m (pm_exit err c m)"
| step_monitor: "pm_step m (pm_monitor c m)"
| step_wake: "pm_step m (pm_wake start now c m)"

inductive_cases pm_stepE: "pm_step m m'"

inductive pm_reachable :: "process_manager \<Rightarrow> bool" where
  reach_new: "pm_reachable new_process_manager"
| reach_step: "pm_reachable m \<Longrightarrow> pm_step m m' \<Longrightarrow> pm_reachable m'"

section \<open>The invariant\<close>

definition cell_ok :: "process_manager \<Rightarrow> nat \<Rightarrow> managed_process \<Rightarrow> bool" where
  "cell_ok m c p \<longleftrightarrow> c < pm_next m \<and> mp_restart_count p \<le> max_restarts \<and>
     (\<forall>s. mp_phase p = Backoff s \<longrightarrow> 1 \<le> s \<and> s \<le> max_backoff) \<and>
     (mp_phase p = Alive \<longrightarrow> tracked c p m \<and> \<not> mp_stopping p)"

definition pm_inv :: "process_manager \<Rightarrow> bool" where
  "pm_inv m \<longleftrightarrow> gm_ok (pm_processes m) \<and>
     (\<forall>n c. gm_get (pm_processes m) n = Some c \<longrightarrow> (\<exists>p. pm_heap m c = Some p \<and> mp_name p = n)) \<and>
     (\<forall>c p. pm_heap m c = Some p \<longrightarrow> cell_ok m c p)"

lemma pm_inv_cell: "pm_inv m \<Longrightarrow> pm_heap m c = Some p \<Longrightarrow> cell_ok m c p"
  by (simp add: pm_inv_def)

lemma pm_inv_name: "pm_inv m \<Longrightarrow> gm_get (pm_processes m) n = Some c \<Longrightarrow> \<exists>p. pm_heap m c = Some p \<and> mp_name p = n"
  by (simp add: pm_inv_def)

lemma put_cell_simps [simp]:
  "pm_processes (put_cell c p m) = pm_processes m" "pm_next (put_cell c p m) = pm_next m"
  "pm_heap (put_cell c p m) = (pm_heap m)(c := Some p)"
  by (simp_all add: put_cell_def)

lemma pm_inv_put [wf_intros]:
  assumes "pm_inv m" "pm_heap m c = Some p" "mp_name p' = mp_name p" "cell_ok m c p'"
  shows "pm_inv (put_cell c p' m)"
proof -
  have "cell_ok (put_cell c p' m) d q" if "cell_ok m d q" for d q
    using that by (simp add: cell_ok_def tracked_def)
  moreover have "mp_name p' = n" if "gm_get (pm_processes m) n = Some c" for n
    using pm_inv_name [OF assms(1) that] assms(2,3) by simp
  ultimately show ?thesis
    using assms by (auto simp: pm_inv_def)
qed

text \<open>An entry leaves the map; its cell must not be running.\<close>

lemma pm_inv_forget:
  assumes "pm_inv m" "\<And>c p. gm_get (pm_processes m) n = Some c \<Longrightarrow> pm_heap m c = Some p \<Longrightarrow> mp_phase p \<noteq> Alive"
  shows "pm_inv (m\<lparr>pm_processes := gm_del n (pm_processes m)\<rparr>)"
proof -
  have "cell_ok (m\<lparr>pm_processes := gm_del n (pm_processes m)\<rparr>) c p" if h: "pm_heap m c = Some p" for c p
    using pm_inv_cell [OF assms(1) h] assms(2) [of c p] h by (auto simp: cell_ok_def tracked_def gomap_simps)
  then show ?thesis using assms(1) by (auto simp: pm_inv_def gomap_simps)
qed

lemma stop_process_simps [simp]:
  "mp_name (stop_process e p) = mp_name p" "mp_restart_count (stop_process e p) = mp_restart_count p"
  "mp_phase (stop_process e p) \<noteq> Alive" "mp_phase (stop_process e p) = Backoff s \<longleftrightarrow> mp_phase p = Backoff s"
  "mp_stopping (stop_process e p) = mp_stopping p"
  by (auto simp: stop_process_def)

lemma cell_ok_stopped: "cell_ok m c p \<Longrightarrow> cell_ok m c (stop_process e (p\<lparr>mp_stopping := True\<rparr>))"
  by (auto simp: cell_ok_def)

lemma cell_ok_fields [simp]:
  "cell_ok m c (p\<lparr>mp_state := s\<rparr>) = cell_ok m c p" "cell_ok m c (p\<lparr>mp_log_open := b\<rparr>) = cell_ok m c p"
  by (simp_all add: cell_ok_def tracked_def)

lemma backoff_bounds: "1 \<le> backoff_seconds n \<and> backoff_seconds n \<le> max_backoff"
  by (simp add: backoff_seconds_def max_backoff_def)

lemma pm_stop_inv [wf_intros]: "pm_inv m \<Longrightarrow> pm_inv (pm_stop err name m)"
  by (auto simp: pm_stop_def intro!: pm_inv_put cell_ok_stopped dest: pm_inv_cell split: option.split)

lemma pm_remove_inv [wf_intros]:
  assumes "pm_inv m"
  shows "pm_inv (pm_remove err name m)"
proof (cases "gm_get (pm_processes m) name")
  case (Some c)
  then obtain p where p: "pm_heap m c = Some p" using pm_inv_name [OF assms] by blast
  let ?p = "(stop_process err (p\<lparr>mp_stopping := True\<rparr>))\<lparr>mp_log_open := False\<rparr>"
  have "pm_inv (put_cell c ?p m)"
    by (rule pm_inv_put [OF assms p]) (simp_all add: cell_ok_stopped pm_inv_cell [OF assms p])
  then have "pm_inv ((put_cell c ?p m)\<lparr>pm_processes := gm_del name (pm_processes (put_cell c ?p m))\<rparr>)"
    by (rule pm_inv_forget) (auto simp: Some)
  then show ?thesis using Some p by (simp add: pm_remove_def)
qed (use assms in \<open>simp add: pm_remove_def\<close>)

lemma pm_inv_spawn:
  assumes "pm_inv m" "mp_restart_count p = 0" "mp_phase p = Alive" "\<not> mp_stopping p"
    and "\<And>c q. gm_get (pm_processes m) (mp_name p) = Some c \<Longrightarrow> pm_heap m c = Some q \<Longrightarrow> mp_phase q \<noteq> Alive"
  shows "pm_inv ((put_cell (pm_next m) p m)\<lparr>pm_processes := gm_set (mp_name p) (pm_next m) (pm_processes m),
    pm_next := Suc (pm_next m)\<rparr>)"
proof -
  have fresh: "pm_heap m (pm_next m) = None"
    using pm_inv_cell [OF assms(1)] by (cases "pm_heap m (pm_next m)") (auto simp: cell_ok_def)
  have old: "c \<noteq> pm_next m" if "pm_heap m c = Some q" for c q using that fresh by auto
  let ?m = "(put_cell (pm_next m) p m)\<lparr>pm_processes := gm_set (mp_name p) (pm_next m) (pm_processes m),
    pm_next := Suc (pm_next m)\<rparr>"
  have "cell_ok ?m c q" if h: "pm_heap m c = Some q" for c q
    using pm_inv_cell [OF assms(1) h] old [OF h] assms(5) [of c q] h
    by (auto simp: cell_ok_def tracked_def gomap_simps)
  moreover have "cell_ok ?m (pm_next m) p"
    using assms(2-4) by (simp add: cell_ok_def tracked_def gomap_simps)
  ultimately show ?thesis
    using assms(1) old pm_inv_name [OF assms(1)]
    by (auto simp: pm_inv_def gomap_simps split: if_splits) metis
qed

lemma pm_deploy_inv [wf_intros]:
  assumes "pm_inv m"
  shows "pm_inv (fst (pm_deploy sp app m))"
proof (cases "validate_process_app (sp_binary_exists sp) app")
  case None
  let ?n = "app_name app"
  define m1 where "m1 = (case gm_get (pm_processes m) ?n of None \<Rightarrow> m
                  | Some c \<Rightarrow> (case pm_heap m c of None \<Rightarrow> m
                      | Some p \<Rightarrow> (put_cell c (stop_process (sp_killed_err sp) (p\<lparr>mp_stopping := True\<rparr>)) m)
                          \<lparr>pm_processes := gm_del ?n (pm_processes m)\<rparr>))"
  have "pm_inv m1 \<and> gm_get (pm_processes m1) ?n = None"
  proof (cases "gm_get (pm_processes m) ?n")
    case (Some c)
    then obtain p where p: "pm_heap m c = Some p" using pm_inv_name [OF assms] by blast
    let ?p = "stop_process (sp_killed_err sp) (p\<lparr>mp_stopping := True\<rparr>)"
    have "pm_inv (put_cell c ?p m)"
      by (rule pm_inv_put [OF assms p]) (simp_all add: cell_ok_stopped pm_inv_cell [OF assms p])
    then have "pm_inv ((put_cell c ?p m)\<lparr>pm_processes := gm_del ?n (pm_processes (put_cell c ?p m))\<rparr>)"
      by (rule pm_inv_forget) (auto simp: Some)
    then show ?thesis using Some p by (simp add: m1_def gomap_simps)
  qed (use assms in \<open>simp add: m1_def\<close>)
  then have "pm_inv ((put_cell (pm_next m1) (new_process sp app pid) m1)\<lparr>pm_processes :=
      gm_set ?n (pm_next m1) (pm_processes m1), pm_next := Suc (pm_next m1)\<rparr>)" for pid
    using pm_inv_spawn [of m1 "new_process sp app pid"] by (simp add: new_process_def)
  then show ?thesis
    using None \<open>pm_inv m1 \<and> _\<close> by (simp add: pm_deploy_def m1_def [symmetric] Let_def split: option.split)
qed (simp add: pm_deploy_def assms)

lemma pm_close_inv [wf_intros]:
  assumes "pm_inv m"
  shows "pm_inv (pm_close err m)"
proof -
  have "cell_ok (pm_close err m) c q" if h: "pm_heap (pm_close err m) c = Some q" for c q
  proof -
    obtain p where p: "pm_heap m c = Some p"
        "q = (if c \<in> snd ` set (pm_processes m) then close_process err p else p)"
      using h by (auto simp: pm_close_def split: if_splits)
    have "c \<in> snd ` set (pm_processes m)" if "mp_phase p = Alive"
    proof -
      have "gm_get (pm_processes m) (mp_name p) = Some c"
        using pm_inv_cell [OF assms p(1)] that by (simp add: cell_ok_def tracked_def)
      then show ?thesis by (force dest: map_of_SomeD)
    qed
    then show ?thesis
      using p(2) pm_inv_cell [OF assms p(1)]
      by (auto simp: cell_ok_def pm_close_def close_process_def)
  qed
  then show ?thesis by (simp add: pm_inv_def pm_close_def)
qed

lemma pm_exit_inv [wf_intros]: "pm_inv m \<Longrightarrow> pm_inv (pm_exit err c m)"
  by (auto simp: pm_exit_def cell_ok_def intro!: pm_inv_put dest: pm_inv_cell split: option.split)

lemma pm_monitor_inv [wf_intros]: "pm_inv m \<Longrightarrow> pm_inv (pm_monitor c m)"
  using backoff_bounds
  by (auto simp: pm_monitor_def cell_ok_def intro!: pm_inv_put dest: pm_inv_cell split: option.split phase.split)

lemma pm_wake_inv [wf_intros]: "pm_inv m \<Longrightarrow> pm_inv (pm_wake start now c m)"
  by (auto simp: pm_wake_def restart_process_def cell_ok_def tracked_def intro!: pm_inv_put
      dest: pm_inv_cell split: option.split phase.split)

lemma process_status_cell: "process_status proc p = (s, p') \<Longrightarrow> p' = p \<or> p' = p\<lparr>mp_state := AppStopped\<rparr>"
  by (auto simp: process_status_def Let_def split: if_splits)

lemma status_cells_inv: "pm_inv m \<Longrightarrow> pm_inv (fst (status_cells proc cs m))"
proof (induction cs arbitrary: m)
  case (Cons c cs)
  show ?case
  proof (cases "pm_heap m c")
    case (Some p)
    obtain s p' where p': "process_status proc p = (s, p')" by (cases "process_status proc p")
    have "pm_inv (put_cell c p' m)"
      using process_status_cell [OF p'] pm_inv_put [OF Cons.prems Some] pm_inv_cell [OF Cons.prems Some] by auto
    then show ?thesis using Cons.IH Some p' by (simp split: prod.split) (metis fst_conv)
  qed (use Cons in simp)
qed simp

lemma pm_step_inv: "pm_step m m' \<Longrightarrow> pm_inv m \<Longrightarrow> pm_inv m'"
  by (erule pm_stepE) (auto intro: wf_intros simp: pm_get_status_def status_cells_inv)

lemma pm_reachable_inv: "pm_reachable m \<Longrightarrow> pm_inv m"
proof (induction rule: pm_reachable.induct)
  case reach_new
  show ?case by (simp add: pm_inv_def new_process_manager_def)
next
  case (reach_step m m')
  then show ?case using pm_step_inv by blast
qed

text \<open>How a process that ended by itself goes on: it is started again exactly when its policy asks
  for it and it has restarts left, after a delay that doubles from one second to sixteen;
  otherwise it is over, failed if it failed or ran out of restarts.\<close>

theorem monitor_decides:
  assumes "pm_heap m c = Some p" "mp_phase p = Exited err" "tracked c p m" "\<not> mp_stopping p"
  shows "pm_heap (pm_monitor c m) c = Some
      (if mp_restart_policy p = RestartAlways \<or> mp_restart_policy p = RestartOnFailure \<and> err
       then if mp_restart_count p < 5
         then p\<lparr>mp_restart_count := Suc (mp_restart_count p), mp_phase := Backoff (min (2 ^ mp_restart_count p) 30)\<rparr>
         else p\<lparr>mp_phase := Finished, mp_state := AppFailed\<rparr>
       else p\<lparr>mp_phase := Finished, mp_state := (if err then AppFailed else AppStopped)\<rparr>) \<and>
    map backoff_seconds [1, 2, 3, 4, 5] = [1, 2, 4, 8, 16] \<and>
    (\<forall>q s start now. pm_heap (pm_monitor c m) c = Some q \<longrightarrow> mp_phase q = Backoff s \<longrightarrow>
       pm_heap (pm_wake start now c (pm_monitor c m)) c = Some (restart_process start now q))"
proof -
  have "pm_heap (pm_monitor c m) c = Some
      (if mp_restart_policy p = RestartAlways \<or> mp_restart_policy p = RestartOnFailure \<and> err
       then if mp_restart_count p < 5
         then p\<lparr>mp_restart_count := Suc (mp_restart_count p), mp_phase := Backoff (min (2 ^ mp_restart_count p) 30)\<rparr>
         else p\<lparr>mp_phase := Finished, mp_state := AppFailed\<rparr>
       else p\<lparr>mp_phase := Finished, mp_state := (if err then AppFailed else AppStopped)\<rparr>)" (is "_ = Some ?q")
    using assms by (simp add: pm_monitor_def should_restart_def max_restarts_def backoff_seconds_def
        max_backoff_def final_state_def split: restart_policy.split)
  moreover have "pm_processes (pm_monitor c m) = pm_processes m"
    by (simp add: pm_monitor_def split: option.split phase.split)
  ultimately have "pm_heap (pm_wake start now c (pm_monitor c m)) c = Some (restart_process start now q)"
    if "pm_heap (pm_monitor c m) c = Some q" "mp_phase q = Backoff s" for q s start now
    using that assms(3,4) by (auto simp: pm_wake_def tracked_def split: if_splits)
  then show ?thesis
    using \<open>pm_heap (pm_monitor c m) c = Some ?q\<close> by (simp add: backoff_seconds_def max_backoff_def)
qed

definition demo_exited :: process_manager where
  "demo_exited = pm_exit True 0 (fst (pm_deploy
     \<lparr>sp_binary_exists = True, sp_killed_err = True, sp_log_opens = True, sp_start = Some 42, sp_now = 0, sp_environ = []\<rparr>
     (zero_app\<lparr>app_name := ''web'', app_binary := ''/bin/web'', app_restart_policy := RestartAlways\<rparr>)
     new_process_manager))"

theorem monitor_decides_witness:
  "\<exists>q. pm_heap (pm_monitor 0 demo_exited) 0 = Some q \<and> mp_phase q = Backoff 1"
proof -
  obtain p where p: "pm_heap demo_exited 0 = Some p" "mp_phase p = Exited True" "tracked 0 p demo_exited"
      "\<not> mp_stopping p" "mp_restart_policy p = RestartAlways" "mp_restart_count p = 0"
    by (simp add: demo_exited_def pm_exit_def pm_deploy_def zero_app_def new_process_manager_def tracked_def
      validate_process_app_def plain_component_def new_process_def)
  from monitor_decides [OF p(1-4)] p(5,6) show ?thesis by simp
qed

section \<open>What holds for every application\<close>

text \<open>C6: in every state the process manager can reach, with deploys, stops, removals, exits,
  monitors and wake-ups in any order, an application has at most one running process, which is
  the one of its current entry, no process that was told to stop runs, no process is restarted more
  than five times, and a restart waits between one and thirty seconds.\<close>

theorem process_manager_safe:
  assumes "pm_reachable m" "pm_heap m c = Some p"
  shows "(mp_phase p = Alive \<longrightarrow> gm_get (pm_processes m) (mp_name p) = Some c \<and> \<not> mp_stopping p) \<and>
    (\<forall>d q. pm_heap m d = Some q \<longrightarrow> mp_phase p = Alive \<longrightarrow> mp_phase q = Alive \<longrightarrow>
       mp_name q = mp_name p \<longrightarrow> d = c) \<and>
    mp_restart_count p \<le> 5 \<and> (\<forall>s. mp_phase p = Backoff s \<longrightarrow> 1 \<le> s \<and> s \<le> 30)"
proof -
  note inv = pm_reachable_inv [OF assms(1)]
  have alive: "gm_get (pm_processes m) (mp_name q) = Some d" if "pm_heap m d = Some q" "mp_phase q = Alive" for d q
    using pm_inv_cell [OF inv that(1)] that(2) by (simp add: cell_ok_def tracked_def)
  have one: "d = c" if "pm_heap m d = Some q" "mp_phase p = Alive" "mp_phase q = Alive" "mp_name q = mp_name p" for d q
    using alive [OF that(1,3)] alive [OF assms(2) that(2)] that(4) by simp
  have "cell_ok m c p" by (rule pm_inv_cell [OF inv assms(2)])
  then show ?thesis
    using one unfolding cell_ok_def tracked_def max_restarts_def max_backoff_def by blast
qed

definition demo_app :: app_spec where
  "demo_app = zero_app\<lparr>app_name := ''web'', app_binary := ''/bin/web'', app_restart_policy := RestartAlways\<rparr>"

definition demo_spawn :: spawn_env where
  "demo_spawn = \<lparr>sp_binary_exists = True, sp_killed_err = True, sp_log_opens = True, sp_start = Some 42,
     sp_now = 0, sp_environ = []\<rparr>"

definition demo_pm :: process_manager where
  "demo_pm = fst (pm_deploy demo_spawn demo_app new_process_manager)"

lemma demo_pm_reachable: "pm_reachable demo_pm"
  unfolding demo_pm_def by (rule reach_step [OF reach_new step_deploy])

lemma demo_pm_cell: "pm_heap demo_pm 0 = Some (new_process demo_spawn demo_app 42)"
    "pm_processes demo_pm = [(''web'', 0)]"
  by (simp_all add: demo_pm_def pm_deploy_def demo_spawn_def demo_app_def zero_app_def new_process_manager_def
      validate_process_app_def plain_component_def new_process_def)

theorem process_manager_safe_witness:
  "mp_restart_count (new_process demo_spawn demo_app 42) \<le> 5 \<and>
   gm_get (pm_processes demo_pm) (mp_name (new_process demo_spawn demo_app 42)) = Some 0"
  using process_manager_safe [OF demo_pm_reachable demo_pm_cell(1)]
  by (simp add: new_process_def)

lemma stopping_cell: "mp_stopping p \<Longrightarrow> mp_stopping (close_process e p)"
  by (simp add: close_process_def)

definition stop_marked :: "nat \<Rightarrow> process_manager \<Rightarrow> bool" where
  "stop_marked c m \<longleftrightarrow> (\<exists>p. pm_heap m c = Some p \<and> mp_stopping p)"

lemma stop_marked_put: "stop_marked c m \<Longrightarrow> (d = c \<Longrightarrow> mp_stopping p) \<Longrightarrow> stop_marked c (put_cell d p m)"
  by (auto simp: stop_marked_def)

lemma stop_marked_procs [simp]:
  "stop_marked c (m\<lparr>pm_processes := ps\<rparr>) = stop_marked c m" "stop_marked c (m\<lparr>pm_next := n\<rparr>) = stop_marked c m"
  by (simp_all add: stop_marked_def)

lemma stop_marked_step:
  assumes "pm_step m m'" "pm_inv m" "stop_marked c m"
  shows "stop_marked c m'"
  using assms(1)
proof cases
  case (step_deploy sp app)
  have fresh: "pm_next m \<noteq> c"
    using assms(2,3) pm_inv_cell by (fastforce simp: stop_marked_def cell_ok_def)
  show ?thesis
    unfolding step_deploy pm_deploy_def using assms(3) fresh
    by (auto simp: Let_def stop_marked_def split: option.split)
next
  case (step_status proc)
  have "stop_marked c (fst (status_cells proc cs m))" if "stop_marked c m" for cs m
    using that
  proof (induction cs arbitrary: m)
    case (Cons d cs)
    show ?case
    proof (cases "pm_heap m d")
      case (Some p)
      obtain s p' where p': "process_status proc p = (s, p')" by (cases "process_status proc p")
      have "stop_marked c (put_cell d p' m)"
        using Cons.prems Some process_status_cell [OF p'] by (auto simp: stop_marked_def)
      then show ?thesis using Cons.IH Some p' by (simp split: prod.split) (metis fst_conv)
    qed (use Cons in simp)
  qed simp
  then show ?thesis using assms(3) by (simp add: step_status pm_get_status_def)
qed (use assms(3) in \<open>auto simp: stop_marked_def pm_stop_def pm_remove_def pm_close_def close_process_def
      pm_exit_def pm_monitor_def pm_wake_def restart_process_def split: option.split phase.split\<close>)

text \<open>C23: a stop is final: whatever happens after a process was stopped, exits, wake-ups, new deploys
  of the same application, this process never runs again.\<close>

theorem stop_is_final:
  assumes "pm_reachable m" "gm_get (pm_processes m) name = Some c"
    and "pm_step\<^sup>*\<^sup>* (pm_stop err name m) m'" "pm_heap m' c = Some p"
  shows "mp_stopping p \<and> mp_phase p \<noteq> Alive"
proof -
  have "pm_inv m" by (rule pm_reachable_inv [OF assms(1)])
  then obtain q where "pm_heap m c = Some q" using pm_inv_name assms(2) by blast
  then have "stop_marked c (pm_stop err name m)"
    using assms(2) by (simp add: pm_stop_def stop_marked_def)
  moreover have "pm_inv (pm_stop err name m)" using \<open>pm_inv m\<close> by (rule pm_stop_inv)
  moreover have "stop_marked c m' \<and> pm_inv m'" if "pm_step\<^sup>*\<^sup>* x m'" "stop_marked c x" "pm_inv x" for x
    using that by (induction rule: rtranclp_induct) (auto dest: stop_marked_step pm_step_inv)
  ultimately have "stop_marked c m' \<and> pm_inv m'"
    using assms(3) by blast
  then show ?thesis
    using assms(4) pm_inv_cell by (fastforce simp: stop_marked_def cell_ok_def)
qed

theorem stop_is_final_witness:
  "\<exists>p. pm_heap (pm_exit True 0 (pm_stop True ''web'' demo_pm)) 0 = Some p \<and> mp_phase p \<noteq> Alive"
proof -
  let ?m = "pm_exit True 0 (pm_stop True ''web'' demo_pm)"
  obtain p where p: "pm_heap ?m 0 = Some p"
    by (simp add: pm_exit_def pm_stop_def demo_pm_cell split: option.split)
  have "pm_step\<^sup>*\<^sup>* (pm_stop True ''web'' demo_pm) ?m" by (rule r_into_rtranclp) (rule step_exit)
  moreover have "gm_get (pm_processes demo_pm) ''web'' = Some 0" by (simp add: demo_pm_cell)
  ultimately show ?thesis
    using stop_is_final [OF demo_pm_reachable, of "''web''" 0 True ?m p] p by blast
qed

text \<open>Stopping a running process that ends with an error, as one killed by the signal does,
  first shows it as stopped; but when its monitor gets the lock it overwrites the state, and from
  then on the application is shown as failed.\<close>

theorem stopped_shown_failed:
  assumes "gm_get (pm_processes m) name = Some c" "pm_heap m c = Some p" "mp_name p = name" "mp_phase p = Alive"
  shows "map_option mp_state (pm_heap (pm_stop True name m) c) = Some AppStopped \<and>
    map_option mp_state (pm_heap (pm_monitor c (pm_stop True name m)) c) = Some AppFailed"
  using assms by (simp add: pm_stop_def pm_monitor_def stop_process_def tracked_def final_state_def)

theorem stopped_shown_failed_witness:
  "map_option mp_state (pm_heap (pm_monitor 0 (pm_stop True ''web'' demo_pm)) 0) = Some AppFailed"
  using stopped_shown_failed [of demo_pm "''web''" 0 "new_process demo_spawn demo_app 42"]
  by (simp add: demo_pm_cell new_process_def demo_app_def)

end
