(* ===== verification/Docker.thy ===== *)
theory Docker
  imports Procs
begin

text \<open>
  The docker manager of the guest (internal/init/docker.go) and the executor manager that chooses
  between it and the process manager (internal/init/executor.go). The docker daemon is not part of
  the repository: it is a record of functions over its own state, one per call of the client.
\<close>

section \<open>The client of the daemon\<close>

datatype docker_reply = DkOk | DkNotFound | DkError string

record container_config =
  cc_image :: string
  cc_env :: "string list"
  cc_cmd :: "string list"
  cc_working_dir :: string
  cc_exposed_ports :: "string list"
  cc_port_bindings :: "string gomap"
  cc_restart_policy :: string
  cc_memory :: int
  cc_nano_cpus :: int
  cc_binds :: "string list"
  cc_aliases :: "string list"

record docker_container =
  dc_id :: string
  dc_names :: "string list"
  dc_image :: string
  dc_state :: string
  dc_status :: string
  dc_ports :: "port_mapping list"

record 'd docker_client =
  dk_network_inspect :: "string \<Rightarrow> 'd \<Rightarrow> bool"
  dk_network_create :: "string \<Rightarrow> 'd \<Rightarrow> 'd \<times> docker_reply"
  dk_image_inspect :: "string \<Rightarrow> 'd \<Rightarrow> bool"
  dk_image_pull :: "string \<Rightarrow> 'd \<Rightarrow> 'd \<times> docker_reply"
  dk_container_list :: "'d \<Rightarrow> string + docker_container list"
  dk_container_remove :: "string \<Rightarrow> 'd \<Rightarrow> 'd \<times> docker_reply"
  dk_container_create :: "string \<Rightarrow> container_config \<Rightarrow> 'd \<Rightarrow> 'd \<times> (string + string)"
  dk_container_start :: "string \<Rightarrow> 'd \<Rightarrow> 'd \<times> docker_reply"
  dk_container_stop :: "string \<Rightarrow> 'd \<Rightarrow> 'd \<times> docker_reply"
  dk_container_logs :: "string \<Rightarrow> int \<Rightarrow> 'd \<Rightarrow> string + string \<times> string"
  dk_started_at :: "string \<Rightarrow> 'd \<Rightarrow> timestamp option"
  dk_server_version :: "'d \<Rightarrow> string option"

section \<open>The docker manager\<close>

definition goship_network_name :: string where "goship_network_name = ''goship''"

definition bytes_per_megabyte :: int where "bytes_per_megabyte = 1024 * 1024"

definition ensure_network :: "'d docker_client \<Rightarrow> 'd \<Rightarrow> 'd \<times> executor_error option" where
  "ensure_network cl d =
     (if dk_network_inspect cl goship_network_name d then (d, None)
      else (case dk_network_create cl goship_network_name d of
          (d', DkOk) \<Rightarrow> (d', None) | (d', DkNotFound) \<Rightarrow> (d', Some (DockerError ''not found''))
        | (d', DkError e) \<Rightarrow> (d', Some (DockerError e))))"

definition to_docker_restart_policy :: "restart_policy \<Rightarrow> string" where
  "to_docker_restart_policy policy =
     (case policy of RestartAlways \<Rightarrow> ''always'' | RestartOnFailure \<Rightarrow> ''on-failure''
      | RestartNever \<Rightarrow> ''no'' | _ \<Rightarrow> ''unless-stopped'')"

definition to_app_state :: "string \<Rightarrow> app_state" where
  "to_app_state s =
     (if s = ''running'' then AppRunning
      else if s = ''exited'' \<or> s = ''dead'' then AppStopped
      else if s = ''created'' \<or> s = ''restarting'' then AppPending else AppFailed)"

definition image_reference :: "app_spec \<Rightarrow> string" where
  "image_reference app =
     (if app_tag app \<noteq> [] then app_image app @ '':'' @ app_tag app
      else if CHR '':'' \<notin> set (app_image app) then app_image app @ '':latest'' else app_image app)"

definition port_key :: "port_mapping \<Rightarrow> string" where
  "port_key p = show_int (container_port p) @ ''/'' @ (if protocol p = [] then ''tcp'' else protocol p)"

definition container_name :: "string \<Rightarrow> string" where
  "container_name app = ''goship-'' @ app"

text \<open>
  The configuration of the container. The product of the memory limit is an int64 product and the
  CPU limit is truncated to an int64; the option of a volume to be read-only is not used.
\<close>

definition container_config_of :: "app_spec \<Rightarrow> container_config" where
  "container_config_of app =
     (let bindings = fold (\<lambda>p m. gm_set (port_key p) (show_int (host_port p)) m) (app_ports app) []
      in \<lparr>cc_image = image_reference app, cc_env = env_list (app_env app),
          cc_cmd = app_command app @ app_args app, cc_working_dir = app_working_dir app,
          cc_exposed_ports = map fst bindings, cc_port_bindings = bindings,
          cc_restart_policy = to_docker_restart_policy (app_restart_policy app),
          cc_memory = (if 0 < res_memory_mb (app_resources app)
             then wrap64 (res_memory_mb (app_resources app) * bytes_per_megabyte) else 0),
          cc_nano_cpus = (if 0 < res_cpu (app_resources app)
             then \<lfloor>res_cpu (app_resources app) * 1000000000\<rfloor> else 0),
          cc_binds = map (\<lambda>v. vol_source v @ '':'' @ vol_destination v) (app_volumes app),
          cc_aliases = [app_name app]\<rparr>)"

fun remove_named :: "'d docker_client \<Rightarrow> string \<Rightarrow> docker_container list \<Rightarrow> 'd \<Rightarrow> 'd \<times> executor_error option" where
  "remove_named cl name [] d = (d, None)"
| "remove_named cl name (c # cs) d =
     (if CHR ''/'' # name \<in> set (dc_names c)
      then (case dk_container_remove cl (dc_id c) d of
              (d', DkOk) \<Rightarrow> remove_named cl name cs d'
            | (d', DkNotFound) \<Rightarrow> (d', Some (DockerError ''failed to remove existing container''))
            | (d', DkError e) \<Rightarrow> (d', Some (DockerError e)))
      else remove_named cl name cs d)"

definition docker_deploy :: "'d docker_client \<Rightarrow> app_spec \<Rightarrow> 'd \<Rightarrow> 'd \<times> executor_error option" where
  "docker_deploy cl app d =
     (let ref = image_reference app;
          (d1, pulled) = (if dk_image_inspect cl ref d then (d, DkOk) else dk_image_pull cl ref d)
      in if pulled \<noteq> DkOk then (d1, Some (DockerError ''failed to pull image''))
         else (case dk_container_list cl d1 of Inl e \<Rightarrow> (d1, Some (DockerError e))
           | Inr cs \<Rightarrow>
             (case remove_named cl (container_name (app_name app)) cs d1 of
                (d2, Some e) \<Rightarrow> (d2, Some e)
              | (d2, None) \<Rightarrow>
                (case dk_container_create cl (container_name (app_name app)) (container_config_of app) d2 of
                   (d3, Inl e) \<Rightarrow> (d3, Some (DockerError e))
                 | (d3, Inr cid) \<Rightarrow>
                   (case dk_container_start cl cid d3 of
                      (d4, DkOk) \<Rightarrow> (d4, None)
                    | (d4, DkNotFound) \<Rightarrow> (d4, Some (DockerError ''failed to start container''))
                    | (d4, DkError e) \<Rightarrow> (d4, Some (DockerError e)))))))"

definition reply_error :: "docker_reply \<Rightarrow> executor_error option" where
  "reply_error r = (case r of DkOk \<Rightarrow> None | DkNotFound \<Rightarrow> None | DkError e \<Rightarrow> Some (DockerError e))"

definition docker_stop :: "'d docker_client \<Rightarrow> string \<Rightarrow> 'd \<Rightarrow> 'd \<times> executor_error option" where
  "docker_stop cl app d = (case dk_container_stop cl (container_name app) d of (d', r) \<Rightarrow> (d', reply_error r))"

definition docker_remove :: "'d docker_client \<Rightarrow> string \<Rightarrow> 'd \<Rightarrow> 'd \<times> executor_error option" where
  "docker_remove cl app d = (case dk_container_remove cl (container_name app) d of (d', r) \<Rightarrow> (d', reply_error r))"

definition docker_get_logs :: "'d docker_client \<Rightarrow> string \<Rightarrow> int \<Rightarrow> 'd \<Rightarrow> executor_error + string" where
  "docker_get_logs cl app n d =
     (case dk_container_logs cl (container_name app) n d of Inl e \<Rightarrow> Inl (DockerError e)
      | Inr (out, err) \<Rightarrow> Inr (if err = [] then out
          else if out = [] then err else out @ [CHR 0x0A] @ err))"

definition container_app_name :: "docker_container \<Rightarrow> string option" where
  "container_app_name c =
     map_option (\<lambda>n. drop (length ''/goship-'') n) (find (has_prefix ''/goship-'') (dc_names c))"

definition docker_status :: "'d docker_client \<Rightarrow> 'd \<Rightarrow> docker_container \<Rightarrow> app_status option" where
  "docker_status cl d c =
     map_option (\<lambda>name. \<lparr>as_name = name, as_execution_mode = ModeContainer, as_id = take 12 (dc_id c),
        as_image = dc_image c, as_binary = [], as_state = to_app_state (dc_state c),
        as_status = dc_status c, as_ports = dc_ports c,
        as_started_at = (if dc_state c = ''running'' then dk_started_at cl (dc_id c) d else None),
        as_restart_count = 0\<rparr>) (container_app_name c)"

definition docker_get_status :: "'d docker_client \<Rightarrow> 'd \<Rightarrow> executor_error + app_status list" where
  "docker_get_status cl d =
     (case dk_container_list cl d of Inl e \<Rightarrow> Inl (DockerError e)
      | Inr cs \<Rightarrow> Inr (List.map_filter (docker_status cl d) cs))"

section \<open>The executor manager (executor.go)\<close>

text \<open>Both executors are optional: docker may not run, the process manager may be missing.\<close>

record 'd executor =
  ex_client :: "'d docker_client option"
  ex_docker :: 'd
  ex_process :: "process_manager option"

definition executor_deploy :: "spawn_env \<Rightarrow> app_spec \<Rightarrow> 'd executor \<Rightarrow> 'd executor \<times> executor_error option" where
  "executor_deploy sp app x =
     (if is_process_mode app
      then (case ex_process x of None \<Rightarrow> (x, Some (NoExecutor ModeProcess))
        | Some m \<Rightarrow> (case pm_deploy sp app m of (m', e) \<Rightarrow> (x\<lparr>ex_process := Some m'\<rparr>, e)))
      else (case ex_client x of None \<Rightarrow> (x, Some (NoExecutor ModeContainer))
        | Some cl \<Rightarrow> (case docker_deploy cl app (ex_docker x) of (d, e) \<Rightarrow> (x\<lparr>ex_docker := d\<rparr>, e))))"

definition executor_stop :: "bool \<Rightarrow> string \<Rightarrow> 'd executor \<Rightarrow> 'd executor \<times> executor_error option" where
  "executor_stop killed_err name x =
     (let (x1, stopped) = (case ex_client x of None \<Rightarrow> (x, False)
            | Some cl \<Rightarrow> (case docker_stop cl name (ex_docker x) of (d, e) \<Rightarrow> (x\<lparr>ex_docker := d\<rparr>, e = None)))
      in if stopped then (x1, None)
         else (x1\<lparr>ex_process := map_option (pm_stop killed_err name) (ex_process x1)\<rparr>, None))"

definition executor_remove :: "bool \<Rightarrow> string \<Rightarrow> 'd executor \<Rightarrow> 'd executor \<times> executor_error option" where
  "executor_remove killed_err name x =
     (let x1 = (case ex_client x of None \<Rightarrow> x | Some cl \<Rightarrow> x\<lparr>ex_docker := fst (docker_remove cl name (ex_docker x))\<rparr>)
      in (x1\<lparr>ex_process := map_option (pm_remove killed_err name) (ex_process x1)\<rparr>, None))"

text \<open>\<open>read_log\<close> reads the last lines of a log file of a process.\<close>

definition executor_get_logs ::
    "(string \<Rightarrow> int \<Rightarrow> string option) \<Rightarrow> string \<Rightarrow> int \<Rightarrow> 'd executor \<Rightarrow> executor_error + string" where
  "executor_get_logs read_log name n x =
     (let from_process = (case ex_process x of None \<Rightarrow> Inl (NoLogs name)
            | Some m \<Rightarrow> (case process_log_path name of Inl e \<Rightarrow> Inl e
                | Inr p \<Rightarrow> (case read_log p n of None \<Rightarrow> Inl LogReadFailed | Some s \<Rightarrow> Inr s)))
      in case ex_client x of None \<Rightarrow> from_process
         | Some cl \<Rightarrow> (case docker_get_logs cl name n (ex_docker x) of Inr s \<Rightarrow> Inr s | Inl e \<Rightarrow> from_process))"

definition executor_get_all_status ::
    "(nat \<Rightarrow> string option) \<Rightarrow> 'd executor \<Rightarrow> 'd executor \<times> app_status list" where
  "executor_get_all_status proc x =
     (let ds = (case ex_client x of None \<Rightarrow> []
            | Some cl \<Rightarrow> (case docker_get_status cl (ex_docker x) of Inl e \<Rightarrow> [] | Inr ss \<Rightarrow> ss))
      in case ex_process x of None \<Rightarrow> (x, ds)
         | Some m \<Rightarrow> (case pm_get_status proc m of (m', ps) \<Rightarrow> (x\<lparr>ex_process := Some m'\<rparr>, ds @ ps)))"

definition executor_close :: "bool \<Rightarrow> 'd executor \<Rightarrow> 'd executor" where
  "executor_close killed_err x = x\<lparr>ex_process := map_option (pm_close killed_err) (ex_process x)\<rparr>"

section \<open>Properties\<close>

lemma fold_set_get:
  "distinct (map f xs) \<Longrightarrow> gm_get (fold (\<lambda>p m. gm_set (f p) (g p) m) xs m) k =
     (case map_of (map (\<lambda>p. (f p, g p)) xs) k of Some v \<Rightarrow> Some v | None \<Rightarrow> gm_get m k)"
proof (induction xs arbitrary: m)
  case (Cons x xs)
  have "map_of (map (\<lambda>p. (f p, g p)) xs) (f x) = None"
    using Cons.prems by (auto simp: map_of_eq_None_iff)
  then show ?case
    using Cons by (auto simp: gomap_simps split: option.split)
qed simp

text \<open>The container of an application publishes every port mapping of the application on its
  host port, provided no container port is mapped twice, and exposes exactly these ports; but a
  volume is bound the same way whether it is declared read-only or not.\<close>

theorem container_config_ports:
  assumes "distinct (map port_key (app_ports app))"
  shows "(\<forall>p \<in> set (app_ports app).
      gm_get (cc_port_bindings (container_config_of app)) (port_key p) = Some (show_int (host_port p))) \<and>
    set (cc_exposed_ports (container_config_of app)) = port_key ` set (app_ports app) \<and>
    container_config_of (app\<lparr>app_volumes := map (\<lambda>v. v\<lparr>vol_read_only := True\<rparr>) (app_volumes app)\<rparr>) =
      container_config_of app"
proof -
  let ?b = "cc_port_bindings (container_config_of app)"
  let ?m = "map (\<lambda>p. (port_key p, show_int (host_port p))) (app_ports app)"
  have b: "gm_get ?b k = map_of ?m k" for k
    using fold_set_get [OF assms, of "\<lambda>p. show_int (host_port p)" "[]" k]
    by (simp add: container_config_of_def Let_def split: option.split)
  have d: "distinct (map fst ?m)" using assms by (simp add: o_def)
  have "gm_get ?b (port_key p) = Some (show_int (host_port p))" if "p \<in> set (app_ports app)" for p
    unfolding b by (rule map_of_is_SomeI [OF d]) (use that in auto)
  moreover have "dom (gm_get ?b) = dom (map_of ?m)"
    by (rule arg_cong [of _ _ dom]) (rule ext, rule b)
  then have "set (map fst ?b) = port_key ` set (app_ports app)"
    by (simp add: dom_map_of_conv_image_fst image_image)
  moreover have "cc_exposed_ports (container_config_of app) = map fst ?b"
    by (simp add: container_config_of_def Let_def)
  moreover have "container_config_of (app\<lparr>app_volumes := map (\<lambda>v. v\<lparr>vol_read_only := True\<rparr>) (app_volumes app)\<rparr>) =
      container_config_of app"
    by (simp add: container_config_of_def Let_def image_reference_def o_def)
  ultimately show ?thesis by simp
qed

theorem container_config_ports_witness:
  "gm_get (cc_port_bindings (container_config_of (zero_app\<lparr>app_ports :=
     [\<lparr>host_port = 8080, container_port = 80, protocol = []\<rparr>, \<lparr>host_port = 53, container_port = 53, protocol = ''udp''\<rparr>]\<rparr>)))
     (port_key \<lparr>host_port = 53, container_port = 53, protocol = ''udp''\<rparr>) = Some (show_int 53)"
proof -
  let ?app = "zero_app\<lparr>app_ports :=
     [\<lparr>host_port = 8080, container_port = 80, protocol = []\<rparr>, \<lparr>host_port = 53, container_port = 53, protocol = ''udp''\<rparr>]\<rparr>"
  have "distinct (map port_key (app_ports ?app))" by code_simp
  from container_config_ports [OF this] show ?thesis by simp
qed

text \<open>A daemon that keeps the names of its containers, to try things on.\<close>

definition demo_client :: "string list docker_client" where
  "demo_client = \<lparr>dk_network_inspect = (\<lambda>_ _. True), dk_network_create = (\<lambda>_ d. (d, DkOk)),
     dk_image_inspect = (\<lambda>_ _. True), dk_image_pull = (\<lambda>_ d. (d, DkOk)),
     dk_container_list = (\<lambda>d. Inr []),
     dk_container_remove = (\<lambda>n d. if n \<in> set d then (removeAll n d, DkOk) else (d, DkNotFound)),
     dk_container_create = (\<lambda>n _ d. (n # d, Inr n)), dk_container_start = (\<lambda>_ d. (d, DkOk)),
     dk_container_stop = (\<lambda>n d. if n \<in> set d then (d, DkOk) else (d, DkNotFound)),
     dk_container_logs = (\<lambda>_ _ _. Inl ''no logs''), dk_started_at = (\<lambda>_ _. None),
     dk_server_version = (\<lambda>_. None)\<rparr>"

text \<open>Where docker answers, stopping an application that runs as a process does nothing: docker
  knows no such container, the manager takes that for success and never asks the process manager,
  so the process is still the running one of the application, yet no error is reported.\<close>

theorem executor_stop_skips_process:
  assumes "ex_client x = Some cl" "dk_container_stop cl (container_name name) (ex_docker x) = (ex_docker x, DkNotFound)"
    and "ex_process x = Some m" "gm_get (pm_processes m) name = Some c" "pm_heap m c = Some p" "mp_phase p = Alive"
  shows "\<exists>x'. executor_stop killed_err name x = (x', None) \<and>
    (\<exists>m'. ex_process x' = Some m' \<and> gm_get (pm_processes m') name = Some c \<and> pm_heap m' c = Some p)"
  using assms by (simp add: executor_stop_def docker_stop_def reply_error_def)

definition demo_process_manager :: process_manager where
  "demo_process_manager = fst (pm_deploy
     \<lparr>sp_binary_exists = True, sp_killed_err = True, sp_log_opens = True, sp_start = Some 42, sp_now = 0, sp_environ = []\<rparr>
     (zero_app\<lparr>app_name := ''web'', app_binary := ''/bin/web''\<rparr>) new_process_manager)"

theorem executor_stop_skips_process_witness:
  "\<exists>x'. executor_stop True ''web'' \<lparr>ex_client = Some demo_client, ex_docker = [], ex_process = Some demo_process_manager\<rparr>
     = (x', None)"
proof -
  obtain p where "gm_get (pm_processes demo_process_manager) ''web'' = Some 0"
      "pm_heap demo_process_manager 0 = Some p" "mp_phase p = Alive"
    by (simp add: demo_process_manager_def pm_deploy_def zero_app_def new_process_manager_def
      validate_process_app_def plain_component_def new_process_def put_cell_def)
  then show ?thesis
    using executor_stop_skips_process [of "\<lparr>ex_client = Some demo_client, ex_docker = [], ex_process = Some demo_process_manager\<rparr>"
        demo_client "''web''" demo_process_manager 0 p True]
    by (auto simp: demo_client_def)
qed

end
