(* ===== verification/Guest_Agent.thy ===== *)
theory Guest_Agent
  imports Docker Chunked
begin

text \<open>
  The agent in the guest: its command handlers (internal/init/init.go) and the loop of its
  communicator (internal/init/comm.go). The agent is the guest's files and transfers together with
  the executors; what the operating system answers during one command is a record \<open>agent_env\<close>.
\<close>

section \<open>State\<close>

record 'd agent =
  ag_guest :: guest
  ag_exec :: "'d executor"

record agent_env =
  en_transfer :: transfer_io
  en_spawn :: spawn_env
  en_killed_err :: bool
  en_proc :: "nat \<Rightarrow> string option"
  en_vm_info :: vm_info

definition default_log_file :: string where "default_log_file = ''/var/log/goship-init.log''"

definition default_log_lines :: int where "default_log_lines = 100"

section \<open>Logs\<close>

text \<open>The buffer of \<open>readLastNLines\<close>: it grows up to \<open>n\<close> lines, then it is shifted.\<close>

definition ring_add :: "nat \<Rightarrow> string list \<Rightarrow> string \<Rightarrow> string list" where
  "ring_add n ring line = (if length ring < n then ring @ [line] else (tl ring @ [last ring])[n - 1 := line])"

definition read_last_n_lines :: "guest_fs \<Rightarrow> string \<Rightarrow> int \<Rightarrow> string option" where
  "read_last_n_lines fs p n =
     (case fs p of None \<Rightarrow> None
      | Some contents \<Rightarrow> map_option (\<lambda>ls. join [CHR 0x0A] (foldl (ring_add (nat n)) [] ls)) (scan_file contents))"

section \<open>Handlers\<close>

definition handle_ping :: "init_command \<Rightarrow> 'd agent \<Rightarrow> 'd agent \<times> init_response" where
  "handle_ping cmd a = (a, ok_response)"

definition handle_deploy :: "agent_env \<Rightarrow> init_command \<Rightarrow> 'd agent \<Rightarrow> 'd agent \<times> init_response" where
  "handle_deploy env cmd a =
     (case cmd_app cmd of None \<Rightarrow> fail a AppSpecRequired
      | Some app \<Rightarrow>
        (case validate_app_name (app_name app) of Some e \<Rightarrow> fail a (BadName e)
         | None \<Rightarrow>
           if is_container_mode app \<and> app_image app = [] then fail a ImageRequired
           else if is_container_mode app \<and> \<not> g_docker (ag_guest a) then fail a DockerUnavailable
           else if \<not> is_container_mode app \<and> is_process_mode app \<and> app_binary app = [] then fail a BinaryRequired
           else (case executor_deploy (en_spawn env) app (ag_exec a) of
                (x, Some e) \<Rightarrow> fail (a\<lparr>ag_exec := x\<rparr>) (ExecutorFailed e)
              | (x, None) \<Rightarrow> (a\<lparr>ag_exec := x\<rparr>, ok_response))))"

definition handle_stop :: "agent_env \<Rightarrow> init_command \<Rightarrow> 'd agent \<Rightarrow> 'd agent \<times> init_response" where
  "handle_stop env cmd a =
     (case validate_app_name (cmd_app_name cmd) of Some e \<Rightarrow> fail a (BadName e)
      | None \<Rightarrow> (case executor_stop (en_killed_err env) (cmd_app_name cmd) (ag_exec a) of
            (x, Some e) \<Rightarrow> fail (a\<lparr>ag_exec := x\<rparr>) (ExecutorFailed e)
          | (x, None) \<Rightarrow> (a\<lparr>ag_exec := x\<rparr>, ok_response)))"

definition handle_remove :: "agent_env \<Rightarrow> init_command \<Rightarrow> 'd agent \<Rightarrow> 'd agent \<times> init_response" where
  "handle_remove env cmd a =
     (case validate_app_name (cmd_app_name cmd) of Some e \<Rightarrow> fail a (BadName e)
      | None \<Rightarrow> (case executor_remove (en_killed_err env) (cmd_app_name cmd) (ag_exec a) of
            (x, Some e) \<Rightarrow> fail (a\<lparr>ag_exec := x\<rparr>) (ExecutorFailed e)
          | (x, None) \<Rightarrow> (a\<lparr>ag_exec := x\<rparr>, ok_response)))"

definition handle_logs :: "init_command \<Rightarrow> 'd agent \<Rightarrow> 'd agent \<times> init_response" where
  "handle_logs cmd a =
     (let n = (if cmd_lines cmd \<le> 0 then default_log_lines else cmd_lines cmd);
          fs = g_fs (ag_guest a)
      in if cmd_app_name cmd \<noteq> []
         then (case validate_app_name (cmd_app_name cmd) of Some e \<Rightarrow> fail a (BadName e)
           | None \<Rightarrow> (case executor_get_logs (read_last_n_lines fs) (cmd_app_name cmd) n (ag_exec a) of
                Inl e \<Rightarrow> fail a (AppLogsFailed e)
              | Inr content \<Rightarrow> (a, ok_response\<lparr>resp_logs := content\<rparr>)))
         else let file = filepath_clean (if cmd_log_file cmd = [] then default_log_file else cmd_log_file cmd)
              in if \<not> has_prefix ''/var/log/'' file then fail a LogFileOutside
                 else (case read_last_n_lines fs file n of None \<Rightarrow> fail a ReadLogsFailed
                   | Some content \<Rightarrow> (a, ok_response\<lparr>resp_logs := content\<rparr>)))"

definition handle_status :: "agent_env \<Rightarrow> init_command \<Rightarrow> 'd agent \<Rightarrow> 'd agent \<times> init_response" where
  "handle_status env cmd a =
     (case executor_get_all_status (en_proc env) (ag_exec a) of (x, apps) \<Rightarrow>
        (a\<lparr>ag_exec := x\<rparr>, ok_response\<lparr>resp_apps := apps,
           resp_containers := map to_container_status
             (filter (\<lambda>s. as_execution_mode s = ModeContainer \<or> as_execution_mode s = ModeUnset) apps),
           resp_vm_info := Some (en_vm_info env)\<rparr>))"

definition on_guest :: "(init_command \<Rightarrow> guest \<Rightarrow> guest \<times> init_response) \<Rightarrow>
    init_command \<Rightarrow> 'd agent \<Rightarrow> 'd agent \<times> init_response" where
  "on_guest h cmd a = (case h cmd (ag_guest a) of (g, r) \<Rightarrow> (a\<lparr>ag_guest := g\<rparr>, r))"

section \<open>The communicator (comm.go)\<close>

type_synonym 'd handler = "init_command \<Rightarrow> 'd agent \<Rightarrow> 'd agent \<times> init_response"

text \<open>The handlers registered by \<open>newFromCommunicatorWithDir\<close>.\<close>

definition handlers :: "(string \<Rightarrow> string) \<Rightarrow> agent_env \<Rightarrow> 'd handler gomap" where
  "handlers sha env =
    [(action_ping, handle_ping), (action_deploy, handle_deploy env), (action_stop, handle_stop env),
     (action_remove, handle_remove env), (action_status, handle_status env),
     (action_logs, handle_logs),
     (action_update_init, on_guest (handle_update_init sha (en_transfer env))),
     (action_upload_binary, on_guest (handle_upload_binary sha (en_transfer env))),
     (action_upload_image, on_guest (handle_upload_image sha (en_transfer env)))]"

definition dispatch :: "'d handler gomap \<Rightarrow> init_command \<Rightarrow> 'd agent \<Rightarrow> 'd agent \<times> init_response" where
  "dispatch hs cmd a =
     (case gm_get hs (cmd_action cmd) of None \<Rightarrow> fail a (UnknownAction (cmd_action cmd))
      | Some h \<Rightarrow> h cmd a)"

text \<open>
  What a read from the device gives: a line (with the decoded command, unless it is no JSON), a
  transient error of a character device, the end of the file, another error.
\<close>

datatype device_event = Line "init_command option" | TransientError | EndOfFile | DeviceError

datatype listen_result = ListenEnded | ListenFailed | StillListening

text \<open>\<open>Listen\<close> over the events so far; the environment of each command comes with it.\<close>

fun listen :: "(string \<Rightarrow> string) \<Rightarrow> (device_event \<times> agent_env) list \<Rightarrow> 'd agent \<Rightarrow>
    'd agent \<times> init_response list \<times> listen_result" where
  "listen sha [] a = (a, [], StillListening)"
| "listen sha ((TransientError, _) # es) a = listen sha es a"
| "listen sha ((EndOfFile, _) # es) a = (a, [], ListenEnded)"
| "listen sha ((DeviceError, _) # es) a = (a, [], ListenFailed)"
| "listen sha ((Line None, _) # es) a =
     (case listen sha es a of (a', rs, l) \<Rightarrow> (a', error_response InvalidJson # rs, l))"
| "listen sha ((Line (Some cmd), env) # es) a =
     (case dispatch (handlers sha env) cmd a of (a1, r) \<Rightarrow>
        (case listen sha es a1 of (a2, rs, l) \<Rightarrow> (a2, r # rs, l)))"

end
