(* ===== verification/Guest_Spec.thy ===== *)
theory Guest_Spec
  imports Guest_Agent
begin

text \<open>
  What the agent in the guest promises to whoever talks to it over the serial device: one answer
  per line, no file outside the log directory, and the last lines of a log.
\<close>

section \<open>Reading the end of a file\<close>

lemma ring_add_last:
  assumes "length ring \<le> n" "0 < n"
  shows "ring_add n ring x = drop (length ring + 1 - n) (ring @ [x]) \<and> length (ring_add n ring x) \<le> n"
proof (cases "length ring < n")
  case False
  then have l: "length ring = n" using assms(1) by simp
  then obtain y ys where r: "ring = y # ys" using assms(2) by (cases ring) auto
  have "n - 1 = length ys" using l r by simp
  then have "(ys @ [last ring])[n - 1 := x] = ys @ [x]" by (simp only: list_update_length)
  then show ?thesis using l r by (simp add: ring_add_def)
qed (simp add: ring_add_def)

lemma ring_add_all:
  "0 < n \<Longrightarrow> foldl (ring_add n) [] ls = drop (length ls - n) ls"
proof (induction ls rule: rev_induct)
  case (snoc x ls)
  have l: "length (drop (length ls - n) ls) \<le> n" by simp
  have "ring_add n (drop (length ls - n) ls) x = drop (length (ls @ [x]) - n) (ls @ [x])"
    using ring_add_last [OF l snoc.prems, of x] by (cases "length ls < n") (auto simp: Suc_diff_le)
  then show ?case using snoc by simp
qed simp

text \<open>A request for the last n lines of a file returns its last n lines in order, or all of
  them if there are fewer, and fails exactly when the file cannot be opened or has a line that is
  too long for the scanner.\<close>

theorem read_last_n_lines_spec:
  assumes "0 < n"
  shows "read_last_n_lines fs p n =
    (case fs p of None \<Rightarrow> None
     | Some contents \<Rightarrow> map_option (\<lambda>ls. join [CHR 0x0A] (drop (length ls - nat n) ls)) (scan_file contents))"
  using assms by (simp add: read_last_n_lines_def ring_add_all split: option.split)

theorem read_last_n_lines_spec_witness:
  "read_last_n_lines (\<lambda>_. Some (''a'' @ CHR 0x0A # ''b'' @ CHR 0x0A # ''c'' @ [CHR 0x0A])) ''/var/log/x'' 2 =
     Some (''b'' @ CHR 0x0A # ''c'')"
proof -
  have "scan_file (''a'' @ CHR 0x0A # ''b'' @ CHR 0x0A # ''c'' @ [CHR 0x0A]) = Some [''a'', ''b'', ''c'']"
    by (simp add: scan_file_def scan_lines_def drop_cr_def max_token_def)
  then show ?thesis
    by (subst read_last_n_lines_spec) simp_all
qed

section \<open>Logs stay below the log directory\<close>

definition log_path :: "string \<Rightarrow> bool" where
  "log_path p \<longleftrightarrow> filepath_clean p = p \<and> has_prefix ''/var/log/'' p"

lemma var_log_comps: "path_comps ''/var/log'' = [''var'', ''log'']"
  by code_simp

lemma proper_log_name: "plain_component name \<Longrightarrow> proper_comp (''goship-'' @ name @ ''.log'')"
  by (auto simp: plain_component_def proper_comp_def)

lemma process_log_path_ok:
  assumes "process_log_path name = Inr p"
  shows "log_path p"
proof -
  have n: "plain_component name" and p: "p = filepath_join ''/var/log'' (''goship-'' @ name @ ''.log'')"
    using assms by (auto simp: process_log_path_def split: option.splits)
  have "filepath_clean p = p"
    unfolding p by (simp add: filepath_join_def filepath_clean_idem is_abs_def)
  moreover have "p = ''/var/log/goship-'' @ name @ ''.log''"
    unfolding p using filepath_join_proper [OF _ proper_log_name [OF n], of "''/var/log''"]
    by (simp add: is_abs_def var_log_comps)
  ultimately show ?thesis by (simp add: log_path_def has_prefix_def)
qed

lemma clean_file_ok: "has_prefix ''/var/log/'' (filepath_clean x) \<Longrightarrow> log_path (filepath_clean x)"
proof -
  assume h: "has_prefix ''/var/log/'' (filepath_clean x)"
  then have "is_abs (filepath_clean x)" by (auto simp: has_prefix_iff is_abs_def)
  then show ?thesis using h by (simp add: log_path_def filepath_clean_idem)
qed

text \<open>C25: whatever path or application name a logs command carries, its answer depends on the files
  below the log directory only: two guests that agree on the cleaned paths there, and may differ
  in every other file, answer alike.\<close>

theorem handle_logs_confined:
  assumes "\<forall>p. log_path p \<longrightarrow> fs p = g_fs (ag_guest a) p"
  shows "snd (handle_logs cmd (a\<lparr>ag_guest := (ag_guest a)\<lparr>g_fs := fs\<rparr>\<rparr>)) = snd (handle_logs cmd a)"
proof -
  let ?a = "a\<lparr>ag_guest := (ag_guest a)\<lparr>g_fs := fs\<rparr>\<rparr>"
  have r: "read_last_n_lines fs p n = read_last_n_lines (g_fs (ag_guest a)) p n" if "log_path p" for p n
    using assms that by (simp add: read_last_n_lines_def)
  have e: "executor_get_logs (read_last_n_lines fs) name n x =
      executor_get_logs (read_last_n_lines (g_fs (ag_guest a))) name n x" for name n and x :: "'a executor"
    using r process_log_path_ok by (auto simp: executor_get_logs_def Let_def split: option.split sum.split)
  show ?thesis
  proof (cases "cmd_app_name cmd = []")
    case True
    let ?f = "filepath_clean (if cmd_log_file cmd = [] then default_log_file else cmd_log_file cmd)"
    show ?thesis
    proof (cases "has_prefix ''/var/log/'' ?f")
      case False
      then show ?thesis using True by (simp add: handle_logs_def Let_def fail_def)
    next
      case f: True
      then show ?thesis
        using True r [OF clean_file_ok [OF f]] by (simp add: handle_logs_def Let_def fail_def split: option.split)
    qed
  next
    case False
    then show ?thesis
      by (simp add: handle_logs_def Let_def fail_def e split: option.split sum.split)
  qed
qed

definition demo_agent :: "string list agent" where
  "demo_agent = \<lparr>ag_guest = \<lparr>g_init_dir = ''/opt/goship'', g_fs = (\<lambda>_. None), g_docker = False, g_images = [],
      g_update = None, g_upload = None, g_image_upload = None\<rparr>,
     ag_exec = \<lparr>ex_client = None, ex_docker = [], ex_process = None\<rparr>\<rparr>"

theorem handle_logs_confined_witness:
  "snd (handle_logs ((blank_command action_logs)\<lparr>cmd_log_file := ''/var/log/../../etc/shadow''\<rparr>)
      (demo_agent\<lparr>ag_guest := (ag_guest demo_agent)\<lparr>g_fs := (\<lambda>p. if p = ''/etc/shadow'' then Some ''root'' else None)\<rparr>\<rparr>)) =
    snd (handle_logs ((blank_command action_logs)\<lparr>cmd_log_file := ''/var/log/../../etc/shadow''\<rparr>) demo_agent)"
proof (rule handle_logs_confined)
  have "\<not> log_path ''/etc/shadow''" by (simp add: log_path_def has_prefix_def)
  then show "\<forall>p. log_path p \<longrightarrow> (if p = ''/etc/shadow'' then Some ''root'' else None) = g_fs (ag_guest demo_agent) p"
    by (auto simp: demo_agent_def)
qed

section \<open>One answer per line\<close>

fun is_line :: "device_event \<times> agent_env \<Rightarrow> bool" where
  "is_line (Line c, _) = True"
| "is_line _ = False"

definition still_open :: "device_event \<times> agent_env \<Rightarrow> bool" where
  "still_open e \<longleftrightarrow> fst e \<noteq> EndOfFile \<and> fst e \<noteq> DeviceError"

text \<open>The agent answers every line it reads with exactly one response, commands it does not know
  and lines that are no JSON included, passes over transient read errors, and stops listening only
  at the end of the device or at a lasting error.\<close>

theorem listen_answers:
  assumes "listen sha es a = (a', rs, l)"
  shows "length rs = length (filter is_line (takeWhile still_open es)) \<and>
    (l = StillListening \<longleftrightarrow> takeWhile still_open es = es)"
  using assms
proof (induction sha es a arbitrary: a' rs l rule: listen.induct)
  case (6 sha cmd env es a)
  then show ?case by (auto simp: still_open_def split: prod.splits)
qed (auto simp: still_open_def split: prod.splits)

definition demo_env :: agent_env where
  "demo_env = \<lparr>en_transfer = io_fine,
     en_spawn = \<lparr>sp_binary_exists = True, sp_killed_err = True, sp_log_opens = True, sp_start = Some 42, sp_now = 0, sp_environ = []\<rparr>,
     en_killed_err = True, en_proc = (\<lambda>_. None),
     en_vm_info = \<lparr>vi_hostname = [], vi_ip_addresses = [], vi_docker_version = [], vi_uptime_seconds = 0\<rparr>\<rparr>"

theorem listen_answers_witness:
  "\<exists>a' rs l. listen rev [(TransientError, demo_env), (Line None, demo_env)] demo_agent = (a', rs, l) \<and> length rs = 1"
proof -
  let ?l = "listen rev [(TransientError, demo_env), (Line None, demo_env)] demo_agent"
  have "?l = (fst ?l, fst (snd ?l), snd (snd ?l))" by simp
  from listen_answers [OF this] show ?thesis
    by (intro exI [of _ "fst ?l"] exI [of _ "fst (snd ?l)"] exI [of _ "snd (snd ?l)"]) (simp add: still_open_def)
qed

end
