(* ===== verification/Guest_Boot.thy ===== *)
theory Guest_Boot
  imports Guest_Spec Procs_Inv
begin

text \<open>
  The start and the end of the agent in the guest: opening the serial device with retries
  (internal/init/comm.go), waiting for docker, building the agent, running and shutting it down
  (internal/init/init.go), and the duties of process 1 (cmd/goship-init/main.go). Times and
  durations are integers in nanoseconds, as \<open>time.Duration\<close> counts them; the clock is a number that
  an attempt moves on by at least one, and by as much more as the environment says.
\<close>

section \<open>Durations\<close>

definition nanosecond :: int where "nanosecond = 1"
definition microsecond :: int where "microsecond = 1000 * nanosecond"
definition millisecond :: int where "millisecond = 1000 * microsecond"
definition second :: int where "second = 1000 * millisecond"

text \<open>\<open>time.ParseDuration\<close> of the standard library: signed numbers with a unit each. The fraction
  of a unit is cut off exactly here, the library computes it in floating point.\<close>

definition unit_value :: "string \<Rightarrow> int option" where
  "unit_value u =
     (if u = ''ns'' then Some nanosecond
      else if u = ''us'' \<or> u = [CHR 0xC2, CHR 0xB5, CHR ''s''] \<or> u = [CHR 0xCE, CHR 0xBC, CHR ''s''] then Some microsecond
      else if u = ''ms'' then Some millisecond
      else if u = ''s'' then Some second
      else if u = ''m'' then Some (60 * second)
      else if u = ''h'' then Some (60 * 60 * second)
      else None)"

definition digits_int :: "string \<Rightarrow> int" where
  "digits_int ds = (case digits_val 0 ds of None \<Rightarrow> 0 | Some n \<Rightarrow> int n)"

definition unit_char :: "char \<Rightarrow> bool" where
  "unit_char c \<longleftrightarrow> \<not> is_digit c \<and> c \<noteq> CHR ''.''"

text \<open>One number with its unit from the front of a text; the bound is that of an unsigned number
  that may be negated.\<close>

definition parse_unit :: "string \<Rightarrow> (int \<times> string) option" where
  "parse_unit s =
     (let whole = takeWhile is_digit s; s1 = dropWhile is_digit s;
          point = (s1 \<noteq> [] \<and> hd s1 = CHR ''.'');
          frac = (if point then takeWhile is_digit (tl s1) else []);
          s2 = (if point then dropWhile is_digit (tl s1) else s1);
          u = takeWhile unit_char s2
      in if digits_int whole > 2 ^ 63 \<or> whole = [] \<and> frac = [] \<or> u = [] then None
         else (case unit_value u of None \<Rightarrow> None
           | Some w \<Rightarrow>
             if digits_int whole > 2 ^ 63 div w then None
             else let v = digits_int whole * w + digits_int frac * w div 10 ^ length frac
               in if v > 2 ^ 63 then None else Some (v, dropWhile unit_char s2)))"

lemma parse_unit_shorter: "parse_unit s = Some (v, r) \<Longrightarrow> length r < length s"
proof -
  assume h: "parse_unit s = Some (v, r)"
  let ?s1 = "dropWhile is_digit s"
  let ?s2 = "if ?s1 \<noteq> [] \<and> hd ?s1 = CHR ''.'' then dropWhile is_digit (tl ?s1) else ?s1"
  have r: "r = dropWhile unit_char ?s2" and u: "takeWhile unit_char ?s2 \<noteq> []"
    using h by (auto simp: parse_unit_def Let_def split: if_splits option.splits)
  have "length r < length ?s2"
    unfolding r using u length_append [of "takeWhile unit_char ?s2" "dropWhile unit_char ?s2"]
    by (simp only: takeWhile_dropWhile_id) simp
  also have "length ?s2 \<le> length ?s1"
    using length_dropWhile_le [of is_digit "tl ?s1"] by (auto simp del: length_dropWhile_le)
  also have "length ?s1 \<le> length s" by (rule length_dropWhile_le)
  finally show ?thesis .
qed

function parse_units :: "string \<Rightarrow> int \<Rightarrow> int option" where
  "parse_units s acc =
     (if s = [] then Some acc
      else (case parse_unit s of None \<Rightarrow> None
        | Some (v, r) \<Rightarrow> if acc + v > 2 ^ 63 then None else parse_units r (acc + v)))"
  by pat_completeness auto

termination
  by (relation "measure (\<lambda>(s, acc). length s)") (auto dest: parse_unit_shorter)

declare parse_units.simps [simp del]

definition parse_duration :: "string \<Rightarrow> int option" where
  "parse_duration s =
     (let neg = (s \<noteq> [] \<and> hd s = CHR ''-'');
          t = (if s \<noteq> [] \<and> (hd s = CHR ''-'' \<or> hd s = CHR ''+'') then tl s else s)
      in if t = ''0'' then Some 0
         else if t = [] then None
         else (case parse_units t 0 of None \<Rightarrow> None
           | Some d \<Rightarrow> if neg then Some (- d) else if d > int64_max then None else Some d))"

text \<open>A plain number counts seconds; its product with a second wraps around.\<close>

definition duration_from_env :: "(string \<Rightarrow> string) \<Rightarrow> string \<Rightarrow> int \<Rightarrow> int" where
  "duration_from_env getenv name fallback =
     (let raw = getenv name
      in if raw = [] then fallback
         else (case parse_duration raw of Some d \<Rightarrow> d
           | None \<Rightarrow> (case parse_int64 raw of None \<Rightarrow> fallback
               | Some seconds \<Rightarrow> if seconds > 0 then wrap64 (seconds * second) else fallback)))"

text \<open>A plain number means as many seconds as the same number with its unit, as long as they fit.\<close>

lemma take_digits: "takeWhile is_digit (show_nat n @ s) = show_nat n @ takeWhile is_digit s"
  "dropWhile is_digit (show_nat n @ s) = dropWhile is_digit s"
  "dropWhile is_digit (show_nat n) = []"
  using show_nat_digits [of _ n] by simp_all

lemma digits_int_show_nat [simp]: "digits_int (show_nat n) = int n"
  by (simp add: digits_int_def digits_val_show_nat)

lemma second_value: "second = 1000000000"
  by (simp add: second_def millisecond_def microsecond_def nanosecond_def)

lemma parse_unit_seconds:
  assumes "int n * second \<le> int64_max"
  shows "parse_unit (show_nat n @ ''s'') = Some (int n * second, [])"
proof -
  have "\<not> is_digit (CHR ''s'')" "unit_char (CHR ''s'')" by (simp_all add: is_digit_def unit_char_def)
  moreover have "int n \<le> 2 ^ 63 div second" "int n * second \<le> 2 ^ 63" "int n \<le> 2 ^ 63"
    using assms by (simp_all add: second_value int64_max_def)
  ultimately show ?thesis
    by (simp add: parse_unit_def Let_def take_digits unit_value_def digits_int_def [of "[]"])
qed

lemma parse_duration_seconds:
  assumes "int n * second \<le> int64_max"
  shows "parse_duration (show_nat n @ ''s'') = Some (int n * second)"
proof -
  have h: "hd (show_nat n @ ''s'') \<noteq> CHR ''-''" "hd (show_nat n @ ''s'') \<noteq> CHR ''+''"
    using digit_not_sign [OF show_nat_hd, of n] by simp_all
  have "show_nat n @ ''s'' \<noteq> ''0''"
    by (auto simp: append_eq_Cons_conv)
  moreover have "parse_units (show_nat n @ ''s'') 0 = Some (int n * second)"
    using assms by (subst parse_units.simps) (simp add: parse_unit_seconds parse_units.simps [of "[]"] int64_max_def)
  ultimately show ?thesis using h assms by (simp add: parse_duration_def Let_def)
qed

lemma parse_duration_no_unit:
  assumes "0 < n"
  shows "parse_duration (show_nat n) = None"
proof -
  have "show_nat n \<noteq> ''0''"
  proof
    assume "show_nat n = ''0''"
    then have "digits_val 0 ''0'' = Some n" using digits_val_show_nat [of n] by simp
    then show False using assms by (simp add: is_digit_def)
  qed
  moreover have "parse_unit (show_nat n) = None"
    by (simp add: parse_unit_def Let_def take_digits(3))
  ultimately show ?thesis
    using digit_not_sign [OF show_nat_hd, of n]
    by (simp add: parse_duration_def Let_def parse_units.simps [of "show_nat n"])
qed

lemma plain_number_is_seconds:
  assumes "0 < n" "int n * second \<le> int64_max" "getenv x = show_nat n" "getenv y = show_nat n @ ''s''"
  shows "duration_from_env getenv x fallback = int n * second \<and> duration_from_env getenv y fallback' = int n * second"
proof -
  have "in_int64 (int n)" "wrap64 (int n * second) = int n * second"
    using assms(1,2) by (auto simp: in_int64_def int64_max_def int64_min_def second_value intro!: wrap64_id)
  then show ?thesis
    using assms by (simp add: duration_from_env_def Let_def parse_duration_no_unit parse_duration_seconds
        parse_int64_show_nat)
qed

lemma long_wait_wraps: "duration_from_env (\<lambda>_. show_nat 10000000000) x fallback = - 8446744073709551616"
proof -
  have "parse_duration (show_nat 10000000000) = None" by (rule parse_duration_no_unit) simp
  then show ?thesis
    by (simp add: duration_from_env_def Let_def parse_int64_show_nat in_int64_def int64_max_def int64_min_def
        second_value wrap64_def del: show_nat.simps)
qed

section \<open>The serial device (comm.go)\<close>

definition default_serial_device :: string where "default_serial_device = ''/dev/virtio-ports/goship.0''"
definition legacy_serial_device :: string where "legacy_serial_device = ''/dev/vport0p1''"
definition fallback_serial_device :: string where "fallback_serial_device = ''/dev/ttyS1''"
definition default_serial_wait_timeout :: int where "default_serial_wait_timeout = 30 * second"
definition default_serial_retry_interval :: int where "default_serial_retry_interval = 500 * millisecond"

text \<open>Whether a device opens at a time, how much longer than the least an attempt at that time
  takes, and the environment variables.\<close>

record device_env =
  dv_opens :: "string \<Rightarrow> int \<Rightarrow> bool"
  dv_lag :: "int \<Rightarrow> nat"
  dv_getenv :: "string \<Rightarrow> string"

text \<open>The loop of \<open>tryOpenUntil\<close>: attempt, look at the clock, sleep. The result is the time it ends
  and whether the device is open.\<close>

function try_open_until :: "device_env \<Rightarrow> string \<Rightarrow> int \<Rightarrow> int \<Rightarrow> int \<Rightarrow> int \<times> bool" where
  "try_open_until env device retry_interval deadline now =
     (if dv_opens env device now then (now, True)
      else let t = now + 1 + int (dv_lag env now)
        in if t > deadline then (t, False)
           else try_open_until env device retry_interval deadline (t + max 0 retry_interval))"
  by pat_completeness auto

termination
  by (relation "measure (\<lambda>(env, device, retry_interval, deadline, now). nat (deadline + 1 - now))") auto

declare try_open_until.simps [simp del]

fun open_each :: "device_env \<Rightarrow> int \<Rightarrow> int \<Rightarrow> string list \<Rightarrow> string list \<Rightarrow> int \<Rightarrow> int \<times> (string list + string)" where
  "open_each env timeout retry_interval attempted [] now = (now, Inl attempted)"
| "open_each env timeout retry_interval attempted (device # candidates) now =
     (if device = [] \<or> device \<in> set attempted then open_each env timeout retry_interval attempted candidates now
      else (case try_open_until env device retry_interval (now + timeout) now of
          (t, True) \<Rightarrow> (t, Inr device)
        | (t, False) \<Rightarrow> open_each env timeout retry_interval (attempted @ [device]) candidates t))"

definition or_default :: "int \<Rightarrow> int \<Rightarrow> int" where
  "or_default d fallback = (if d \<le> 0 then fallback else d)"

definition open_device_with_retry ::
    "device_env \<Rightarrow> string list \<Rightarrow> int \<Rightarrow> int \<Rightarrow> int \<Rightarrow> int \<times> (string list + string)" where
  "open_device_with_retry env candidates timeout retry_interval now =
     open_each env (or_default timeout default_serial_wait_timeout)
       (or_default retry_interval default_serial_retry_interval) [] candidates now"

definition device_candidates :: "string \<Rightarrow> string list" where
  "device_candidates device =
     device # (if device = default_serial_device then [legacy_serial_device, fallback_serial_device] else [])"

definition wait_timeout :: "device_env \<Rightarrow> int" where
  "wait_timeout env =
     duration_from_env (dv_getenv env) ''GOSHIP_SERIAL_WAIT_TIMEOUT'' default_serial_wait_timeout"

definition retry_pause :: "device_env \<Rightarrow> int" where
  "retry_pause env =
     duration_from_env (dv_getenv env) ''GOSHIP_SERIAL_RETRY_INTERVAL'' default_serial_retry_interval"

definition new_communicator :: "device_env \<Rightarrow> string \<Rightarrow> int \<Rightarrow> int \<times> (string list + string)" where
  "new_communicator env device now =
     open_device_with_retry env (device_candidates device) (wait_timeout env) (retry_pause env) now"

subsection \<open>What opening the device promises\<close>

lemma try_open_until_True:
  "try_open_until env device i deadline now = (t, True) \<Longrightarrow> dv_opens env device t \<and> now \<le> t"
proof (induction env device i deadline now rule: try_open_until.induct)
  case (1 env device i deadline now)
  let ?x = "now + 1 + int (dv_lag env now)"
  show ?case
  proof (cases "dv_opens env device now \<or> deadline < ?x")
    case True
    then show ?thesis using 1(2) by (simp add: try_open_until.simps [of env device i deadline now] Let_def split: if_splits)
  next
    case False
    then have "try_open_until env device i deadline (?x + max 0 i) = (t, True)"
      using 1(2) by (simp add: try_open_until.simps [of env device i deadline now] Let_def)
    then have "dv_opens env device t \<and> ?x + max 0 i \<le> t" using 1(1) False by simp
    then show ?thesis by linarith
  qed
qed

lemma try_open_until_time:
  assumes "now \<le> deadline + max 0 i" "\<And>u. int (dv_lag env u) \<le> L"
  shows "now \<le> fst (try_open_until env device i deadline now) \<and>
    fst (try_open_until env device i deadline now) \<le> deadline + max 0 i + 1 + L"
  using assms
proof (induction env device i deadline now rule: try_open_until.induct)
  case (1 env device i deadline now)
  have l: "int (dv_lag env now) \<le> L" "0 \<le> L" using 1(3) [of now] by simp_all
  show ?case
  proof (cases "dv_opens env device now \<or> now + 1 + int (dv_lag env now) > deadline")
    case True
    then show ?thesis using l 1(2) by (subst (1 2) try_open_until.simps) (auto simp: Let_def)
  next
    case False
    let ?n = "now + 1 + int (dv_lag env now) + max 0 i"
    have e: "try_open_until env device i deadline now = try_open_until env device i deadline ?n"
      using False by (subst try_open_until.simps) (simp add: Let_def)
    have b: "?n \<le> fst (try_open_until env device i deadline ?n) \<and>
        fst (try_open_until env device i deadline ?n) \<le> deadline + max 0 i + 1 + L"
      using False by (intro 1(1) 1(3)) simp_all
    show ?thesis unfolding e using b by (intro conjI) linarith+
  qed
qed

text \<open>A device that is there from some time before the deadline on is opened.\<close>

lemma try_open_until_succeeds:
  assumes "\<And>u. r \<le> u \<Longrightarrow> dv_opens env device u" "\<And>u. int (dv_lag env u) \<le> L" "r + L \<le> deadline"
  shows "snd (try_open_until env device i deadline now)"
  using assms
proof (induction env device i deadline now rule: try_open_until.induct)
  case (1 env device i deadline now)
  show ?case
  proof (cases "dv_opens env device now")
    case True
    then show ?thesis by (simp add: try_open_until.simps)
  next
    case False
    then have n: "now < r" using 1(2) [of now] by linarith
    have l: "now + 1 + int (dv_lag env now) \<le> deadline" using 1(3) [of now] 1(4) n by simp
    then have "snd (try_open_until env device i deadline (now + 1 + int (dv_lag env now) + max 0 i))"
      using False by (intro 1(1) 1(2) 1(3) 1(4)) simp_all
    then show ?thesis using False l by (subst try_open_until.simps) (simp add: Let_def)
  qed
qed

lemma open_each_Inr:
  "open_each env timeout i attempted candidates now = (t, Inr d) \<Longrightarrow>
     d \<in> set candidates \<and> d \<noteq> [] \<and> dv_opens env d t"
proof (induction candidates arbitrary: attempted now)
  case (Cons c cs)
  then show ?case
    by (cases "try_open_until env c i (now + timeout) now")
      (auto split: if_splits bool.splits dest: try_open_until_True)
qed simp

lemma open_each_Inl:
  assumes "open_each env timeout i attempted candidates now = (t, Inl tried)"
  shows "set tried = set attempted \<union> (set candidates - {[]}) \<and> (distinct attempted \<longrightarrow> distinct tried)"
  using assms
proof (induction candidates arbitrary: attempted now)
  case (Cons c cs)
  show ?case
  proof (cases "c = [] \<or> c \<in> set attempted")
    case True
    then have "open_each env timeout i attempted cs now = (t, Inl tried)" using Cons.prems by simp
    from Cons.IH [OF this] show ?thesis using True by auto
  next
    case False
    then obtain u where "open_each env timeout i (attempted @ [c]) cs u = (t, Inl tried)"
      using Cons.prems
      by (cases "try_open_until env c i (now + timeout) now") (auto split: bool.splits)
    from Cons.IH [OF this] show ?thesis using False by auto
  qed
qed simp

lemma open_each_succeeds:
  assumes "dev \<in> set candidates" "dev \<noteq> []" "dev \<notin> set attempted"
    and "\<And>u. r \<le> u \<Longrightarrow> dv_opens env dev u" "\<And>u. int (dv_lag env u) \<le> L"
    and "r + L \<le> now + timeout" "0 \<le> timeout" "0 \<le> i"
  shows "\<exists>t d. open_each env timeout i attempted candidates now = (t, Inr d) \<and>
    t \<le> now + int (length candidates) * (timeout + i + 1 + L)"
  using assms(1-3,6)
proof (induction candidates arbitrary: attempted now)
  case (Cons c cs)
  have L: "0 \<le> L" using assms(5) [of 0] by simp
  let ?B = "timeout + i + 1 + L"
  have grow: "now + (int (length cs) * ?B) \<le> now + int (length (c # cs)) * ?B"
    using L assms(7,8) by (simp add: algebra_simps)
  show ?case
  proof (cases "c = [] \<or> c \<in> set attempted")
    case True
    then have "dev \<in> set cs" using Cons.prems by auto
    from Cons.IH [OF this Cons.prems(2-4)] show ?thesis using True grow by fastforce
  next
    case False
    obtain t b where tb: "try_open_until env c i (now + timeout) now = (t, b)" by fastforce
    have t: "now \<le> t" "t \<le> now + ?B"
      using try_open_until_time [of now "now + timeout" i env L c] assms(5,7,8) tb by auto
    show ?thesis
    proof (cases b)
      case True
      have "?B \<le> int (length (c # cs)) * ?B" using L assms(7,8) by (simp add: algebra_simps)
      then show ?thesis using True False tb t by (intro exI [of _ t] exI [of _ c]) simp
    next
      case nb: False
      have "c \<noteq> dev" using try_open_until_succeeds [OF assms(4,5) Cons.prems(4), of i now] tb nb by auto
      then have "dev \<in> set cs" "dev \<notin> set (attempted @ [c])" using Cons.prems by auto
      moreover have "r + L \<le> t + timeout" using Cons.prems(4) t by simp
      ultimately obtain u d where ud: "open_each env timeout i (attempted @ [c]) cs t = (u, Inr d)"
          "u \<le> t + int (length cs) * ?B"
        using Cons.IH assms(2) by blast
      have "u \<le> now + int (length (c # cs)) * ?B" using ud(2) t by (simp add: algebra_simps)
      then show ?thesis using ud(1) False tb nb by (intro exI [of _ u] exI [of _ d]) simp
    qed
  qed
qed simp


text \<open>The bounds in force: what the environment asks for, or the defaults.\<close>

definition open_timeout :: "device_env \<Rightarrow> int" where
  "open_timeout env = or_default (wait_timeout env) default_serial_wait_timeout"

definition open_pause :: "device_env \<Rightarrow> int" where
  "open_pause env = or_default (retry_pause env) default_serial_retry_interval"

lemma open_bounds_pos: "0 < open_timeout env" "0 < open_pause env"
  by (simp_all add: open_timeout_def open_pause_def or_default_def default_serial_wait_timeout_def
      default_serial_retry_interval_def second_def millisecond_def microsecond_def nanosecond_def)

lemma new_communicator_each:
  "new_communicator env device now =
     open_each env (open_timeout env) (open_pause env) [] (device_candidates device) now"
  by (simp add: new_communicator_def open_device_with_retry_def open_timeout_def open_pause_def)

lemma device_candidates_set:
  "dev \<in> set (device_candidates device) \<longleftrightarrow>
     dev = device \<or> device = default_serial_device \<and> (dev = legacy_serial_device \<or> dev = fallback_serial_device)"
  by (auto simp: device_candidates_def)

lemma device_candidates_length: "length (device_candidates device) \<le> 3"
  by (simp add: device_candidates_def)

section \<open>Docker at the start (init.go)\<close>

text \<open>
  What the start of the agent sees of docker: the client, if one can be made from the environment;
  how the daemon changes until an attempt at a time; how much longer than the least an attempt
  takes; what \<open>rc-service docker zap\<close> and \<open>start\<close> do, and how long they take; and whether the context
  is cancelled by a time.
\<close>

record 'd docker_boot =
  db_client :: "'d docker_client option"
  db_drift :: "int \<Rightarrow> 'd \<Rightarrow> 'd"
  db_lag :: "int \<Rightarrow> nat"
  db_service :: "string \<Rightarrow> 'd \<Rightarrow> 'd"
  db_service_lag :: nat
  db_cancelled :: "int \<Rightarrow> bool"

definition new_docker_manager :: "'d docker_client option \<Rightarrow> 'd \<Rightarrow> 'd \<times> 'd docker_client option" where
  "new_docker_manager client d =
     (case client of None \<Rightarrow> (d, None)
      | Some cl \<Rightarrow> (case ensure_network cl d of (d', None) \<Rightarrow> (d', Some cl) | (d', Some e) \<Rightarrow> (d', None)))"

text \<open>One round of a pass: a manager can be made and the daemon tells its version.\<close>

definition try_docker :: "'d docker_client option \<Rightarrow> 'd \<Rightarrow> 'd \<times> 'd docker_client option" where
  "try_docker client d =
     (case new_docker_manager client d of (d', None) \<Rightarrow> (d', None)
      | (d', Some cl) \<Rightarrow> (d', if dk_server_version cl d' = None then None else Some cl))"

datatype 'd docker_wait = DockerUp "'d docker_client" | DockerCancelled | DockerTimeout

text \<open>A pass of \<open>waitForDocker\<close>.\<close>

function poll_docker :: "'d docker_boot \<Rightarrow> int \<Rightarrow> int \<Rightarrow> 'd \<Rightarrow> int \<times> 'd \<times> 'd docker_wait" where
  "poll_docker b deadline now d =
     (if now < deadline
      then (let t = now + 1 + int (db_lag b now)
        in (case try_docker (db_client b) (db_drift b now d) of
            (d', Some cl) \<Rightarrow> (t, d', DockerUp cl)
          | (d', None) \<Rightarrow> if db_cancelled b t then (t, d', DockerCancelled)
              else poll_docker b deadline (t + second) d'))
      else (now, d, DockerTimeout))"
  by pat_completeness auto

termination
  by (relation "measure (\<lambda>(b, deadline, now, d). nat (deadline - now))")
    (auto simp: second_def millisecond_def microsecond_def nanosecond_def)

declare poll_docker.simps [simp del]

definition restart_docker_service :: "'d docker_boot \<Rightarrow> 'd \<Rightarrow> 'd" where
  "restart_docker_service b d = db_service b ''start'' (db_service b ''zap'' d)"

definition wait_for_docker :: "'d docker_boot \<Rightarrow> int \<Rightarrow> int \<Rightarrow> 'd \<Rightarrow> int \<times> 'd \<times> 'd docker_wait" where
  "wait_for_docker b timeout now d =
     (let deadline = now + timeout; initial_wait = min timeout (30 * second)
      in (case poll_docker b (now + initial_wait) now d of
          (t, d1, DockerTimeout) \<Rightarrow>
            poll_docker b deadline (t + int (db_service_lag b)) (restart_docker_service b d1)
        | r \<Rightarrow> r))"

text \<open>Docker is up from time \<open>r\<close> on: whatever state the daemon is in, an attempt then succeeds.\<close>

definition docker_up_from :: "'d docker_boot \<Rightarrow> 'd docker_client \<Rightarrow> int \<Rightarrow> bool" where
  "docker_up_from b cl r \<longleftrightarrow> (\<forall>t d. r \<le> t \<longrightarrow> snd (try_docker (db_client b) (db_drift b t d)) = Some cl)"

lemma try_docker_client: "try_docker client d = (d', Some cl) \<Longrightarrow> client = Some cl"
  by (auto simp: try_docker_def new_docker_manager_def split: option.splits prod.splits if_splits)

lemma poll_docker_up:
  assumes "docker_up_from b cl r" "\<And>u. \<not> db_cancelled b u" "\<And>u. int (db_lag b u) \<le> L"
  shows "\<exists>t d'. now \<le> t \<and> (poll_docker b deadline now d = (t, d', DockerUp cl) \<or>
     poll_docker b deadline now d = (t, d', DockerTimeout) \<and> deadline \<le> t \<and> t \<le> max now (r + L + second))"
  using assms
proof (induction b deadline now d rule: poll_docker.induct)
  case (1 b deadline now d)
  let ?t = "now + 1 + int (db_lag b now)"
  have sec: "0 < second" by (simp add: second_def millisecond_def microsecond_def nanosecond_def)
  obtain d' o' where o: "try_docker (db_client b) (db_drift b now d) = (d', o')" by fastforce
  show ?case
  proof (cases "now < deadline")
    case False
    then show ?thesis
      by (intro exI [of _ now] exI [of _ d]) (simp add: poll_docker.simps [of b deadline now d])
  next
    case before: True
    show ?thesis
    proof (cases o')
      case (Some c)
      then have "c = cl"
        using try_docker_client [of "db_client b"] o 1(2) unfolding docker_up_from_def
        by (metis option.inject order_refl surjective_pairing)
      then show ?thesis using before o Some
        by (intro exI [of _ ?t] exI [of _ d']) (simp add: poll_docker.simps [of b deadline now d] Let_def)
    next
      case None
      then have "\<not> r \<le> now"
        using 1(2) o unfolding docker_up_from_def by (metis option.distinct(1) snd_conv)
      then have "now < r" by linarith
      then have next_time: "?t + second \<le> r + L + second" using 1(4) [of now] by linarith
      have e: "poll_docker b deadline now d = poll_docker b deadline (?t + second) d'"
        using before o None 1(3) by (simp add: poll_docker.simps [of b deadline now d] Let_def)
      obtain t x where "?t + second \<le> t" "poll_docker b deadline (?t + second) d' = (t, x, DockerUp cl) \<or>
          poll_docker b deadline (?t + second) d' = (t, x, DockerTimeout) \<and> deadline \<le> t \<and>
          t \<le> max (?t + second) (r + L + second)"
        using 1(1) [OF before refl o [symmetric] None 1(3) 1(2) 1(3) 1(4)] by blast
      then show ?thesis unfolding e using next_time sec
        by (intro exI [of _ t] exI [of _ x]) (auto simp: max_def split: if_splits)
    qed
  qed
qed

text \<open>If docker comes up early enough, before or after its service was restarted, it is found.\<close>

lemma wait_for_docker_up:
  assumes "docker_up_from b cl r" "\<And>u. \<not> db_cancelled b u" "\<And>u. int (db_lag b u) \<le> L"
    and "r + L + second + int (db_service_lag b) < now + timeout" "now + int (db_service_lag b) < now + timeout"
  shows "\<exists>t d'. wait_for_docker b timeout now d = (t, d', DockerUp cl)"
proof -
  let ?i = "now + min timeout (30 * second)"
  obtain t d' where p: "poll_docker b ?i now d = (t, d', DockerUp cl) \<or>
      poll_docker b ?i now d = (t, d', DockerTimeout) \<and> ?i \<le> t \<and> t \<le> max now (r + L + second)"
    using poll_docker_up [OF assms(1-3), of now ?i d] by blast
  show ?thesis
  proof (cases "poll_docker b ?i now d = (t, d', DockerUp cl)")
    case True
    then show ?thesis by (simp add: wait_for_docker_def Let_def)
  next
    case False
    let ?s = "t + int (db_service_lag b)"
    have t: "?s < now + timeout" using p False assms(4,5) by (auto simp: max_def split: if_splits)
    obtain u x where "poll_docker b (now + timeout) ?s (restart_docker_service b d') = (u, x, DockerUp cl) \<or>
        now + timeout \<le> u \<and> u \<le> max ?s (r + L + second)"
      using poll_docker_up [OF assms(1-3), of ?s "now + timeout" "restart_docker_service b d'"] by blast
    then have "poll_docker b (now + timeout) ?s (restart_docker_service b d') = (u, x, DockerUp cl)"
      using t assms(4) by (auto simp: max_def split: if_splits)
    then show ?thesis using p False by (simp add: wait_for_docker_def Let_def)
  qed
qed

end
