(* ===== verification/Guest_Run.thy ===== *)
theory Guest_Run
  imports Guest_Boot
begin

text \<open>
  The life of the agent in the guest (internal/init/init.go, cmd/goship-init/main.go): the duties of
  process 1, the agent that is built over the serial device, what it tells of its machine, and its
  run over everything that happens to it until it shuts down.
\<close>

section \<open>What the machine tells of itself\<close>

text \<open>An address of an interface is a network address with the bytes of its IP, or another.\<close>

datatype iface_addr = IpNet "nat list" | OtherAddr

record net_iface =
  ni_up :: bool
  ni_loopback :: bool
  ni_addrs :: "iface_addr list option"

text \<open>\<open>IP.To4\<close>: four bytes, or sixteen that map them.\<close>

definition ip_to4 :: "nat list \<Rightarrow> nat list option" where
  "ip_to4 ip =
     (if length ip = 4 then Some ip
      else if length ip = 16 \<and> take 12 ip = replicate 10 0 @ [255, 255] then Some (drop 12 ip)
      else None)"

definition ipv4_of :: "iface_addr \<Rightarrow> string option" where
  "ipv4_of a = (case a of OtherAddr \<Rightarrow> None | IpNet ip \<Rightarrow> map_option (\<lambda>q. join ''.'' (map show_nat q)) (ip_to4 ip))"

definition get_ip_addresses :: "net_iface list option \<Rightarrow> string list" where
  "get_ip_addresses ifaces =
     (case ifaces of None \<Rightarrow> []
      | Some is \<Rightarrow> concat (map (\<lambda>i. if ni_loopback i \<or> \<not> ni_up i then []
          else (case ni_addrs i of None \<Rightarrow> [] | Some as \<Rightarrow> List.map_filter ipv4_of as)) is))"

text \<open>The host name, the interfaces and the seconds since the machine started, as far as they can
  be read; \<open>sy_uptime\<close> is the first number of \<open>/proc/uptime\<close>, whole seconds.\<close>

record guest_system =
  sy_hostname :: "string option"
  sy_ifaces :: "net_iface list option"
  sy_uptime :: "int option"

definition get_vm_info :: "guest_system \<Rightarrow> 'd agent \<Rightarrow> vm_info" where
  "get_vm_info sys a =
     \<lparr>vi_hostname = (case sy_hostname sys of None \<Rightarrow> [] | Some h \<Rightarrow> h),
      vi_ip_addresses = get_ip_addresses (sy_ifaces sys),
      vi_docker_version = (case ex_client (ag_exec a) of None \<Rightarrow> []
        | Some cl \<Rightarrow> (case dk_server_version cl (ex_docker (ag_exec a)) of None \<Rightarrow> [] | Some v \<Rightarrow> v)),
      vi_uptime_seconds = (case sy_uptime sys of None \<Rightarrow> 0 | Some s \<Rightarrow> s)\<rparr>"

section \<open>Building the agent\<close>

definition default_init_dir :: string where "default_init_dir = ''/opt/goship''"

text \<open>\<open>newFromCommunicator\<close>: docker is waited for up to a minute and may be missing, the process
  manager is always there; no transfer is under way.\<close>

definition agent_over :: "string \<Rightarrow> guest_fs \<Rightarrow> string list \<Rightarrow> 'd \<Rightarrow> 'd docker_client option \<Rightarrow> 'd agent" where
  "agent_over init_dir fs images d client =
     \<lparr>ag_guest = \<lparr>g_init_dir = init_dir, g_fs = fs, g_docker = (client \<noteq> None), g_images = images,
        g_update = None, g_upload = None, g_image_upload = None\<rparr>,
      ag_exec = \<lparr>ex_client = client, ex_docker = d, ex_process = Some new_process_manager\<rparr>\<rparr>"

definition new_from_communicator ::
    "'d docker_boot \<Rightarrow> guest_fs \<Rightarrow> string list \<Rightarrow> 'd \<Rightarrow> int \<Rightarrow> int \<times> 'd agent" where
  "new_from_communicator b fs images d now =
     (case wait_for_docker (b\<lparr>db_cancelled := (\<lambda>_. False)\<rparr>) (60 * second) now d of
        (t, d', DockerUp cl) \<Rightarrow> (t, agent_over default_init_dir fs images d' (Some cl))
      | (t, d', _) \<Rightarrow> (t, agent_over default_init_dir fs images d' None))"

text \<open>\<open>New\<close>: the device first; the error lists the devices that were tried.\<close>

definition new_agent ::
    "device_env \<Rightarrow> 'd docker_boot \<Rightarrow> guest_fs \<Rightarrow> string list \<Rightarrow> 'd \<Rightarrow> string \<Rightarrow> int \<Rightarrow> int \<times> (string list + 'd agent)" where
  "new_agent env b fs images d device now =
     (case new_communicator env device now of
        (t, Inl tried) \<Rightarrow> (t, Inl tried)
      | (t, Inr dev) \<Rightarrow> (case new_from_communicator b fs images d t of (t', a) \<Rightarrow> (t', Inr a)))"

section \<open>Running and shutting down\<close>

definition on_processes :: "(process_manager \<Rightarrow> process_manager) \<Rightarrow> 'd agent \<Rightarrow> 'd agent" where
  "on_processes f a = a\<lparr>ag_exec := (ag_exec a)\<lparr>ex_process := map_option f (ex_process (ag_exec a))\<rparr>\<rparr>"

definition shutdown :: "bool \<Rightarrow> 'd agent \<Rightarrow> 'd agent" where
  "shutdown killed_err a = a\<lparr>ag_exec := executor_close killed_err (ag_exec a)\<rparr>"

text \<open>
  What happens to a running agent: the device delivers something, with what the machine and the
  operating system answer meanwhile; a process ends, its monitor goes on, its sleep before a restart
  ends; a signal arrives.
\<close>

datatype agent_event =
    OnDevice device_event agent_env guest_system
  | OnExit bool nat
  | OnMonitor nat
  | OnWake "nat option" timestamp nat
  | OnSignal

datatype run_result = RunReturned | RunFailed | StillRunning

fun run_agent :: "(string \<Rightarrow> string) \<Rightarrow> bool \<Rightarrow> agent_event list \<Rightarrow> 'd agent \<Rightarrow>
    'd agent \<times> init_response list \<times> run_result" where
  "run_agent sha killed_err [] a = (a, [], StillRunning)"
| "run_agent sha killed_err (OnSignal # es) a = (shutdown killed_err a, [], RunReturned)"
| "run_agent sha killed_err (OnExit err c # es) a = run_agent sha killed_err es (on_processes (pm_exit err c) a)"
| "run_agent sha killed_err (OnMonitor c # es) a = run_agent sha killed_err es (on_processes (pm_monitor c) a)"
| "run_agent sha killed_err (OnWake start now c # es) a =
     run_agent sha killed_err es (on_processes (pm_wake start now c) a)"
| "run_agent sha killed_err (OnDevice e env sys # es) a =
     (case listen sha [(e, env\<lparr>en_vm_info := get_vm_info sys a\<rparr>)] a of
        (a1, rs, ListenEnded) \<Rightarrow> (shutdown killed_err a1, rs, RunReturned)
      | (a1, rs, ListenFailed) \<Rightarrow> (shutdown killed_err a1, rs, RunFailed)
      | (a1, rs, StillListening) \<Rightarrow>
          (case run_agent sha killed_err es a1 of (a2, rs2, r) \<Rightarrow> (a2, rs @ rs2, r)))"

section \<open>The program (cmd/goship-init/main.go)\<close>

text \<open>The calls to the operating system: the text of \<open>/proc/mounts\<close>, and calls that fail or not.\<close>

record 'w init_os =
  os_mounts :: "'w \<Rightarrow> string option"
  os_mkdir_all :: "string \<Rightarrow> 'w \<Rightarrow> 'w \<times> bool"
  os_mount :: "string \<Rightarrow> string \<Rightarrow> string \<Rightarrow> 'w \<Rightarrow> 'w \<times> bool"
  os_sethostname :: "string \<Rightarrow> 'w \<Rightarrow> 'w \<times> bool"
  os_run :: "string \<Rightarrow> string list \<Rightarrow> 'w \<Rightarrow> 'w \<times> bool"

definition is_mounted :: "string option \<Rightarrow> string \<Rightarrow> bool" where
  "is_mounted mounts path =
     (case mounts of None \<Rightarrow> False
      | Some data \<Rightarrow> (\<exists>l \<in> set (split_on CHR 0x0A data). 2 \<le> length (str_fields l) \<and> str_fields l ! 1 = path))"

definition init_mounts :: "(string \<times> string \<times> string) list" where
  "init_mounts =
    [(''proc'', ''/proc'', ''proc''), (''sysfs'', ''/sys'', ''sysfs''), (''devtmpfs'', ''/dev'', ''devtmpfs''),
     (''devpts'', ''/dev/pts'', ''devpts''), (''tmpfs'', ''/run'', ''tmpfs''),
     (''cgroup2'', ''/sys/fs/cgroup'', ''cgroup2'')]"

definition mount_one :: "'w init_os \<Rightarrow> string \<times> string \<times> string \<Rightarrow> 'w \<Rightarrow> 'w" where
  "mount_one sys m w =
     (case m of (source, target, fstype) \<Rightarrow>
        if is_mounted (os_mounts sys w) target then w
        else (case os_mkdir_all sys target w of (w1, made) \<Rightarrow>
            if made then fst (os_mount sys source target fstype w1) else w1))"

definition init_hostname :: "(string \<Rightarrow> string) \<Rightarrow> string" where
  "init_hostname getenv = (if getenv ''GOSHIP_HOSTNAME'' = [] then ''goship-vm'' else getenv ''GOSHIP_HOSTNAME'')"

definition perform_init_duties :: "'w init_os \<Rightarrow> (string \<Rightarrow> string) \<Rightarrow> 'w \<Rightarrow> 'w" where
  "perform_init_duties sys getenv w =
     (let w1 = fold (mount_one sys) init_mounts w;
          w2 = fst (os_sethostname sys (init_hostname getenv) w1);
          w3 = fst (os_run sys ''ip'' [''link'', ''set'', ''lo'', ''up''] w2);
          w4 = fst (os_run sys ''ip'' [''link'', ''set'', ''eth0'', ''up''] w3)
      in (case os_run sys ''udhcpc'' [''-i'', ''eth0'', ''-q''] w4 of
            (w5, True) \<Rightarrow> w5
          | (w5, False) \<Rightarrow> fst (os_run sys ''dhclient'' [''eth0''] w5)))"

definition device_from_env :: "(string \<Rightarrow> string) \<Rightarrow> string" where
  "device_from_env getenv =
     (if getenv ''GOSHIP_SERIAL_DEVICE'' = [] then default_serial_device else getenv ''GOSHIP_SERIAL_DEVICE'')"

datatype main_exit = NoAgent "string list" | AgentError | CleanExit | NotEnded

text \<open>\<open>main\<close>: the duties only as process 1, the device from the environment, the agent, its run.\<close>

definition goship_init ::
    "nat \<Rightarrow> 'w init_os \<Rightarrow> device_env \<Rightarrow> 'd docker_boot \<Rightarrow> (string \<Rightarrow> string) \<Rightarrow> bool \<Rightarrow> guest_fs \<Rightarrow> string list \<Rightarrow> 'd \<Rightarrow>
      agent_event list \<Rightarrow> int \<Rightarrow> 'w \<Rightarrow> 'w \<times> 'd agent option \<times> init_response list \<times> main_exit" where
  "goship_init pid sys env b sha killed_err fs images d es now w =
     (let w1 = (if pid = 1 then perform_init_duties sys (dv_getenv env) w else w)
      in (case new_agent env b fs images d (device_from_env (dv_getenv env)) now of
            (t, Inl tried) \<Rightarrow> (w1, None, [], NoAgent tried)
          | (t, Inr a) \<Rightarrow>
              (case run_agent sha killed_err es a of (a', rs, r) \<Rightarrow>
                 (w1, Some a', rs, (case r of RunReturned \<Rightarrow> CleanExit | RunFailed \<Rightarrow> AgentError | StillRunning \<Rightarrow> NotEnded)))))"


section \<open>The agent starts\<close>

lemma new_from_communicator_docker:
  assumes "docker_up_from b cl q" "\<And>u. int (db_lag b u) \<le> M"
    and "q + M + second + int (db_service_lag b) < now + 60 * second" "int (db_service_lag b) < 60 * second"
  shows "ex_client (ag_exec (snd (new_from_communicator b fs images d now))) = Some cl"
proof -
  let ?b = "b\<lparr>db_cancelled := (\<lambda>_. False)\<rparr>"
  have "docker_up_from ?b cl q" using assms(1) by (simp add: docker_up_from_def)
  then obtain t d' where "wait_for_docker ?b (60 * second) now d = (t, d', DockerUp cl)"
    using wait_for_docker_up [of ?b cl q M now "60 * second" d] assms(2-4) by auto
  then show ?thesis by (simp add: new_from_communicator_def agent_over_def)
qed

lemma new_from_communicator_fresh:
  "\<exists>client d'. snd (new_from_communicator b fs images d now) = agent_over default_init_dir fs images d' client"
proof -
  obtain t d' w where "wait_for_docker (b\<lparr>db_cancelled := (\<lambda>_. False)\<rparr>) (60 * second) now d = (t, d', w)"
    using prod_cases3 by blast
  then show ?thesis by (cases w) (auto simp: new_from_communicator_def)
qed

lemma new_agent_fresh:
  assumes "new_agent env b fs images d device now = (t, Inr a)"
  shows "\<exists>client d'. a = agent_over default_init_dir fs images d' client"
proof -
  obtain u x where ux: "new_communicator env device now = (u, x)" by fastforce
  obtain v y where vy: "new_from_communicator b fs images d u = (v, y)" by fastforce
  have "a = y" using assms ux vy by (simp add: new_agent_def split: sum.splits)
  then show ?thesis using new_from_communicator_fresh [of b fs images d u] vy by simp
qed


text \<open>A guest whose port only shows up after three seconds, under its older name, and whose daemon
  needs five.\<close>

definition demo_device_env :: device_env where
  "demo_device_env = \<lparr>dv_opens = (\<lambda>d t. d = legacy_serial_device \<and> 3 * second \<le> t), dv_lag = (\<lambda>_. 7),
     dv_getenv = (\<lambda>_. [])\<rparr>"

definition demo_daemon :: "string list docker_client" where
  "demo_daemon = demo_client\<lparr>dk_server_version := (\<lambda>d. if d = [''up''] then Some ''27.0'' else None)\<rparr>"

definition demo_docker_boot :: "string list docker_boot" where
  "demo_docker_boot = \<lparr>db_client = Some demo_daemon, db_drift = (\<lambda>t d. if 5 * second \<le> t then [''up''] else d),
     db_lag = (\<lambda>_. 3), db_service = (\<lambda>_ d. d), db_service_lag = 9, db_cancelled = (\<lambda>_. False)\<rparr>"

lemma demo_waits: "open_timeout demo_device_env = 30 * second" "open_pause demo_device_env = 500 * millisecond"
  by (simp_all add: open_timeout_def open_pause_def wait_timeout_def retry_pause_def duration_from_env_def
      demo_device_env_def or_default_def default_serial_wait_timeout_def default_serial_retry_interval_def
      second_def millisecond_def microsecond_def nanosecond_def)

lemma demo_docker_up: "docker_up_from demo_docker_boot demo_daemon (5 * second)"
  by (simp add: docker_up_from_def demo_docker_boot_def try_docker_def new_docker_manager_def ensure_network_def
      demo_daemon_def demo_client_def)


section \<open>The agent ends\<close>

definition procs_ok :: "'d agent \<Rightarrow> bool" where
  "procs_ok a \<longleftrightarrow> (\<forall>m. ex_process (ag_exec a) = Some m \<longrightarrow> pm_inv m)"

lemma procs_ok_guest [simp]: "procs_ok (a\<lparr>ag_guest := g\<rparr>) = procs_ok a"
  by (simp add: procs_ok_def)

lemma procs_ok_exec: "procs_ok (a\<lparr>ag_exec := x\<rparr>) \<longleftrightarrow> (\<forall>m. ex_process x = Some m \<longrightarrow> pm_inv m)"
  by (simp add: procs_ok_def)

lemma procs_ok_on: "procs_ok a \<Longrightarrow> (\<And>m. pm_inv m \<Longrightarrow> pm_inv (f m)) \<Longrightarrow> procs_ok (on_processes f a)"
  by (auto simp: procs_ok_def on_processes_def)

lemma executor_deploy_procs:
  assumes "executor_deploy sp app x = (x', e)" "\<forall>m. ex_process x = Some m \<longrightarrow> pm_inv m"
  shows "\<forall>m. ex_process x' = Some m \<longrightarrow> pm_inv m"
  using assms pm_deploy_inv [of _ sp app]
  by (fastforce simp: executor_deploy_def split: if_splits option.splits prod.splits)

lemma executor_stop_procs:
  assumes "executor_stop err name x = (x', e)" "\<forall>m. ex_process x = Some m \<longrightarrow> pm_inv m"
  shows "\<forall>m. ex_process x' = Some m \<longrightarrow> pm_inv m"
  using assms pm_stop_inv
  by (auto simp: executor_stop_def Let_def split: if_splits option.splits prod.splits)

lemma executor_remove_procs:
  assumes "executor_remove err name x = (x', e)" "\<forall>m. ex_process x = Some m \<longrightarrow> pm_inv m"
  shows "\<forall>m. ex_process x' = Some m \<longrightarrow> pm_inv m"
  using assms pm_remove_inv
  by (auto simp: executor_remove_def Let_def split: option.splits)

lemma executor_status_procs:
  assumes "executor_get_all_status proc x = (x', ss)" "\<forall>m. ex_process x = Some m \<longrightarrow> pm_inv m"
  shows "\<forall>m. ex_process x' = Some m \<longrightarrow> pm_inv m"
proof (cases "ex_process x")
  case (Some m)
  obtain m' ps where p: "pm_get_status proc m = (m', ps)" by fastforce
  have "pm_inv m'" using status_cells_inv [of m] assms(2) Some p by (metis fst_conv pm_get_status_def)
  then show ?thesis using assms(1) Some p by (auto simp: executor_get_all_status_def Let_def)
qed (use assms in \<open>simp add: executor_get_all_status_def Let_def\<close>)

lemma fst_fail [simp]: "fst (fail a e) = a"
  by (simp add: fail_def)

lemma handlers_procs:
  assumes "procs_ok a" "(n, h) \<in> set (handlers sha env)"
  shows "procs_ok (fst (h cmd a))"
proof -
  note p = assms(1) [unfolded procs_ok_def]
  have deploy: "procs_ok (fst (handle_deploy env cmd a))"
    using assms(1) executor_deploy_procs [OF _ p]
    by (auto simp: handle_deploy_def procs_ok_exec fail_def split: option.split prod.split)
  have stop: "procs_ok (fst (handle_stop env cmd a))" "procs_ok (fst (handle_remove env cmd a))"
    using assms(1) executor_stop_procs [OF _ p] executor_remove_procs [OF _ p]
    by (auto simp: handle_stop_def handle_remove_def procs_ok_exec fail_def split: option.split prod.split)
  have status: "procs_ok (fst (handle_status env cmd a))"
    using executor_status_procs [OF _ p]
    by (auto simp: handle_status_def procs_ok_exec split: prod.split)
  have logs: "procs_ok (fst (handle_logs cmd a))"
    using assms(1) by (auto simp: handle_logs_def Let_def fail_def split: option.split sum.split)
  have guest: "procs_ok (fst (on_guest g cmd a))" for g
    using assms(1) by (auto simp: on_guest_def split: prod.split)
  show ?thesis
    using assms deploy stop status logs guest by (auto simp: handlers_def handle_ping_def)
qed

lemma dispatch_procs: "procs_ok a \<Longrightarrow> procs_ok (fst (dispatch (handlers sha env) cmd a))"
  using handlers_procs [of a _ _ sha env cmd]
  by (auto simp: dispatch_def fail_def split: option.split dest!: map_of_SomeD)

lemma listen_procs: "procs_ok a \<Longrightarrow> procs_ok (fst (listen sha es a))"
proof (induction sha es a rule: listen.induct)
  case (6 sha cmd env es a)
  obtain a1 r where a1: "dispatch (handlers sha env) cmd a = (a1, r)" by fastforce
  have "procs_ok a1" using dispatch_procs [OF 6(2), of sha env cmd] a1 by simp
  then show ?case using 6(1) [OF a1 [symmetric]] a1 by (auto split: prod.split)
qed (auto split: prod.split)

text \<open>Nothing runs and nothing is in the table, so nothing can be started again.\<close>

definition processes_over :: "process_manager \<Rightarrow> bool" where
  "processes_over m \<longleftrightarrow> pm_inv m \<and> pm_processes m = []"

lemma processes_over_idle: "processes_over m \<Longrightarrow> pm_heap m c = Some p \<Longrightarrow> mp_phase p \<noteq> Alive"
  using pm_inv_cell [of m c p] by (auto simp: processes_over_def cell_ok_def tracked_def)

lemma shutdown_over:
  "procs_ok a \<Longrightarrow> ex_process (ag_exec (shutdown err a)) = Some m \<Longrightarrow> processes_over m"
  using pm_close_inv
  by (auto simp: procs_ok_def shutdown_def executor_close_def processes_over_def)
    (simp add: pm_close_def)

lemma run_agent_over:
  assumes "procs_ok a" "run_agent sha err es a = (a', rs, r)" "r \<noteq> StillRunning"
    and "ex_process (ag_exec a') = Some m"
  shows "processes_over m"
  using assms
proof (induction sha err es a arbitrary: rs rule: run_agent.induct)
  case (6 sha err e env sys es a)
  obtain a1 rs1 l where l: "listen sha [(e, env\<lparr>en_vm_info := get_vm_info sys a\<rparr>)] a = (a1, rs1, l)"
    using prod_cases3 by blast
  have a1: "procs_ok a1" using listen_procs [OF 6(2)] l by (metis fst_conv)
  show ?case
  proof (cases l)
    case StillListening
    obtain rs2 where "run_agent sha err es a1 = (a', rs2, r)"
      using 6(3) l StillListening by (auto split: prod.splits)
    then show ?thesis using 6(1) [OF l [symmetric] refl] StillListening a1 6(4,5) by auto
  qed (use 6 l shutdown_over [OF a1] in auto)
qed (auto intro: shutdown_over procs_ok_on wf_intros)


inductive background :: "process_manager \<Rightarrow> process_manager \<Rightarrow> bool" where
  bg_exit: "background m (pm_exit err c m)"
| bg_monitor: "background m (pm_monitor c m)"
| bg_wake: "background m (pm_wake start now c m)"

inductive_cases backgroundE: "background m m'"

lemma background_over: "background m m' \<Longrightarrow> processes_over m \<Longrightarrow> processes_over m'"
  by (erule backgroundE)
    (auto simp: processes_over_def intro: wf_intros,
      auto simp: pm_exit_def pm_monitor_def pm_wake_def split: option.split phase.split)

text \<open>C16: when the agent's run ends, by a signal, at the end of the device or at an error of it, no
  process it ever started is running, whatever it was told and whatever its processes did before;
  and none comes back: monitors that still wait for their process or sleep before a restart start
  nothing any more.\<close>

theorem run_ends_without_processes:
  assumes "new_agent env b fs images d device now = (t, Inr a)"
    and "run_agent sha err es a = (a', rs, r)" "r \<noteq> StillRunning"
    and "ex_process (ag_exec a') = Some m" "background\<^sup>*\<^sup>* m m'" "pm_heap m' c = Some p"
  shows "mp_phase p \<noteq> Alive"
proof -
  obtain client d' where "a = agent_over default_init_dir fs images d' client"
    using new_agent_fresh [OF assms(1)] by blast
  then have "procs_ok a"
    using pm_reachable_inv [OF reach_new] by (simp add: procs_ok_def agent_over_def)
  then have "processes_over m" using run_agent_over assms(2-4) by blast
  with assms(5) have "processes_over m'" by (induction rule: rtranclp_induct) (auto intro: background_over)
  then show ?thesis using processes_over_idle assms(6) by blast
qed

text \<open>A guest where everything is there at once; it deploys a process, which is then killed by the
  shutdown; its monitor finds it gone.\<close>

definition ready_device_env :: device_env where
  "ready_device_env = \<lparr>dv_opens = (\<lambda>_ _. True), dv_lag = (\<lambda>_. 0), dv_getenv = (\<lambda>_. [])\<rparr>"

definition ready_docker_boot :: "string list docker_boot" where
  "ready_docker_boot = demo_docker_boot\<lparr>db_drift := (\<lambda>_ _. [''up''])\<rparr>"

definition process_app :: app_spec where
  "process_app = demo_app\<lparr>app_execution_mode := ModeProcess\<rparr>"

definition demo_system :: guest_system where
  "demo_system = \<lparr>sy_hostname = Some ''goship-vm'', sy_ifaces = Some
     [\<lparr>ni_up = True, ni_loopback = True, ni_addrs = Some [IpNet [127, 0, 0, 1]]\<rparr>,
      \<lparr>ni_up = True, ni_loopback = False, ni_addrs = Some [IpNet [192, 168, 122, 7], OtherAddr]\<rparr>], sy_uptime = Some 5\<rparr>"

definition deploy_event :: agent_event where
  "deploy_event = OnDevice (Line (Some ((blank_command action_deploy)\<lparr>cmd_app := Some process_app\<rparr>))) demo_env demo_system"

definition ready_agent :: "string list agent" where
  "ready_agent = agent_over default_init_dir (\<lambda>_. None) [] [''up''] (Some demo_daemon)"

lemma ready_opens: "new_communicator ready_device_env default_serial_device 0 = (0, Inr default_serial_device)"
proof -
  have "try_open_until ready_device_env default_serial_device i deadline 0 = (0, True)" for i deadline
    by (subst try_open_until.simps) (simp add: ready_device_env_def)
  moreover have "default_serial_device \<noteq> []" by (simp add: default_serial_device_def)
  ultimately show ?thesis by (simp add: new_communicator_each device_candidates_def)
qed

lemma ready_docker: "try_docker (Some demo_daemon) [''up''] = ([''up''], Some demo_daemon)"
  by (simp add: try_docker_def new_docker_manager_def ensure_network_def demo_daemon_def demo_client_def)

lemma ready_poll:
  assumes "0 < deadline"
  shows "poll_docker (ready_docker_boot\<lparr>db_cancelled := (\<lambda>_. False)\<rparr>) deadline 0 [] = (4, [''up''], DockerUp demo_daemon)"
  using assms by (subst poll_docker.simps) (simp add: ready_docker_boot_def demo_docker_boot_def ready_docker Let_def)

lemma ready_starts:
  "new_agent ready_device_env ready_docker_boot (\<lambda>_. None) [] [] default_serial_device 0 = (4, Inr ready_agent)"
proof -
  have "0 < 0 + min (60 * second) (30 * second)"
    by (simp add: second_def millisecond_def microsecond_def nanosecond_def)
  from ready_poll [OF this] show ?thesis
    by (simp add: new_agent_def ready_opens new_from_communicator_def wait_for_docker_def Let_def ready_agent_def)
qed

lemma ready_addresses: "get_ip_addresses (sy_ifaces demo_system) = [''192.168.122.7'']"
  by code_simp

lemma ready_deploys:
  "dispatch (handlers rev env) ((blank_command action_deploy)\<lparr>cmd_app := Some process_app\<rparr>) ready_agent =
    (case executor_deploy (en_spawn env) process_app (ag_exec ready_agent) of
       (x, Some e) \<Rightarrow> fail (ready_agent\<lparr>ag_exec := x\<rparr>) (ExecutorFailed e)
     | (x, None) \<Rightarrow> (ready_agent\<lparr>ag_exec := x\<rparr>, ok_response))"
  by (simp add: dispatch_def handlers_def blank_command_def handle_deploy_def process_app_def demo_app_def zero_app_def
      plain_component_def validate_app_name_def is_container_mode_def is_process_mode_def
      action_ping_def action_deploy_def)

definition deployed :: process_manager where
  "deployed = fst (pm_deploy (en_spawn demo_env) process_app new_process_manager)"

lemma deployed_cell:
  "pm_deploy (en_spawn demo_env) process_app new_process_manager = (deployed, None)"
  "\<exists>p. pm_heap deployed 0 = Some p \<and> mp_phase p = Alive" "pm_processes deployed = [(''web'', 0)]"
  by (simp_all add: deployed_def pm_deploy_def demo_env_def process_app_def demo_app_def zero_app_def
      new_process_manager_def validate_process_app_def plain_component_def new_process_def)

lemma ready_runs:
  "run_agent rev True [deploy_event, OnSignal] ready_agent =
     (shutdown True (ready_agent\<lparr>ag_exec := (ag_exec ready_agent)\<lparr>ex_process := Some deployed\<rparr>\<rparr>), [ok_response], RunReturned)"
proof -
  have "executor_deploy (en_spawn demo_env) process_app (ag_exec ready_agent) =
      ((ag_exec ready_agent)\<lparr>ex_process := Some deployed\<rparr>, None)"
    by (simp add: executor_deploy_def is_process_mode_def ready_agent_def agent_over_def deployed_cell(1))
      (simp add: process_app_def)
  then show ?thesis by (simp add: deploy_event_def ready_deploys)
qed

theorem run_ends_without_processes_witness:
  "\<exists>p. pm_heap (pm_monitor 0 (pm_close True deployed)) 0 = Some p \<and> mp_phase p \<noteq> Alive"
proof -
  let ?a = "shutdown True (ready_agent\<lparr>ag_exec := (ag_exec ready_agent)\<lparr>ex_process := Some deployed\<rparr>\<rparr>)"
  have m: "ex_process (ag_exec ?a) = Some (pm_close True deployed)"
    by (simp add: shutdown_def executor_close_def)
  have b: "background\<^sup>*\<^sup>* (pm_close True deployed) (pm_monitor 0 (pm_close True deployed))"
    by (rule r_into_rtranclp) (rule bg_monitor)
  obtain p where p: "pm_heap (pm_monitor 0 (pm_close True deployed)) 0 = Some p"
    using deployed_cell(2,3) by (fastforce simp: pm_monitor_def pm_close_def split: phase.split)
  show ?thesis
    using run_ends_without_processes [OF ready_starts ready_runs _ m b p] p by simp
qed

end
