(* ===== verification/Vm_Names.thy ===== *)
theory Vm_Names
  imports Entities
begin

text \<open>
  Names and paths of virtual machines (internal/agent/runtime/libvirt/manager.go): the naming of
  libvirt domains, the directory of a machine with its containment test, and the walk of
  \<open>ensurePathTraversable\<close> up to the root. \<open>filepath.Rel\<close> and \<open>filepath.IsLocal\<close> are the
  lexical functions of the standard library on slash-separated paths.
\<close>

section \<open>Rel and IsLocal\<close>

fun drop_common :: "string list \<Rightarrow> string list \<Rightarrow> string list \<times> string list" where
  "drop_common (a # as) (b # bs) = (if a = b then drop_common as bs else (a # as, b # bs))"
| "drop_common as bs = (as, bs)"

definition filepath_rel :: "string \<Rightarrow> string \<Rightarrow> string option" where
  "filepath_rel base targ =
     (if filepath_clean base = filepath_clean targ then Some ''.''
      else if is_abs base \<noteq> is_abs targ then None
      else (case drop_common (path_comps base) (path_comps targ) of
          (bs, ts) \<Rightarrow> if bs \<noteq> [] \<and> hd bs = ''..'' then None
            else Some (join ''/'' (map (\<lambda>_. ''..'') bs @ ts))))"

definition is_local :: "string \<Rightarrow> bool" where
  "is_local p \<longleftrightarrow> \<not> is_abs p \<and> p \<noteq> [] \<and>
     (let dots = (\<exists>c \<in> set (split_on CHR ''/'' p). c = ''.'' \<or> c = ''..'');
          q = (if dots then filepath_clean p else p)
      in q \<noteq> ''..'' \<and> \<not> has_prefix ''../'' q)"

section \<open>Domains and directories\<close>

datatype name_error = NotManaged string | BadDomain string entity_error | BadVmName entity_error
  | UnsafeVmDir string

definition domain_name :: "string \<Rightarrow> string" where
  "domain_name name = libvirt_domain_prefix @ name"

definition user_facing_name :: "string \<Rightarrow> string" where
  "user_facing_name domain = trim_prefix libvirt_domain_prefix domain"

definition project_name_from_domain :: "string \<Rightarrow> name_error + string" where
  "project_name_from_domain domain =
     (if \<not> has_prefix libvirt_domain_prefix domain then Inl (NotManaged domain)
      else let name = trim_prefix libvirt_domain_prefix domain
           in case validate_project_name name of Some e \<Rightarrow> Inl (BadDomain domain e)
              | None \<Rightarrow> Inr name)"

definition vm_dir :: "string \<Rightarrow> string \<Rightarrow> name_error + string" where
  "vm_dir data_dir name =
     (case validate_project_name name of Some e \<Rightarrow> Inl (BadVmName e)
      | None \<Rightarrow>
        let root = filepath_join data_dir ''vms''; dir = filepath_join root name
        in case filepath_rel root dir of
             None \<Rightarrow> Inl (UnsafeVmDir name)
           | Some rel \<Rightarrow> if rel \<noteq> name \<or> \<not> is_local rel then Inl (UnsafeVmDir name) else Inr dir)"

definition vm_disk_path :: "string \<Rightarrow> string \<Rightarrow> name_error + string" where
  "vm_disk_path data_dir name =
     and_then (vm_dir data_dir name) (\<lambda>dir. Inr (filepath_join dir ''disk.qcow2''))"

definition vm_socket_path :: "string \<Rightarrow> string \<Rightarrow> name_error + string" where
  "vm_socket_path data_dir name =
     and_then (vm_dir data_dir name) (\<lambda>dir. Inr (filepath_join dir ''goship.sock''))"

section \<open>The walk to the root\<close>

text \<open>
  The loop \<open>for p := abs; p != "/" && p != "."; p = filepath.Dir(p)\<close> of
  \<open>ensurePathTraversable\<close>, which may run forever on an arbitrary string as far as its form tells.
\<close>

partial_function (option) parent_dirs :: "string \<Rightarrow> string list option" where
  "parent_dirs p = (if p = ''/'' \<or> p = ''.'' then Some []
     else Option.bind (parent_dirs (filepath_dir p)) (\<lambda>ps. Some (p # ps)))"

text \<open>
  The walk from the shallowest directory down: \<open>mode\<close> gives the permission bits of a directory,
  if it can be read, \<open>chmod\<close> whether they can be changed. The bit of search for others is set.
\<close>

datatype walk_error = StatFailed string | ChmodFailed string

fun open_search :: "(string \<Rightarrow> bool) \<Rightarrow> string list \<Rightarrow> (string \<Rightarrow> nat option) \<Rightarrow>
    (string \<Rightarrow> nat option) \<times> walk_error option" where
  "open_search chmod [] mode = (mode, None)"
| "open_search chmod (p # ps) mode =
     (case mode p of None \<Rightarrow> (mode, Some (StatFailed p))
      | Some m \<Rightarrow> if odd m then open_search chmod ps mode
          else if chmod p then open_search chmod ps (mode(p := Some (m + 1)))
          else (mode, Some (ChmodFailed p)))"

definition ensure_path_traversable :: "(string \<Rightarrow> bool) \<Rightarrow> string \<Rightarrow> (string \<Rightarrow> nat option) \<Rightarrow>
    ((string \<Rightarrow> nat option) \<times> walk_error option) option" where
  "ensure_path_traversable chmod abs_dir mode =
     (case parent_dirs abs_dir of None \<Rightarrow> None | Some ps \<Rightarrow> Some (open_search chmod (rev ps) mode))"

section \<open>Lemmas\<close>

lemma project_name_from_domain_Inr:
  "project_name_from_domain d = Inr n \<longleftrightarrow> d = domain_name n \<and> plain_component n"
  by (auto simp: project_name_from_domain_def domain_name_def has_prefix_iff Let_def split: option.split)

lemma drop_common_prefix: "drop_common xs (xs @ ys) = ([], ys)"
  by (induction xs) (cases ys, auto)

lemma is_local_plain: "plain_component n \<Longrightarrow> is_local n"
proof -
  assume n: "plain_component n"
  then have sp: "split_on CHR ''/'' n = [n]" by (simp add: plain_component_def split_on_none)
  have "\<not> has_prefix ''../'' n"
    using n by (auto simp: has_prefix_iff plain_component_def)
  moreover have "\<not> is_abs n"
    using n by (cases n) (auto simp: is_abs_def plain_component_def)
  ultimately show ?thesis
    using n by (simp add: is_local_def sp) (simp add: plain_component_def)
qed

lemma path_comps_vms:
  assumes "is_abs d" "plain_component n"
  shows "path_comps (filepath_join (filepath_join d ''vms'') n) = path_comps d @ [''vms'', n]"
proof -
  have "proper_comp ''vms''" by (simp add: proper_comp_def)
  moreover have "proper_comp n" using assms(2) by (simp add: plain_component_proper)
  ultimately show ?thesis
    using assms(1) by (simp add: path_comps_join_proper is_abs_join)
qed

lemma vm_dir_plain:
  assumes "is_abs d" "plain_component n"
  shows "vm_dir d n = Inr (filepath_join (filepath_join d ''vms'') n)"
proof -
  let ?root = "filepath_join d ''vms''"
  let ?dir = "filepath_join ?root n"
  have p: "proper_comp n" using assms(2) by (simp add: plain_component_proper)
  have abs: "is_abs ?root" "is_abs ?dir" using assms(1) by (simp_all add: is_abs_join)
  have comps: "path_comps ?dir = path_comps ?root @ [n]"
    using abs(1) p by (rule path_comps_join_proper)
  then have "filepath_clean ?root \<noteq> filepath_clean ?dir"
    using path_comps_clean [OF abs(1)] path_comps_clean [OF abs(2)] by force
  then have "filepath_rel ?root ?dir = Some n"
    using abs comps by (simp add: filepath_rel_def drop_common_prefix)
  then show ?thesis
    using assms(2) is_local_plain by (simp add: vm_dir_def Let_def)
qed

lemma vm_dir_Inr:
  "is_abs d \<Longrightarrow> vm_dir d n = Inr p \<longleftrightarrow> plain_component n \<and> p = filepath_join (filepath_join d ''vms'') n"
  by (cases "plain_component n") (auto simp: vm_dir_plain, auto simp: vm_dir_def split: option.splits)

definition abs_of :: "string list \<Rightarrow> string" where
  "abs_of cs = CHR ''/'' # join ''/'' cs"

lemma join_snoc: "cs \<noteq> [] \<Longrightarrow> join sep (cs @ [c]) = join sep cs @ sep @ c"
  by (induction sep cs rule: join.induct) auto

lemma abs_of_snoc: "abs_of (cs @ [c]) = (if cs = [] then ''/'' @ c else abs_of cs @ ''/'' @ c)"
  by (simp add: abs_of_def join_snoc)

lemma clean_trailing:
  assumes "all_proper cs"
  shows "filepath_clean (if cs = [] then ''/'' else abs_of cs @ ''/'') = abs_of cs"
proof -
  have pr: "\<forall>c \<in> set cs. proper_comp c" using assms by (simp add: all_proper_def)
  let ?p = "if cs = [] then ''/'' else abs_of cs @ ''/''"
  have "path_comps ?p = cs"
  proof (cases "cs = []")
    case False
    have "split_on CHR ''/'' (join ''/'' cs @ ''/'') = cs @ [[]]"
      using split_on_snoc_comp [of "CHR ''/''" "[]" "join ''/'' cs"] split_on_join [OF False, of "CHR ''/''"] pr
      by (simp add: proper_no_slash)
    then show ?thesis
      using False clean_comps_id [OF pr, of True]
      by (simp add: path_comps_def is_abs_def abs_of_def clean_comps_append) (simp add: clean_comps_def clean_step_def)
  qed (simp add: path_comps_def is_abs_def clean_comps_def clean_step_def)
  then show ?thesis by (simp add: filepath_clean_def is_abs_def abs_of_def)
qed

lemma filepath_dir_snoc:
  assumes "all_proper (cs @ [c])"
  shows "filepath_dir (abs_of (cs @ [c])) = abs_of cs"
proof -
  have c: "\<forall>x \<in> set (rev c). x \<noteq> CHR ''/''"
    using assms by (auto simp: all_proper_def proper_comp_def)
  have "abs_of (cs @ [c]) = (if cs = [] then ''/'' else abs_of cs @ ''/'') @ c"
    by (simp add: abs_of_snoc)
  then have "filepath_dir (abs_of (cs @ [c])) = filepath_clean (if cs = [] then ''/'' else abs_of cs @ ''/'')"
    using c unfolding filepath_dir_def by (simp add: dropWhile_append)
  then show ?thesis
    using assms clean_trailing [of cs] by (simp add: all_proper_def)
qed

lemma abs_of_not_end: "all_proper (cs @ [c]) \<Longrightarrow> abs_of (cs @ [c]) \<noteq> ''/'' \<and> abs_of (cs @ [c]) \<noteq> ''.''"
proof -
  assume "all_proper (cs @ [c])"
  then have "c \<noteq> []" by (simp add: all_proper_def proper_comp_def)
  then have "2 \<le> length (abs_of (cs @ [c]))"
    unfolding abs_of_snoc by (cases c) simp_all
  then show ?thesis by (metis One_nat_def Suc_1 length_Cons list.size(3) not_less_eq_eq le_refl)
qed

lemma parent_dirs_abs:
  "all_proper cs \<Longrightarrow> parent_dirs (abs_of cs) = Some (map (\<lambda>k. abs_of (take k cs)) (rev [1..<Suc (length cs)]))"
proof (induction cs rule: rev_induct)
  case Nil
  show ?case by (subst parent_dirs.simps) (simp add: abs_of_def)
next
  case (snoc c cs)
  then have "parent_dirs (abs_of cs) = Some (map (\<lambda>k. abs_of (take k cs)) (rev [1..<Suc (length cs)]))"
    by (simp add: all_proper_def)
  moreover have "map (\<lambda>k. abs_of (take k cs)) (rev [1..<Suc (length cs)]) =
      map (\<lambda>k. abs_of (take k (cs @ [c]))) (rev [1..<Suc (length cs)])"
    by (rule map_cong) auto
  ultimately show ?case
    using snoc.prems abs_of_not_end filepath_dir_snoc
    by (subst parent_dirs.simps) simp
qed

lemma open_search_mode:
  "open_search chmod ps mode = (mode', e) \<Longrightarrow>
     (\<forall>p. mode' p = mode p \<or> p \<in> set ps \<and> (\<exists>m. even m \<and> mode p = Some m \<and> mode' p = Some (m + 1))) \<and>
     (e = None \<longrightarrow> (\<forall>p \<in> set ps. \<exists>m. mode' p = Some m \<and> odd m))"
proof (induction chmod ps mode rule: open_search.induct)
  case (2 chmod p ps mode)
  show ?case
  proof (cases "mode p")
    case (Some m)
    show ?thesis
    proof (cases "odd m")
      case True
      then have "open_search chmod ps mode = (mode', e)" using 2(3) Some by simp
      from 2(1) [OF Some True this] show ?thesis using Some True by force
    next
      case False
      show ?thesis
      proof (cases "chmod p")
        case True
        then have "open_search chmod ps (mode(p := Some (m + 1))) = (mode', e)" using 2(3) Some False by simp
        from 2(2) [OF Some False True this] show ?thesis
          using Some False by (simp split: if_splits) (metis even_Suc option.inject)
      qed (use 2(3) Some False in auto)
    qed
  qed (use 2(3) in auto)
qed auto

lemma open_search_ok:
  "\<forall>p \<in> set ps. mode p \<noteq> None \<and> chmod p \<Longrightarrow> snd (open_search chmod ps mode) = None"
  by (induction chmod ps mode rule: open_search.induct) (auto split: option.split)

text \<open>C35: the walk up from an absolute clean directory ends, at the root; when it reports success every
  directory on the way, the first below the root included, can be searched by everybody; no
  permission is ever taken away, and nothing outside the path is touched.\<close>

theorem path_walk_terminates:
  assumes "is_abs d" "filepath_clean d = d"
  shows "\<exists>mode' e. ensure_path_traversable chmod d mode = Some (mode', e) \<and>
    (\<forall>p. mode' p = mode p \<or> (\<exists>k \<in> {1..length (path_comps d)}. p = abs_of (take k (path_comps d))) \<and>
       (\<exists>m. even m \<and> mode p = Some m \<and> mode' p = Some (m + 1))) \<and>
    (e = None \<longrightarrow> (\<forall>k \<in> {1..length (path_comps d)}. \<exists>m. mode' (abs_of (take k (path_comps d))) = Some m \<and> odd m)) \<and>
    ((\<forall>p. mode p \<noteq> None \<and> chmod p) \<longrightarrow> e = None)"
proof -
  let ?cs = "path_comps d"
  have pr: "all_proper ?cs" using path_comps_proper [OF assms(1)] by (simp add: all_proper_def)
  have d: "d = abs_of ?cs" using assms by (simp add: filepath_clean_def abs_of_def)
  let ?ps = "rev (map (\<lambda>k. abs_of (take k ?cs)) (rev [1..<Suc (length ?cs)]))"
  obtain mode' e where o: "open_search chmod ?ps mode = (mode', e)" by fastforce
  have "ensure_path_traversable chmod d mode = Some (mode', e)"
    using parent_dirs_abs [OF pr] o d by (simp add: ensure_path_traversable_def rev_map)
  moreover have "set ?ps = (\<lambda>k. abs_of (take k ?cs)) ` {1..length ?cs}" by auto
  ultimately show ?thesis
    using open_search_mode [OF o] open_search_ok [of ?ps mode chmod] o by (intro exI [of _ mode'] exI [of _ e]) force
qed

theorem path_walk_terminates_witness:
  "\<exists>mode' e. ensure_path_traversable (\<lambda>p. True) ''/d/vms'' (\<lambda>p. Some 0) = Some (mode', e) \<and> e = None"
proof -
  have "is_abs ''/d/vms''" "filepath_clean ''/d/vms'' = ''/d/vms''" by code_simp+
  from path_walk_terminates [OF this, of "\<lambda>p. True" "\<lambda>p. Some 0"] show ?thesis by blast
qed

text \<open>C24: the directory of a machine is exactly one component below the machines' directory, for every
  accepted name, whatever the text of the name or of the libvirt domain it came from; a domain name
  is accepted exactly when it is the one given to a project with a plain name, and two projects
  never share a directory.\<close>

theorem vm_dir_confined:
  assumes "is_abs d"
  shows "(\<forall>n p. vm_dir d n = Inr p \<longrightarrow> path_comps p = path_comps d @ [''vms'', n] \<and> plain_component n) \<and>
    (\<forall>dom n. project_name_from_domain dom = Inr n \<longrightarrow> domain_name n = dom \<and> (\<exists>p. vm_dir d n = Inr p)) \<and>
    (\<forall>n p. vm_dir d n = Inr p \<longrightarrow> project_name_from_domain (domain_name n) = Inr n) \<and>
    (\<forall>n n' p. vm_dir d n = Inr p \<longrightarrow> vm_dir d n' = Inr p \<longrightarrow> n = n')"
proof -
  have comps: "path_comps p = path_comps d @ [''vms'', n] \<and> plain_component n" if "vm_dir d n = Inr p" for n p
    using that assms path_comps_vms by (simp add: vm_dir_Inr)
  moreover have "n = n'" if "vm_dir d n = Inr p" "vm_dir d n' = Inr p" for n n' p
    using comps [OF that(1)] comps [OF that(2)] by simp
  moreover have "domain_name n = dom \<and> (\<exists>p. vm_dir d n = Inr p)"
    if "project_name_from_domain dom = Inr n" for dom n
    using that assms unfolding project_name_from_domain_Inr vm_dir_Inr [OF assms] by blast
  moreover have "project_name_from_domain (domain_name n) = Inr n" if "vm_dir d n = Inr p" for n p
    using that unfolding project_name_from_domain_Inr vm_dir_Inr [OF assms] by blast
  ultimately show ?thesis by blast
qed

theorem vm_dir_confined_witness:
  "project_name_from_domain ''goship-web'' = Inr ''web'' \<and> (\<exists>p. vm_dir ''/d'' ''web'' = Inr p)"
proof -
  have "is_abs ''/d''" by (simp add: is_abs_def)
  moreover have "project_name_from_domain ''goship-web'' = Inr ''web''" by code_simp
  ultimately show ?thesis using vm_dir_confined [of "''/d''"] by blast
qed

end
