(* ===== verification/Domain_Xml.thy ===== *)
theory Domain_Xml
  imports Vm_Names
begin

text \<open>
  The texts the host generates for a machine: the libvirt domain XML (domain.go), the cloud-init
  documents (cloudinit.go) and the arguments of virt-customize (guest_provision.go). The template is the list of its lines: \<open>{{-\<close> removes the line break
  before a block, so a block contributes whole lines or nothing. The templates quote nothing.
\<close>

definition lines_of :: "string list \<Rightarrow> string" where
  "lines_of ls = join [CHR 0x0A] ls"

text \<open>A value between single quotes.\<close>

definition sq :: "string \<Rightarrow> string" where
  "sq s = CHR 0x27 # s @ [CHR 0x27]"

section \<open>The domain (domain.go)\<close>

record cdrom_device =
  cd_path :: string
  cd_format :: string

record domain_config =
  dc_name :: string
  dc_uuid :: string
  dc_memory_mb :: int
  dc_cpu :: cpu_topology
  dc_enable_kvm :: bool
  dc_disks :: "disk_device list"
  dc_cdroms :: "cdrom_device list"
  dc_networks :: "network_device list"
  dc_serials :: "serial_device list"
  dc_memory_backing :: "memory_backing option"
  dc_security_none :: bool
  dc_dac_label :: string

definition config_vcpus :: "domain_config \<Rightarrow> int" where
  "config_vcpus c = total_vcpus (dc_cpu c)"

definition disk_letter :: "nat \<Rightarrow> string" where
  "disk_letter i = [char_of (97 + (if 25 < i then 0 else i))]"

definition backing_xml :: "memory_backing option \<Rightarrow> string list" where
  "backing_xml mb =
     (case mb of None \<Rightarrow> []
      | Some b \<Rightarrow> [''  <memoryBacking>'']
          @ (if mb_hugepages b then [''    <hugepages/>''] else [])
          @ (if mb_locked b then [''    <locked/>''] else [])
          @ [''  </memoryBacking>''])"

definition disk_xml :: "nat \<Rightarrow> disk_device \<Rightarrow> string list" where
  "disk_xml i d =
     [''    <disk type='file' device='disk'>'',
      ''      <driver name='qemu' type='' @ sq (disk_format d)
        @ (if disk_cache d \<noteq> [] then '' cache='' @ sq (disk_cache d) else []) @ ''/>'',
      ''      <source file='' @ sq (disk_path d) @ ''/>'',
      ''      <target dev='' @ sq (''vd'' @ disk_letter i) @ '' bus='' @ sq (disk_bus d) @ ''/>'']
     @ (if disk_read_only d then [''      <readonly/>''] else [])
     @ [''    </disk>'']"

definition cdrom_xml :: "nat \<Rightarrow> cdrom_device \<Rightarrow> string list" where
  "cdrom_xml i c =
     [''    <disk type='file' device='cdrom'>'',
      ''      <driver name='qemu' type='' @ sq (if cd_format c \<noteq> [] then cd_format c else ''raw'') @ ''/>'',
      ''      <source file='' @ sq (cd_path c) @ ''/>'',
      ''      <target dev='' @ sq (''sd'' @ disk_letter i) @ '' bus='' @ sq ''sata'' @ ''/>'',
      ''      <readonly/>'',
      ''    </disk>'']"

definition network_xml :: "network_device \<Rightarrow> string list" where
  "network_xml n =
     (let mac = (if net_mac n \<noteq> [] then [''      <mac address='' @ sq (net_mac n) @ ''/>''] else []);
          model = [''      <model type='' @ sq (if net_model n \<noteq> [] then net_model n else ''virtio'') @ ''/>'',
                   ''    </interface>'']
      in if net_type n = ''network''
         then [''    <interface type='network'>'', ''      <source network='' @ sq (net_source n) @ ''/>''] @ mac @ model
         else if net_type n = ''bridge''
         then [''    <interface type='bridge'>'', ''      <source bridge='' @ sq (net_source n) @ ''/>''] @ mac @ model
         else if net_type n = ''user'' then [''    <interface type='user'>''] @ mac @ model
         else [])"

definition serial_xml :: "serial_device \<Rightarrow> string list" where
  "serial_xml s =
     [''    <channel type='unix'>'',
      ''      <source mode='bind' path='' @ sq (ser_socket_path s) @ ''/>'',
      ''      <target type='virtio' name='' @ sq (ser_port_name s) @ ''/>'',
      ''    </channel>'']"

text \<open>A range loop over a slice with its index.\<close>

definition each_indexed :: "(nat \<Rightarrow> 'a \<Rightarrow> string list) \<Rightarrow> 'a list \<Rightarrow> string list" where
  "each_indexed f xs = concat (map (\<lambda>(i, x). f i x) (enumerate 0 xs))"

definition security_xml :: "domain_config \<Rightarrow> string list" where
  "security_xml c =
     (if dc_security_none c then [''  <seclabel type='none'/>'']
      else if dc_dac_label c \<noteq> []
      then [''  <seclabel type='static' model='dac' relabel='no'>'',
            ''    <label>'' @ dc_dac_label c @ ''</label>'', ''  </seclabel>'']
      else [])"

definition domain_xml_lines :: "domain_config \<Rightarrow> string list" where
  "domain_xml_lines c =
     [''<domain type='' @ sq (if dc_enable_kvm c then ''kvm'' else ''qemu'') @ ''>'',
      ''  <name>'' @ dc_name c @ ''</name>'',
      ''  <uuid>'' @ dc_uuid c @ ''</uuid>'',
      ''  <memory unit='MiB'>'' @ show_int (dc_memory_mb c) @ ''</memory>'',
      ''  <currentMemory unit='MiB'>'' @ show_int (dc_memory_mb c) @ ''</currentMemory>'',
      ''  <vcpu placement='static'>'' @ show_int (config_vcpus c) @ ''</vcpu>'',
      ''  <os>'',
      ''    <type arch='x86_64' machine='q35'>hvm</type>'',
      ''    <boot dev='hd'/>'',
      ''  </os>'',
      ''  <features>'',
      ''    <acpi/>'',
      ''    <apic/>'',
      ''  </features>'',
      ''  <cpu mode='' @ sq (if dc_enable_kvm c then ''host-passthrough'' else ''host-model'') @ ''>'',
      ''    <topology sockets='' @ sq (show_int (cpu_sockets (dc_cpu c)))
        @ '' cores='' @ sq (show_int (cpu_cores (dc_cpu c)))
        @ '' threads='' @ sq (show_int (cpu_threads (dc_cpu c))) @ ''/>'',
      ''  </cpu>'']
     @ backing_xml (dc_memory_backing c) @
     [''  <clock offset='utc'>'',
      ''    <timer name='rtc' tickpolicy='catchup'/>'',
      ''    <timer name='pit' tickpolicy='delay'/>'',
      ''    <timer name='hpet' present='no'/>'',
      ''  </clock>'',
      ''  <on_poweroff>destroy</on_poweroff>'',
      ''  <on_reboot>restart</on_reboot>'',
      ''  <on_crash>destroy</on_crash>'',
      ''  <devices>'',
      ''    <emulator>/usr/bin/qemu-system-x86_64</emulator>'']
     @ each_indexed disk_xml (dc_disks c)
     @ each_indexed cdrom_xml (dc_cdroms c)
     @ concat (map network_xml (dc_networks c))
     @ concat (map serial_xml (dc_serials c)) @
     [''    <serial type='pty'>'',
      ''      <target port='0'/>'',
      ''    </serial>'',
      ''    <console type='pty'>'',
      ''      <target type='serial' port='0'/>'',
      ''    </console>'',
      ''    <rng model='virtio'>'',
      ''      <backend model='random'>/dev/urandom</backend>'',
      ''    </rng>'',
      ''    <memballoon model='virtio'>'',
      ''      <address type='pci' domain='0x0000' bus='0x00' slot='0x09' function='0x0'/>'',
      ''    </memballoon>'',
      ''  </devices>'']
     @ security_xml c @ [''</domain>'']"

definition generate_domain_xml :: "domain_config \<Rightarrow> string" where
  "generate_domain_xml c = lines_of (domain_xml_lines c)"

section \<open>Cloud-init (cloudinit.go)\<close>

record cloud_init_config =
  ci_instance_id :: string
  ci_hostname :: string
  ci_ssh_key :: string
  ci_install_docker :: bool
  ci_registry_addr :: string

text \<open>A line with its line break, as the code appends it.\<close>

definition ln :: "string \<Rightarrow> string" where "ln s = s @ [CHR 0x0A]"

definition meta_data :: "cloud_init_config \<Rightarrow> string" where
  "meta_data c = ln (''instance-id: '' @ ci_instance_id c) @ ln (''local-hostname: '' @ ci_hostname c)"

definition docker_section :: "cloud_init_config \<Rightarrow> string" where
  "docker_section c =
     (if \<not> ci_install_docker c then []
      else concat (map ln [''packages:'', ''  - docker'', ''  - docker-cli'', ''runcmd:'',
             ''  - [rc-update, add, cgroups, boot]'', ''  - [service, cgroups, start]'',
             ''  - [rc-update, add, docker, default]'', ''  - [service, docker, start]''])
        @ (if ci_registry_addr c = [] then []
           else concat (map ln [''  - [mkdir, -p, /etc/docker]'',
             ''  - echo '' @ sq (CHR ''{'' # [CHR 0x22] @ ''insecure-registries'' @ [CHR 0x22] @ '':['' @ [CHR 0x22]
               @ ci_registry_addr c @ [CHR 0x22] @ '']}'') @ '' > /etc/docker/daemon.json'',
             ''  - [service, docker, restart]''])))"

definition users_section :: "cloud_init_config \<Rightarrow> string" where
  "users_section c =
     concat (map ln [''users:'', ''  - default'', ''  - name: goship'', ''    shell: /bin/sh'',
       ''    groups: '' @ (if ci_install_docker c then ''wheel, docker'' else ''wheel''),
       ''    sudo: ALL=(ALL) NOPASSWD:ALL'', ''    lock_passwd: false'',
       ''    plain_text_passwd: goship''])
     @ (if ci_ssh_key c = [] then []
        else concat (map ln [''    ssh_authorized_keys:'', ''      - '' @ ci_ssh_key c,
               ''ssh_authorized_keys:'', ''  - '' @ ci_ssh_key c]))"

definition user_data :: "cloud_init_config \<Rightarrow> string" where
  "user_data c = ln ''#cloud-config'' @ ln (''hostname: '' @ ci_hostname c) @ docker_section c @ users_section c"

text \<open>
  \<open>GenerateCloudInitISO\<close>: the outcomes are the temporary directory, the two files, the tool that is
  found and its run.
\<close>

datatype iso_error = TempDirFailed | MetaDataFailed | UserDataFailed | NoIsoTool | IsoToolFailed string

record iso_env =
  is_tmp :: bool
  is_meta :: bool
  is_user :: bool
  is_genisoimage :: "string option"
  is_mkisofs :: "string option"
  is_run :: bool

definition find_iso_tool :: "iso_env \<Rightarrow> string option" where
  "find_iso_tool e = (case is_genisoimage e of Some p \<Rightarrow> Some p | None \<Rightarrow> is_mkisofs e)"

definition generate_cloud_init_iso :: "iso_env \<Rightarrow> cloud_init_config \<Rightarrow> iso_error + string \<times> string" where
  "generate_cloud_init_iso e c =
     (if \<not> is_tmp e then Inl TempDirFailed
      else if \<not> is_meta e then Inl MetaDataFailed
      else if \<not> is_user e then Inl UserDataFailed
      else (case find_iso_tool e of None \<Rightarrow> Inl NoIsoTool
        | Some tool \<Rightarrow> if is_run e then Inr (meta_data c, user_data c) else Inl (IsoToolFailed tool)))"

section \<open>Guest provisioning (guest_provision.go)\<close>

datatype provision_error = DiskPathRequired | InitPathRequired | DiskMissing | InitMissing
  | VirtCustomizeMissing | ServiceFileFailed | ResolvFileFailed | VirtCustomizeFailed

definition autologin_script :: string where "autologin_script = ''/usr/local/bin/autologin''"

definition autologin_content :: string where
  "autologin_content = lines_of [''#!/bin/sh'', ''exec /bin/login -f goship'', []]"

definition build_virt_customize_args :: "string \<Rightarrow> string \<Rightarrow> string \<Rightarrow> string \<Rightarrow> string list" where
  "build_virt_customize_args disk init_path service_path resolv_path =
     [''-a'', disk,
      ''--mkdir'', ''/opt/goship'',
      ''--copy-in'', init_path @ '':/opt/goship/'',
      ''--chmod'', ''0755:/opt/goship/goship-init'',
      ''--copy-in'', service_path @ '':/etc/init.d/'',
      ''--move'', ''/etc/init.d/'' @ filepath_base service_path @ '':/etc/init.d/goship-init'',
      ''--chmod'', ''0755:/etc/init.d/goship-init'',
      ''--run-command'', ''rc-update add goship-init default'',
      ''--upload'', resolv_path @ '':/etc/resolv.conf'',
      ''--write'', autologin_script @ '':'' @ autologin_content,
      ''--chmod'', ''0755:'' @ autologin_script,
      ''--run-command'', ''sed -i '' @ sq ''/^#*ttyS0/d'' @ '' /etc/inittab && echo ''
         @ sq (''ttyS0::respawn:/sbin/getty -n -l '' @ autologin_script @ '' 115200 ttyS0 vt100'')
         @ '' >> /etc/inittab'']"

record provision_env =
  pv_disk :: bool
  pv_init :: bool
  pv_tool :: bool
  pv_service_file :: "string option"
  pv_resolv_file :: "string option"
  pv_run :: "string list \<Rightarrow> bool"

definition provision_guest_disk :: "provision_env \<Rightarrow> string \<Rightarrow> string \<Rightarrow> provision_error option" where
  "provision_guest_disk e disk init_path =
     (if disk = [] then Some DiskPathRequired
      else if init_path = [] then Some InitPathRequired
      else if \<not> pv_disk e then Some DiskMissing
      else if \<not> pv_init e then Some InitMissing
      else if \<not> pv_tool e then Some VirtCustomizeMissing
      else (case pv_service_file e of None \<Rightarrow> Some ServiceFileFailed
        | Some service \<Rightarrow> (case pv_resolv_file e of None \<Rightarrow> Some ResolvFileFailed
          | Some resolv \<Rightarrow>
            if pv_run e (build_virt_customize_args disk init_path service resolv) then None
            else Some VirtCustomizeFailed)))"

end
