(* ===== verification/Uuid.thy ===== *)
theory Uuid
  imports Vault "HOL-Library.Word"
begin

text \<open>
  The identifiers of machines (\<open>GenerateUUID\<close> of internal/agent/runtime/libvirt/manager.go): sixteen
  random bytes with the version and the variant written over them, printed in groups of lower-case
  hexadecimal digits.
\<close>

unbundle bit_operations_syntax

definition hex_byte :: "8 word \<Rightarrow> string" where
  "hex_byte w = [hex_char (unat w div 16), hex_char (unat w mod 16)]"

definition uuid_version_mask :: "8 word" where "uuid_version_mask = 0x0F"
definition uuid_version4 :: "8 word" where "uuid_version4 = 0x40"
definition uuid_variant_mask :: "8 word" where "uuid_variant_mask = 0x3F"
definition uuid_variant :: "8 word" where "uuid_variant = 0x80"

definition stamp_uuid :: "8 word list \<Rightarrow> 8 word list" where
  "stamp_uuid u = u[6 := (u ! 6 AND uuid_version_mask) OR uuid_version4,
                    8 := (u ! 8 AND uuid_variant_mask) OR uuid_variant]"

definition generate_uuid :: "8 word list \<Rightarrow> string" where
  "generate_uuid u =
     (let part = (\<lambda>a b. concat (map hex_byte (drop a (take b (stamp_uuid u)))))
      in part 0 4 @ ''-'' @ part 4 6 @ ''-'' @ part 6 8 @ ''-'' @ part 8 10 @ ''-'' @ part 10 16)"

section \<open>Shape\<close>

lemma unat_stamp:
  assumes "m AND c = (0 :: 8 word)"
  shows "unat ((w AND m) OR c) = unat (w AND m) + unat c"
proof -
  have "unat (w AND m) AND unat c = unat (w AND (m AND c))" by (simp add: unsigned_and_eq and.assoc)
  then have z: "unat (w AND m) AND unat c = 0" using assms by simp
  have "unat ((w AND m) OR c) = unat (w AND m) OR unat c" by (simp add: unsigned_or_eq)
  also have "\<dots> = unat (w AND m) + unat c" by (rule disjunctive_add_eq_or [OF z, symmetric])
  finally show ?thesis .
qed

lemma unat_and_mask:
  assumes "unat m = 2 ^ k - 1"
  shows "unat (w AND m :: 8 word) = unat w mod 2 ^ k"
proof -
  have "unat (w AND m) = unat w AND mask k"
    using assms by (simp add: unsigned_and_eq mask_eq_exp_minus_1)
  then show ?thesis by (simp add: take_bit_eq_mask [symmetric] take_bit_eq_mod)
qed

lemma version_byte: "unat ((w AND uuid_version_mask) OR uuid_version4) = unat w mod 16 + 64"
proof -
  have "unat (w AND uuid_version_mask) = unat w mod 2 ^ 4"
    by (rule unat_and_mask) (simp add: uuid_version_mask_def)
  then show ?thesis
    using unat_stamp [of uuid_version_mask uuid_version4 w] by (simp add: uuid_version_mask_def uuid_version4_def)
qed

lemma variant_byte: "unat ((w AND uuid_variant_mask) OR uuid_variant) = unat w mod 64 + 128"
proof -
  have "unat (w AND uuid_variant_mask) = unat w mod 2 ^ 6"
    by (rule unat_and_mask) (simp add: uuid_variant_mask_def)
  then show ?thesis
    using unat_stamp [of uuid_variant_mask uuid_variant w] by (simp add: uuid_variant_mask_def uuid_variant_def)
qed

lemma version_eq [simp]:
  "(x AND uuid_version_mask) OR uuid_version4 = (y AND uuid_version_mask) OR uuid_version4 \<longleftrightarrow> unat x mod 16 = unat y mod 16"
  by (simp add: word_unat_eq_iff version_byte)

lemma variant_eq [simp]:
  "(x AND uuid_variant_mask) OR uuid_variant = (y AND uuid_variant_mask) OR uuid_variant \<longleftrightarrow> unat x mod 64 = unat y mod 64"
  by (simp add: word_unat_eq_iff variant_byte)

definition is_hex_digit :: "char \<Rightarrow> bool" where
  "is_hex_digit c \<longleftrightarrow> c \<in> set ''0123456789abcdef''"

text \<open>The form RFC 4122 gives an identifier of version 4.\<close>

definition uuid_v4 :: "string \<Rightarrow> bool" where
  "uuid_v4 s \<longleftrightarrow> length s = 36 \<and> (\<forall>i \<in> {0..<36}.
     if i \<in> {8, 13, 18, 23} then s ! i = CHR ''-''
     else if i = 14 then s ! i = CHR ''4''
     else if i = 19 then s ! i \<in> set ''89ab'' else is_hex_digit (s ! i))"

lemma hex_digit_char: "n < 16 \<Longrightarrow> is_hex_digit (hex_char n)"
proof -
  assume "n < 16"
  then have "n \<in> set [0..<16]" by simp
  moreover have "\<forall>k \<in> set [0..<16]. is_hex_digit (hex_char k)" by code_simp
  ultimately show ?thesis by blast
qed

lemma hex_byte_inj [simp]: "hex_byte a @ s = hex_byte b @ t \<longleftrightarrow> a = b \<and> s = t"
proof
  assume e: "hex_byte a @ s = hex_byte b @ t"
  have lt: "unat x div 16 < 16" "unat x mod 16 < 16" for x :: "8 word"
    using unsigned_less [of x, where 'a = nat] by (simp_all add: less_mult_imp_div_less)
  have "hex_char (unat a div 16) = hex_char (unat b div 16)" "hex_char (unat a mod 16) = hex_char (unat b mod 16)"
    using e by (simp_all add: hex_byte_def)
  then have "unat a div 16 = unat b div 16" "unat a mod 16 = unat b mod 16"
    using lt hex_val_char by (metis option.inject)+
  then have "unat a = unat b" by (metis div_mod_decomp)
  then have "a = b" by (simp add: word_unat_eq_iff)
  then show "a = b \<and> s = t" using e by (simp add: hex_byte_def)
qed simp

lemma hex_byte_end [simp]: "hex_byte a = hex_byte b \<longleftrightarrow> a = b"
  using hex_byte_inj [of a "[]" b "[]"] by simp

lemma sixteen:
  assumes "length u = 16"
  obtains a b c d e f g h i j k l m n p q where "u = [a, b, c, d, e, f, g, h, i, j, k, l, m, n, p, q]"
  using assms by (auto simp: numeral_eq_Suc length_Suc_conv)

lemma hex_byte_digits [simp]:
  "is_hex_digit (hex_char (unat (w :: 8 word) div 16))" "is_hex_digit (hex_char (unat w mod 16))"
  using unsigned_less [of w, where 'a = nat] by (auto intro!: hex_digit_char simp: less_mult_imp_div_less)

lemma version_digit: "hex_char (unat ((w AND uuid_version_mask) OR uuid_version4) div 16) = CHR ''4''"
proof -
  have "(unat w mod 16 + 64) div 16 = 4" by simp
  then show ?thesis unfolding version_byte by (simp only:) code_simp
qed

lemma variant_digit: "hex_char (unat ((w AND uuid_variant_mask) OR uuid_variant) div 16) \<in> set ''89ab''"
proof -
  have "(unat w mod 64 + 128) div 16 \<in> set [8, 9, 10, 11]" by auto
  moreover have "\<forall>k \<in> set [8, 9, 10, 11]. hex_char k \<in> set ''89ab''" by code_simp
  ultimately show ?thesis unfolding variant_byte by blast
qed

lemma generate_uuid_form: "uuid_v4 (generate_uuid [a, b, c, d, e, f, g, h, i, j, k, l, m, n, p, q])"
proof -
  have indices: "{0..<36::nat} = set [0, 1, 2, 3, 4, 5, 6, 7, 8, 9, 10, 11, 12, 13, 14, 15, 16, 17, 18, 19, 20, 21,
      22, 23, 24, 25, 26, 27, 28, 29, 30, 31, 32, 33, 34, 35]" by code_simp
  show ?thesis
    unfolding uuid_v4_def indices
    using variant_digit [of i] by (simp add: generate_uuid_def stamp_uuid_def hex_byte_def version_digit)
qed

text \<open>C38: whatever bytes the random source gives, the identifier of a machine has the form of a version 4
  UUID, and two of them are equal only when all 122 bits that are not fixed agree.\<close>

theorem generate_uuid_shape:
  assumes "length u = 16" "length v = 16"
  shows "uuid_v4 (generate_uuid u) \<and>
    (generate_uuid u = generate_uuid v \<longleftrightarrow>
       (\<forall>i \<in> {0..<16}. if i = 6 then unat (u ! i) mod 16 = unat (v ! i) mod 16
          else if i = 8 then unat (u ! i) mod 64 = unat (v ! i) mod 64 else u ! i = v ! i))"
proof (rule sixteen [OF assms(1)], rule sixteen [OF assms(2)])
  fix a b c d e f g h i j k l m n p q and a' b' c' d' e' f' g' h' i' j' k' l' m' n' p' q'
  assume u: "u = [a, b, c, d, e, f, g, h, i, j, k, l, m, n, p, q]"
    and v: "v = [a', b', c', d', e', f', g', h', i', j', k', l', m', n', p', q']"
  have sixteen_indices: "{0..<16::nat} = set [0, 1, 2, 3, 4, 5, 6, 7, 8, 9, 10, 11, 12, 13, 14, 15]" by code_simp
  have eq: "generate_uuid u = generate_uuid v \<longleftrightarrow>
      (\<forall>i \<in> {0..<16}. if i = 6 then unat (u ! i) mod 16 = unat (v ! i) mod 16
          else if i = 8 then unat (u ! i) mod 64 = unat (v ! i) mod 64 else u ! i = v ! i)"
    unfolding sixteen_indices by (simp add: u v generate_uuid_def stamp_uuid_def)
  have "uuid_v4 (generate_uuid u)" unfolding u by (rule generate_uuid_form)
  then show ?thesis using eq by blast
qed

theorem generate_uuid_shape_witness:
  "uuid_v4 (generate_uuid (replicate 16 0xFF)) \<and> generate_uuid (replicate 16 0xFF) = ''ffffffff-ffff-4fff-bfff-ffffffffffff''"
proof -
  have "length (replicate 16 (0xFF :: 8 word)) = 16" by simp
  from generate_uuid_shape [OF this this] have "uuid_v4 (generate_uuid (replicate 16 0xFF))" by (rule conjunct1)
  moreover have "generate_uuid (replicate 16 0xFF) = ''ffffffff-ffff-4fff-bfff-ffffffffffff''" by code_simp
  ultimately show ?thesis by (rule conjI)
qed

end
