(* ===== verification/Vm_Manager.thy ===== *)
theory Vm_Manager
  imports Domain_Xml Uuid
begin

text \<open>
  The manager of virtual machines (manager.go, vm.go and network.go of
  internal/agent/runtime/libvirt). The libvirt library is the record \<open>hypervisor\<close> of its calls over
  a world \<open>'w\<close> it does not reveal; a number stands for the handle of a domain or a network. The
  host is that world together with the paths that exist and their permission bits. The tools the
  code runs (qemu-img, setfacl, virt-customize, the ISO tool) have their outcomes in the record
  \<open>create_env\<close>.
\<close>

section \<open>The libraries\<close>

datatype domain_state = DomNoState | DomRunning | DomBlocked | DomPaused | DomShutdown | DomShutoff
  | DomCrashed | DomPmSuspended | DomOther int

datatype domain_lookup = DomFound nat | DomNone | DomLookupFailed

record 'w hypervisor =
  hv_connect :: "'w \<Rightarrow> bool"
  hv_define :: "string \<Rightarrow> 'w \<Rightarrow> 'w \<times> nat option"
  hv_lookup :: "string \<Rightarrow> 'w \<Rightarrow> domain_lookup"
  hv_state :: "nat \<Rightarrow> 'w \<Rightarrow> domain_state option"
  hv_create :: "nat \<Rightarrow> 'w \<Rightarrow> 'w \<times> bool"
  hv_destroy :: "nat \<Rightarrow> 'w \<Rightarrow> 'w \<times> bool"
  hv_undefine :: "nat \<Rightarrow> 'w \<Rightarrow> 'w \<times> bool"
  hv_shutdown :: "nat \<Rightarrow> 'w \<Rightarrow> 'w \<times> bool"
  hv_list :: "'w \<Rightarrow> (nat \<times> string option) list option"
  hv_net_lookup :: "string \<Rightarrow> 'w \<Rightarrow> nat option"
  hv_net_active :: "nat \<Rightarrow> 'w \<Rightarrow> bool option"
  hv_net_define :: "string \<Rightarrow> 'w \<Rightarrow> 'w \<times> nat option"
  hv_net_create :: "nat \<Rightarrow> 'w \<Rightarrow> 'w \<times> bool"
  hv_net_autostart :: "nat \<Rightarrow> 'w \<Rightarrow> 'w \<times> bool"

record 'w host =
  ho_world :: 'w
  ho_fs :: "string \<Rightarrow> bool"
  ho_mode :: "string \<Rightarrow> nat option"

definition on_world :: "('w \<Rightarrow> 'w \<times> 'a) \<Rightarrow> 'w host \<Rightarrow> 'w host \<times> 'a" where
  "on_world f h = (case f (ho_world h) of (w, a) \<Rightarrow> (h\<lparr>ho_world := w\<rparr>, a))"

definition add_path :: "string \<Rightarrow> 'w host \<Rightarrow> 'w host" where
  "add_path p h = h\<lparr>ho_fs := (ho_fs h)(p := True)\<rparr>"

definition below :: "string \<Rightarrow> string \<Rightarrow> bool" where
  "below dir p \<longleftrightarrow> p = dir \<or> has_prefix (dir @ ''/'') p"

section \<open>Networks (network.go)\<close>

datatype network_error = NetNotFound string | NetStateFailed string | NetStartFailed string
  | DefaultNetDefineFailed | DefaultNetStartFailed

definition default_network_xml :: string where
  "default_network_xml = lines_of [''<network>'', ''  <name>default</name>'',
     ''  <bridge name='virbr0' stp='on' delay='0'/>'', ''  <forward mode='nat'/>'',
     ''  <ip address='192.168.122.1' netmask='255.255.255.0'>'', ''    <dhcp>'',
     ''      <range start='192.168.122.2' end='192.168.122.254'/>'', ''    </dhcp>'',
     ''  </ip>'', ''</network>'']"

definition create_default_network :: "'w hypervisor \<Rightarrow> 'w \<Rightarrow> 'w \<times> network_error option" where
  "create_default_network hv w =
     (case hv_net_define hv default_network_xml w of
        (w1, None) \<Rightarrow> (w1, Some DefaultNetDefineFailed)
      | (w1, Some net) \<Rightarrow>
        (case hv_net_create hv net w1 of
           (w2, False) \<Rightarrow> (w2, Some DefaultNetStartFailed)
         | (w2, True) \<Rightarrow> (fst (hv_net_autostart hv net w2), None)))"

definition ensure_libvirt_network :: "'w hypervisor \<Rightarrow> string \<Rightarrow> 'w \<Rightarrow> 'w \<times> network_error option" where
  "ensure_libvirt_network hv name w =
     (case hv_net_lookup hv name w of
        None \<Rightarrow> if name = ''default'' then create_default_network hv w else (w, Some (NetNotFound name))
      | Some net \<Rightarrow>
        (case hv_net_active hv net w of
           None \<Rightarrow> (w, Some (NetStateFailed name))
         | Some True \<Rightarrow> (w, None)
         | Some False \<Rightarrow>
           (case hv_net_create hv net w of
              (w1, False) \<Rightarrow> (w1, Some (NetStartFailed name))
            | (w1, True) \<Rightarrow> (fst (hv_net_autostart hv net w1), None))))"

section \<open>Domains (vm.go)\<close>

datatype vm_error = VmBadName name_error | BaseImageMissing string | VmMkdirFailed | AclFailed
  | TraverseFailed | DiskCreateFailed | DiskResizeFailed string | ProvisionFailed provision_error
  | UuidFailed | IsoFailed iso_error | NetworkFailed network_error
  | DefineFailed | StartDomainFailed | VmNotFound string | StateFailed | DestroyFailed | UndefineFailed
  | ListFailed

definition create_vm :: "'w hypervisor \<Rightarrow> string \<Rightarrow> 'w \<Rightarrow> 'w \<times> (vm_error + nat)" where
  "create_vm hv xml w =
     (case hv_define hv xml w of
        (w1, None) \<Rightarrow> (w1, Inl DefineFailed)
      | (w1, Some d) \<Rightarrow>
        (case hv_create hv d w1 of
           (w2, False) \<Rightarrow> (fst (hv_undefine hv d w2), Inl StartDomainFailed)
         | (w2, True) \<Rightarrow> (w2, Inr d)))"

definition lookup_vm :: "'w hypervisor \<Rightarrow> string \<Rightarrow> 'w \<Rightarrow> nat option" where
  "lookup_vm hv name w = (case hv_lookup hv name w of DomFound d \<Rightarrow> Some d | _ \<Rightarrow> None)"

definition destroy_vm :: "'w hypervisor \<Rightarrow> nat \<Rightarrow> 'w \<Rightarrow> 'w \<times> vm_error option" where
  "destroy_vm hv d w =
     (case hv_state hv d w of None \<Rightarrow> (w, Some StateFailed)
      | Some s \<Rightarrow>
        (case (if s = DomRunning \<or> s = DomPaused then hv_destroy hv d w else (w, True)) of
           (w1, False) \<Rightarrow> (w1, Some DestroyFailed)
         | (w1, True) \<Rightarrow>
           (case hv_undefine hv d w1 of (w2, False) \<Rightarrow> (w2, Some UndefineFailed) | (w2, True) \<Rightarrow> (w2, None))))"

definition format_vm_state :: "domain_state \<Rightarrow> string" where
  "format_vm_state s = (case s of DomNoState \<Rightarrow> ''no state'' | DomRunning \<Rightarrow> ''running''
     | DomBlocked \<Rightarrow> ''blocked'' | DomPaused \<Rightarrow> ''paused'' | DomShutdown \<Rightarrow> ''shutting down''
     | DomShutoff \<Rightarrow> ''shut off'' | DomCrashed \<Rightarrow> ''crashed'' | DomPmSuspended \<Rightarrow> ''pm suspended''
     | DomOther i \<Rightarrow> ''unknown'')"

section \<open>Creation (manager.go)\<close>

record create_vm_options =
  co_name :: string
  co_base_image :: string
  co_memory_mb :: int
  co_disk_mb :: int
  co_cpus :: int
  co_enable_kvm :: bool
  co_security_none :: bool
  co_network_type :: string
  co_network_source :: string
  co_hostname :: string
  co_ssh_key :: string
  co_init_binary_path :: string
  co_provision_guest :: bool
  co_install_docker :: bool
  co_registry_addr :: string

record vm_desc =
  vd_name :: string
  vd_domain :: string
  vd_uuid :: string
  vd_state :: string
  vd_memory :: int
  vd_cpus :: int
  vd_disk :: string

record create_env =
  ce_base_exists :: bool
  ce_mkdir :: bool
  ce_setfacl :: bool
  ce_run_setfacl :: "string list \<Rightarrow> bool"
  ce_abs :: "string option"
  ce_chmod :: "string \<Rightarrow> bool"
  ce_disk_create :: bool
  ce_disk_resize :: bool
  ce_provision :: provision_env
  ce_random :: "8 word list option"
  ce_iso :: iso_env
  ce_uid :: int
  ce_gid :: int
  ce_remove :: bool

text \<open>The domain both \<open>Create\<close> and \<open>ResizeInstance\<close> describe.\<close>

definition domain_config_for ::
    "create_env \<Rightarrow> string \<Rightarrow> string \<Rightarrow> int \<Rightarrow> bool \<Rightarrow> bool \<Rightarrow> int \<Rightarrow> string \<Rightarrow> cdrom_device list \<Rightarrow>
     string \<Rightarrow> string \<Rightarrow> string \<Rightarrow> domain_config" where
  "domain_config_for e dname uuid mem kvm sec cpus disk cdroms net_ty net_src dir =
     \<lparr>dc_name = dname, dc_uuid = uuid, dc_memory_mb = mem,
      dc_cpu = \<lparr>cpu_sockets = 1, cpu_cores = cpus, cpu_threads = 1, cpu_model = [], cpu_features = []\<rparr>,
      dc_enable_kvm = kvm,
      dc_disks = [\<lparr>disk_path = disk, disk_format = ''qcow2'', disk_bus = ''virtio'', disk_read_only = False,
        disk_cache = []\<rparr>],
      dc_cdroms = cdroms,
      dc_networks = [\<lparr>net_type = net_ty, net_source = net_src, net_mac = [], net_model = ''virtio''\<rparr>],
      dc_serials = [\<lparr>ser_type = ''virtio-serial'', ser_socket_path = filepath_join dir ''goship.sock'',
        ser_port_name = ''goship.0''\<rparr>],
      dc_memory_backing = None, dc_security_none = sec,
      dc_dac_label = ''+'' @ show_int (ce_uid e) @ '':+'' @ show_int (ce_gid e)\<rparr>"

definition remove_vm_dir :: "bool \<Rightarrow> string \<Rightarrow> 'w host \<Rightarrow> 'w host" where
  "remove_vm_dir removable dir h = (if removable then h\<lparr>ho_fs := \<lambda>p. \<not> below dir p \<and> ho_fs h p\<rparr> else h)"

text \<open>The ISO is made when there is a host name or a key for it.\<close>

definition cloud_init_cdroms ::
    "create_env \<Rightarrow> string \<Rightarrow> string \<Rightarrow> create_vm_options \<Rightarrow> 'w host \<Rightarrow> 'w host \<times> (vm_error + cdrom_device list)" where
  "cloud_init_cdroms e dir uuid o1 h =
     (if co_hostname o1 = [] \<and> co_ssh_key o1 = [] then (h, Inr [])
      else let iso = filepath_join dir ''cloud-init.iso'';
               c = \<lparr>ci_instance_id = uuid,
                    ci_hostname = (if co_hostname o1 = [] then co_name o1 else co_hostname o1),
                    ci_ssh_key = co_ssh_key o1, ci_install_docker = co_install_docker o1,
                    ci_registry_addr = co_registry_addr o1\<rparr>
           in case generate_cloud_init_iso (ce_iso e) c of
                Inl err \<Rightarrow> (h, Inl (IsoFailed err))
              | Inr _ \<Rightarrow> (add_path iso h, Inr [\<lparr>cd_path = iso, cd_format = ''raw''\<rparr>]))"

definition network_for :: "'w hypervisor \<Rightarrow> create_vm_options \<Rightarrow> 'w \<Rightarrow> 'w \<times> network_error option" where
  "network_for hv o1 w =
     (if co_network_type o1 = ''network'' \<and> co_network_source o1 \<noteq> []
      then ensure_libvirt_network hv (co_network_source o1) w else (w, None))"

text \<open>One step that may fail, followed by the rest.\<close>

definition bind_host :: "'w host \<times> ('e + 'a) \<Rightarrow> ('a \<Rightarrow> 'w host \<Rightarrow> 'w host \<times> ('e + 'b)) \<Rightarrow> 'w host \<times> ('e + 'b)" where
  "bind_host m f = (case m of (h, Inl e) \<Rightarrow> (h, Inl e) | (h, Inr a) \<Rightarrow> f a h)"

definition require :: "bool \<Rightarrow> 'e \<Rightarrow> 'w host \<Rightarrow> 'w host \<times> ('e + unit)" where
  "require b e h = (h, if b then Inr () else Inl e)"

definition or_fail :: "('e \<Rightarrow> 'f) \<Rightarrow> 'w host \<times> 'e option \<Rightarrow> 'w host \<times> ('f + unit)" where
  "or_fail f m = (case m of (h, Some e) \<Rightarrow> (h, Inl (f e)) | (h, None) \<Rightarrow> (h, Inr ()))"

definition vm_xml ::
    "create_env \<Rightarrow> create_vm_options \<Rightarrow> string \<Rightarrow> string \<Rightarrow> string \<Rightarrow> cdrom_device list \<Rightarrow> string" where
  "vm_xml e o1 dir disk uuid cdroms = generate_domain_xml (domain_config_for e (domain_name (co_name o1)) uuid
     (co_memory_mb o1) (co_enable_kvm o1) (co_security_none o1) (co_cpus o1) disk cdroms
     (co_network_type o1) (co_network_source o1) dir)"

definition provision_for :: "create_env \<Rightarrow> create_vm_options \<Rightarrow> string \<Rightarrow> provision_error option" where
  "provision_for e o1 disk = (if co_provision_guest o1
     then provision_guest_disk (ce_provision e) disk (co_init_binary_path o1) else None)"

text \<open>The part of \<open>Create\<close> after the deferred clean-up is armed.\<close>

definition build_vm ::
    "'w hypervisor \<Rightarrow> create_env \<Rightarrow> string \<Rightarrow> string \<Rightarrow> create_vm_options \<Rightarrow> 'w host \<Rightarrow> 'w host \<times> (vm_error + vm_desc)" where
  "build_vm hv e data_dir dir o1 h0 =
     bind_host (h0, map_err VmBadName (vm_disk_path data_dir (co_name o1))) (\<lambda>disk h.
     bind_host (require (ce_disk_create e) DiskCreateFailed h) (\<lambda>_ h.
     bind_host (require (co_disk_mb o1 \<le> 0 \<or> ce_disk_resize e)
       (DiskResizeFailed (show_int (co_disk_mb o1) @ ''M'')) (add_path disk h)) (\<lambda>_ h.
     bind_host (or_fail ProvisionFailed (h, provision_for e o1 disk)) (\<lambda>_ h.
     bind_host (h, case ce_random e of None \<Rightarrow> Inl UuidFailed | Some u \<Rightarrow> Inr (generate_uuid u)) (\<lambda>uuid h.
     bind_host (cloud_init_cdroms e dir uuid o1 h) (\<lambda>cdroms h.
     bind_host (or_fail NetworkFailed (on_world (network_for hv o1) h)) (\<lambda>_ h.
     bind_host (on_world (create_vm hv (vm_xml e o1 dir disk uuid cdroms)) h) (\<lambda>d h.
       (h, Inr \<lparr>vd_name = co_name o1, vd_domain = domain_name (co_name o1), vd_uuid = uuid,
          vd_state = ''running'', vd_memory = co_memory_mb o1, vd_cpus = co_cpus o1, vd_disk = disk\<rparr>)))))))))"

text \<open>\<open>sanitizeVMDirACL\<close>; the mode is 0755.\<close>

definition sanitize_vm_dir_acl :: "create_env \<Rightarrow> string \<Rightarrow> 'w host \<Rightarrow> 'w host \<times> bool" where
  "sanitize_vm_dir_acl e dir h =
     (if \<not> ce_setfacl e then (h, True)
      else if \<not> ce_run_setfacl e [''-b'', dir] \<or> \<not> ce_run_setfacl e [''-k'', dir] then (h, False)
      else if \<not> ce_chmod e dir then (h, False)
      else (h\<lparr>ho_mode := (ho_mode h)(dir := Some 493)\<rparr>, True))"

definition open_path :: "create_env \<Rightarrow> 'w host \<Rightarrow> 'w host \<times> bool" where
  "open_path e h =
     (case ce_abs e of None \<Rightarrow> (h, False)
      | Some a \<Rightarrow> (case ensure_path_traversable (ce_chmod e) a (ho_mode h) of
          None \<Rightarrow> (h, False)
        | Some (m, err) \<Rightarrow> (h\<lparr>ho_mode := m\<rparr>, err = None)))"

definition manager_create ::
    "'w hypervisor \<Rightarrow> create_env \<Rightarrow> string \<Rightarrow> create_vm_options \<Rightarrow> 'w host \<Rightarrow> 'w host \<times> (vm_error + vm_desc)" where
  "manager_create hv e data_dir o1 h =
     (case vm_dir data_dir (co_name o1) of Inl err \<Rightarrow> (h, Inl (VmBadName err))
      | Inr dir \<Rightarrow>
        if \<not> ce_base_exists e then (h, Inl (BaseImageMissing (co_base_image o1)))
        else if \<not> ce_mkdir e then (h, Inl VmMkdirFailed)
        else (case sanitize_vm_dir_acl e dir (add_path dir h) of
            (h1, False) \<Rightarrow> (h1, Inl AclFailed)
          | (h1, True) \<Rightarrow>
            (case open_path e h1 of
               (h2, False) \<Rightarrow> (h2, Inl TraverseFailed)
             | (h2, True) \<Rightarrow>
               (case build_vm hv e data_dir dir o1 h2 of
                  (h3, Inl err) \<Rightarrow> (remove_vm_dir (ce_remove e) dir h3, Inl err)
                | (h3, Inr v) \<Rightarrow> (h3, Inr v)))))"

section \<open>Removal and listing\<close>

record destroy_result =
  dr_disk_removed :: bool
  dr_disk_dir :: string

definition manager_destroy ::
    "'w hypervisor \<Rightarrow> bool \<Rightarrow> string \<Rightarrow> string \<Rightarrow> bool \<Rightarrow> 'w host \<Rightarrow> 'w host \<times> (vm_error + destroy_result)" where
  "manager_destroy hv removable data_dir name keep_disk h =
     (case vm_dir data_dir name of Inl err \<Rightarrow> (h, Inl (VmBadName err))
      | Inr dir \<Rightarrow>
        (case lookup_vm hv (domain_name name) (ho_world h) of None \<Rightarrow> (h, Inl (VmNotFound name))
         | Some d \<Rightarrow>
           (case on_world (destroy_vm hv d) h of
              (h1, Some err) \<Rightarrow> (h1, Inl err)
            | (h1, None) \<Rightarrow>
              if \<not> keep_disk \<and> data_dir \<noteq> []
              then (remove_vm_dir removable dir h1, Inr \<lparr>dr_disk_removed = removable, dr_disk_dir = dir\<rparr>)
              else (h1, Inr \<lparr>dr_disk_removed = False, dr_disk_dir = []\<rparr>))))"

definition list_entry :: "'w hypervisor \<Rightarrow> 'w \<Rightarrow> nat \<times> string option \<Rightarrow> vm_desc list" where
  "list_entry hv w = (\<lambda>(d, name). case name of None \<Rightarrow> []
     | Some n \<Rightarrow> if \<not> has_prefix libvirt_domain_prefix n then []
         else (case hv_state hv d w of None \<Rightarrow> []
           | Some s \<Rightarrow> [\<lparr>vd_name = user_facing_name n, vd_domain = n, vd_uuid = [],
               vd_state = format_vm_state s, vd_memory = 0, vd_cpus = 0, vd_disk = []\<rparr>]))"

definition manager_list :: "'w hypervisor \<Rightarrow> 'w \<Rightarrow> vm_error + vm_desc list" where
  "manager_list hv w = (case hv_list hv w of None \<Rightarrow> Inl ListFailed
     | Some ds \<Rightarrow> Inr (concat (map (list_entry hv w) ds)))"

text \<open>\<open>connectToLibvirt\<close>: the system daemon first, the session of a user who is not root then.\<close>

definition connect_to_libvirt :: "(string \<Rightarrow> bool) \<Rightarrow> int \<Rightarrow> string option" where
  "connect_to_libvirt connects uid =
     (if connects ''qemu:///system'' then Some ''qemu:///system''
      else if uid \<noteq> 0 \<and> connects ''qemu:///session'' then Some ''qemu:///session'' else None)"

end
