(* ===== verification/Vm_Manager_Spec.thy ===== *)
theory Vm_Manager_Spec
  imports Vm_Manager
begin

text \<open>
  What the creation of a machine leaves behind. \<open>hv_ok\<close> states what libvirt documents about
  definitions: a fresh one appears under one name that was free (the identifier in the XML is
  new, so a taken name is an error), starting a domain and handling networks do not change which
  domains exist, and undefining a domain that did not start removes exactly it.
\<close>

section \<open>What is documented of the library\<close>

definition same_domains :: "'w hypervisor \<Rightarrow> 'w \<Rightarrow> 'w \<Rightarrow> bool" where
  "same_domains hv w w' \<longleftrightarrow> (\<forall>n. hv_lookup hv n w' = hv_lookup hv n w)"

definition new_domain :: "'w hypervisor \<Rightarrow> nat \<Rightarrow> 'w \<Rightarrow> 'w \<Rightarrow> bool" where
  "new_domain hv d w w' \<longleftrightarrow> (\<forall>n. hv_lookup hv n w \<noteq> DomFound d) \<and>
     (\<exists>m. hv_lookup hv m w = DomNone \<and> (\<forall>n. hv_lookup hv n w' = (if n = m then DomFound d else hv_lookup hv n w)))"

definition hv_ok :: "'w hypervisor \<Rightarrow> bool" where
  "hv_ok hv \<longleftrightarrow>
     (\<forall>xml w w' d. hv_define hv xml w = (w', Some d) \<longrightarrow> new_domain hv d w w') \<and>
     (\<forall>xml w w'. hv_define hv xml w = (w', None) \<longrightarrow> same_domains hv w w') \<and>
     (\<forall>d w. same_domains hv w (fst (hv_create hv d w))) \<and>
     (\<forall>d w w' n. hv_create hv d w = (w', False) \<longrightarrow> hv_lookup hv n (fst (hv_undefine hv d w')) =
        (if hv_lookup hv n w' = DomFound d then DomNone else hv_lookup hv n w')) \<and>
     (\<forall>x w. same_domains hv w (fst (hv_net_define hv x w))) \<and>
     (\<forall>d w. same_domains hv w (fst (hv_net_create hv d w))) \<and>
     (\<forall>d w. same_domains hv w (fst (hv_net_autostart hv d w)))"

lemma hv_okD:
  assumes "hv_ok hv"
  shows "hv_define hv xml w = (w', Some d) \<Longrightarrow> new_domain hv d w w'"
    and "hv_define hv xml w = (w', None) \<Longrightarrow> same_domains hv w w'"
    and "same_domains hv w (fst (hv_create hv d w))"
    and "hv_create hv d w = (w', False) \<Longrightarrow> hv_lookup hv n (fst (hv_undefine hv d w')) =
        (if hv_lookup hv n w' = DomFound d then DomNone else hv_lookup hv n w')"
    and "same_domains hv w (fst (hv_net_define hv xml w))"
    and "same_domains hv w (fst (hv_net_create hv d w))"
    and "same_domains hv w (fst (hv_net_autostart hv d w))"
  using assms unfolding hv_ok_def by blast+

lemma same_domains_refl [simp]: "same_domains hv w w"
  by (simp add: same_domains_def)

lemma same_domains_trans [trans]:
  "same_domains hv w w' \<Longrightarrow> same_domains hv w' w'' \<Longrightarrow> same_domains hv w w''"
  by (simp add: same_domains_def)

lemma net_define_same: "hv_ok hv \<Longrightarrow> hv_net_define hv x w = (w', r) \<Longrightarrow> same_domains hv w w'"
  using hv_okD(5) [of hv w x] by simp

lemma net_create_same: "hv_ok hv \<Longrightarrow> hv_net_create hv d w = (w', b) \<Longrightarrow> same_domains hv w w'"
  using hv_okD(6) [of hv w d] by simp

lemma create_default_network_same:
  assumes "hv_ok hv"
  shows "same_domains hv w (fst (create_default_network hv w))"
proof (cases "hv_net_define hv default_network_xml w")
  case (Pair w1 r)
  note s1 = net_define_same [OF assms Pair]
  show ?thesis
  proof (cases r)
    case (Some d)
    obtain w2 b where c: "hv_net_create hv d w1 = (w2, b)" by fastforce
    have "same_domains hv w w2" using s1 net_create_same [OF assms c] by (rule same_domains_trans)
    moreover have "same_domains hv w2 (fst (hv_net_autostart hv d w2))" by (rule hv_okD(7) [OF assms])
    ultimately show ?thesis
      using Pair Some c by (cases b) (simp_all add: create_default_network_def same_domains_def)
  qed (use Pair s1 in \<open>simp add: create_default_network_def\<close>)
qed

lemma ensure_libvirt_network_same:
  assumes "hv_ok hv"
  shows "same_domains hv w (fst (ensure_libvirt_network hv name w))"
proof (cases "hv_net_lookup hv name w")
  case (Some d)
  obtain w2 b where c: "hv_net_create hv d w = (w2, b)" by fastforce
  note s2 = net_create_same [OF assms c]
  have "same_domains hv w2 (fst (hv_net_autostart hv d w2))" by (rule hv_okD(7) [OF assms])
  with s2 have "same_domains hv w (fst (hv_net_autostart hv d w2))" by (rule same_domains_trans)
  then show ?thesis
    using Some c s2 by (cases b) (simp_all add: ensure_libvirt_network_def split: option.split bool.split)
qed (use create_default_network_same [OF assms] in \<open>simp add: ensure_libvirt_network_def\<close>)

lemma create_vm_outcome:
  assumes "hv_ok hv" "create_vm hv xml w = (w', r)"
  shows "case r of Inl e \<Rightarrow> same_domains hv w w' | Inr d \<Rightarrow> new_domain hv d w w'"
proof (cases "hv_define hv xml w")
  case (Pair w1 o1)
  show ?thesis
  proof (cases o1)
    case None
    then show ?thesis using assms Pair hv_okD(2) by (auto simp: create_vm_def)
  next
    case (Some d)
    then have nd: "new_domain hv d w w1" using hv_okD(1) [OF assms(1)] Pair by simp
    obtain w2 b where c: "hv_create hv d w1 = (w2, b)" by fastforce
    then have s: "same_domains hv w1 w2" using hv_okD(3) [OF assms(1), of w1 d] by simp
    show ?thesis
    proof (cases b)
      case True
      then show ?thesis using assms(2) Pair Some c nd s by (auto simp: create_vm_def new_domain_def same_domains_def)
    next
      case False
      then have "w' = fst (hv_undefine hv d w2)" and r: "r = Inl StartDomainFailed"
        using assms(2) Pair Some c by (auto simp: create_vm_def)
      then have "hv_lookup hv n w' = hv_lookup hv n w" for n
        using hv_okD(4) [OF assms(1), of d w1 w2 n] c False nd s by (auto simp: new_domain_def same_domains_def split: if_splits)
      then show ?thesis using r by (simp add: same_domains_def)
    qed
  qed
qed

section \<open>Paths\<close>

definition only_below :: "string \<Rightarrow> 'w host \<Rightarrow> 'w host \<Rightarrow> bool" where
  "only_below dir h h' \<longleftrightarrow> (\<forall>p. below dir p \<or> ho_fs h' p = ho_fs h p)"

lemma only_below_refl [simp]: "only_below dir h h"
  by (simp add: only_below_def)

lemma only_below_trans [trans]: "only_below dir h h' \<Longrightarrow> only_below dir h' h'' \<Longrightarrow> only_below dir h h''"
  by (auto simp: only_below_def)

lemma only_below_add [simp]: "below dir p \<Longrightarrow> only_below dir h (add_path p h)"
  by (auto simp: only_below_def add_path_def)

lemma only_below_world: "fst (on_world f h) = h' \<Longrightarrow> only_below dir h h'"
  by (auto simp: only_below_def on_world_def split: prod.splits)

lemma below_join:
  assumes "is_abs dir" "dir = filepath_clean dir" "path_comps dir \<noteq> []" "proper_comp n"
  shows "below dir (filepath_join dir n)"
proof -
  have "filepath_join dir n = CHR ''/'' # join ''/'' (path_comps dir @ [n])"
    using assms(1,4) by (rule filepath_join_proper)
  also have "\<dots> = (CHR ''/'' # join ''/'' (path_comps dir)) @ ''/'' @ n"
    using assms(3) by (simp add: join_snoc)
  also have "CHR ''/'' # join ''/'' (path_comps dir) = dir"
    using assms(1,2) by (metis filepath_clean_def)
  finally show ?thesis by (simp add: below_def has_prefix_iff)
qed

lemma vm_dir_shape:
  assumes "is_abs data_dir" "vm_dir data_dir name = Inr dir"
  shows "is_abs dir" "dir = filepath_clean dir" "path_comps dir \<noteq> []"
proof -
  have n: "plain_component name" and dir: "dir = filepath_join (filepath_join data_dir ''vms'') name"
    using assms by (simp_all add: vm_dir_Inr)
  then show "is_abs dir" using assms(1) by (simp add: is_abs_join)
  have a: "is_abs (filepath_join data_dir ''vms'')" using assms(1) by (rule is_abs_join)
  have "proper_comp name" using n by (simp add: plain_component_proper)
  then show "path_comps dir \<noteq> []"
    using a by (simp add: dir path_comps_join_proper)
  show "dir = filepath_clean dir"
    using a n unfolding dir filepath_join_def [of "filepath_join data_dir ''vms''"]
    by (auto simp: plain_component_def is_abs_def filepath_clean_idem)
qed

section \<open>Creation\<close>

text \<open>What a step of the creation may do: only paths below the directory change, and the domains stay.\<close>

definition harmless :: "'w hypervisor \<Rightarrow> string \<Rightarrow> 'w host \<Rightarrow> 'w host \<Rightarrow> bool" where
  "harmless hv dir h h' \<longleftrightarrow> only_below dir h h' \<and> same_domains hv (ho_world h) (ho_world h')"

lemma harmless_refl [simp]: "harmless hv dir h h"
  by (simp add: harmless_def)

lemma harmless_trans: "harmless hv dir h h' \<Longrightarrow> harmless hv dir h' h'' \<Longrightarrow> harmless hv dir h h''"
  unfolding harmless_def using only_below_trans same_domains_trans by metis

lemma harmless_add [simp]: "below dir p \<Longrightarrow> harmless hv dir h (add_path p h)"
  by (simp add: harmless_def) (simp add: add_path_def)

lemma harmless_cdroms:
  assumes "below dir (filepath_join dir ''cloud-init.iso'')"
  shows "harmless hv dir h (fst (cloud_init_cdroms e dir uuid o1 h))"
  using assms by (simp add: cloud_init_cdroms_def Let_def split: sum.split)

lemma harmless_network:
  assumes "hv_ok hv"
  shows "harmless hv dir h (fst (on_world (network_for hv o1) h))"
proof -
  have "same_domains hv (ho_world h) (fst (network_for hv o1 (ho_world h)))"
    using ensure_libvirt_network_same [OF assms] by (simp add: network_for_def)
  then show ?thesis
    by (auto simp: harmless_def on_world_def only_below_def split: prod.split)
qed

definition built :: "'w hypervisor \<Rightarrow> string \<Rightarrow> 'w host \<Rightarrow> 'w host \<times> (vm_error + 'a) \<Rightarrow> bool" where
  "built hv dir h res \<longleftrightarrow> only_below dir h (fst res) \<and>
     (case snd res of Inl e \<Rightarrow> same_domains hv (ho_world h) (ho_world (fst res))
      | Inr v \<Rightarrow> (\<exists>d. new_domain hv d (ho_world h) (ho_world (fst res))))"

lemma new_domain_same: "same_domains hv w w' \<Longrightarrow> new_domain hv d w' w'' = new_domain hv d w w''"
  by (simp add: same_domains_def new_domain_def)

lemma built_after:
  assumes "harmless hv dir h h'" "built hv dir h' res"
  shows "built hv dir h res"
proof -
  have s: "same_domains hv (ho_world h) (ho_world h')" using assms(1) by (simp add: harmless_def)
  then have "same_domains hv (ho_world h') w'' = same_domains hv (ho_world h) w''" for w''
    by (simp add: same_domains_def)
  moreover have "only_below dir h (fst res)"
    using assms only_below_trans unfolding harmless_def built_def by blast
  ultimately show ?thesis
    using assms(2) new_domain_same [OF s] by (cases "snd res") (simp_all add: built_def)
qed

text \<open>A harmless step before the rest, and the last step.\<close>

lemma built_bind:
  assumes "harmless hv dir h (fst m)" "\<And>a h'. m = (h', Inr a) \<Longrightarrow> built hv dir h' (f a h')"
  shows "built hv dir h (bind_host m f)"
proof (cases m)
  case (Pair h' r)
  show ?thesis
  proof (cases r)
    case (Inr a)
    then have "built hv dir h' (f a h')" "harmless hv dir h h'" using assms Pair by simp_all
    then show ?thesis using built_after Pair Inr by (simp add: bind_host_def)
  qed (use assms(1) Pair in \<open>simp add: bind_host_def built_def harmless_def\<close>)
qed

lemma built_last:
  assumes "built hv dir h m"
  shows "built hv dir h (bind_host m (\<lambda>a h'. (h', Inr (g a))))"
  using assms by (cases m; cases "snd m") (auto simp: bind_host_def built_def)

lemma built_create:
  assumes "hv_ok hv"
  shows "built hv dir h (on_world (create_vm hv xml) h)"
proof (cases "create_vm hv xml (ho_world h)")
  case (Pair w r)
  then show ?thesis
    using create_vm_outcome [OF assms Pair]
    by (cases r) (auto simp: on_world_def built_def only_below_def)
qed

lemma harmless_require [simp]: "harmless hv dir h (fst (require b e h))"
  by (simp add: require_def)

lemma fst_or_fail [simp]: "fst (or_fail f m) = fst m"
  by (auto simp: or_fail_def split: prod.split option.split)

lemma bind_host_Inr: "bind_host m f = (h', Inr v) \<longleftrightarrow> (\<exists>h a. m = (h, Inr a) \<and> f a h = (h', Inr v))"
  by (cases m; cases "snd m") (auto simp: bind_host_def)

lemma build_vm_built:
  assumes "hv_ok hv" "is_abs data_dir" "vm_dir data_dir (co_name o1) = Inr dir"
  shows "built hv dir h (build_vm hv e data_dir dir o1 h)"
proof -
  let ?disk = "filepath_join dir ''disk.qcow2''"
  have bd: "below dir ?disk" "below dir (filepath_join dir ''cloud-init.iso'')"
    using vm_dir_shape [OF assms(2,3)] by (auto intro!: below_join simp: proper_comp_def)
  have disk: "vm_disk_path data_dir (co_name o1) = Inr ?disk"
    using assms(3) by (simp add: vm_disk_path_def)
  have add: "harmless hv dir h' (fst (require b err (add_path ?disk h')))" for b err h'
    using bd(1) by (simp add: require_def)
  show ?thesis
    unfolding build_vm_def disk
    by (intro built_bind built_last built_create assms(1) harmless_require harmless_cdroms bd(2))
      (use add harmless_network [OF assms(1)] in \<open>simp_all\<close>)
qed

lemma build_vm_desc:
  assumes "vm_dir data_dir (co_name o1) = Inr dir" "build_vm hv e data_dir dir o1 h = (h', Inr v)"
  shows "vd_domain v = domain_name (co_name o1) \<and> vd_disk v = filepath_join dir ''disk.qcow2''"
proof -
  have disk: "vm_disk_path data_dir (co_name o1) = Inr (filepath_join dir ''disk.qcow2'')"
    using assms(1) by (simp add: vm_disk_path_def)
  show ?thesis
    using assms(2) unfolding build_vm_def bind_host_Inr disk by force
qed

lemma open_path_host: "open_path e h = (h', b) \<Longrightarrow> ho_world h' = ho_world h \<and> ho_fs h' = ho_fs h"
  by (auto simp: open_path_def split: option.splits prod.splits)

lemma sanitize_host:
  "ho_world (fst (sanitize_vm_dir_acl e dir h)) = ho_world h \<and> ho_fs (fst (sanitize_vm_dir_acl e dir h)) = ho_fs h"
  by (simp add: sanitize_vm_dir_acl_def)

lemma manager_create_Inr:
  assumes "manager_create hv e data_dir o1 h = (h', Inr v)"
  shows "vd_domain v = domain_name (co_name o1)"
  using assms
  by (auto simp: manager_create_def Let_def dest: build_vm_desc split: sum.splits if_splits prod.splits bool.splits)

definition early_error :: "vm_error \<Rightarrow> bool" where
  "early_error err \<longleftrightarrow> (case err of VmBadName _ \<Rightarrow> True | BaseImageMissing _ \<Rightarrow> True | VmMkdirFailed \<Rightarrow> True
     | AclFailed \<Rightarrow> True | TraverseFailed \<Rightarrow> True | _ \<Rightarrow> False)"


section \<open>A small library\<close>

text \<open>Domains are known by their XML, a handle is a number for it; every call succeeds but the start of
  a domain, whose outcome is the parameter.\<close>

fun string_code :: "string \<Rightarrow> nat" where
  "string_code [] = 0"
| "string_code (c # s) = Suc (of_char c) + 257 * string_code s"

lemma string_code_inj: "string_code s = string_code t \<Longrightarrow> s = t"
proof (induction s arbitrary: t)
  case (Cons c s)
  obtain d u where t: "t = d # u" using Cons.prems by (cases t) auto
  have lt: "Suc (of_char x) < (257::nat)" for x :: char
    using of_char_mod_256 [of x, where 'a = nat] by (metis Suc_less_eq mod_less_divisor zero_less_numeral eval_nat_numeral(3) numeral_eq_Suc)
  have "Suc (of_char c) + 257 * string_code s = Suc (of_char d) + 257 * string_code u"
    using Cons.prems t by simp
  then have "(Suc (of_char c) + 257 * string_code s) mod 257 = (Suc (of_char d) + 257 * string_code u) mod 257"
    and "(Suc (of_char c) + 257 * string_code s) div 257 = (Suc (of_char d) + 257 * string_code u) div 257"
    by simp_all
  then have "of_char c = (of_char d :: nat)" "string_code s = string_code u"
    using lt by simp_all
  then show ?case using Cons.IH t by simp
qed (metis One_nat_def add_is_0 list.exhaust nat.distinct(1) string_code.simps)

definition demo_hv :: "bool \<Rightarrow> (string \<Rightarrow> bool) hypervisor" where
  "demo_hv starts = \<lparr>hv_connect = (\<lambda>w. True),
     hv_define = (\<lambda>xml w. if w xml then (w, None) else (w(xml := True), Some (string_code xml))),
     hv_lookup = (\<lambda>n w. if w n then DomFound (string_code n) else DomNone),
     hv_state = (\<lambda>d w. Some DomRunning), hv_create = (\<lambda>d w. (w, starts)), hv_destroy = (\<lambda>d w. (w, True)),
     hv_undefine = (\<lambda>d w. (\<lambda>n. w n \<and> string_code n \<noteq> d, True)), hv_shutdown = (\<lambda>d w. (w, True)),
     hv_list = (\<lambda>w. Some []), hv_net_lookup = (\<lambda>n w. None), hv_net_active = (\<lambda>d w. Some True),
     hv_net_define = (\<lambda>x w. (w, Some 0)), hv_net_create = (\<lambda>d w. (w, True)), hv_net_autostart = (\<lambda>d w. (w, True))\<rparr>"

lemma demo_hv_ok: "hv_ok (demo_hv b)"
  by (auto simp: hv_ok_def demo_hv_def new_domain_def same_domains_def dest: string_code_inj split: if_splits)

definition demo_iso :: iso_env where
  "demo_iso = \<lparr>is_tmp = True, is_meta = True, is_user = True, is_genisoimage = None,
     is_mkisofs = Some ''/usr/bin/mkisofs'', is_run = True\<rparr>"

definition demo_create_env :: create_env where
  "demo_create_env = \<lparr>ce_base_exists = True, ce_mkdir = True, ce_setfacl = True, ce_run_setfacl = (\<lambda>a. True), ce_abs = Some ''/d'',
     ce_chmod = (\<lambda>p. True), ce_disk_create = True, ce_disk_resize = True,
     ce_provision = \<lparr>pv_disk = True, pv_init = True, pv_tool = True, pv_service_file = Some ''/tmp/s'',
       pv_resolv_file = Some ''/tmp/r'', pv_run = (\<lambda>a. True)\<rparr>,
     ce_random = Some (replicate 16 7), ce_iso = demo_iso, ce_uid = 0, ce_gid = 0, ce_remove = True\<rparr>"

definition demo_options :: create_vm_options where
  "demo_options = \<lparr>co_name = ''web'', co_base_image = ''/i.qcow2'', co_memory_mb = 512, co_disk_mb = 0,
     co_cpus = 1, co_enable_kvm = True, co_security_none = True, co_network_type = ''network'',
     co_network_source = ''default'', co_hostname = [], co_ssh_key = [], co_init_binary_path = [],
     co_provision_guest = False, co_install_docker = False, co_registry_addr = []\<rparr>"

definition demo_vm_host :: "(string \<Rightarrow> bool) host" where
  "demo_vm_host = \<lparr>ho_world = (\<lambda>n. n = ''goship-db''), ho_fs = (\<lambda>p. p = ''/d/vms/db/disk.qcow2''), ho_mode = (\<lambda>p. Some 1)\<rparr>"


end
