(* ===== verification/Runtime_If.thy ===== *)
theory Runtime_If
  imports Vm_Manager Uploads
begin

text \<open>
  The interface between the control plane and a runtime (internal/agent/runtime/runtime.go): the
  operations of \<open>ProjectRuntime\<close> as a record of functions on the runtime's state \<open>'r\<close>, the errors
  they report, the configuration with its options, and the laws the API server relies on as the
  locale \<open>project_runtime\<close>.

  Server and runtime share the instances: \<open>LoadInstance\<close> hands over the pointer the store keeps, and
  the runtime writes to it. \<open>op_view\<close> gives the contents behind the runtime's pointer, which the
  server reads back after each call. \<open>StreamLogs\<close> and \<open>ExecCommand\<close>, which nothing calls, are left
  out.
\<close>

section \<open>Operations\<close>

datatype rt_error = InstanceExists string | RtNoInstance string | CreateVmFailed vm_error
  | VmNotReady | NoConnection | RtNoDomain | ShutdownFailed | StopWaitFailed | RtStartFailed
  | RtBadApp entity_error | RtDialFailed | RtCommandFailed | RtRefused agent_error
  | UnknownLogSource string | RtBadDomain name_error | DestroyVmFailed vm_error
  | DomainStateFailed | NotShutOff string | RedefineFailed | RtResizeFailed string
  | UploadFailed upload_error | ListFailedRt | CapabilitiesUnknown

record 'r runtime =
  op_create :: "project \<Rightarrow> 'r \<Rightarrow> 'r \<times> (rt_error + proj_instance)"
  op_load :: "proj_instance \<Rightarrow> 'r \<Rightarrow> 'r"
  op_destroy :: "string \<Rightarrow> 'r \<Rightarrow> 'r \<times> rt_error option"
  op_stop :: "string \<Rightarrow> 'r \<Rightarrow> 'r \<times> rt_error option"
  op_start :: "string \<Rightarrow> 'r \<Rightarrow> 'r \<times> rt_error option"
  op_deploy :: "string \<Rightarrow> app_spec \<Rightarrow> 'r \<Rightarrow> 'r \<times> rt_error option"
  op_stop_app :: "string \<Rightarrow> string \<Rightarrow> 'r \<Rightarrow> 'r \<times> rt_error option"
  op_remove_app :: "string \<Rightarrow> string \<Rightarrow> 'r \<Rightarrow> 'r \<times> rt_error option"
  op_status :: "string \<Rightarrow> 'r \<Rightarrow> 'r \<times> (rt_error + proj_instance)"
  op_list :: "'r \<Rightarrow> rt_error + proj_instance list"
  op_upload_binary :: "string \<Rightarrow> string \<Rightarrow> string \<Rightarrow> stream \<Rightarrow> int \<Rightarrow> string \<Rightarrow> 'r \<Rightarrow> 'r \<times> rt_error option"
  op_upload_image :: "string \<Rightarrow> string \<Rightarrow> stream \<Rightarrow> int \<Rightarrow> string \<Rightarrow> 'r \<Rightarrow> 'r \<times> rt_error option"
  op_app_logs :: "string \<Rightarrow> string \<Rightarrow> int \<Rightarrow> 'r \<Rightarrow> 'r \<times> (rt_error + string)"
  op_vm_logs :: "string \<Rightarrow> string \<Rightarrow> string \<Rightarrow> int \<Rightarrow> 'r \<Rightarrow> 'r \<times> (rt_error + string)"
  op_resize :: "string \<Rightarrow> project \<Rightarrow> 'r \<Rightarrow> 'r \<times> rt_error option"
  op_view :: "string \<Rightarrow> 'r \<Rightarrow> proj_instance option"

section \<open>Laws\<close>

text \<open>What identifies an instance; no operation of a runtime changes it.\<close>

definition same_identity :: "proj_instance \<Rightarrow> proj_instance \<Rightarrow> bool" where
  "same_identity i j \<longleftrightarrow> inst_id i = inst_id j \<and> inst_project_id i = inst_project_id j \<and>
     inst_domain_name i = inst_domain_name j"

lemma same_identity_refl [simp]: "same_identity i i"
  by (simp add: same_identity_def)

lemma same_identity_trans: "same_identity i j \<Longrightarrow> same_identity j k \<Longrightarrow> same_identity i k"
  by (simp add: same_identity_def)

text \<open>Every instance of the second view was there, with the same identity, in the first.\<close>

definition view_kept :: "(string \<Rightarrow> proj_instance option) \<Rightarrow> (string \<Rightarrow> proj_instance option) \<Rightarrow> bool" where
  "view_kept v v' \<longleftrightarrow> (\<forall>iid j. v' iid = Some j \<longrightarrow> (\<exists>i. v iid = Some i \<and> same_identity i j))"

lemma view_kept_refl [simp]: "view_kept v v"
  by (auto simp: view_kept_def)

lemma view_kept_trans: "view_kept v v' \<Longrightarrow> view_kept v' v'' \<Longrightarrow> view_kept v v''"
  unfolding view_kept_def by (meson same_identity_trans)

locale project_runtime =
  fixes ops :: "'r runtime"
  assumes create_ok: "op_create ops p r = (r', Inr i) \<Longrightarrow>
      inst_project_id i = proj_id p \<and> inst_domain_name i = libvirt_domain_prefix @ proj_name p \<and>
      op_view ops (inst_id i) r' = Some i \<and>
      (\<forall>iid. iid \<noteq> inst_id i \<longrightarrow> op_view ops iid r' = op_view ops iid r)"
    and create_fails: "op_create ops p r = (r', Inl e) \<Longrightarrow>
      view_kept (\<lambda>iid. op_view ops iid r) (\<lambda>iid. op_view ops iid r')"
    and load: "op_view ops iid (op_load ops i r) = op_view ops iid r \<or>
      iid = inst_id i \<and> op_view ops iid (op_load ops i r) = Some i"
    and destroy: "view_kept (\<lambda>iid. op_view ops iid r) (\<lambda>iid. op_view ops iid (fst (op_destroy ops x r)))"
    and stop: "view_kept (\<lambda>iid. op_view ops iid r) (\<lambda>iid. op_view ops iid (fst (op_stop ops x r)))"
    and start: "view_kept (\<lambda>iid. op_view ops iid r) (\<lambda>iid. op_view ops iid (fst (op_start ops x r)))"
    and status: "view_kept (\<lambda>iid. op_view ops iid r) (\<lambda>iid. op_view ops iid (fst (op_status ops x r)))"
    and deploy: "op_view ops iid (fst (op_deploy ops x app r)) = op_view ops iid r"
    and stop_app: "op_view ops iid (fst (op_stop_app ops x n r)) = op_view ops iid r"
    and remove_app: "op_view ops iid (fst (op_remove_app ops x n r)) = op_view ops iid r"
    and upload_binary: "op_view ops iid (fst (op_upload_binary ops x n f rd sz c r)) = op_view ops iid r"
    and upload_image: "op_view ops iid (fst (op_upload_image ops x n rd sz c r)) = op_view ops iid r"
    and app_logs: "op_view ops iid (fst (op_app_logs ops x n k r)) = op_view ops iid r"
    and vm_logs: "op_view ops iid (fst (op_vm_logs ops x s f k r)) = op_view ops iid r"
    and resize: "op_view ops iid (fst (op_resize ops x p r)) = op_view ops iid r"

section \<open>Configuration\<close>

record rt_config =
  rc_data_dir :: string
  rc_vm_image_path :: string
  rc_default_cpu :: int
  rc_default_memory_mb :: int
  rc_default_disk_mb :: int
  rc_network_type :: string
  rc_network_source :: string
  rc_enable_kvm :: bool
  rc_ssh_key_path :: string
  rc_libvirt_uri :: string
  rc_timeout_seconds :: int
  rc_init_binary_path :: string
  rc_provision_guest :: bool
  rc_install_docker :: bool
  rc_registry_addr :: string

definition default_config :: rt_config where
  "default_config = \<lparr>rc_data_dir = ''~/.goship'', rc_vm_image_path = ''~/.goship/images/goship-vm.qcow2'',
     rc_default_cpu = 1, rc_default_memory_mb = 512, rc_default_disk_mb = 8192,
     rc_network_type = ''network'', rc_network_source = ''default'', rc_enable_kvm = True,
     rc_ssh_key_path = [], rc_libvirt_uri = ''qemu:///system'', rc_timeout_seconds = 30,
     rc_init_binary_path = [], rc_provision_guest = True, rc_install_docker = True,
     rc_registry_addr = []\<rparr>"

text \<open>The options, as the values the \<open>With\<close> functions close over.\<close>

datatype runtime_option = WithDataDir string | WithVMImage string | WithDefaultResources int int int
  | WithNetwork string string | WithKVM bool | WithSSHKey string | WithLibvirtURI string
  | WithInitBinary string | WithProvisionGuest bool | WithInstallDocker bool | WithRegistryAddr string

fun apply_option :: "runtime_option \<Rightarrow> rt_config \<Rightarrow> rt_config" where
  "apply_option (WithDataDir d) c = c\<lparr>rc_data_dir := d\<rparr>"
| "apply_option (WithVMImage p) c = c\<lparr>rc_vm_image_path := p\<rparr>"
| "apply_option (WithDefaultResources cpu mem disk) c =
     c\<lparr>rc_default_cpu := cpu, rc_default_memory_mb := mem, rc_default_disk_mb := disk\<rparr>"
| "apply_option (WithNetwork t s) c = c\<lparr>rc_network_type := t, rc_network_source := s\<rparr>"
| "apply_option (WithKVM b) c = c\<lparr>rc_enable_kvm := b\<rparr>"
| "apply_option (WithSSHKey p) c = c\<lparr>rc_ssh_key_path := p\<rparr>"
| "apply_option (WithLibvirtURI u) c = c\<lparr>rc_libvirt_uri := u\<rparr>"
| "apply_option (WithInitBinary p) c = c\<lparr>rc_init_binary_path := p\<rparr>"
| "apply_option (WithProvisionGuest b) c = c\<lparr>rc_provision_guest := b\<rparr>"
| "apply_option (WithInstallDocker b) c = c\<lparr>rc_install_docker := b\<rparr>"
| "apply_option (WithRegistryAddr a) c = c\<lparr>rc_registry_addr := a\<rparr>"

end
