(* ===== verification/Libvirt_Runtime.thy ===== *)
theory Libvirt_Runtime
  imports Runtime_If
begin

text \<open>
  The libvirt runtime (internal/agent/runtime/libvirt/runtime.go and comm.go). Its state is the
  configuration, the instances it knows with the sockets of their agents, and the host. A call to an
  agent goes through the record \<open>channel\<close> over the same world as the hypervisor. A polling loop
  takes the list of what the world does between two ticks; its end is the deadline of the context.
  Progress output, and unlocking while the code waits, are left out: one call runs at a time.
\<close>

section \<open>State\<close>

record 'w channel =
  ch_dial :: "string \<Rightarrow> 'w \<Rightarrow> bool"
  ch_send :: "string \<Rightarrow> 'w transport"

record 'w libvirt_runtime =
  lr_config :: rt_config
  lr_instances :: "(proj_instance \<times> string) gomap"
  lr_host :: "'w host"

text \<open>What the surroundings give during one call.\<close>

record 'w rt_env =
  re_now :: timestamp
  re_uuid :: string
  re_create :: create_env
  re_ssh_key :: "string option"
  re_stop_ticks :: "('w \<Rightarrow> 'w) list"
  re_ready_ticks :: "('w \<Rightarrow> 'w) list"
  re_iso_exists :: bool
  re_resize_disk :: bool

definition map_libvirt_state :: "domain_state \<Rightarrow> instance_state" where
  "map_libvirt_state s = (case s of
       DomRunning \<Rightarrow> InstRunning | DomBlocked \<Rightarrow> InstRunning
     | DomPaused \<Rightarrow> InstStopped | DomShutoff \<Rightarrow> InstStopped | DomPmSuspended \<Rightarrow> InstStopped
     | DomShutdown \<Rightarrow> InstStopping | DomCrashed \<Rightarrow> InstFailed | _ \<Rightarrow> InstPending)"

definition expand_path :: "string option \<Rightarrow> string \<Rightarrow> string" where
  "expand_path home p =
     (if has_prefix ''~/'' p then (case home of Some h \<Rightarrow> filepath_join h (drop 2 p) | None \<Rightarrow> p) else p)"

text \<open>\<open>New\<close>: the option list, the environment and whether the daemon has KVM.\<close>

datatype new_runtime_error = DataDirFailed | ConnectFailed string | DiscoverFailed

definition new_runtime ::
    "string option \<Rightarrow> bool \<Rightarrow> (string \<Rightarrow> bool) \<Rightarrow> bool option \<Rightarrow> runtime_option list \<Rightarrow> 'w host \<Rightarrow>
     new_runtime_error + 'w libvirt_runtime" where
  "new_runtime home mkdir connects kvm options h =
     (let c0 = fold apply_option options default_config;
          c1 = (if rc_libvirt_uri c0 = [] then c0\<lparr>rc_libvirt_uri := ''qemu:///system''\<rparr> else c0);
          c = c1\<lparr>rc_data_dir := expand_path home (rc_data_dir c1),
                 rc_vm_image_path := expand_path home (rc_vm_image_path c1),
                 rc_init_binary_path := (if rc_init_binary_path c1 = [] then []
                   else expand_path home (rc_init_binary_path c1))\<rparr>
      in if \<not> mkdir then Inl DataDirFailed
         else if \<not> connects (rc_libvirt_uri c) then Inl (ConnectFailed (rc_libvirt_uri c))
         else (case kvm of None \<Rightarrow> Inl DiscoverFailed
           | Some b \<Rightarrow> Inr \<lparr>lr_config = (if b then c else c\<lparr>rc_enable_kvm := False\<rparr>),
               lr_instances = [], lr_host = h\<rparr>))"

section \<open>Access\<close>

definition lr_find :: "string \<Rightarrow> 'w libvirt_runtime \<Rightarrow> (proj_instance \<times> string) option" where
  "lr_find iid r = gm_get (lr_instances r) iid"

definition lr_view :: "string \<Rightarrow> 'w libvirt_runtime \<Rightarrow> proj_instance option" where
  "lr_view iid r = map_option fst (lr_find iid r)"

text \<open>A write through the pointer of an instance.\<close>

definition touch :: "string \<Rightarrow> (proj_instance \<Rightarrow> proj_instance) \<Rightarrow> 'w libvirt_runtime \<Rightarrow> 'w libvirt_runtime" where
  "touch iid f r = (case lr_find iid r of None \<Rightarrow> r
     | Some (i, sock) \<Rightarrow> r\<lparr>lr_instances := gm_set iid (f i, sock) (lr_instances r)\<rparr>)"

definition set_state :: "instance_state \<Rightarrow> timestamp \<Rightarrow> proj_instance \<Rightarrow> proj_instance" where
  "set_state s now i = i\<lparr>inst_state := s, inst_updated_at := now\<rparr>"

definition lr_world :: "'w libvirt_runtime \<Rightarrow> 'w" where "lr_world r = ho_world (lr_host r)"

definition with_world :: "'w \<Rightarrow> 'w libvirt_runtime \<Rightarrow> 'w libvirt_runtime" where
  "with_world w r = r\<lparr>lr_host := (lr_host r)\<lparr>ho_world := w\<rparr>\<rparr>"

definition load_instance :: "proj_instance \<Rightarrow> 'w libvirt_runtime \<Rightarrow> 'w libvirt_runtime" where
  "load_instance i r =
     (case project_name_from_domain (inst_domain_name i) of Inl _ \<Rightarrow> r
      | Inr name \<Rightarrow> (case vm_dir (rc_data_dir (lr_config r)) name of Inl _ \<Rightarrow> r
          | Inr dir \<Rightarrow> r\<lparr>lr_instances := gm_set (inst_id i) (i, filepath_join dir ''goship.sock'') (lr_instances r)\<rparr>))"

section \<open>Commands to an agent (comm.go)\<close>

definition agent_call ::
    "'w channel \<Rightarrow> init_command \<Rightarrow> string \<Rightarrow> 'w libvirt_runtime \<Rightarrow> 'w libvirt_runtime \<times> (rt_error + init_response)" where
  "agent_call ch cmd iid r =
     (case lr_find iid r of None \<Rightarrow> (r, Inl (RtNoInstance iid))
      | Some (_, sock) \<Rightarrow>
        if \<not> ch_dial ch sock (lr_world r) then (r, Inl RtDialFailed)
        else (case ch_send ch sock cmd (lr_world r) of
            (w, None) \<Rightarrow> (with_world w r, Inl RtCommandFailed)
          | (w, Some resp) \<Rightarrow> (with_world w r,
              case resp_error resp of Some e \<Rightarrow> Inl (RtRefused e) | None \<Rightarrow> Inr resp)))"

definition drop_result :: "'s \<times> ('e + 'a) \<Rightarrow> 's \<times> 'e option" where
  "drop_result m = (case m of (s, Inl e) \<Rightarrow> (s, Some e) | (s, Inr _) \<Rightarrow> (s, None))"

definition ping :: "'w channel \<Rightarrow> string \<Rightarrow> 'w \<Rightarrow> 'w \<times> bool" where
  "ping ch sock w = (case ch_send ch sock (blank_command action_ping) w of
      (w', None) \<Rightarrow> (w', False) | (w', Some resp) \<Rightarrow> (w', resp_error resp = None))"

definition cloud_init_logs :: init_command where
  "cloud_init_logs = (blank_command action_logs)\<lparr>cmd_log_file := ''/var/log/cloud-init-output.log''\<rparr>"

text \<open>One round of \<open>waitReady\<close>: the response to the status command, once everything answers.\<close>

definition ready_round ::
    "'w hypervisor \<Rightarrow> 'w channel \<Rightarrow> bool \<Rightarrow> string \<Rightarrow> string \<Rightarrow> 'w \<Rightarrow> 'w \<times> init_response option" where
  "ready_round hv ch stream dname sock w =
     (if \<not> hv_connect hv w then (w, None)
      else (case hv_lookup hv dname w of
          DomFound d \<Rightarrow>
            if hv_state hv d w \<noteq> Some DomRunning \<or> \<not> ch_dial ch sock w then (w, None)
            else (case ping ch sock w of
                (w1, False) \<Rightarrow> (w1, None)
              | (w1, True) \<Rightarrow>
                let w2 = (if stream then fst (ch_send ch sock cloud_init_logs w1) else w1)
                in ch_send ch sock (blank_command action_status) w2)
        | _ \<Rightarrow> (w, None)))"

fun wait_ready_loop ::
    "'w hypervisor \<Rightarrow> 'w channel \<Rightarrow> bool \<Rightarrow> string \<Rightarrow> string \<Rightarrow> ('w \<Rightarrow> 'w) list \<Rightarrow> 'w \<Rightarrow> 'w \<times> init_response option" where
  "wait_ready_loop hv ch stream dname sock [] w = (w, None)"
| "wait_ready_loop hv ch stream dname sock (t # ts) w =
     (case ready_round hv ch stream dname sock (t w) of
        (w', Some resp) \<Rightarrow> (w', Some resp)
      | (w', None) \<Rightarrow> wait_ready_loop hv ch stream dname sock ts w')"

definition learn_ip :: "init_response \<Rightarrow> proj_instance \<Rightarrow> proj_instance" where
  "learn_ip resp i = (case resp_vm_info resp of None \<Rightarrow> i
     | Some v \<Rightarrow> (case vi_ip_addresses v of [] \<Rightarrow> i | ip # _ \<Rightarrow> i\<lparr>inst_ip_address := ip\<rparr>))"

definition wait_ready ::
    "'w hypervisor \<Rightarrow> 'w channel \<Rightarrow> 'w rt_env \<Rightarrow> bool \<Rightarrow> string \<Rightarrow> 'w libvirt_runtime \<Rightarrow> 'w libvirt_runtime \<times> rt_error option" where
  "wait_ready hv ch e stream iid r =
     (case lr_find iid r of None \<Rightarrow> (r, Some (RtNoInstance iid))
      | Some (i, sock) \<Rightarrow>
        (case wait_ready_loop hv ch stream (inst_domain_name i) sock (re_ready_ticks e) (lr_world r) of
           (w, None) \<Rightarrow> (with_world w r, Some VmNotReady)
         | (w, Some resp) \<Rightarrow>
           (touch iid (\<lambda>i. learn_ip resp (set_state InstRunning (re_now e) i)) (with_world w r), None)))"

section \<open>Life cycle\<close>

definition resolve_cpus :: "rt_config \<Rightarrow> project \<Rightarrow> int" where
  "resolve_cpus c p = (if 0 < res_cpu (proj_resources p) then \<lfloor>res_cpu (proj_resources p)\<rfloor> else rc_default_cpu c)"

definition resolve_memory :: "rt_config \<Rightarrow> project \<Rightarrow> int" where
  "resolve_memory c p =
     (if 0 < res_memory_mb (proj_resources p) then res_memory_mb (proj_resources p) else rc_default_memory_mb c)"

definition resolve_disk :: "rt_config \<Rightarrow> project \<Rightarrow> int" where
  "resolve_disk c p =
     (if 0 < res_disk_mb (proj_resources p) then res_disk_mb (proj_resources p) else rc_default_disk_mb c)"

definition create_options :: "rt_config \<Rightarrow> 'w rt_env \<Rightarrow> project \<Rightarrow> create_vm_options" where
  "create_options c e p = \<lparr>co_name = proj_name p, co_base_image = rc_vm_image_path c,
     co_memory_mb = resolve_memory c p, co_disk_mb = resolve_disk c p, co_cpus = resolve_cpus c p,
     co_enable_kvm = rc_enable_kvm c, co_security_none = True, co_network_type = rc_network_type c,
     co_network_source = rc_network_source c, co_hostname = proj_name p,
     co_ssh_key = (if rc_ssh_key_path c = [] then []
       else case re_ssh_key e of None \<Rightarrow> [] | Some k \<Rightarrow> trim_space k),
     co_init_binary_path = rc_init_binary_path c, co_provision_guest = rc_provision_guest c,
     co_install_docker = rc_install_docker c, co_registry_addr = rc_registry_addr c\<rparr>"

definition new_instance :: "'w rt_env \<Rightarrow> project \<Rightarrow> vm_desc \<Rightarrow> proj_instance" where
  "new_instance e p v = \<lparr>inst_id = re_uuid e, inst_project_id = proj_id p, inst_node_id = ''local'',
     inst_state = InstStarting, inst_ip_address = [], inst_ssh_port = 0, inst_domain_name = vd_domain v,
     inst_domain_uuid = vd_uuid v, inst_topology = None, inst_error = [],
     inst_created_at = re_now e, inst_updated_at = re_now e\<rparr>"

definition create_instance ::
    "'w hypervisor \<Rightarrow> 'w channel \<Rightarrow> 'w rt_env \<Rightarrow> project \<Rightarrow> 'w libvirt_runtime \<Rightarrow>
     'w libvirt_runtime \<times> (rt_error + proj_instance)" where
  "create_instance hv ch e p r =
     (if \<exists>(k, (i, s)) \<in> set (lr_instances r). inst_project_id i = proj_id p
      then (r, Inl (InstanceExists (proj_id p)))
      else let c = lr_config r; iid = re_uuid e
      in (case manager_create hv (re_create e) (rc_data_dir c) (create_options c e p) (lr_host r) of
           (h, Inl err) \<Rightarrow> (r\<lparr>lr_host := h\<rparr>, Inl (CreateVmFailed err))
         | (h, Inr v) \<Rightarrow>
           (let sock = filepath_join (filepath_dir (vd_disk v)) ''goship.sock'';
                r1 = r\<lparr>lr_host := h, lr_instances := gm_set iid (new_instance e p v, sock) (lr_instances r)\<rparr>
            in case wait_ready hv ch e True iid r1 of
                 (r2, Some _) \<Rightarrow>
                   (r2\<lparr>lr_instances := gm_del iid (lr_instances r2),
                       lr_host := fst (manager_destroy hv (ce_remove (re_create e)) (rc_data_dir c) (proj_name p)
                         False (lr_host r2))\<rparr>, Inl VmNotReady)
               | (r2, None) \<Rightarrow>
                   (r2, case lr_view iid r2 of Some i \<Rightarrow> Inr i | None \<Rightarrow> Inl (RtNoInstance iid)))))"

definition destroy_instance ::
    "'w hypervisor \<Rightarrow> 'w rt_env \<Rightarrow> string \<Rightarrow> 'w libvirt_runtime \<Rightarrow> 'w libvirt_runtime \<times> rt_error option" where
  "destroy_instance hv e iid r =
     (case lr_find iid r of None \<Rightarrow> (r, None)
      | Some (i, sock) \<Rightarrow>
        (case project_name_from_domain (inst_domain_name i) of Inl err \<Rightarrow> (r, Some (RtBadDomain err))
         | Inr name \<Rightarrow>
           (case manager_destroy hv (ce_remove (re_create e)) (rc_data_dir (lr_config r)) name False (lr_host r) of
              (h, Inl err) \<Rightarrow> (r\<lparr>lr_host := h\<rparr>, Some (DestroyVmFailed err))
            | (h, Inr _) \<Rightarrow> (r\<lparr>lr_host := h, lr_instances := gm_del iid (lr_instances r)\<rparr>, None))))"

fun wait_for_shutoff :: "'w hypervisor \<Rightarrow> nat \<Rightarrow> ('w \<Rightarrow> 'w) list \<Rightarrow> 'w \<Rightarrow> 'w \<times> bool" where
  "wait_for_shutoff hv d [] w = (w, False)"
| "wait_for_shutoff hv d (t # ts) w =
     (case hv_state hv d (t w) of None \<Rightarrow> (t w, False)
      | Some s \<Rightarrow> if s = DomShutoff then (t w, True) else wait_for_shutoff hv d ts (t w))"

text \<open>The domain of a known instance, over a live connection.\<close>

definition find_domain :: "'w hypervisor \<Rightarrow> string \<Rightarrow> 'w libvirt_runtime \<Rightarrow> rt_error + proj_instance \<times> nat" where
  "find_domain hv iid r =
     (case lr_find iid r of None \<Rightarrow> Inl (RtNoInstance iid)
      | Some (i, sock) \<Rightarrow>
        if \<not> hv_connect hv (lr_world r) then Inl NoConnection
        else (case hv_lookup hv (inst_domain_name i) (lr_world r) of
            DomFound d \<Rightarrow> Inr (i, d) | _ \<Rightarrow> Inl RtNoDomain))"

definition stop_instance ::
    "'w hypervisor \<Rightarrow> 'w rt_env \<Rightarrow> string \<Rightarrow> 'w libvirt_runtime \<Rightarrow> 'w libvirt_runtime \<times> rt_error option" where
  "stop_instance hv e iid r =
     (case find_domain hv iid r of Inl err \<Rightarrow> (r, Some err)
      | Inr (i, d) \<Rightarrow>
        (case hv_shutdown hv d (lr_world r) of
           (w, False) \<Rightarrow> (with_world w r, Some ShutdownFailed)
         | (w, True) \<Rightarrow>
           (let r1 = touch iid (set_state InstStopping (re_now e)) (with_world w r)
            in case wait_for_shutoff hv d (re_stop_ticks e) w of
                 (w', False) \<Rightarrow> (with_world w' r1, Some StopWaitFailed)
               | (w', True) \<Rightarrow> (touch iid (set_state InstStopped (re_now e)) (with_world w' r1), None))))"

definition start_instance ::
    "'w hypervisor \<Rightarrow> 'w channel \<Rightarrow> 'w rt_env \<Rightarrow> string \<Rightarrow> 'w libvirt_runtime \<Rightarrow> 'w libvirt_runtime \<times> rt_error option" where
  "start_instance hv ch e iid r =
     (case find_domain hv iid r of Inl err \<Rightarrow> (r, Some err)
      | Inr (i, d) \<Rightarrow>
        (case hv_create hv d (lr_world r) of
           (w, False) \<Rightarrow> (with_world w r, Some RtStartFailed)
         | (w, True) \<Rightarrow>
           (case wait_ready hv ch e False iid (touch iid (set_state InstStarting (re_now e)) (with_world w r)) of
              (r1, Some _) \<Rightarrow> (r1, Some VmNotReady) | (r1, None) \<Rightarrow> (r1, None))))"

definition get_instance_status ::
    "'w hypervisor \<Rightarrow> 'w rt_env \<Rightarrow> string \<Rightarrow> 'w libvirt_runtime \<Rightarrow> 'w libvirt_runtime \<times> (rt_error + proj_instance)" where
  "get_instance_status hv e iid r =
     (case lr_find iid r of None \<Rightarrow> (r, Inl (RtNoInstance iid))
      | Some (i, sock) \<Rightarrow>
        let s = (if \<not> hv_connect hv (lr_world r) then inst_state i
                 else case hv_lookup hv (inst_domain_name i) (lr_world r) of
                     DomFound d \<Rightarrow> (case hv_state hv d (lr_world r) of
                         Some s \<Rightarrow> map_libvirt_state s | None \<Rightarrow> inst_state i)
                   | DomNone \<Rightarrow> InstStopped | DomLookupFailed \<Rightarrow> inst_state i)
        in (touch iid (set_state s (re_now e)) r, Inr (set_state s (re_now e) i)))"

definition list_instances :: "'w libvirt_runtime \<Rightarrow> rt_error + proj_instance list" where
  "list_instances r = Inr (map (fst \<circ> snd) (lr_instances r))"

section \<open>Applications, logs, uploads\<close>

definition deploy_app :: "'w channel \<Rightarrow> string \<Rightarrow> app_spec \<Rightarrow> 'w libvirt_runtime \<Rightarrow> 'w libvirt_runtime \<times> rt_error option" where
  "deploy_app ch iid app r =
     (case validate_app_name (app_name app) of Some e \<Rightarrow> (r, Some (RtBadApp e))
      | None \<Rightarrow> drop_result (agent_call ch ((blank_command action_deploy)\<lparr>cmd_app := Some app\<rparr>) iid r))"

definition named_call ::
    "'w channel \<Rightarrow> init_command \<Rightarrow> string \<Rightarrow> string \<Rightarrow> 'w libvirt_runtime \<Rightarrow> 'w libvirt_runtime \<times> (rt_error + init_response)" where
  "named_call ch cmd iid name r =
     (case validate_app_name name of Some e \<Rightarrow> (r, Inl (RtBadApp e))
      | None \<Rightarrow> agent_call ch (cmd\<lparr>cmd_app_name := name\<rparr>) iid r)"

definition stop_app :: "'w channel \<Rightarrow> string \<Rightarrow> string \<Rightarrow> 'w libvirt_runtime \<Rightarrow> 'w libvirt_runtime \<times> rt_error option" where
  "stop_app ch iid name r = drop_result (named_call ch (blank_command action_stop) iid name r)"

definition remove_app :: "'w channel \<Rightarrow> string \<Rightarrow> string \<Rightarrow> 'w libvirt_runtime \<Rightarrow> 'w libvirt_runtime \<times> rt_error option" where
  "remove_app ch iid name r = drop_result (named_call ch (blank_command action_remove) iid name r)"

definition get_app_logs ::
    "'w channel \<Rightarrow> string \<Rightarrow> string \<Rightarrow> int \<Rightarrow> 'w libvirt_runtime \<Rightarrow> 'w libvirt_runtime \<times> (rt_error + string)" where
  "get_app_logs ch iid name n r =
     (case named_call ch ((blank_command action_logs)\<lparr>cmd_lines := n\<rparr>) iid name r of
        (r', Inl e) \<Rightarrow> (r', Inl e) | (r', Inr resp) \<Rightarrow> (r', Inr (resp_logs resp)))"

definition log_aliases :: "string gomap" where
  "log_aliases = [(''cloud-init'', ''/var/log/cloud-init-output.log''), (''goship-init'', ''/var/log/goship-init.log'')]"

definition get_vm_logs ::
    "'w channel \<Rightarrow> string \<Rightarrow> string \<Rightarrow> string \<Rightarrow> int \<Rightarrow> 'w libvirt_runtime \<Rightarrow> 'w libvirt_runtime \<times> (rt_error + string)" where
  "get_vm_logs ch iid source file n r =
     (if lr_find iid r = None then (r, Inl (RtNoInstance iid))
      else (case (if file = [] \<and> source \<noteq> [] then gm_get log_aliases source else Some file) of
          None \<Rightarrow> (r, Inl (UnknownLogSource source))
        | Some f \<Rightarrow>
          (case agent_call ch ((blank_command action_logs)\<lparr>cmd_lines := n, cmd_log_file := f\<rparr>) iid r of
             (r', Inl e) \<Rightarrow> (r', Inl e) | (r', Inr resp) \<Rightarrow> (r', Inr (resp_logs resp)))))"

text \<open>The uploads run the senders of the transfer protocol on the socket of the instance.\<close>

definition lr_upload ::
    "'w channel \<Rightarrow> string \<Rightarrow> ('w transport \<Rightarrow> (string \<Rightarrow> bool) \<Rightarrow> bool \<Rightarrow> 'w \<Rightarrow> 'w \<times> upload_error option) \<Rightarrow>
     'w libvirt_runtime \<Rightarrow> 'w libvirt_runtime \<times> rt_error option" where
  "lr_upload ch iid send_all r =
     (let sock = (case lr_find iid r of Some (_, s) \<Rightarrow> s | None \<Rightarrow> [])
      in case send_all (ch_send ch sock) (\<lambda>x. lr_find x r \<noteq> None) (ch_dial ch sock (lr_world r)) (lr_world r) of
           (w, err) \<Rightarrow> (with_world w r, map_option UploadFailed err))"

definition lr_upload_binary ::
    "'w channel \<Rightarrow> string \<Rightarrow> string \<Rightarrow> string \<Rightarrow> stream \<Rightarrow> int \<Rightarrow> string \<Rightarrow> 'w libvirt_runtime \<Rightarrow>
     'w libvirt_runtime \<times> rt_error option" where
  "lr_upload_binary ch iid app file rd sz checksum r =
     lr_upload ch iid (\<lambda>send known dials. upload_binary send known dials iid app file rd sz checksum) r"

definition lr_upload_image ::
    "'w channel \<Rightarrow> string \<Rightarrow> string \<Rightarrow> stream \<Rightarrow> int \<Rightarrow> string \<Rightarrow> 'w libvirt_runtime \<Rightarrow>
     'w libvirt_runtime \<times> rt_error option" where
  "lr_upload_image ch iid ref rd sz checksum r =
     lr_upload ch iid (\<lambda>send known dials. upload_image send known dials iid ref rd sz checksum) r"

section \<open>Resizing\<close>

definition resize_xml :: "'w rt_env \<Rightarrow> rt_config \<Rightarrow> proj_instance \<Rightarrow> project \<Rightarrow> string \<Rightarrow> string \<Rightarrow> string" where
  "resize_xml e c i p dir disk = generate_domain_xml (domain_config_for (re_create e) (inst_domain_name i)
     (inst_domain_uuid i) (resolve_memory c p) (rc_enable_kvm c) True (resolve_cpus c p) disk
     (if re_iso_exists e then [\<lparr>cd_path = filepath_join dir ''cloud-init.iso'', cd_format = ''raw''\<rparr>] else [])
     (rc_network_type c) (rc_network_source c) dir)"

definition resize_instance ::
    "'w hypervisor \<Rightarrow> 'w rt_env \<Rightarrow> string \<Rightarrow> project \<Rightarrow> 'w libvirt_runtime \<Rightarrow> 'w libvirt_runtime \<times> rt_error option" where
  "resize_instance hv e iid p r =
     (let c = lr_config r in
      case find_domain hv iid r of Inl err \<Rightarrow> (r, Some err)
      | Inr (i, d) \<Rightarrow>
        (case hv_state hv d (lr_world r) of None \<Rightarrow> (r, Some DomainStateFailed)
         | Some s \<Rightarrow>
           if s \<noteq> DomShutoff then (r, Some (NotShutOff (format_vm_state s)))
           else (case project_name_from_domain (inst_domain_name i) of Inl err \<Rightarrow> (r, Some (RtBadDomain err))
             | Inr name \<Rightarrow>
               (case vm_disk_path (rc_data_dir c) name of Inl err \<Rightarrow> (r, Some (RtBadDomain err))
                | Inr disk \<Rightarrow>
                  (case vm_dir (rc_data_dir c) name of Inl err \<Rightarrow> (r, Some (RtBadDomain err))
                   | Inr dir \<Rightarrow>
                     (case hv_define hv (resize_xml e c i p dir disk) (lr_world r) of
                        (w, None) \<Rightarrow> (with_world w r, Some RedefineFailed)
                      | (w, Some _) \<Rightarrow>
                        if 0 < resolve_disk c p \<and> \<not> re_resize_disk e
                        then (with_world w r, Some (RtResizeFailed (show_int (resolve_disk c p) @ ''M'')))
                        else (with_world w r, None)))))))"

section \<open>The interface\<close>

definition libvirt_ops :: "'w hypervisor \<Rightarrow> 'w channel \<Rightarrow> 'w rt_env \<Rightarrow> 'w libvirt_runtime runtime" where
  "libvirt_ops hv ch e = \<lparr>op_create = create_instance hv ch e, op_load = load_instance,
     op_destroy = destroy_instance hv e, op_stop = stop_instance hv e, op_start = start_instance hv ch e,
     op_deploy = deploy_app ch, op_stop_app = stop_app ch, op_remove_app = remove_app ch,
     op_status = get_instance_status hv e, op_list = list_instances,
     op_upload_binary = lr_upload_binary ch, op_upload_image = lr_upload_image ch,
     op_app_logs = get_app_logs ch, op_vm_logs = get_vm_logs ch, op_resize = resize_instance hv e,
     op_view = lr_view\<rparr>"

end
