(* ===== verification/Libvirt_Spec.thy ===== *)
theory Libvirt_Spec
  imports Libvirt_Runtime Vm_Manager_Spec
begin

text \<open>
  The libvirt runtime keeps the laws of the interface, for every hypervisor, every channel and
  every environment; its life cycle operations behave as the handlers of the server expect.
\<close>

section \<open>Views\<close>

named_theorems view_simps "what an operation of the runtime leaves of the instances"

lemma lr_view_world [view_simps]: "lr_view iid (with_world w r) = lr_view iid r"
  by (simp add: lr_view_def lr_find_def with_world_def)

lemma lr_find_world [view_simps]: "lr_find iid (with_world w r) = lr_find iid r"
  by (simp add: lr_find_def with_world_def)

lemma lr_view_host [view_simps]: "lr_view iid (r\<lparr>lr_host := h\<rparr>) = lr_view iid r"
  by (simp add: lr_view_def lr_find_def)

lemma lr_view_touch [view_simps]:
  "lr_view j (touch iid f r) = (if j = iid then map_option f (lr_view iid r) else lr_view j r)"
  by (auto simp: lr_view_def lr_find_def touch_def gomap_simps split: option.split)

lemma lr_view_set [view_simps]:
  "lr_view j (r\<lparr>lr_host := h, lr_instances := gm_set iid (i, s) (lr_instances r)\<rparr>) = (if j = iid then Some i else lr_view j r)"
  "lr_view j (r\<lparr>lr_instances := gm_set iid (i, s) (lr_instances r)\<rparr>) = (if j = iid then Some i else lr_view j r)"
  by (simp_all add: lr_view_def lr_find_def gomap_simps)

lemma lr_view_del [view_simps]:
  "lr_view j (r\<lparr>lr_host := h, lr_instances := gm_del iid (lr_instances r)\<rparr>) = (if j = iid then None else lr_view j r)"
  "lr_view j (r\<lparr>lr_instances := gm_del iid (lr_instances r)\<rparr>) = (if j = iid then None else lr_view j r)"
  by (simp_all add: lr_view_def lr_find_def gomap_simps)

definition identity_kept :: "(proj_instance \<Rightarrow> proj_instance) \<Rightarrow> bool" where
  "identity_kept f \<longleftrightarrow> (\<forall>i. same_identity i (f i))"

lemma identity_set_state [simp]: "identity_kept (set_state s now)"
  by (simp add: identity_kept_def same_identity_def set_state_def)

lemma identity_learn_ip [simp]: "same_identity i (learn_ip resp i)"
  by (auto simp: same_identity_def learn_ip_def split: option.split list.split)

lemma identity_ready [simp]: "identity_kept (\<lambda>i. learn_ip resp (set_state s now i))"
  unfolding identity_kept_def
  by (metis identity_kept_def identity_learn_ip identity_set_state same_identity_trans)

abbreviation kept :: "'w libvirt_runtime \<Rightarrow> 'w libvirt_runtime \<Rightarrow> bool" where
  "kept r r' \<equiv> view_kept (\<lambda>iid. lr_view iid r) (\<lambda>iid. lr_view iid r')"

lemma kept_touch: "identity_kept f \<Longrightarrow> kept r (touch iid f r)"
  by (auto simp: view_kept_def view_simps identity_kept_def split: if_splits)

lemma kept_world: "kept r (with_world w r)"
  by (simp add: view_kept_def view_simps)

lemma kept_touch_world:
  assumes "identity_kept f"
  shows "kept r (touch iid f (with_world w r))"
  by (rule view_kept_trans [OF kept_world kept_touch [OF assms]])

lemma wait_ready_view:
  "wait_ready hv ch e stream iid r = (r', res) \<Longrightarrow>
     kept r r' \<and> (\<forall>j. j \<noteq> iid \<longrightarrow> lr_view j r' = lr_view j r) \<and> (lr_view iid r' = None \<longleftrightarrow> lr_view iid r = None)"
  by (auto simp: wait_ready_def view_simps intro: kept_world kept_touch_world
      split: option.splits prod.splits)

lemma agent_call_view [view_simps]: "lr_view iid (fst (agent_call ch cmd x r)) = lr_view iid r"
  by (auto simp: agent_call_def view_simps split: option.split prod.split)

lemma fst_drop_result [simp]: "fst (drop_result m) = fst m"
  by (cases m; cases "snd m") (auto simp: drop_result_def)

lemma named_call_view [view_simps]: "lr_view iid (fst (named_call ch cmd x n r)) = lr_view iid r"
  by (simp add: named_call_def view_simps split: option.split)

lemma lr_upload_view [view_simps]: "lr_view iid (fst (lr_upload ch x f r)) = lr_view iid r"
  by (simp add: lr_upload_def Let_def view_simps split: prod.split)

lemma get_app_logs_view [view_simps]: "lr_view iid (fst (get_app_logs ch x n k r)) = lr_view iid r"
  using named_call_view [of iid ch _ x n r]
  by (auto simp: get_app_logs_def split: prod.split sum.split) (metis fst_conv)+

lemma get_vm_logs_view [view_simps]: "lr_view iid (fst (get_vm_logs ch x s f k r)) = lr_view iid r"
  using agent_call_view [of iid ch _ x r]
  by (auto simp: get_vm_logs_def split: prod.split sum.split option.split) (metis fst_conv)+

lemma resize_view [view_simps]: "lr_view iid (fst (resize_instance hv e x p r)) = lr_view iid r"
  by (auto simp: resize_instance_def Let_def view_simps split: prod.split sum.split option.split)

lemma load_view:
  "lr_view iid (load_instance i r) = lr_view iid r \<or> iid = inst_id i \<and> lr_view iid (load_instance i r) = Some i"
  by (auto simp: load_instance_def view_simps split: sum.split)

lemma destroy_view: "kept r (fst (destroy_instance hv e x r))"
  by (auto simp: destroy_instance_def view_kept_def view_simps split: prod.split sum.split option.split if_splits)

lemma status_view: "kept r (fst (get_instance_status hv e x r))"
  using kept_touch [OF identity_set_state] by (auto simp: get_instance_status_def Let_def split: option.split)

lemma stop_view: "kept r (fst (stop_instance hv e x r))"
proof -
  have 1: "kept r (touch x (set_state s (re_now e)) (with_world w r))" for s w
    by (rule kept_touch_world) simp
  have 2: "kept r (with_world w' (touch x (set_state s (re_now e)) (with_world w r)))" for s w w'
    by (rule view_kept_trans [OF 1 kept_world])
  have "kept r (touch x (set_state s' (re_now e)) (with_world w' (touch x (set_state s (re_now e)) (with_world w r))))" for s s' w w'
    by (rule view_kept_trans [OF 2 kept_touch]) simp
  then show ?thesis
    using 2 kept_world by (auto simp: stop_instance_def Let_def split: sum.split prod.split bool.split)
qed

lemma start_view: "kept r (fst (start_instance hv ch e x r))"
proof (cases "find_domain hv x r")
  case (Inr c)
  obtain w b where w: "hv_create hv (snd c) (lr_world r) = (w, b)" by fastforce
  let ?r1 = "touch x (set_state InstStarting (re_now e)) (with_world w r)"
  have 1: "kept r ?r1" by (rule kept_touch_world) simp
  obtain r2 res where r2: "wait_ready hv ch e False x ?r1 = (r2, res)" by fastforce
  then have "kept r r2" using view_kept_trans [OF 1] wait_ready_view by blast
  then show ?thesis
    using Inr w r2 kept_world [of r w] by (cases c; cases b; cases res) (simp_all add: start_instance_def)
qed (simp add: start_instance_def)

lemma create_instance_Inr:
  assumes "create_instance hv ch e p r = (r', Inr i)"
  shows "inst_id i = re_uuid e" "inst_project_id i = proj_id p"
    "inst_domain_name i = libvirt_domain_prefix @ proj_name p"
    "lr_view (re_uuid e) r' = Some i" "j \<noteq> re_uuid e \<Longrightarrow> lr_view j r' = lr_view j r"
proof -
  obtain h v where m: "manager_create hv (re_create e) (rc_data_dir (lr_config r))
      (create_options (lr_config r) e p) (lr_host r) = (h, Inr v)"
    using assms by (auto simp: create_instance_def Let_def split: if_splits prod.splits sum.splits)
  let ?r1 = "r\<lparr>lr_host := h, lr_instances := gm_set (re_uuid e)
     (new_instance e p v, filepath_join (filepath_dir (vd_disk v)) ''goship.sock'') (lr_instances r)\<rparr>"
  have v: "vd_domain v = libvirt_domain_prefix @ proj_name p"
    using manager_create_Inr [OF m] by (simp add: create_options_def domain_name_def)
  obtain r2 where w: "wait_ready hv ch e True (re_uuid e) ?r1 = (r2, None)"
    and r': "r' = r2" "lr_view (re_uuid e) r2 = Some i"
    using assms m
    by (auto simp: create_instance_def Let_def split: if_splits prod.splits option.splits)
  note wr = wait_ready_view [OF w]
  show "lr_view (re_uuid e) r' = Some i" using r' by simp
  show "lr_view j r' = lr_view j r" if "j \<noteq> re_uuid e"
    using wr that r'(1) by (simp add: view_simps)
  obtain i0 where "lr_view (re_uuid e) ?r1 = Some i0" "same_identity i0 i"
    using wr r'(2) unfolding view_kept_def by blast
  then have "same_identity (new_instance e p v) i" by (simp add: view_simps)
  then show "inst_id i = re_uuid e" "inst_project_id i = proj_id p"
    "inst_domain_name i = libvirt_domain_prefix @ proj_name p"
    using v by (simp_all add: same_identity_def new_instance_def)
qed

lemma create_instance_Inl:
  assumes "create_instance hv ch e p r = (r', Inl err)"
  shows "kept r r'"
proof (cases "manager_create hv (re_create e) (rc_data_dir (lr_config r)) (create_options (lr_config r) e p) (lr_host r)")
  case (Pair h m)
  show ?thesis
  proof (cases "(\<exists>(k, (i, s)) \<in> set (lr_instances r). inst_project_id i = proj_id p) \<or> (\<exists>x. m = Inl x)")
    case True
    then show ?thesis
      using assms Pair by (auto simp: create_instance_def Let_def view_simps split: if_splits)
  next
    case False
    then obtain v where v: "m = Inr v" by (cases m) auto
    let ?r1 = "r\<lparr>lr_host := h, lr_instances := gm_set (re_uuid e)
       (new_instance e p v, filepath_join (filepath_dir (vd_disk v)) ''goship.sock'') (lr_instances r)\<rparr>"
    obtain r2 res where w: "wait_ready hv ch e True (re_uuid e) ?r1 = (r2, res)" by fastforce
    note wr = wait_ready_view [OF w]
    then have some: "lr_view (re_uuid e) r2 \<noteq> None" by (simp add: view_simps)
    have other: "lr_view j r2 = lr_view j r" if "j \<noteq> re_uuid e" for j
      using wr that by (simp add: view_simps)
    have "res \<noteq> None"
      using assms Pair False v w some by (auto simp: create_instance_def Let_def split: if_splits option.splits)
    then have "lr_view j r' = (if j = re_uuid e then None else lr_view j r2)" for j
      using assms Pair False v w by (auto simp: create_instance_def Let_def view_simps split: if_splits)
    then show ?thesis using other by (auto simp: view_kept_def)
  qed
qed

section \<open>Interpretation\<close>

lemma libvirt_ops_sel [simp]:
  "op_create (libvirt_ops hv ch e) = create_instance hv ch e" "op_load (libvirt_ops hv ch e) = load_instance"
  "op_destroy (libvirt_ops hv ch e) = destroy_instance hv e" "op_stop (libvirt_ops hv ch e) = stop_instance hv e"
  "op_start (libvirt_ops hv ch e) = start_instance hv ch e" "op_deploy (libvirt_ops hv ch e) = deploy_app ch"
  "op_stop_app (libvirt_ops hv ch e) = stop_app ch" "op_remove_app (libvirt_ops hv ch e) = remove_app ch"
  "op_status (libvirt_ops hv ch e) = get_instance_status hv e" "op_list (libvirt_ops hv ch e) = list_instances"
  "op_upload_binary (libvirt_ops hv ch e) = lr_upload_binary ch"
  "op_upload_image (libvirt_ops hv ch e) = lr_upload_image ch"
  "op_app_logs (libvirt_ops hv ch e) = get_app_logs ch" "op_vm_logs (libvirt_ops hv ch e) = get_vm_logs ch"
  "op_resize (libvirt_ops hv ch e) = resize_instance hv e" "op_view (libvirt_ops hv ch e) = lr_view"
  by (simp_all add: libvirt_ops_def)

interpretation lv: project_runtime "libvirt_ops hv ch e" for hv ch e
proof unfold_locales
  fix p r r' i
  assume "op_create (libvirt_ops hv ch e) p r = (r', Inr i)"
  then have "create_instance hv ch e p r = (r', Inr i)" by simp
  note c = create_instance_Inr [OF this]
  show "inst_project_id i = proj_id p \<and> inst_domain_name i = libvirt_domain_prefix @ proj_name p \<and>
      op_view (libvirt_ops hv ch e) (inst_id i) r' = Some i \<and>
      (\<forall>iid. iid \<noteq> inst_id i \<longrightarrow> op_view (libvirt_ops hv ch e) iid r' = op_view (libvirt_ops hv ch e) iid r)"
    using c by simp
qed (simp_all add: create_instance_Inl load_view destroy_view stop_view start_view status_view
      deploy_app_def stop_app_def remove_app_def lr_upload_binary_def lr_upload_image_def view_simps
      split: option.split)

end
