(* ===== verification/Host_Caps.thy ===== *)
theory Host_Caps
  imports Libvirt_Runtime "HOL-Library.Word"
begin

text \<open>
  The capabilities of the host (internal/agent/runtime/libvirt/capabilities.go and version.go,
  pkg/domain/entities/capabilities.go), their cache in the runtime (runtime.go) and their listing
  (cmd/goship/commands: capabilities.go and version.go). Sizes and versions that libvirt gives keep their width. The
  connection to libvirt, the file system and the decoder of the XML document are arguments.
\<close>

section \<open>Data\<close>

datatype cc_type = CCNone | CCSev | CCSevEs | CCSevSnp | CCTdx

record cc_capability =
  cc_kind :: cc_type
  cc_available :: bool
  cc_max_guests :: int
  cc_min_asid :: int

record host_capabilities =
  hc_hypervisor :: string
  hc_arch :: string
  hc_kvm_available :: bool
  hc_cpu_model :: string
  hc_cpu_vendor :: string
  hc_cpu_topology :: cpu_topology
  hc_total_memory_mb :: int
  hc_hugepages_available :: bool
  hc_hugepage_sizes :: "int list"
  hc_confidential :: "cc_capability list"
  hc_libvirt_version :: string
  hc_qemu_version :: string
  hc_collected_at :: timestamp

text \<open>The part of the capabilities document that is decoded.\<close>

record libvirt_capabilities =
  lc_uuid :: string
  lc_arch :: string
  lc_model :: string
  lc_vendor :: string
  lc_sockets :: int
  lc_cores :: int
  lc_threads :: int

record 'c caps_env =
  hp_connect :: "string \<Rightarrow> 'c option"
  hp_alive :: "'c \<Rightarrow> bool"
  hp_capabilities_xml :: "'c \<Rightarrow> string option"
  hp_decode :: "string \<Rightarrow> libvirt_capabilities option"
  hp_node_memory_kb :: "'c \<Rightarrow> 64 word option"
  hp_lib_version :: "'c \<Rightarrow> 32 word option"
  hp_version :: "'c \<Rightarrow> 32 word option"
  hp_stat :: "string \<Rightarrow> bool"
  hp_read_dir :: "string \<Rightarrow> string list option"
  hp_read_file :: "string \<Rightarrow> string option"
  hp_now :: timestamp

datatype caps_error = CapsFailed | CapsParseFailed | VersionConnectFailed | LibVersionFailed | QemuVersionFailed
  | ReconnectFailed | NotDiscovered

section \<open>Versions (version.go)\<close>

definition format_version :: "32 word \<Rightarrow> string" where
  "format_version ver =
     (let major = ver div 1000000; minor = (ver div 1000) mod 1000; patch = ver mod 1000
      in show_nat (unat major) @ ''.'' @ show_nat (unat minor) @ ''.'' @ show_nat (unat patch))"

definition system_uri :: string where "system_uri = ''qemu:///system''"

text \<open>\<open>GetVersionInfo\<close> opens a connection of its own.\<close>

definition get_version_info :: "'c caps_env \<Rightarrow> caps_error + string \<times> string" where
  "get_version_info env =
     (case hp_connect env system_uri of None \<Rightarrow> Inl VersionConnectFailed
      | Some c \<Rightarrow> (case hp_lib_version env c of None \<Rightarrow> Inl LibVersionFailed
          | Some lib_ver \<Rightarrow> (case hp_version env c of None \<Rightarrow> Inl QemuVersionFailed
              | Some qemu_ver \<Rightarrow> Inr (format_version lib_ver, format_version qemu_ver))))"

section \<open>Discovery (capabilities.go)\<close>

definition parse_capabilities_xml :: "'c caps_env \<Rightarrow> string \<Rightarrow> caps_error + libvirt_capabilities" where
  "parse_capabilities_xml env doc = (case hp_decode env doc of None \<Rightarrow> Inl CapsParseFailed | Some c \<Rightarrow> Inr c)"

definition check_kvm_available :: "'c caps_env \<Rightarrow> bool" where
  "check_kvm_available env = hp_stat env ''/dev/kvm''"

text \<open>\<open>Sscanf\<close> with \<open>%d\<close>: blanks but no new line, a sign, digits up to the first other character.\<close>

definition sscanf_d :: "string \<Rightarrow> int option" where
  "sscanf_d s =
     (let t = dropWhile (\<lambda>c. is_space c \<and> c \<noteq> CHR 0x0A) s;
          sign = (t \<noteq> [] \<and> (hd t = CHR ''-'' \<or> hd t = CHR ''+''))
      in parse_int64 ((if sign then [hd t] else []) @ takeWhile is_digit (if sign then tl t else t)))"

definition trim_suffix :: "string \<Rightarrow> string \<Rightarrow> string" where
  "trim_suffix suffix s =
     (if length suffix \<le> length s \<and> drop (length s - length suffix) s = suffix
      then take (length s - length suffix) s else s)"

definition has_suffix :: "string \<Rightarrow> string \<Rightarrow> bool" where
  "has_suffix suffix s \<longleftrightarrow> length suffix \<le> length s \<and> drop (length s - length suffix) s = suffix"

definition hugepage_size :: "string \<Rightarrow> int option" where
  "hugepage_size name =
     (if has_prefix ''hugepages-'' name \<and> has_suffix ''kB'' name
      then (case sscanf_d (trim_suffix ''kB'' (trim_prefix ''hugepages-'' name)) of
          Some n \<Rightarrow> if n > 0 then Some n else None | None \<Rightarrow> None)
      else None)"

definition check_hugepages :: "'c caps_env \<Rightarrow> bool \<times> int list" where
  "check_hugepages env =
     (case hp_read_dir env ''/sys/kernel/mm/hugepages'' of None \<Rightarrow> (False, [])
      | Some entries \<Rightarrow> let sizes = List.map_filter hugepage_size entries in (sizes \<noteq> [], sizes))"

definition parameter_on :: "'c caps_env \<Rightarrow> string \<Rightarrow> bool" where
  "parameter_on env path =
     (case hp_read_file env path of None \<Rightarrow> False
      | Some data \<Rightarrow> trim_space data = ''Y'' \<or> trim_space data = ''1'')"

definition cc_of :: "cc_type \<Rightarrow> cc_capability" where
  "cc_of k = \<lparr>cc_kind = k, cc_available = True, cc_max_guests = 0, cc_min_asid = 0\<rparr>"

definition check_sev :: "'c caps_env \<Rightarrow> cc_capability option" where
  "check_sev env =
     (if \<not> parameter_on env ''/sys/module/kvm_amd/parameters/sev'' then None
      else let t0 = CCSev;
               t1 = (if parameter_on env ''/sys/module/kvm_amd/parameters/sev_es'' then CCSevEs else t0);
               t2 = (if parameter_on env ''/sys/module/kvm_amd/parameters/sev_snp'' then CCSevSnp else t1)
           in Some (cc_of t2))"

definition check_tdx :: "'c caps_env \<Rightarrow> cc_capability option" where
  "check_tdx env =
     (if parameter_on env ''/sys/module/kvm_intel/parameters/tdx'' then Some (cc_of CCTdx) else None)"

definition detect_confidential_computing :: "'c caps_env \<Rightarrow> cc_capability list" where
  "detect_confidential_computing env =
     (case check_sev env of None \<Rightarrow> [] | Some c \<Rightarrow> [c]) @ (case check_tdx env of None \<Rightarrow> [] | Some c \<Rightarrow> [c])"

text \<open>The memory comes as an unsigned number of KB; the conversion is bounded first.\<close>

definition max_int64_word :: "64 word" where "max_int64_word = 0x7FFFFFFFFFFFFFFF"

definition total_memory_mb :: "64 word option \<Rightarrow> int" where
  "total_memory_mb node =
     (case node of None \<Rightarrow> 0
      | Some kb \<Rightarrow> if kb > max_int64_word then int64_max div 1024 else sint kb div 1024)"

definition or_one :: "int \<Rightarrow> int" where "or_one n = (if n = 0 then 1 else n)"

definition discover_capabilities :: "'c caps_env \<Rightarrow> 'c \<Rightarrow> caps_error + host_capabilities" where
  "discover_capabilities env conn =
     (case hp_capabilities_xml env conn of None \<Rightarrow> Inl CapsFailed
      | Some doc \<Rightarrow> and_then (parse_capabilities_xml env doc) (\<lambda>caps.
          let (huge, sizes) = check_hugepages env; cc = detect_confidential_computing env
          in and_then (get_version_info env) (\<lambda>(lib_ver, qemu_ver).
            Inr \<lparr>hc_hypervisor = ''kvm'', hc_arch = lc_arch caps, hc_kvm_available = check_kvm_available env,
              hc_cpu_model = lc_model caps, hc_cpu_vendor = lc_vendor caps,
              hc_cpu_topology = \<lparr>cpu_sockets = or_one (lc_sockets caps), cpu_cores = or_one (lc_cores caps),
                cpu_threads = or_one (lc_threads caps), cpu_model = [], cpu_features = []\<rparr>,
              hc_total_memory_mb = total_memory_mb (hp_node_memory_kb env conn),
              hc_hugepages_available = huge, hc_hugepage_sizes = sizes, hc_confidential = cc,
              hc_libvirt_version = lib_ver, hc_qemu_version = qemu_ver, hc_collected_at = hp_now env\<rparr>)))"

section \<open>The cache of the runtime (runtime.go)\<close>

record 'c caps_cache =
  ca_uri :: string
  ca_conn :: "'c option"
  ca_capabilities :: "host_capabilities option"

text \<open>\<open>getConnection\<close>: a connection that is gone is opened again; if that fails it stays.\<close>

definition get_connection :: "'c caps_env \<Rightarrow> 'c caps_cache \<Rightarrow> 'c caps_cache \<times> (caps_error + 'c)" where
  "get_connection env r =
     (case ca_conn r of
        Some c \<Rightarrow> if hp_alive env c then (r, Inr c)
          else (case hp_connect env (ca_uri r) of None \<Rightarrow> (r, Inl ReconnectFailed)
            | Some c' \<Rightarrow> (r\<lparr>ca_conn := Some c'\<rparr>, Inr c'))
      | None \<Rightarrow> (case hp_connect env (ca_uri r) of None \<Rightarrow> (r, Inl ReconnectFailed)
            | Some c' \<Rightarrow> (r\<lparr>ca_conn := Some c'\<rparr>, Inr c')))"

definition refresh_capabilities :: "'c caps_env \<Rightarrow> 'c caps_cache \<Rightarrow> 'c caps_cache \<times> caps_error option" where
  "refresh_capabilities env r =
     (case get_connection env r of
        (r1, Inl e) \<Rightarrow> (r1, Some e)
      | (r1, Inr c) \<Rightarrow> (case discover_capabilities env c of Inl e \<Rightarrow> (r1, Some e)
          | Inr caps \<Rightarrow> (r1\<lparr>ca_capabilities := Some caps\<rparr>, None)))"

definition get_host_capabilities :: "'c caps_cache \<Rightarrow> caps_error + host_capabilities" where
  "get_host_capabilities r = (case ca_capabilities r of None \<Rightarrow> Inl NotDiscovered | Some c \<Rightarrow> Inr c)"

definition close_runtime :: "'c caps_cache \<Rightarrow> 'c caps_cache" where
  "close_runtime r = r\<lparr>ca_conn := None\<rparr>"

definition config_uri :: "runtime_option list \<Rightarrow> string" where
  "config_uri options =
     (let uri = rc_libvirt_uri (fold apply_option options default_config) in if uri = [] then system_uri else uri)"

text \<open>\<open>New\<close> with the discovery it runs.\<close>

definition discovered_runtime ::
    "string option \<Rightarrow> bool \<Rightarrow> 'c caps_env \<Rightarrow> runtime_option list \<Rightarrow> 'w host \<Rightarrow> new_runtime_error + 'w libvirt_runtime" where
  "discovered_runtime home mkdir env options h =
     (let uri = config_uri options;
          (r, e) = refresh_capabilities env \<lparr>ca_uri = uri, ca_conn = hp_connect env uri, ca_capabilities = None\<rparr>;
          kvm = (case get_host_capabilities r of Inl _ \<Rightarrow> None | Inr c \<Rightarrow> Some (hc_kvm_available c))
      in new_runtime home mkdir (\<lambda>u. hp_connect env u \<noteq> None) kvm options h)"


section \<open>The listing (cmd/goship/commands/capabilities.go)\<close>

text \<open>\<open>%.1f\<close> of the megabytes over 1024: the nearest tenth, the even one in the middle. The quotient
  is exact in floating point below \<open>2 ^ 53\<close> megabytes.\<close>

definition tenths_of_gb :: "int \<Rightarrow> int" where
  "tenths_of_gb mb =
     (let q = 10 * mb div 1024; r = 10 * mb mod 1024
      in if r > 512 \<or> r = 512 \<and> odd q then q + 1 else q)"

definition show_tenths :: "int \<Rightarrow> string" where
  "show_tenths t = show_int (t div 10) @ ''.'' @ show_int (t mod 10)"

definition cc_text :: "cc_type \<Rightarrow> string" where
  "cc_text t = (case t of CCNone \<Rightarrow> ''none'' | CCSev \<Rightarrow> ''sev'' | CCSevEs \<Rightarrow> ''sev-es''
     | CCSevSnp \<Rightarrow> ''sev-snp'' | CCTdx \<Rightarrow> ''tdx'')"

definition status_yes :: string where "status_yes = ''yes''"
definition status_no :: string where "status_no = ''no''"

text \<open>The lines of \<open>formatCapabilities\<close>, each closed by a new line.\<close>

definition format_capabilities :: "host_capabilities \<Rightarrow> string" where
  "format_capabilities c =
     (let t = hc_cpu_topology c;
          kvm = (if hc_kvm_available c then status_yes else status_no);
          mode = (if hc_kvm_available c then ''host-passthrough'' else ''host-model (KVM not available)'');
          huge = (if hc_hugepages_available c
            then ''yes ('' @ join '', '' (map (\<lambda>s. show_int s @ ''kB'') (hc_hugepage_sizes c)) @ '')'' else ''no'');
          cc = (if hc_confidential c \<noteq> []
            then map (\<lambda>x. ''Confidential:  '' @ cc_text (cc_kind x) @ '' (available)'') (hc_confidential c)
            else [''Confidential:  none detected''])
      in concat (map (\<lambda>l. l @ [CHR 0x0A])
        ([''Host Capabilities'', ''================='', [],
          ''Hypervisor:    '' @ hc_hypervisor c, ''Architecture:  '' @ hc_arch c,
          ''KVM:           '' @ kvm, ''CPU Mode:      '' @ mode, [],
          ''CPU Model:     '' @ hc_cpu_model c, ''CPU Vendor:    '' @ hc_cpu_vendor c,
          ''Topology:      '' @ show_int (cpu_sockets t) @ '' socket(s), '' @ show_int (cpu_cores t) @ '' core(s), '' @
            show_int (cpu_threads t) @ '' thread(s) ['' @ show_int (total_vcpus t) @ '' vCPUs]'', [],
          ''Memory:        '' @ show_int (hc_total_memory_mb c) @ '' MB ('' @
            show_tenths (tenths_of_gb (hc_total_memory_mb c)) @ '' GB)'',
          ''Hugepages:     '' @ huge] @ cc @
         [[], ''Libvirt:       '' @ hc_libvirt_version c, ''QEMU:          '' @ hc_qemu_version c])))"

text \<open>The command: its own connection, the discovery, the listing.\<close>

definition run_capabilities :: "'c caps_env \<Rightarrow> caps_error + string" where
  "run_capabilities env =
     (case hp_connect env system_uri of None \<Rightarrow> Inl ReconnectFailed
      | Some conn \<Rightarrow> and_then (discover_capabilities env conn) (\<lambda>c. Inr (format_capabilities c)))"

text \<open>\<open>version\<close>: what it prints, and the error it prints to the other stream instead of the versions.\<close>

definition run_version :: "string \<Rightarrow> string \<Rightarrow> string \<Rightarrow> 'c caps_env \<Rightarrow> string \<times> caps_error option" where
  "run_version version commit build_time env =
     (let ln = (\<lambda>l. l @ [CHR 0x0A]);
          own = ln (''goship '' @ version) @ ln (''  commit: '' @ commit) @ ln (''  built:  '' @ build_time)
      in (case get_version_info env of Inl e \<Rightarrow> (own, Some e)
        | Inr (lib_ver, qemu_ver) \<Rightarrow>
            (own @ ln [] @ ln (''Libvirt version: '' @ lib_ver) @ ln (''QEMU version:    '' @ qemu_ver), None)))"

section \<open>What is discovered\<close>

lemma discover_Inr:
  assumes "discover_capabilities env conn = Inr c"
  shows "\<exists>doc caps lib_ver qemu_ver. hp_capabilities_xml env conn = Some doc \<and> hp_decode env doc = Some caps \<and>
    get_version_info env = Inr (lib_ver, qemu_ver) \<and>
    hc_cpu_topology c = \<lparr>cpu_sockets = or_one (lc_sockets caps), cpu_cores = or_one (lc_cores caps),
      cpu_threads = or_one (lc_threads caps), cpu_model = [], cpu_features = []\<rparr> \<and>
    hc_total_memory_mb c = total_memory_mb (hp_node_memory_kb env conn) \<and>
    (hc_hugepages_available c, hc_hugepage_sizes c) = check_hugepages env \<and>
    hc_confidential c = detect_confidential_computing env \<and> hc_kvm_available c = check_kvm_available env"
  using assms
  by (auto simp: discover_capabilities_def and_then_def parse_capabilities_xml_def
      split: option.splits sum.splits prod.splits)

lemma discover_ok:
  assumes "hp_capabilities_xml env conn = Some doc" "hp_decode env doc = Some caps" "get_version_info env = Inr v"
  shows "\<exists>c. discover_capabilities env conn = Inr c"
  using assms by (auto simp: discover_capabilities_def and_then_def parse_capabilities_xml_def split: prod.split)

lemma total_memory_mb_word: "total_memory_mb (Some kb) = min (uint kb) int64_max div 1024"
proof -
  have m: "uint max_int64_word = int64_max" by (simp add: max_int64_word_def int64_max_def)
  show ?thesis
  proof (cases "kb > max_int64_word")
    case True
    then show ?thesis using m by (simp add: total_memory_mb_def word_less_def)
  next
    case False
    then have "uint kb \<le> int64_max" using m by (simp add: word_less_def)
    moreover from this have "sint kb = uint kb"
      using order_trans [OF _ uint_ge_0 [of kb], of "- 9223372036854775808"]
      by (subst sint_uint) (simp add: int64_max_def signed_take_bit_int_eq_self_iff)
    ultimately show ?thesis using False by (simp add: total_memory_mb_def)
  qed
qed

lemma sscanf_d_range: "sscanf_d s = Some n \<Longrightarrow> in_int64 n"
  by (auto simp: sscanf_d_def Let_def dest: parse_int64_range)

lemma map_filter_mem: "x \<in> set (List.map_filter f xs) \<longleftrightarrow> (\<exists>y \<in> set xs. f y = Some x)"
  by (auto simp: List.map_filter_def) force

lemma hugepage_size_range: "hugepage_size name = Some n \<Longrightarrow> 0 < n \<and> n \<le> int64_max"
  by (auto simp: hugepage_size_def in_int64_def split: if_splits option.splits dest: sscanf_d_range)

text \<open>A directory of the kernel for pages of some size is read as that size.\<close>

lemma hugepage_size_render:
  assumes "0 < n" "int n \<le> int64_max"
  shows "hugepage_size (''hugepages-'' @ show_nat n @ ''kB'') = Some (int n)"
proof -
  have h: "is_digit (hd (show_nat n))" by (rule show_nat_hd)
  then have "\<not> is_space (hd (show_nat n))" "hd (show_nat n) \<noteq> CHR ''-''" "hd (show_nat n) \<noteq> CHR ''+''"
    using digit_not_sign [OF h] is_digit_not_space [OF h] by simp_all
  moreover obtain c cs where c: "show_nat n = c # cs" using show_nat_not_Nil by (cases "show_nat n") auto
  moreover have "takeWhile is_digit (show_nat n) = show_nat n" using show_nat_digits [of _ n] by simp
  ultimately have "sscanf_d (show_nat n) = Some (int n)"
    using parse_int64_show_nat [of n] assms
    by (simp add: sscanf_d_def Let_def in_int64_def int64_min_def)
  moreover have "has_suffix ''kB'' (''hugepages-'' @ show_nat n @ ''kB'')"
      "trim_suffix ''kB'' (show_nat n @ ''kB'') = show_nat n"
      "trim_prefix ''hugepages-'' (''hugepages-'' @ show_nat n @ ''kB'') = show_nat n @ ''kB''"
      "has_prefix ''hugepages-'' (''hugepages-'' @ show_nat n @ ''kB'')"
    unfolding trim_prefix_append has_suffix_def trim_suffix_def by (simp_all only: has_prefix_append) simp_all
  ultimately show ?thesis
    using assms unfolding hugepage_size_def by (simp only:) simp
qed

text \<open>A version that libvirt encodes is shown by its parts.\<close>

theorem format_version_parts:
  assumes "major \<le> 4293" "minor < 1000" "patch < 1000"
  shows "format_version (of_nat (major * 1000000 + minor * 1000 + patch)) =
    show_nat major @ ''.'' @ show_nat minor @ ''.'' @ show_nat patch"
proof -
  let ?n = "major * 1000000 + minor * 1000 + patch"
  have u: "unat (of_nat ?n :: 32 word) = ?n"
    unfolding unat_of_nat using assms by simp
  have d: "?n div 1000 = major * 1000 + minor" using assms by simp
  define w :: "32 word" where "w = of_nat ?n"
  have w: "unat w = ?n" unfolding w_def by (rule u)
  have parts: "?n div 1000000 = major" "(major * 1000 + minor) mod 1000 = minor" using assms by simp_all
  have "?n = patch + (major * 1000 + minor) * 1000" by simp
  then have "?n mod 1000 = patch mod 1000" by (simp only: mod_mult_self1)
  then have p: "?n mod 1000 = patch" using assms(3) by simp
  have "unat (w div 1000000) = major" "unat (w div 1000 mod 1000) = minor" "unat (w mod 1000) = patch"
    using assms by (simp_all add: unat_div unat_mod w parts d p del: mod_mult_self1 mod_mult_self2)
  then show ?thesis
    unfolding format_version_def Let_def w_def [symmetric] by (simp only:)
qed


definition demo_caps_env :: "unit caps_env" where
  "demo_caps_env = \<lparr>hp_connect = (\<lambda>_. Some ()), hp_alive = (\<lambda>_. True), hp_capabilities_xml = (\<lambda>_. Some ''<capabilities/>''),
     hp_decode = (\<lambda>_. Some \<lparr>lc_uuid = [], lc_arch = ''x86_64'', lc_model = ''EPYC'', lc_vendor = ''AMD'', lc_sockets = 0,
       lc_cores = 8, lc_threads = 2\<rparr>),
     hp_node_memory_kb = (\<lambda>_. Some 2097152), hp_lib_version = (\<lambda>_. Some 10000000), hp_version = (\<lambda>_. Some 8002003),
     hp_stat = (\<lambda>_. True), hp_read_dir = (\<lambda>_. Some [''hugepages-2048kB'', ''README'']),
     hp_read_file = (\<lambda>p. if p = ''/sys/module/kvm_amd/parameters/sev'' then Some ''1'' else None), hp_now = 0\<rparr>"

lemma demo_version: "get_version_info demo_caps_env = Inr (''10.0.0'', ''8.2.3'')"
proof -
  have "format_version 10000000 = ''10.0.0''" "format_version 8002003 = ''8.2.3''"
    by (code_simp, code_simp)
  then show ?thesis by (simp add: get_version_info_def demo_caps_env_def)
qed


section \<open>Connections\<close>

text \<open>A refresh that fails keeps what was known.\<close>

lemma refresh_keeps:
  "refresh_capabilities env r = (r', Some e) \<Longrightarrow> ca_capabilities r' = ca_capabilities r"
  by (auto simp: refresh_capabilities_def get_connection_def split: option.splits sum.splits if_splits)

lemma refresh_known:
  "refresh_capabilities env r = (r', None) \<Longrightarrow> \<exists>c. get_host_capabilities r' = Inr c"
  by (auto simp: refresh_capabilities_def get_host_capabilities_def split: sum.splits prod.splits)

text \<open>The versions are always asked of the system's libvirt, not of the one that is configured: where
  that does not answer, no runtime can be made, whatever its connection.\<close>

theorem runtime_needs_system_libvirt:
  assumes "hp_connect env system_uri = None"
  shows "\<exists>e. discovered_runtime home mkdir env options h = Inl e"
proof -
  have "get_version_info env = Inl VersionConnectFailed" using assms by (simp add: get_version_info_def)
  then have d: "\<exists>e. discover_capabilities env c = Inl e" for c
    by (auto simp: discover_capabilities_def and_then_def parse_capabilities_xml_def split: option.split prod.split)
  have "get_host_capabilities (fst (refresh_capabilities env r)) = Inl NotDiscovered" if "ca_capabilities r = None" for r
  proof -
    obtain r1 x where x: "get_connection env r = (r1, x)" by fastforce
    then have "ca_capabilities r1 = None"
      using that by (auto simp: get_connection_def split: option.splits if_splits)
    then show ?thesis using d x by (cases x) (auto simp: refresh_capabilities_def get_host_capabilities_def split: sum.splits, metis Inl_Inr_False)
  qed
  then have "get_host_capabilities (fst (refresh_capabilities env
      \<lparr>ca_uri = config_uri options, ca_conn = hp_connect env (config_uri options), ca_capabilities = None\<rparr>)) =
      Inl NotDiscovered" by simp
  moreover have "\<exists>e. new_runtime home mkdir connects None options h = Inl e" for connects
    by (simp add: new_runtime_def Let_def)
  ultimately show ?thesis
    by (auto simp: discovered_runtime_def Let_def split: prod.split)
qed

theorem runtime_needs_system_libvirt_witness:
  "\<exists>e. discovered_runtime None True (demo_caps_env\<lparr>hp_connect := (\<lambda>u. if u = system_uri then None else Some ())\<rparr>)
     [WithLibvirtURI ''qemu+ssh://node/system''] \<lparr>ho_world = (), ho_fs = (\<lambda>_. True), ho_mode = (\<lambda>_. Some 493)\<rparr> = Inl e"
  by (rule runtime_needs_system_libvirt) simp

end
