(* ===== verification/Images.thy ===== *)
theory Images
  imports Uploads Vm_Names
begin

text \<open>
  The commands \<open>image pull\<close> and \<open>image build\<close> (cmd/goship/commands/image.go): a base image is downloaded,
  and resized by a build, next to its place and then renamed. The answers of the network, of qemu-img
  and of the system calls are a record.
\<close>

section \<open>Surroundings\<close>

text \<open>\<open>ie_get\<close> is the answer to the GET request, \<open>ie_write_fails\<close> what the file holds when a write fails,
  \<open>ie_resize\<close> what qemu-img leaves in the file and whether it succeeds. \<open>ie_vms\<close> are the entries of the
  directory of machines, with the backing file of the disk (empty if qemu-img names none).\<close>

record vms_entry =
  ve_name :: string
  ve_is_dir :: bool
  ve_backing :: "string option"

record image_env =
  ie_home :: "string option"
  ie_cwd :: "string option"
  ie_vms :: "vms_entry list option"
  ie_mkdir :: bool
  ie_get :: "(nat \<times> stream) option"
  ie_create :: bool
  ie_write_fails :: "string option"
  ie_has_qemu :: bool
  ie_resize :: "string \<Rightarrow> string \<Rightarrow> string \<times> bool"
  ie_stat :: bool
  ie_rename :: bool
  ie_remove :: bool

datatype image_error = ImageExists string | ImageDirFailed | GetFailed | HttpStatus nat | CreateFailed
  | CopyFailed | ImageVerifyFailed | ImageRenameFailed | QemuImgMissing | ImageResizeFailed

section \<open>Paths\<close>

definition vm_expand_path :: "string option \<Rightarrow> string \<Rightarrow> string" where
  "vm_expand_path home p = (if has_prefix ''~/'' p
     then (case home of None \<Rightarrow> p | Some h \<Rightarrow> filepath_join h (drop 2 p)) else p)"

definition image_tmp :: "string \<Rightarrow> string" where
  "image_tmp output = filepath_join (filepath_dir output) (''.'' @ filepath_base output @ ''.tmp'')"

definition filepath_abs :: "string option \<Rightarrow> string \<Rightarrow> string option" where
  "filepath_abs cwd p = (if is_abs p then Some (filepath_clean p) else map_option (\<lambda>d. filepath_join d p) cwd)"

section \<open>Machines on an image\<close>

text \<open>\<open>checkExistingVMs\<close>: the names of the machines whose disk is backed by the image; the directory of
  machines is always the one below the home directory.\<close>

definition check_existing_vms :: "image_env \<Rightarrow> string \<Rightarrow> string list" where
  "check_existing_vms e image_path =
     (case (filepath_abs (ie_cwd e) image_path, ie_home e, ie_vms e) of
        (Some abs_image, Some h, Some entries) \<Rightarrow>
          map ve_name (filter (\<lambda>v. ve_is_dir v \<and> (case ve_backing v of None \<Rightarrow> False
            | Some b \<Rightarrow> b \<noteq> [] \<and> filepath_abs (ie_cwd e) b = Some abs_image)) entries)
      | _ \<Rightarrow> [])"

section \<open>Download and build\<close>

definition download_file :: "image_env \<Rightarrow> string \<Rightarrow> guest_fs \<Rightarrow> guest_fs \<times> image_error option" where
  "download_file e dst fs =
     (case ie_get e of None \<Rightarrow> (fs, Some GetFailed)
      | Some (code, body) \<Rightarrow>
        if code \<noteq> 200 then (fs, Some (HttpStatus code))
        else if \<not> ie_create e then (fs, Some CreateFailed)
        else (case ie_write_fails e of
            Some part \<Rightarrow> (fs_write dst part fs, Some CopyFailed)
          | None \<Rightarrow> (fs_write dst (concat (rd_chunks body)) fs, if rd_fails body then Some CopyFailed else None)))"

definition drop_tmp :: "image_env \<Rightarrow> string \<Rightarrow> guest_fs \<Rightarrow> guest_fs" where
  "drop_tmp e tmp fs = (if ie_remove e then fs_remove tmp fs else fs)"

text \<open>The end both commands share: the file is looked at and renamed.\<close>

definition finish_image :: "image_env \<Rightarrow> string \<Rightarrow> string \<Rightarrow> guest_fs \<Rightarrow> guest_fs \<times> image_error option" where
  "finish_image e tmp output fs =
     (if \<not> ie_stat e then (drop_tmp e tmp fs, Some ImageVerifyFailed)
      else if \<not> ie_rename e then (drop_tmp e tmp fs, Some ImageRenameFailed)
      else (fs_rename tmp output fs, None))"

definition run_image_download :: "image_env \<Rightarrow> string \<Rightarrow> guest_fs \<Rightarrow> guest_fs \<times> image_error option" where
  "run_image_download e output fs =
     (let tmp = image_tmp output
      in case download_file e tmp fs of
           (fs1, Some err) \<Rightarrow> (drop_tmp e tmp fs1, Some err)
         | (fs1, None) \<Rightarrow> finish_image e tmp output fs1)"

definition resize_image :: "image_env \<Rightarrow> string \<Rightarrow> string \<Rightarrow> guest_fs \<Rightarrow> guest_fs \<times> image_error option" where
  "resize_image e p new_size fs =
     (case fs p of None \<Rightarrow> (fs, Some ImageResizeFailed)
      | Some content \<Rightarrow> (case ie_resize e content new_size of
          (content', ok) \<Rightarrow> (fs_write p content' fs, if ok then None else Some ImageResizeFailed)))"

definition run_image_build :: "image_env \<Rightarrow> string \<Rightarrow> string \<Rightarrow> guest_fs \<Rightarrow> guest_fs \<times> image_error option" where
  "run_image_build e output new_size fs =
     (let tmp = image_tmp output
      in if \<not> ie_has_qemu e then (fs, Some QemuImgMissing)
         else (case download_file e tmp fs of
             (fs1, Some err) \<Rightarrow> (drop_tmp e tmp fs1, Some err)
           | (fs1, None) \<Rightarrow> (case resize_image e tmp new_size fs1 of
               (fs2, Some err) \<Rightarrow> (drop_tmp e tmp fs2, Some err)
             | (fs2, None) \<Rightarrow> finish_image e tmp output fs2)))"

section \<open>The commands\<close>

text \<open>An image that exists is replaced only with \<open>--force\<close>, with a warning for the machines on it.\<close>

definition with_output ::
    "image_env \<Rightarrow> string \<Rightarrow> bool \<Rightarrow> guest_fs \<Rightarrow> (string \<Rightarrow> guest_fs \<times> image_error option) \<Rightarrow>
     guest_fs \<times> string list \<times> image_error option" where
  "with_output e flag force fs rest =
     (let output = vm_expand_path (ie_home e) flag; found = fs output \<noteq> None;
          warned = (if found \<and> force then check_existing_vms e output else [])
      in if found \<and> \<not> force then (fs, [], Some (ImageExists output))
         else if \<not> ie_mkdir e then (fs, warned, Some ImageDirFailed)
         else (case rest output of (fs', err) \<Rightarrow> (fs', warned, err)))"

definition image_pull :: "image_env \<Rightarrow> string \<Rightarrow> bool \<Rightarrow> guest_fs \<Rightarrow> guest_fs \<times> string list \<times> image_error option" where
  "image_pull e flag force fs = with_output e flag force fs (\<lambda>output. run_image_download e output fs)"

definition image_build ::
    "image_env \<Rightarrow> string \<Rightarrow> bool \<Rightarrow> string \<Rightarrow> guest_fs \<Rightarrow> guest_fs \<times> string list \<times> image_error option" where
  "image_build e flag force new_size fs = with_output e flag force fs (\<lambda>output. run_image_build e output new_size fs)"

datatype image_command = ImagePull | ImageBuild string

definition run_image ::
    "image_env \<Rightarrow> image_command \<Rightarrow> string \<Rightarrow> bool \<Rightarrow> guest_fs \<Rightarrow> guest_fs \<times> string list \<times> image_error option" where
  "run_image e c flag force fs = (case c of ImagePull \<Rightarrow> image_pull e flag force fs
     | ImageBuild new_size \<Rightarrow> image_build e flag force new_size fs)"

section \<open>The temporary file\<close>

lemma base_of_last: "n \<noteq> [] \<Longrightarrow> CHR ''/'' \<notin> set n \<Longrightarrow> filepath_base (d @ CHR ''/'' # n) = n"
proof -
  assume n: "n \<noteq> []" "CHR ''/'' \<notin> set n"
  then have t: "takeWhile (\<lambda>c. c \<noteq> CHR ''/'') (rev n @ CHR ''/'' # rev d) = rev n"
    by (subst takeWhile_append2) auto
  have "dropWhile (\<lambda>c. c = CHR ''/'') (rev n @ CHR ''/'' # rev d) = rev n @ CHR ''/'' # rev d"
    using n by (cases n rule: rev_cases) auto
  then show ?thesis using t by (simp add: filepath_base_def)
qed

lemma dir_of_last: "CHR ''/'' \<notin> set n \<Longrightarrow> filepath_dir (d @ CHR ''/'' # n) = filepath_clean (d @ ''/'')"
proof -
  assume "CHR ''/'' \<notin> set n"
  then have "dropWhile (\<lambda>c. c \<noteq> CHR ''/'') (rev n @ CHR ''/'' # rev d) = CHR ''/'' # rev d"
    by (subst dropWhile_append2) auto
  then show ?thesis by (simp add: filepath_dir_def)
qed

lemma join_last:
  assumes "is_abs dir" "proper_comp n"
  obtains d where "filepath_join dir n = d @ CHR ''/'' # n" "is_abs (d @ ''/'')" "filepath_dir (filepath_join dir n) = filepath_clean (d @ ''/'')"
proof -
  let ?cs = "path_comps dir"
  let ?d = "if ?cs = [] then [] else CHR ''/'' # join ''/'' ?cs"
  have e: "filepath_join dir n = ?d @ CHR ''/'' # n"
    using assms by (simp add: filepath_join_proper join_snoc)
  show thesis
    by (rule that [OF e]) (simp_all add: is_abs_def e dir_of_last [OF proper_no_slash [OF assms(2)], symmetric] del: append_Cons)
qed

lemma image_tmp_fresh:
  assumes "is_abs dir" "proper_comp n"
  shows "image_tmp (filepath_join dir n) \<noteq> filepath_join dir n"
proof
  assume eq: "image_tmp (filepath_join dir n) = filepath_join dir n"
  obtain d where d: "filepath_join dir n = d @ CHR ''/'' # n" "is_abs (d @ ''/'')"
      "filepath_dir (filepath_join dir n) = filepath_clean (d @ ''/'')"
    using join_last [OF assms] .
  have b: "filepath_base (filepath_join dir n) = n"
    using d(1) base_of_last [OF proper_not_Nil proper_no_slash] assms(2) by simp
  have t: "proper_comp (''.'' @ n @ ''.tmp'')" using assms(2) by (auto simp: proper_comp_def)
  have "path_comps (image_tmp (filepath_join dir n)) = path_comps (d @ ''/'') @ [''.'' @ n @ ''.tmp'']"
    using path_comps_join_proper [OF _ t, of "filepath_clean (d @ ''/'')"] d(2,3) b path_comps_clean [OF d(2)]
    by (simp add: image_tmp_def)
  moreover have "path_comps (filepath_join dir n) = path_comps dir @ [n]" by (rule path_comps_join_proper [OF assms])
  ultimately have "''.'' @ n @ ''.tmp'' = n" using eq by (metis last_snoc)
  then show False using arg_cong [of _ _ length] by fastforce
qed

section \<open>Replacement of an image\<close>

text \<open>The image a command makes: the complete body of the answer, resized by a build.\<close>

definition made_image :: "image_env \<Rightarrow> image_command \<Rightarrow> string option" where
  "made_image e c = (case ie_get e of None \<Rightarrow> None
     | Some (code, body) \<Rightarrow>
       if code \<noteq> 200 \<or> rd_fails body then None
       else (case c of ImagePull \<Rightarrow> Some (concat (rd_chunks body))
         | ImageBuild new_size \<Rightarrow> (case ie_resize e (concat (rd_chunks body)) new_size of
             (content, ok) \<Rightarrow> if ok then Some content else None)))"

definition replaces :: "image_env \<Rightarrow> string \<Rightarrow> string \<Rightarrow> string option \<Rightarrow> guest_fs \<Rightarrow> guest_fs \<times> image_error option \<Rightarrow> bool" where
  "replaces e tmp output content fs r \<longleftrightarrow>
     (\<forall>p. p \<noteq> output \<longrightarrow> p \<noteq> tmp \<longrightarrow> fst r p = fs p) \<and>
     (snd r \<noteq> None \<longrightarrow> fst r output = fs output \<and> (ie_remove e \<longrightarrow> fst r tmp = None \<or> fst r = fs)) \<and>
     (snd r = None \<longrightarrow> content \<noteq> None \<and> fst r output = content \<and> fst r tmp = None)"

lemma download_file_result:
  assumes "download_file e dst fs = (fs1, err)"
  shows "\<forall>p. p \<noteq> dst \<longrightarrow> fs1 p = fs p" "err = None \<Longrightarrow> \<exists>body. ie_get e = Some (200, body) \<and> \<not> rd_fails body \<and> fs1 dst = Some (concat (rd_chunks body))"
  using assms by (auto simp: download_file_def fs_defs split: option.splits prod.splits if_splits)

lemma finish_image_replaces:
  assumes "tmp \<noteq> output" "\<forall>p. p \<noteq> tmp \<longrightarrow> fs1 p = fs p" "fs1 tmp = content" "content \<noteq> None"
  shows "replaces e tmp output content fs (finish_image e tmp output fs1)"
  using assms by (auto simp: replaces_def finish_image_def drop_tmp_def fs_defs)

lemma drop_tmp_replaces:
  assumes "tmp \<noteq> output" "\<forall>p. p \<noteq> tmp \<longrightarrow> fs1 p = fs p"
  shows "replaces e tmp output content fs (drop_tmp e tmp fs1, Some err)"
  using assms by (auto simp: replaces_def drop_tmp_def fs_defs)

lemma unchanged_replaces: "replaces e tmp output content fs (fs, Some err)"
  by (simp add: replaces_def)

lemma run_image_download_replaces:
  assumes "image_tmp output \<noteq> output"
  shows "replaces e (image_tmp output) output (made_image e ImagePull) fs (run_image_download e output fs)"
proof -
  obtain fs1 err where d: "download_file e (image_tmp output) fs = (fs1, err)" by (rule prod.exhaust)
  note r = download_file_result [OF d]
  show ?thesis
  proof (cases err)
    case None
    then obtain body where "ie_get e = Some (200, body)" "\<not> rd_fails body" "fs1 (image_tmp output) = Some (concat (rd_chunks body))"
      using r(2) by blast
    then have "fs1 (image_tmp output) = made_image e ImagePull" "made_image e ImagePull \<noteq> None" by (simp_all add: made_image_def)
    then show ?thesis
      using d None finish_image_replaces [OF assms r(1)] by (simp add: run_image_download_def Let_def)
  qed (use d drop_tmp_replaces [OF assms r(1)] in \<open>simp add: run_image_download_def Let_def\<close>)
qed

lemma run_image_build_replaces:
  assumes "image_tmp output \<noteq> output"
  shows "replaces e (image_tmp output) output (made_image e (ImageBuild new_size)) fs (run_image_build e output new_size fs)"
proof (cases "ie_has_qemu e")
  case q: True
  let ?tmp = "image_tmp output"
  obtain fs1 err where d: "download_file e ?tmp fs = (fs1, err)" by (rule prod.exhaust)
  note r = download_file_result [OF d]
  show ?thesis
  proof (cases err)
    case None
    then obtain body where b: "ie_get e = Some (200, body)" "\<not> rd_fails body" "fs1 ?tmp = Some (concat (rd_chunks body))"
      using r(2) by blast
    obtain content ok where z: "ie_resize e (concat (rd_chunks body)) new_size = (content, ok)" by (rule prod.exhaust)
    let ?fs2 = "fs_write ?tmp content fs1"
    have fs2: "resize_image e ?tmp new_size fs1 = (?fs2, if ok then None else Some ImageResizeFailed)"
      using b(3) z by (simp add: resize_image_def)
    have 2: "\<forall>p. p \<noteq> ?tmp \<longrightarrow> ?fs2 p = fs p" using r(1) by (simp add: fs_write_def)
    show ?thesis
    proof (cases ok)
      case True
      then have "?fs2 ?tmp = made_image e (ImageBuild new_size)" "made_image e (ImageBuild new_size) \<noteq> None"
        using b z by (simp_all add: made_image_def fs_write_def)
      then show ?thesis
        using q d None fs2 True finish_image_replaces [OF assms 2] by (simp add: run_image_build_def Let_def)
    qed (use q d None fs2 drop_tmp_replaces [OF assms 2] in \<open>simp add: run_image_build_def Let_def\<close>)
  qed (use q d drop_tmp_replaces [OF assms r(1)] in \<open>simp add: run_image_build_def Let_def\<close>)
qed (simp add: run_image_build_def unchanged_replaces Let_def)


definition demo_image_env :: image_env where
  "demo_image_env = \<lparr>ie_home = Some ''/root'', ie_cwd = Some ''/w'', ie_vms = None, ie_mkdir = True,
     ie_get = Some (200, \<lparr>rd_chunks = [''ab'', ''c''], rd_fails = False\<rparr>), ie_create = True, ie_write_fails = None,
     ie_has_qemu = True, ie_resize = (\<lambda>c z. (c @ z, True)), ie_stat = True, ie_rename = True, ie_remove = True\<rparr>"


end
