(* ===== verification/Api_State.thy ===== *)
theory Api_State
  imports Store Proxy Runtime_If Sizes
begin

text \<open>
  The state of the API server (internal/api/server.go), its responses, and the helpers its handlers
  share: the look-ups with their refusals, the calls to the runtime, and the upkeep of the proxy
  routes. A request body is the decoded JSON value, \<open>None\<close> when it does not decode.

  \<open>GetProject\<close>, \<open>GetApp\<close> and \<open>GetInstance\<close> return pointers into the maps of the store. A handler
  that writes to such an object changes the store's memory at once; the model does the write with
  \<open>put_project\<close>, \<open>put_app\<close> or, for what the runtime writes, \<open>sync_instance\<close>. One request is handled
  at a time.
\<close>

section \<open>State\<close>

record 'r server =
  srv_store :: store
  srv_has_rt :: bool
  srv_rt :: 'r
  srv_routes :: "route_table option"
  srv_registry :: "(string \<Rightarrow> bool) option"
  srv_key :: key_file

text \<open>The surroundings of one request; \<open>rq_save n\<close> is the outcome of its \<open>n\<close>-th write of the state.\<close>

record 'r api_env =
  rq_now :: timestamp
  rq_save :: "nat \<Rightarrow> save_env"
  rq_uuid :: string
  rq_ops :: "'r runtime"
  rq_ticks :: "('r \<Rightarrow> 'r) list"
  rq_registry_ok :: bool
  rq_env_allocated :: bool
  rq_key_rand :: "string option"
  rq_key_mkdir :: bool
  rq_key_write :: "key_file option"
  rq_sha256 :: "string \<Rightarrow> string"
  rq_gcm :: "string \<Rightarrow> aead option"
  rq_nonce :: "string \<Rightarrow> string option"

section \<open>Responses (response.go)\<close>

datatype api_error = NoRuntime | MsgProjectNotFound string | MsgInvalidJson | MsgEntity entity_error
  | MsgStore store_error | MsgInvalidMode execution_mode | MsgBinaryRequired | MsgPortsRequired
  | MsgAppExists string | MsgAppNotFound string | MsgNoImage string | MsgNoInstance string
  | MsgRuntime rt_error | MsgInvalidPolicy restart_policy | MsgNoChanges | MsgMustStop instance_state
  | MsgInvalidMemory size_error | MsgInvalidDisk size_error | MsgDiskGrow int int | MsgBinding entity_error
  | MsgStopTimeout | MsgEnvRequired | MsgKeysRequired | MsgNoEnv | MsgKeyring keyring_error
  | MsgVault vault_error | MsgHostnameRequired | MsgNodeExists string
  | MsgBadForm | MsgImageRefRequired | MsgFileRequired

datatype body = BError api_error | BStatus string | BProject project
  | BProjectFull project "proj_instance option" "app_spec list" | BProjects "project list"
  | BApp app_spec | BApps "app_spec list" | BLogs string | BEnv "string gomap" | BNode node
  | BNodes "node list" | BDesired "project list" "(string \<times> app_spec list) list"
  | BRoutes "route list" | BPushed string string | BNoContent

record response =
  rs_status :: nat
  rs_body :: body

definition reply :: "nat \<Rightarrow> body \<Rightarrow> response" where
  "reply code b = \<lparr>rs_status = code, rs_body = b\<rparr>"

definition write_error :: "nat \<Rightarrow> api_error \<Rightarrow> response" where
  "write_error code e = reply code (BError e)"

definition success :: "response \<Rightarrow> bool" where "success rs \<longleftrightarrow> rs_status rs < 400"

lemma success_simps [simp]: "success (reply n b) \<longleftrightarrow> n < 400" "success (write_error n e) \<longleftrightarrow> n < 400"
  by (simp_all add: success_def reply_def write_error_def)

section \<open>Refusals\<close>

text \<open>\<open>requireRuntime\<close>, and the look-ups every handler starts with.\<close>

definition require_runtime :: "'r server \<Rightarrow> ('r server \<times> response) \<Rightarrow> 'r server \<times> response" where
  "require_runtime s rest = (if srv_has_rt s then rest else (s, write_error 503 NoRuntime))"

definition with_project ::
    "string \<Rightarrow> 'r server \<Rightarrow> (string \<Rightarrow> project \<Rightarrow> 'r server \<times> response) \<Rightarrow> 'r server \<times> response" where
  "with_project x s rest = (case find_project x (srv_store s) of
      None \<Rightarrow> (s, write_error 404 (MsgProjectNotFound x)) | Some (k, p) \<Rightarrow> rest k p)"

definition with_app ::
    "project \<Rightarrow> string \<Rightarrow> 'r server \<Rightarrow> (app_spec \<Rightarrow> 'r server \<times> response) \<Rightarrow> 'r server \<times> response" where
  "with_app p name s rest = (case get_app (proj_id p) name (srv_store s) of
      None \<Rightarrow> (s, write_error 404 (MsgAppNotFound name)) | Some a \<Rightarrow> rest a)"

definition with_instance ::
    "string \<Rightarrow> project \<Rightarrow> 'r server \<Rightarrow> (proj_instance \<Rightarrow> 'r server \<times> response) \<Rightarrow> 'r server \<times> response" where
  "with_instance x p s rest = (case get_instance (proj_id p) (srv_store s) of
      None \<Rightarrow> (s, write_error 404 (MsgNoInstance x)) | Some i \<Rightarrow> rest i)"

definition with_body :: "'a option \<Rightarrow> 'r server \<Rightarrow> ('a \<Rightarrow> 'r server \<times> response) \<Rightarrow> 'r server \<times> response" where
  "with_body b s rest = (case b of None \<Rightarrow> (s, write_error 400 MsgInvalidJson) | Some x \<Rightarrow> rest x)"

definition check_none :: "api_error option \<Rightarrow> nat \<Rightarrow> 'r server \<Rightarrow> ('r server \<times> response) \<Rightarrow> 'r server \<times> response" where
  "check_none e code s rest = (case e of None \<Rightarrow> rest | Some m \<Rightarrow> (s, write_error code m))"

lemmas guard_defs = require_runtime_def with_project_def with_app_def with_instance_def with_body_def check_none_def

section \<open>Writes\<close>

definition on_store :: "(store \<Rightarrow> store \<times> 'a) \<Rightarrow> 'r server \<Rightarrow> 'r server \<times> 'a" where
  "on_store f s = (case f (srv_store s) of (st, a) \<Rightarrow> (s\<lparr>srv_store := st\<rparr>, a))"

definition put_project :: "string \<Rightarrow> project \<Rightarrow> 'r server \<Rightarrow> 'r server" where
  "put_project k p s = s\<lparr>srv_store := set_projects (gm_set k p (projects (srv_store s))) (srv_store s)\<rparr>"

definition put_app :: "string \<Rightarrow> string \<Rightarrow> app_spec \<Rightarrow> 'r server \<Rightarrow> 'r server" where
  "put_app pid name a s = s\<lparr>srv_store := (srv_store s)\<lparr>st_mem := (st_mem (srv_store s))
     \<lparr>ls_apps := gm_set pid (gm_set name a (get_project_apps pid (st_mem (srv_store s)))) (apps_of (srv_store s))\<rparr>\<rparr>\<rparr>"

definition put_instance :: "string \<Rightarrow> proj_instance \<Rightarrow> 'r server \<Rightarrow> 'r server" where
  "put_instance k i s = s\<lparr>srv_store := set_instances (gm_set k i (instances (srv_store s))) (srv_store s)\<rparr>"

text \<open>
  What the runtime wrote through the pointer it shares with the store: after \<open>LoadInstance\<close> both have
  the same object, and a call of the runtime may change it.
\<close>

definition shares :: "'r runtime \<Rightarrow> string \<Rightarrow> 'r server \<Rightarrow> bool" where
  "shares ops iid s \<longleftrightarrow> op_view ops iid (srv_rt s) = gm_get (instances (srv_store s)) iid"

definition sync_instance :: "'r runtime \<Rightarrow> string \<Rightarrow> 'r server \<Rightarrow> 'r server" where
  "sync_instance ops iid s = (case op_view ops iid (srv_rt s) of None \<Rightarrow> s | Some j \<Rightarrow> put_instance iid j s)"

definition rt_call :: "'r runtime \<Rightarrow> string \<Rightarrow> ('r \<Rightarrow> 'r \<times> 'a) \<Rightarrow> 'r server \<Rightarrow> 'r server \<times> 'a" where
  "rt_call ops iid f s = (case f (srv_rt s) of (r, a) \<Rightarrow>
     (let s' = s\<lparr>srv_rt := r\<rparr> in if shares ops iid s then sync_instance ops iid s' else s', a))"

definition rt_load :: "'r runtime \<Rightarrow> proj_instance \<Rightarrow> 'r server \<Rightarrow> 'r server" where
  "rt_load ops i s = s\<lparr>srv_rt := op_load ops i (srv_rt s)\<rparr>"

section \<open>Routes\<close>

definition app_route :: "app_spec \<Rightarrow> string \<Rightarrow> string" where
  "app_route a domain = get_hostname a @ ''.'' @ domain"

definition routable :: "project \<Rightarrow> app_spec \<Rightarrow> bool" where
  "routable p a \<longleftrightarrow> is_available a \<and> proj_domains p \<noteq> [] \<and> app_ports a \<noteq> []"

definition app_backend :: "string \<Rightarrow> app_spec \<Rightarrow> string" where
  "app_backend ip a = ip @ '':'' @ show_int (host_port (hd (app_ports a)))"

definition register_app_routes :: "project \<Rightarrow> app_spec \<Rightarrow> string \<Rightarrow> route_table \<Rightarrow> route_table" where
  "register_app_routes p a ip rt =
     (if \<not> routable p a then rt
      else fold (\<lambda>d. rt_set d (app_backend ip a)) (map (app_route a) (proj_domains p)) rt)"

definition remove_app_routes :: "project \<Rightarrow> app_spec \<Rightarrow> route_table \<Rightarrow> route_table" where
  "remove_app_routes p a rt = fold rt_delete (map (app_route a) (proj_domains p)) rt"

definition on_routes :: "(route_table \<Rightarrow> route_table) \<Rightarrow> 'r server \<Rightarrow> 'r server" where
  "on_routes f s = s\<lparr>srv_routes := map_option f (srv_routes s)\<rparr>"

text \<open>The address the routes of a project point at, if it has a running instance.\<close>

definition running_ip :: "string \<Rightarrow> store \<Rightarrow> string option" where
  "running_ip pid st = (case get_instance pid st of None \<Rightarrow> None
     | Some i \<Rightarrow> if inst_ip_address i = [] then None else Some (inst_ip_address i))"

definition register_all :: "project \<Rightarrow> app_spec list \<Rightarrow> string option \<Rightarrow> route_table \<Rightarrow> route_table" where
  "register_all p apps ip rt = (case ip of None \<Rightarrow> rt
     | Some a \<Rightarrow> fold (\<lambda>app. register_app_routes p app a) apps rt)"

definition reconcile_app_routes :: "project \<Rightarrow> app_spec \<Rightarrow> string \<Rightarrow> store \<Rightarrow> route_table \<Rightarrow> route_table" where
  "reconcile_app_routes p a old_hostname st rt =
     (if proj_domains p = [] then rt
      else register_all p [a] (running_ip (proj_id p) st)
        (fold rt_delete (map (\<lambda>d. old_hostname @ ''.'' @ d) (proj_domains p)) rt))"

definition reconcile_routes_on_domain_change ::
    "project \<Rightarrow> string list \<Rightarrow> store \<Rightarrow> route_table \<Rightarrow> route_table" where
  "reconcile_routes_on_domain_change p old_domains st rt =
     (let apps = get_apps (proj_id p) st
      in register_all p apps (running_ip (proj_id p) st)
           (fold (\<lambda>a. fold rt_delete (map (app_route a) old_domains)) apps rt))"

definition rebuild_project :: "store \<Rightarrow> project \<Rightarrow> route_table \<Rightarrow> route_table" where
  "rebuild_project st p rt =
     (if proj_domains p = [] then rt
      else register_all p (get_apps (proj_id p) st) (running_ip (proj_id p) st) rt)"

definition rebuild_routes :: "'r server \<Rightarrow> 'r server" where
  "rebuild_routes s = on_routes (fold (rebuild_project (srv_store s)) (list_projects (srv_store s))) s"

section \<open>Registry (internal/registry/registry.go)\<close>

text \<open>A registry keeps the blobs of each namespace below its root; what is stored there comes from
  outside. \<open>removable\<close> is the outcome of removing the tree.\<close>

definition cleanup_project :: "bool \<Rightarrow> string \<Rightarrow> (string \<Rightarrow> bool) \<Rightarrow> (string \<Rightarrow> bool) \<times> entity_error option" where
  "cleanup_project removable name reg =
     (case validate_project_name name of Some e \<Rightarrow> (reg, Some e)
      | None \<Rightarrow> (if removable then reg(''goship-'' @ name := False) else reg, None))"

end
