(* ===== verification/Api_Apps.thy ===== *)
theory Api_Apps
  imports Api_State
begin

text \<open>The handlers of the applications (internal/api/app_handlers.go).\<close>

record create_app_request =
  ca_name :: string
  ca_execution_mode :: execution_mode
  ca_image :: string
  ca_binary :: string
  ca_ports :: "port_mapping list"
  ca_env :: "string gomap"
  ca_resources :: resources
  ca_restart_policy :: restart_policy
  ca_replicas :: int
  ca_hostname :: string
  ca_available :: "bool option"

text \<open>The optional body of a deploy.\<close>

datatype deploy_body = NoBody | BadBody | ImageOverride string

record update_app_request =
  ua_image :: "string option"
  ua_binary :: "string option"
  ua_ports :: "port_mapping list option"
  ua_env :: "string gomap option"
  ua_description :: "string option"
  ua_tags :: "string list option"
  ua_restart_policy :: "restart_policy option"
  ua_cpu :: "float64 option"
  ua_memory_mb :: "int option"
  ua_hostname :: "string option"
  ua_available :: "bool option"

definition trim_newlines :: "string \<Rightarrow> string" where
  "trim_newlines s = rev (dropWhile (\<lambda>c. c = CHR 0x0A) (rev s))"

text \<open>The query parameter \<open>lines\<close>.\<close>

definition line_count :: "string \<Rightarrow> int" where
  "line_count q = (if q = [] then 100 else case parse_int64 q of Some n \<Rightarrow> if 0 < n then n else 100 | None \<Rightarrow> 100)"

definition handle_app_list :: "string \<Rightarrow> 'r server \<Rightarrow> 'r server \<times> response" where
  "handle_app_list x s = with_project x s (\<lambda>k p. (s, reply 200 (BApps (get_apps (proj_id p) (srv_store s)))))"

section \<open>Creation\<close>

definition effective_mode :: "execution_mode \<Rightarrow> execution_mode" where
  "effective_mode m = (if m = ModeUnset then ModeContainer else m)"

definition check_create_app :: "create_app_request \<Rightarrow> api_error option" where
  "check_create_app req =
     (let mode = effective_mode (ca_execution_mode req)
      in case validate_app_name (ca_name req) of Some e \<Rightarrow> Some (MsgEntity e)
         | None \<Rightarrow>
           if mode \<noteq> ModeContainer \<and> mode \<noteq> ModeProcess then Some (MsgInvalidMode mode)
           else if mode = ModeProcess \<and> ca_binary req = [] then Some MsgBinaryRequired
           else if mode = ModeContainer \<and> ca_ports req = [] then Some MsgPortsRequired else None)"

definition app_of_request :: "timestamp \<Rightarrow> create_app_request \<Rightarrow> app_spec" where
  "app_of_request now req = zero_app\<lparr>app_name := ca_name req,
     app_execution_mode := effective_mode (ca_execution_mode req), app_image := ca_image req,
     app_binary := ca_binary req, app_replicas := (if ca_replicas req = 0 then 1 else ca_replicas req),
     app_ports := ca_ports req, app_env := ca_env req, app_resources := ca_resources req,
     app_restart_policy := (if ca_restart_policy req = RestartUnset then RestartNever else ca_restart_policy req),
     app_hostname := ca_hostname req, app_available := ca_available req, app_created_at := now\<rparr>"

definition handle_app_create ::
    "'r api_env \<Rightarrow> string \<Rightarrow> create_app_request option \<Rightarrow> 'r server \<Rightarrow> 'r server \<times> response" where
  "handle_app_create q x b s = with_project x s (\<lambda>k p. with_body b s (\<lambda>req.
     check_none (check_create_app req) 400 s
     (if get_app (proj_id p) (ca_name req) (srv_store s) \<noteq> None
      then (s, write_error 409 (MsgAppExists (ca_name req)))
      else let a = app_of_request (rq_now q) req
           in case on_store (set_app (rq_now q) (rq_save q 0) (proj_id p) (Some a)) s of
                (s', Some e) \<Rightarrow> (s', write_error 500 (MsgStore e))
              | (s', None) \<Rightarrow> (s', reply 201 (BApp a)))))"

definition handle_app_get :: "string \<Rightarrow> string \<Rightarrow> 'r server \<Rightarrow> 'r server \<times> response" where
  "handle_app_get x name s = with_project x s (\<lambda>k p. with_app p name s (\<lambda>a. (s, reply 200 (BApp a))))"

section \<open>Deploying, stopping, deleting\<close>

text \<open>The image override is written to the stored application, then saved.\<close>

definition override_image ::
    "'r api_env \<Rightarrow> project \<Rightarrow> string \<Rightarrow> app_spec \<Rightarrow> deploy_body \<Rightarrow> 'r server \<Rightarrow>
     'r server \<times> ((nat \<times> api_error) + app_spec)" where
  "override_image q p name a b s =
     (case b of NoBody \<Rightarrow> (s, Inr a)
      | BadBody \<Rightarrow> (s, Inl (400, MsgInvalidJson))
      | ImageOverride img \<Rightarrow>
        if img = [] then (s, Inr a)
        else let a' = a\<lparr>app_image := img\<rparr>
             in case on_store (set_app (rq_now q) (rq_save q 0) (proj_id p) (Some a')) (put_app (proj_id p) name a' s) of
                  (s', Some e) \<Rightarrow> (s', Inl (500, MsgStore e))
                | (s', None) \<Rightarrow> (s', Inr a'))"

definition handle_app_deploy ::
    "'r api_env \<Rightarrow> string \<Rightarrow> string \<Rightarrow> deploy_body \<Rightarrow> 'r server \<Rightarrow> 'r server \<times> response" where
  "handle_app_deploy q x name b s =
     require_runtime s (with_project x s (\<lambda>k p. with_app p name s (\<lambda>a0.
       case override_image q p name a0 b s of
         (s1, Inl (code, e)) \<Rightarrow> (s1, write_error code e)
       | (s1, Inr a) \<Rightarrow>
         if is_container_mode a \<and> app_image a = [] then (s1, write_error 400 (MsgNoImage name))
         else with_instance x p s1 (\<lambda>i.
           (case rt_call (rq_ops q) (inst_id i) (op_deploy (rq_ops q) (inst_id i) a) (rt_load (rq_ops q) i s1) of
              (s2, Some e) \<Rightarrow> (s2, write_error 500 (MsgRuntime e))
            | (s2, None) \<Rightarrow> (on_routes (register_app_routes p a (inst_ip_address i)) s2, reply 200 (BApp a)))))))"

definition handle_app_stop :: "'r api_env \<Rightarrow> string \<Rightarrow> string \<Rightarrow> 'r server \<Rightarrow> 'r server \<times> response" where
  "handle_app_stop q x name s =
     require_runtime s (with_project x s (\<lambda>k p. with_app p name s (\<lambda>a. with_instance x p s (\<lambda>i.
       case rt_call (rq_ops q) (inst_id i) (op_stop_app (rq_ops q) (inst_id i) name) (rt_load (rq_ops q) i s) of
         (s1, Some e) \<Rightarrow> (s1, write_error 500 (MsgRuntime e))
       | (s1, None) \<Rightarrow> (on_routes (remove_app_routes p a) s1, reply 200 (BStatus ''stopped''))))))"

definition handle_app_delete :: "'r api_env \<Rightarrow> string \<Rightarrow> string \<Rightarrow> 'r server \<Rightarrow> 'r server \<times> response" where
  "handle_app_delete q x name s =
     require_runtime s (with_project x s (\<lambda>k p. with_app p name s (\<lambda>a.
       let s1 = on_routes (remove_app_routes p a) s;
           s2 = (case get_instance (proj_id p) (srv_store s1) of None \<Rightarrow> s1
             | Some i \<Rightarrow> fst (rt_call (rq_ops q) (inst_id i) (op_remove_app (rq_ops q) (inst_id i) name)
                 (rt_load (rq_ops q) i s1)))
       in case on_store (delete_app (rq_now q) (rq_save q 0) (proj_id p) name) s2 of
            (s3, Some e) \<Rightarrow> (s3, write_error 500 (MsgStore e))
          | (s3, None) \<Rightarrow> (s3, reply 200 (BStatus ''deleted'')))))"

definition handle_app_logs :: "'r api_env \<Rightarrow> string \<Rightarrow> string \<Rightarrow> string \<Rightarrow> 'r server \<Rightarrow> 'r server \<times> response" where
  "handle_app_logs q x name n s =
     require_runtime s (with_project x s (\<lambda>k p. with_app p name s (\<lambda>a. with_instance x p s (\<lambda>i.
       case rt_call (rq_ops q) (inst_id i) (op_app_logs (rq_ops q) (inst_id i) name (line_count n))
           (rt_load (rq_ops q) i s) of
         (s1, Inl e) \<Rightarrow> (s1, write_error 500 (MsgRuntime e))
       | (s1, Inr logs) \<Rightarrow> (s1, reply 200 (BLogs (trim_newlines logs)))))))"

section \<open>Updating\<close>

definition set_opt :: "('a \<Rightarrow> 'b \<Rightarrow> 'b) \<Rightarrow> 'a option \<Rightarrow> 'b \<Rightarrow> 'b" where
  "set_opt f o1 b = (case o1 of None \<Rightarrow> b | Some a \<Rightarrow> f a b)"

text \<open>The fields the handler writes before it looks at the restart policy, and those after.\<close>

definition apply_first :: "update_app_request \<Rightarrow> app_spec \<Rightarrow> app_spec" where
  "apply_first r a =
     set_opt (\<lambda>v a. a\<lparr>app_tags := v\<rparr>) (ua_tags r)
     (set_opt (\<lambda>v a. a\<lparr>app_description := v\<rparr>) (ua_description r)
     (set_opt (\<lambda>v a. a\<lparr>app_env := gm_copy (app_env a) v\<rparr>) (ua_env r)
     (set_opt (\<lambda>v a. a\<lparr>app_ports := v\<rparr>) (ua_ports r)
     (set_opt (\<lambda>v a. a\<lparr>app_binary := v\<rparr>) (ua_binary r)
     (set_opt (\<lambda>v a. a\<lparr>app_image := v\<rparr>) (ua_image r) a)))))"

definition valid_policy :: "restart_policy \<Rightarrow> bool" where
  "valid_policy rp \<longleftrightarrow> rp = RestartNever \<or> rp = RestartAlways \<or> rp = RestartOnFailure"

definition apply_second :: "update_app_request \<Rightarrow> app_spec \<Rightarrow> app_spec" where
  "apply_second r a =
     set_opt (\<lambda>v a. a\<lparr>app_available := Some v\<rparr>) (ua_available r)
     (set_opt (\<lambda>v a. a\<lparr>app_hostname := v\<rparr>) (ua_hostname r)
     (set_opt (\<lambda>v a. a\<lparr>app_resources := (app_resources a)\<lparr>res_memory_mb := v\<rparr>\<rparr>) (ua_memory_mb r)
     (set_opt (\<lambda>v a. a\<lparr>app_resources := (app_resources a)\<lparr>res_cpu := v\<rparr>\<rparr>) (ua_cpu r)
     (set_opt (\<lambda>v a. a\<lparr>app_restart_policy := v\<rparr>) (ua_restart_policy r) a))))"

definition has_changes :: "update_app_request \<Rightarrow> bool" where
  "has_changes r \<longleftrightarrow> ua_image r \<noteq> None \<or> ua_binary r \<noteq> None \<or> ua_ports r \<noteq> None \<or> ua_env r \<noteq> None \<or>
     ua_description r \<noteq> None \<or> ua_tags r \<noteq> None \<or> ua_restart_policy r \<noteq> None \<or> ua_cpu r \<noteq> None \<or>
     ua_memory_mb r \<noteq> None \<or> ua_hostname r \<noteq> None \<or> ua_available r \<noteq> None"

definition app_update_rest ::
    "'r api_env \<Rightarrow> project \<Rightarrow> string \<Rightarrow> update_app_request \<Rightarrow> app_spec \<Rightarrow> 'r server \<Rightarrow> 'r server \<times> response" where
  "app_update_rest q p name r a1 s1 =
     (let a = apply_second r a1; s2 = put_app (proj_id p) name a s1
      in if \<not> has_changes r then (s2, write_error 400 MsgNoChanges)
         else (case on_store (set_app (rq_now q) (rq_save q 0) (proj_id p) (Some a)) s2 of
             (s3, Some e) \<Rightarrow> (s3, write_error 500 (MsgStore e))
           | (s3, None) \<Rightarrow>
             ((if ua_hostname r \<noteq> None \<or> ua_available r \<noteq> None
               then on_routes (reconcile_app_routes p a (get_hostname a1) (srv_store s3)) s3 else s3),
              reply 200 (BApp a))))"

definition handle_app_update ::
    "'r api_env \<Rightarrow> string \<Rightarrow> string \<Rightarrow> update_app_request option \<Rightarrow> 'r server \<Rightarrow> 'r server \<times> response" where
  "handle_app_update q x name b s =
     with_project x s (\<lambda>k p. with_app p name s (\<lambda>a0. with_body b s (\<lambda>r.
       let a1 = apply_first r a0; s1 = put_app (proj_id p) name a1 s
       in case ua_restart_policy r of
            Some rp \<Rightarrow>
              if \<not> valid_policy rp then (s1, write_error 400 (MsgInvalidPolicy rp))
              else app_update_rest q p name r a1 s1
          | None \<Rightarrow> app_update_rest q p name r a1 s1)))"

end
