(* ===== verification/Api_Projects.thy ===== *)
theory Api_Projects
  imports Api_Apps
begin

text \<open>The handlers of the projects and their machines (internal/api/project_handlers.go).\<close>

record create_project_request =
  cp_name :: string
  cp_resources :: resources
  cp_domains :: "string list"
  cp_default_domain :: string

record update_project_request =
  up_cpu :: "float64 option"
  up_memory_mb :: "int option"
  up_memory :: "string option"
  up_disk_mb :: "int option"
  up_disk :: "string option"

record update_domains_request =
  ud_domains :: "string list"
  ud_default_domain :: string

text \<open>
  \<open>UpdateProject\<close> on the object the handler holds, which is the entry of the map; the object
  afterwards is what the map has under the project's identifier.
\<close>

definition save_project ::
    "'r api_env \<Rightarrow> nat \<Rightarrow> string \<Rightarrow> project \<Rightarrow> 'r server \<Rightarrow> 'r server \<times> project \<times> store_error option" where
  "save_project q n k p s =
     (case on_store (update_project (rq_now q) (rq_save q n) (Some p)) (put_project k p s) of
        (s', e) \<Rightarrow> (s', case gm_get (projects (srv_store s')) (proj_id p) of Some p' \<Rightarrow> p' | None \<Rightarrow> p, e))"

definition save_instance :: "'r api_env \<Rightarrow> nat \<Rightarrow> proj_instance \<Rightarrow> 'r server \<Rightarrow> 'r server" where
  "save_instance q n i s =
     fst (on_store (update_instance (rq_now q) (rq_save q n) (Some i)) (put_instance (inst_id i) i s))"

text \<open>The instance behind the handler's pointer, after the runtime wrote to it.\<close>

definition current_instance :: "proj_instance \<Rightarrow> 'r server \<Rightarrow> proj_instance" where
  "current_instance i s = (case gm_get (instances (srv_store s)) (inst_id i) of Some j \<Rightarrow> j | None \<Rightarrow> i)"

definition handle_project_list :: "'r server \<Rightarrow> 'r server \<times> response" where
  "handle_project_list s = (s, reply 200 (BProjects (list_projects (srv_store s))))"

definition handle_project_get :: "string \<Rightarrow> 'r server \<Rightarrow> 'r server \<times> response" where
  "handle_project_get x s = with_project x s (\<lambda>k p. (s, reply 200 (BProjectFull p
     (get_instance (proj_id p) (srv_store s)) (get_apps (proj_id p) (srv_store s)))))"

section \<open>Creation and deletion\<close>

definition default_domain :: "string list \<Rightarrow> string \<Rightarrow> string" where
  "default_domain domains dflt = (if dflt \<noteq> [] then dflt else case domains of [] \<Rightarrow> [] | d # _ \<Rightarrow> d)"

definition with_domains ::
    "'r api_env \<Rightarrow> create_project_request \<Rightarrow> project \<Rightarrow> 'r server \<Rightarrow> 'r server \<times> project" where
  "with_domains q req p s =
     (if cp_domains req = [] then (s, p)
      else let p1 = p\<lparr>proj_domains := cp_domains req,
                     proj_default_domain := default_domain (cp_domains req) (cp_default_domain req)\<rparr>
           in case save_project q 1 (proj_id p) p1 s of (s', p', _) \<Rightarrow> (s', p'))"

definition handle_project_create ::
    "'r api_env \<Rightarrow> create_project_request option \<Rightarrow> 'r server \<Rightarrow> 'r server \<times> response" where
  "handle_project_create q b s = require_runtime s (with_body b s (\<lambda>req.
     check_none (map_option MsgEntity (validate_project_name (cp_name req))) 400 s
     (case on_store (create_project (rq_now q) (rq_uuid q) (rq_save q 0) (cp_name req) RuntimeQEMU (cp_resources req)) s of
        (s1, Inl (ProjectExists n)) \<Rightarrow> (s1, write_error 409 (MsgStore (ProjectExists n)))
      | (s1, Inl e) \<Rightarrow> (s1, write_error 500 (MsgStore e))
      | (s1, Inr p0) \<Rightarrow>
        (case with_domains q req p0 s1 of (s2, p) \<Rightarrow>
          (case op_create (rq_ops q) p (srv_rt s2) of
             (r, Inl e) \<Rightarrow>
               (fst (on_store (delete_project (rq_now q) (rq_save q 2) (proj_id p)) (s2\<lparr>srv_rt := r\<rparr>)),
                write_error 500 (MsgRuntime e))
           | (r, Inr i) \<Rightarrow>
             (case save_project q 2 (proj_id p) (p\<lparr>proj_state := ProjRunning\<rparr>) (s2\<lparr>srv_rt := r\<rparr>) of
               (s3, p', _) \<Rightarrow>
                 (fst (on_store (set_instance (rq_now q) (rq_save q 3) (Some i)) s3),
                  reply 201 (BProjectFull p' (Some i) []))))))))"

text \<open>The machine of a project that is deleted; a failure of the runtime is only logged.\<close>

definition drop_instance :: "'r api_env \<Rightarrow> proj_instance \<Rightarrow> 'r server \<Rightarrow> 'r server" where
  "drop_instance q i s =
     fst (on_store (delete_instance (rq_now q) (rq_save q 0) (inst_id i))
       (fst (rt_call (rq_ops q) (inst_id i) (op_destroy (rq_ops q) (inst_id i)) (rt_load (rq_ops q) i s))))"

definition drop_registry :: "'r api_env \<Rightarrow> project \<Rightarrow> 'r server \<Rightarrow> 'r server" where
  "drop_registry q p s = s\<lparr>srv_registry := map_option (\<lambda>reg. fst (cleanup_project (rq_registry_ok q) (proj_name p) reg)) (srv_registry s)\<rparr>"

definition handle_project_delete :: "'r api_env \<Rightarrow> string \<Rightarrow> 'r server \<Rightarrow> 'r server \<times> response" where
  "handle_project_delete q x s = require_runtime s (with_project x s (\<lambda>k p.
     let oi = get_instance (proj_id p) (srv_store s)
     in check_none (case oi of None \<Rightarrow> None
          | Some i \<Rightarrow> map_option MsgBinding (validate_project_instance_binding (Some p) (Some i))) 409 s
        (let s1 = on_routes (fold (remove_app_routes p) (get_apps (proj_id p) (srv_store s))) s;
             s2 = (case oi of None \<Rightarrow> s1 | Some i \<Rightarrow> drop_instance q i s1);
             s3 = drop_registry q p s2
         in case on_store (delete_project (rq_now q) (rq_save q 1) (proj_id p)) s3 of
              (s4, Some e) \<Rightarrow> (s4, write_error 500 (MsgStore e))
            | (s4, None) \<Rightarrow> (s4, reply 200 (BStatus ''deleted'')))))"

section \<open>Stopping and starting\<close>

definition handle_project_stop :: "'r api_env \<Rightarrow> string \<Rightarrow> 'r server \<Rightarrow> 'r server \<times> response" where
  "handle_project_stop q x s = require_runtime s (with_project x s (\<lambda>k p. with_instance x p s (\<lambda>i.
     case rt_call (rq_ops q) (inst_id i) (op_stop (rq_ops q) (inst_id i)) (rt_load (rq_ops q) i s) of
       (s1, Some e) \<Rightarrow> (s1, write_error 500 (MsgRuntime e))
     | (s1, None) \<Rightarrow>
       (let s2 = save_instance q 0 ((current_instance i s1)\<lparr>inst_state := InstStopped\<rparr>) s1
        in (fst (save_project q 1 k (p\<lparr>proj_state := ProjStopped\<rparr>) s2), reply 200 (BStatus ''stopped''))))))"

text \<open>The end of a start: both objects are saved, failures of which are only logged.\<close>

definition started :: "'r api_env \<Rightarrow> string \<Rightarrow> project \<Rightarrow> proj_instance \<Rightarrow> 'r server \<Rightarrow> 'r server \<times> response" where
  "started q k p i s =
     (let s1 = save_instance q 0 (current_instance i s) s
      in case save_project q 1 k (p\<lparr>proj_state := ProjRunning\<rparr>) s1 of
           (s2, p', _) \<Rightarrow> (s2, reply 200 (BProjectFull p' (Some (current_instance i s2)) [])))"

definition start_and_reply ::
    "'r api_env \<Rightarrow> string \<Rightarrow> project \<Rightarrow> proj_instance \<Rightarrow> 'r server \<Rightarrow> 'r server \<times> response" where
  "start_and_reply q k p i s =
     (case rt_call (rq_ops q) (inst_id i) (op_start (rq_ops q) (inst_id i)) s of
        (s1, Some e) \<Rightarrow> (s1, write_error 500 (MsgRuntime e))
      | (s1, None) \<Rightarrow> started q k p i s1)"

definition handle_project_start :: "'r api_env \<Rightarrow> string \<Rightarrow> 'r server \<Rightarrow> 'r server \<times> response" where
  "handle_project_start q x s = require_runtime s (with_project x s (\<lambda>k p. with_instance x p s (\<lambda>i.
     start_and_reply q k p i (rt_load (rq_ops q) i s))))"

text \<open>The poll for the stopped state; its ticks end at the deadline of the context.\<close>

fun poll_stopped :: "'r runtime \<Rightarrow> string \<Rightarrow> ('r \<Rightarrow> 'r) list \<Rightarrow> 'r server \<Rightarrow> 'r server \<times> bool" where
  "poll_stopped ops iid [] s = (s, False)"
| "poll_stopped ops iid (t # ts) s =
     (case rt_call ops iid (op_status ops iid) (s\<lparr>srv_rt := t (srv_rt s)\<rparr>) of
        (s', Inl e) \<Rightarrow> poll_stopped ops iid ts s'
      | (s', Inr i) \<Rightarrow> if inst_state i = InstStopped then (s', True) else poll_stopped ops iid ts s')"

definition handle_project_restart :: "'r api_env \<Rightarrow> string \<Rightarrow> 'r server \<Rightarrow> 'r server \<times> response" where
  "handle_project_restart q x s = require_runtime s (with_project x s (\<lambda>k p. with_instance x p s (\<lambda>i.
     case rt_call (rq_ops q) (inst_id i) (op_stop (rq_ops q) (inst_id i)) (rt_load (rq_ops q) i s) of
       (s1, Some e) \<Rightarrow> (s1, write_error 500 (MsgRuntime e))
     | (s1, None) \<Rightarrow>
       (case poll_stopped (rq_ops q) (inst_id i) (rq_ticks q) s1 of
          (s2, False) \<Rightarrow> (s2, write_error 504 MsgStopTimeout)
        | (s2, True) \<Rightarrow> start_and_reply q k p i s2))))"

section \<open>Resources\<close>

text \<open>The fields one after the other: each is written to the stored project before the next is looked at.\<close>

definition update_cpu :: "update_project_request \<Rightarrow> resources \<Rightarrow> resources" where
  "update_cpu r c = set_opt (\<lambda>v c. c\<lparr>res_cpu := v\<rparr>) (up_cpu r) c"

definition update_memory :: "update_project_request \<Rightarrow> resources \<Rightarrow> api_error + resources" where
  "update_memory r c = (case up_memory_mb r of Some m \<Rightarrow> Inr (c\<lparr>res_memory_mb := m\<rparr>)
     | None \<Rightarrow> (case up_memory r of None \<Rightarrow> Inr c
         | Some text' \<Rightarrow> (case parse_size_mb text' of Inl e \<Rightarrow> Inl (MsgInvalidMemory e)
             | Inr m \<Rightarrow> Inr (c\<lparr>res_memory_mb := m\<rparr>))))"

definition grow_disk :: "int \<Rightarrow> resources \<Rightarrow> api_error + resources" where
  "grow_disk m c = (if m < res_disk_mb c then Inl (MsgDiskGrow (res_disk_mb c) m) else Inr (c\<lparr>res_disk_mb := m\<rparr>))"

definition update_disk :: "update_project_request \<Rightarrow> resources \<Rightarrow> api_error + resources" where
  "update_disk r c = (case up_disk_mb r of Some m \<Rightarrow> grow_disk m c
     | None \<Rightarrow> (case up_disk r of None \<Rightarrow> Inr c
         | Some text' \<Rightarrow> (case parse_size_mb text' of Inl e \<Rightarrow> Inl (MsgInvalidDisk e) | Inr m \<Rightarrow> grow_disk m c)))"

definition no_updates :: "update_project_request \<Rightarrow> bool" where
  "no_updates r \<longleftrightarrow> up_cpu r = None \<and> up_memory_mb r = None \<and> up_memory r = None \<and> up_disk_mb r = None \<and> up_disk r = None"

definition handle_project_update ::
    "'r api_env \<Rightarrow> string \<Rightarrow> update_project_request option \<Rightarrow> 'r server \<Rightarrow> 'r server \<times> response" where
  "handle_project_update q x b s = require_runtime s (with_project x s (\<lambda>k p. with_instance x p s (\<lambda>i.
     if inst_state i \<noteq> InstStopped then (s, write_error 409 (MsgMustStop (inst_state i)))
     else with_body b s (\<lambda>r.
       let put = (\<lambda>c. put_project k (p\<lparr>proj_resources := c\<rparr>) s); c1 = update_cpu r (proj_resources p)
       in case update_memory r c1 of Inl e \<Rightarrow> (put c1, write_error 400 e)
          | Inr c2 \<Rightarrow>
            (case update_disk r c2 of Inl e \<Rightarrow> (put c2, write_error 400 e)
             | Inr c3 \<Rightarrow>
               if no_updates r then (put c3, write_error 400 MsgNoChanges)
               else let p' = p\<lparr>proj_resources := c3\<rparr>
                    in (case rt_call (rq_ops q) (inst_id i) (op_resize (rq_ops q) (inst_id i) p')
                          (rt_load (rq_ops q) i (put c3)) of
                      (s1, Some e) \<Rightarrow> (s1, write_error 500 (MsgRuntime e))
                    | (s1, None) \<Rightarrow>
                      (case save_project q 0 k p' s1 of
                         (s2, _, Some e) \<Rightarrow> (s2, write_error 500 (MsgStore e))
                       | (s2, p'', None) \<Rightarrow> (s2, reply 200 (BProjectFull p'' (Some i) [])))))))))"

definition handle_project_logs ::
    "'r api_env \<Rightarrow> string \<Rightarrow> string \<Rightarrow> string \<Rightarrow> string \<Rightarrow> 'r server \<Rightarrow> 'r server \<times> response" where
  "handle_project_logs q x source n file s = require_runtime s (with_project x s (\<lambda>k p. with_instance x p s (\<lambda>i.
     case rt_call (rq_ops q) (inst_id i) (op_vm_logs (rq_ops q) (inst_id i) source file (line_count n))
         (rt_load (rq_ops q) i s) of
       (s1, Inl e) \<Rightarrow> (s1, write_error 500 (MsgRuntime e))
     | (s1, Inr logs) \<Rightarrow> (s1, reply 200 (BLogs (trim_newlines logs))))))"

section \<open>Domains\<close>

definition handle_domains_update ::
    "'r api_env \<Rightarrow> string \<Rightarrow> update_domains_request option \<Rightarrow> 'r server \<Rightarrow> 'r server \<times> response" where
  "handle_domains_update q x b s = with_project x s (\<lambda>k p. with_body b s (\<lambda>req.
     let p1 = p\<lparr>proj_domains := ud_domains req,
               proj_default_domain := default_domain (ud_domains req) (ud_default_domain req)\<rparr>
     in case save_project q 0 k p1 s of
          (s1, _, Some e) \<Rightarrow> (s1, write_error 500 (MsgStore e))
        | (s1, p2, None) \<Rightarrow>
          (on_routes (reconcile_routes_on_domain_change p2 (proj_domains p) (srv_store s1)) s1,
           reply 200 (BProject p2))))"

end
