(* ===== verification/Api_Misc.thy ===== *)
theory Api_Misc
  imports Api_Projects
begin

text \<open>
  The remaining handlers of the API server: environment variables and secrets (env_handlers.go),
  nodes (node_handlers.go), uploads (upload_handlers.go), and the listing of the proxy routes
  (server.go).
\<close>

section \<open>Environment variables\<close>

record set_env_request =
  se_env :: "string gomap"
  se_secret :: bool

text \<open>\<open>initVault\<close> reads or makes the master key of the data directory.\<close>

definition init_vault :: "'r api_env \<Rightarrow> 'r server \<Rightarrow> 'r server \<times> (api_error + aead)" where
  "init_vault q s =
     (case load_or_create_master_key (rq_key_rand q) (rq_key_mkdir q) (rq_key_write q) (srv_key s) of
        (f, Inl e) \<Rightarrow> (s\<lparr>srv_key := f\<rparr>, Inl (MsgKeyring e))
      | (f, Inr key) \<Rightarrow> (s\<lparr>srv_key := f\<rparr>, map_err MsgVault (new_vault (rq_sha256 q) (rq_gcm q) key)))"

definition encrypt_all :: "'r api_env \<Rightarrow> aead \<Rightarrow> string gomap \<Rightarrow> api_error + string gomap" where
  "encrypt_all q v env = collect (\<lambda>(k, val). case encrypt v (rq_nonce q k) val of
       Inl e \<Rightarrow> Inl (MsgVault e) | Inr c \<Rightarrow> Inr (k, c)) env"

definition sealed_env :: "'r api_env \<Rightarrow> set_env_request \<Rightarrow> 'r server \<Rightarrow> 'r server \<times> (api_error + string gomap)" where
  "sealed_env q req s =
     (if \<not> se_secret req then (s, Inr (se_env req))
      else (case init_vault q s of
          (s', Inl e) \<Rightarrow> (s', Inl e)
        | (s', Inr v) \<Rightarrow> (s', encrypt_all q v (se_env req))))"

definition handle_env_set ::
    "'r api_env \<Rightarrow> string \<Rightarrow> set_env_request option \<Rightarrow> 'r server \<Rightarrow> 'r server \<times> response" where
  "handle_env_set q x b s = with_project x s (\<lambda>k p. with_body b s (\<lambda>req.
     if se_env req = [] then (s, write_error 400 MsgEnvRequired)
     else (case sealed_env q req s of
         (s1, Inl e) \<Rightarrow> (s1, write_error 500 e)
       | (s1, Inr env) \<Rightarrow>
         (case save_project q 0 k (p\<lparr>proj_env := gm_copy (proj_env p) env\<rparr>) s1 of
            (s2, _, Some e) \<Rightarrow> (s2, write_error 500 (MsgStore e))
          | (s2, p', None) \<Rightarrow> (s2, reply 200 (BEnv (proj_env p')))))))"

text \<open>
  \<open>decryptEnv\<close>: the vault is opened at the first encrypted value. The error names the first value
  the loop cannot decrypt.
\<close>

definition open_vault :: "'r api_env \<Rightarrow> aead option \<Rightarrow> 'r server \<Rightarrow> 'r server \<times> (api_error + aead)" where
  "open_vault q ov s = (case ov of Some v \<Rightarrow> (s, Inr v) | None \<Rightarrow> init_vault q s)"

fun decrypt_values ::
    "'r api_env \<Rightarrow> aead option \<Rightarrow> string gomap \<Rightarrow> 'r server \<Rightarrow> 'r server \<times> (api_error + string gomap)" where
  "decrypt_values q ov [] s = (s, Inr [])"
| "decrypt_values q ov ((k, val) # env) s =
     (if \<not> is_encrypted val
      then (case decrypt_values q ov env s of
          (s', Inl e) \<Rightarrow> (s', Inl e) | (s', Inr m) \<Rightarrow> (s', Inr ((k, val) # m)))
      else (case open_vault q ov s of
          (s1, Inl e) \<Rightarrow> (s1, Inl e)
        | (s1, Inr v) \<Rightarrow>
          (case decrypt v val of Inl e \<Rightarrow> (s1, Inl (MsgVault e))
           | Inr plain \<Rightarrow>
             (case decrypt_values q (Some v) env s1 of
                (s', Inl e) \<Rightarrow> (s', Inl e) | (s', Inr m) \<Rightarrow> (s', Inr ((k, plain) # m))))))"

definition handle_env_list :: "'r api_env \<Rightarrow> string \<Rightarrow> string \<Rightarrow> 'r server \<Rightarrow> 'r server \<times> response" where
  "handle_env_list q x show_values s = with_project x s (\<lambda>k p.
     if show_values = ''true''
     then (case decrypt_values q None (proj_env p) s of
         (s', Inl e) \<Rightarrow> (s', write_error 500 e) | (s', Inr env) \<Rightarrow> (s', reply 200 (BEnv env)))
     else (s, reply 200 (BEnv (proj_env p))))"

text \<open>An empty map is nil unless a handler of this process made it; that is the argument
  \<open>rq_env_allocated\<close>.\<close>

definition handle_env_delete ::
    "'r api_env \<Rightarrow> string \<Rightarrow> string list option \<Rightarrow> 'r server \<Rightarrow> 'r server \<times> response" where
  "handle_env_delete q x b s = with_project x s (\<lambda>k p. with_body b s (\<lambda>keys.
     if keys = [] then (s, write_error 400 MsgKeysRequired)
     else if proj_env p = [] \<and> \<not> rq_env_allocated q then (s, write_error 404 MsgNoEnv)
     else (case save_project q 0 k (p\<lparr>proj_env := fold gm_del keys (proj_env p)\<rparr>) s of
         (s1, _, Some e) \<Rightarrow> (s1, write_error 500 (MsgStore e))
       | (s1, p', None) \<Rightarrow> (s1, reply 200 (BEnv (proj_env p'))))))"

section \<open>Nodes\<close>

record register_node_request =
  rn_hostname :: string
  rn_endpoint :: string
  rn_resources :: resources
  rn_labels :: "string gomap"

definition node_of_request :: "'r api_env \<Rightarrow> register_node_request \<Rightarrow> node" where
  "node_of_request q req = \<lparr>node_id = rq_uuid q, node_hostname = rn_hostname req, node_endpoint = rn_endpoint req,
     node_status = NodeOnline, node_resources = rn_resources req, node_labels = rn_labels req,
     node_last_heartbeat = rq_now q, node_created_at = rq_now q, node_updated_at = rq_now q\<rparr>"

definition handle_node_register ::
    "'r api_env \<Rightarrow> register_node_request option \<Rightarrow> 'r server \<Rightarrow> 'r server \<times> response" where
  "handle_node_register q b s = with_body b s (\<lambda>req.
     if rn_hostname req = [] then (s, write_error 400 MsgHostnameRequired)
     else if \<exists>n \<in> set (list_nodes (srv_store s)). node_hostname n = rn_hostname req
     then (s, write_error 409 (MsgNodeExists (rn_hostname req)))
     else (case on_store (set_node (rq_now q) (rq_save q 0) (node_of_request q req)) s of
         (s', Some e) \<Rightarrow> (s', write_error 500 (MsgStore e))
       | (s', None) \<Rightarrow> (s', reply 201 (BNode (node_of_request q req)))))"

definition handle_node_list :: "'r server \<Rightarrow> 'r server \<times> response" where
  "handle_node_list s = (s, reply 200 (BNodes (list_nodes (srv_store s))))"

definition with_node :: "string \<Rightarrow> 'r server \<Rightarrow> (node \<Rightarrow> 'r server \<times> response) \<Rightarrow> 'r server \<times> response" where
  "with_node x s rest = (case get_node x (srv_store s) of
      Inl e \<Rightarrow> (s, write_error 404 (MsgStore e)) | Inr n \<Rightarrow> rest n)"

definition handle_node_get :: "string \<Rightarrow> 'r server \<Rightarrow> 'r server \<times> response" where
  "handle_node_get x s = with_node x s (\<lambda>n. (s, reply 200 (BNode n)))"

definition handle_node_delete :: "'r api_env \<Rightarrow> string \<Rightarrow> 'r server \<Rightarrow> 'r server \<times> response" where
  "handle_node_delete q x s =
     (case on_store (delete_node (rq_now q) (rq_save q 0) x) s of
        (s', Some (NodeNotFound n)) \<Rightarrow> (s', write_error 404 (MsgStore (NodeNotFound n)))
      | (s', Some e) \<Rightarrow> (s', write_error 500 (MsgStore e))
      | (s', None) \<Rightarrow> (s', reply 204 BNoContent))"

definition save_node :: "'r api_env \<Rightarrow> node \<Rightarrow> 'r server \<Rightarrow> 'r server \<times> response" where
  "save_node q n s =
     (case on_store (set_node (rq_now q) (rq_save q 0) n) s of
        (s', Some e) \<Rightarrow> (s', write_error 500 (MsgStore e)) | (s', None) \<Rightarrow> (s', reply 200 (BNode n)))"

definition handle_node_heartbeat :: "'r api_env \<Rightarrow> string \<Rightarrow> 'r server \<Rightarrow> 'r server \<times> response" where
  "handle_node_heartbeat q x s = with_node x s (\<lambda>n.
     save_node q (n\<lparr>node_last_heartbeat := rq_now q, node_status := NodeOnline, node_updated_at := rq_now q\<rparr>) s)"

definition handle_node_drain :: "'r api_env \<Rightarrow> string \<Rightarrow> 'r server \<Rightarrow> 'r server \<times> response" where
  "handle_node_drain q x s = with_node x s (\<lambda>n.
     save_node q (n\<lparr>node_status := NodeDraining, node_updated_at := rq_now q\<rparr>) s)"

definition desired_apps :: "store \<Rightarrow> (string \<times> app_spec list) list" where
  "desired_apps st = fold (\<lambda>p. gm_set (proj_id p) (get_apps (proj_id p) st)) (list_projects st) []"

definition handle_node_desired_state :: "string \<Rightarrow> 'r server \<Rightarrow> 'r server \<times> response" where
  "handle_node_desired_state x s = with_node x s (\<lambda>n.
     (s, reply 200 (BDesired (list_projects (srv_store s)) (desired_apps (srv_store s)))))"

section \<open>Uploads\<close>

text \<open>The parsed form: a field of text, and the file with its length, if it is there.\<close>

record upload_form =
  uf_field :: string
  uf_file :: "(stream \<times> int) option"

definition handle_push_image ::
    "'r api_env \<Rightarrow> string \<Rightarrow> upload_form option \<Rightarrow> 'r server \<Rightarrow> 'r server \<times> response" where
  "handle_push_image q x form s = require_runtime s (with_project x s (\<lambda>k p. with_instance x p s (\<lambda>i.
     case form of None \<Rightarrow> (s, write_error 400 MsgBadForm)
     | Some f \<Rightarrow>
       if uf_field f = [] then (s, write_error 400 MsgImageRefRequired)
       else (case uf_file f of None \<Rightarrow> (s, write_error 400 MsgFileRequired)
         | Some (rd, len) \<Rightarrow>
           (case rt_call (rq_ops q) (inst_id i) (op_upload_image (rq_ops q) (inst_id i) (uf_field f) rd len [])
               (rt_load (rq_ops q) i s) of
              (s1, Some e) \<Rightarrow> (s1, write_error 500 (MsgRuntime e))
            | (s1, None) \<Rightarrow>
              (s1, reply 200 (BPushed (uf_field f) (hex_encode (rq_sha256 q (concat (rd_chunks rd)))))))))))"

text \<open>\<open>strconv.ParseBool\<close>, an error counting as false.\<close>

definition parse_bool :: "string \<Rightarrow> bool" where
  "parse_bool t \<longleftrightarrow> t \<in> set [''1'', ''t'', ''T'', ''true'', ''TRUE'', ''True'']"

definition restart_after_update ::
    "'r api_env \<Rightarrow> proj_instance \<Rightarrow> response \<Rightarrow> 'r server \<Rightarrow> 'r server \<times> response" where
  "restart_after_update q i done_reply s =
     (case rt_call (rq_ops q) (inst_id i) (op_stop (rq_ops q) (inst_id i)) s of
        (s1, Some e) \<Rightarrow> (s1, write_error 500 (MsgRuntime e))
      | (s1, None) \<Rightarrow>
        (case poll_stopped (rq_ops q) (inst_id i) (rq_ticks q) s1 of
           (s2, False) \<Rightarrow> (s2, write_error 504 MsgStopTimeout)
         | (s2, True) \<Rightarrow>
           (case rt_call (rq_ops q) (inst_id i) (op_start (rq_ops q) (inst_id i)) s2 of
              (s3, Some e) \<Rightarrow> (s3, write_error 500 (MsgRuntime e)) | (s3, None) \<Rightarrow> (s3, done_reply))))"

definition handle_update_init_api ::
    "'r api_env \<Rightarrow> string \<Rightarrow> upload_form option \<Rightarrow> 'r server \<Rightarrow> 'r server \<times> response" where
  "handle_update_init_api q x form s = require_runtime s (with_project x s (\<lambda>k p. with_instance x p s (\<lambda>i.
     case form of None \<Rightarrow> (s, write_error 400 MsgBadForm)
     | Some f \<Rightarrow>
       (case uf_file f of None \<Rightarrow> (s, write_error 400 MsgFileRequired)
        | Some (rd, len) \<Rightarrow>
          (case rt_call (rq_ops q) (inst_id i)
              (op_upload_binary (rq_ops q) (inst_id i) ''goship-init'' ''goship-init'' rd len []) (rt_load (rq_ops q) i s) of
             (s1, Some e) \<Rightarrow> (s1, write_error 500 (MsgRuntime e))
           | (s1, None) \<Rightarrow>
             (let ok = reply 200 (BPushed [] (hex_encode (rq_sha256 q (concat (rd_chunks rd)))))
              in if parse_bool (uf_field f) then restart_after_update q i ok s1 else (s1, ok)))))))"

section \<open>Proxy routes and health\<close>

definition handle_proxy_routes :: "'r server \<Rightarrow> 'r server \<times> response" where
  "handle_proxy_routes s = (s, reply 200 (BRoutes (case srv_routes s of None \<Rightarrow> [] | Some rt \<Rightarrow> rt_all rt)))"

definition handle_healthz :: "'r server \<Rightarrow> 'r server \<times> response" where
  "handle_healthz s = (s, reply 200 (BStatus ''ok''))"

end
