(* ===== verification/Api_Requests.thy ===== *)
theory Api_Requests
  imports Api_Misc
begin

text \<open>
  The requests of the API server as one data type, a constructor per registered route with its path
  values, query parameters and decoded body, and the handler each is dispatched to.
\<close>

datatype request = ReqHealthz
  | ReqProjectList | ReqProjectCreate "create_project_request option" | ReqProjectGet string
  | ReqProjectDelete string | ReqProjectStop string | ReqProjectStart string | ReqProjectRestart string
  | ReqProjectUpdate string "update_project_request option"
  | ReqProjectLogs string string string string
  | ReqEnvSet string "set_env_request option" | ReqEnvList string string
  | ReqEnvDelete string "string list option"
  | ReqDomainsUpdate string "update_domains_request option"
  | ReqPushImage string "upload_form option" | ReqUpdateInit string "upload_form option"
  | ReqProxyRoutes
  | ReqNodeRegister "register_node_request option" | ReqNodeList | ReqNodeGet string | ReqNodeDelete string
  | ReqNodeDrain string | ReqNodeHeartbeat string | ReqNodeDesired string
  | ReqAppUpdate string string "update_app_request option" | ReqAppList string
  | ReqAppCreate string "create_app_request option" | ReqAppGet string string
  | ReqAppDeploy string string deploy_body | ReqAppStop string string | ReqAppDelete string string
  | ReqAppLogs string string string

fun handle :: "'r api_env \<Rightarrow> request \<Rightarrow> 'r server \<Rightarrow> 'r server \<times> response" where
  "handle q ReqHealthz s = handle_healthz s"
| "handle q ReqProjectList s = handle_project_list s"
| "handle q (ReqProjectCreate b) s = handle_project_create q b s"
| "handle q (ReqProjectGet x) s = handle_project_get x s"
| "handle q (ReqProjectDelete x) s = handle_project_delete q x s"
| "handle q (ReqProjectStop x) s = handle_project_stop q x s"
| "handle q (ReqProjectStart x) s = handle_project_start q x s"
| "handle q (ReqProjectRestart x) s = handle_project_restart q x s"
| "handle q (ReqProjectUpdate x b) s = handle_project_update q x b s"
| "handle q (ReqProjectLogs x src n f) s = handle_project_logs q x src n f s"
| "handle q (ReqEnvSet x b) s = handle_env_set q x b s"
| "handle q (ReqEnvList x v) s = handle_env_list q x v s"
| "handle q (ReqEnvDelete x b) s = handle_env_delete q x b s"
| "handle q (ReqDomainsUpdate x b) s = handle_domains_update q x b s"
| "handle q (ReqPushImage x f) s = handle_push_image q x f s"
| "handle q (ReqUpdateInit x f) s = handle_update_init_api q x f s"
| "handle q ReqProxyRoutes s = handle_proxy_routes s"
| "handle q (ReqNodeRegister b) s = handle_node_register q b s"
| "handle q ReqNodeList s = handle_node_list s"
| "handle q (ReqNodeGet x) s = handle_node_get x s"
| "handle q (ReqNodeDelete x) s = handle_node_delete q x s"
| "handle q (ReqNodeDrain x) s = handle_node_drain q x s"
| "handle q (ReqNodeHeartbeat x) s = handle_node_heartbeat q x s"
| "handle q (ReqNodeDesired x) s = handle_node_desired_state x s"
| "handle q (ReqAppUpdate x n b) s = handle_app_update q x n b s"
| "handle q (ReqAppList x) s = handle_app_list x s"
| "handle q (ReqAppCreate x b) s = handle_app_create q x b s"
| "handle q (ReqAppGet x n) s = handle_app_get x n s"
| "handle q (ReqAppDeploy x n b) s = handle_app_deploy q x n b s"
| "handle q (ReqAppStop x n) s = handle_app_stop q x n s"
| "handle q (ReqAppDelete x n) s = handle_app_delete q x n s"
| "handle q (ReqAppLogs x n k) s = handle_app_logs q x n k s"

end
