(* ===== verification/Api_Inv.thy ===== *)
theory Api_Inv
  imports Api_Requests Store_Inv
begin

text \<open>
  The invariant of the API server and its preservation by every request, over any runtime that
  keeps the laws of \<open>project_runtime\<close>; and the durability of what a successful request changed.
\<close>

section \<open>The invariant\<close>

definition one_instance :: "proj_instance gomap \<Rightarrow> bool" where
  "one_instance im \<longleftrightarrow> (\<forall>k i k' i'. (k, i) \<in> set im \<longrightarrow> (k', i') \<in> set im \<longrightarrow>
     inst_project_id i = inst_project_id i' \<longrightarrow> k = k')"

definition hostnames_unique :: "node gomap \<Rightarrow> bool" where
  "hostnames_unique nm \<longleftrightarrow> distinct (map (\<lambda>e. node_hostname (snd e)) nm)"

definition api_wf :: "store \<Rightarrow> bool" where
  "api_wf st \<longleftrightarrow> state_wf (st_mem st) \<and> one_instance (instances st) \<and> hostnames_unique (nodes st)"

abbreviation srv_wf :: "'r server \<Rightarrow> bool" where "srv_wf s \<equiv> api_wf (srv_store s)"

lemma api_wfD:
  assumes "api_wf st"
  shows "state_wf (st_mem st)" "projects_wf (projects st)" "instances_wf (projects st) (instances st)"
    "apps_wf (apps_of st)" "nodes_wf (nodes st)" "one_instance (instances st)" "hostnames_unique (nodes st)"
  using assms by (simp_all add: api_wf_def state_wf_def)

lemma wf_instance:
  assumes "api_wf st" "gm_get (instances st) k = Some i"
  shows "inst_id i = k" "validate_instance_binding (projects st) (Some i) = None"
  using assms by (auto simp: api_wf_def state_wf_def instances_wf_def dest: map_of_SomeD)

lemma get_instance_Some:
  assumes "api_wf st" "get_instance pid st = Some i"
  shows "gm_get (instances st) (inst_id i) = Some i" "inst_project_id i = pid"
proof -
  obtain k where "find (\<lambda>(k, i). inst_project_id i = pid) (instances st) = Some (k, i)"
    using assms(2) by (auto simp: get_instance_def ls_get_instance_def)
  then have e: "(k, i) \<in> set (instances st)" "inst_project_id i = pid" using find_Some_mem by fast+
  then have "gm_get (instances st) k = Some i"
    using api_wfD(3) [OF assms(1)] by (simp add: instances_wf_def gm_ok_get)
  then show "gm_get (instances st) (inst_id i) = Some i" "inst_project_id i = pid"
    using wf_instance [OF assms(1)] e by auto
qed

lemma get_instance_None: "get_instance pid st = None \<Longrightarrow> (k, i) \<in> set (instances st) \<Longrightarrow> inst_project_id i \<noteq> pid"
  by (auto simp: get_instance_def ls_get_instance_def find_None_iff)

lemma find_project_wf:
  assumes "api_wf st" "find_project x st = Some (k, p)"
  shows "gm_get (projects st) k = Some p" "proj_id p = k" "plain_component (proj_name p)" "k \<noteq> []"
  using find_project_Some [OF api_wfD(2) [OF assms(1)] assms(2)] projects_wfD [OF api_wfD(2) [OF assms(1)]]
  by auto

lemma get_app_wf:
  assumes "api_wf st" "get_app pid name st = Some a"
  shows "app_name a = name" "plain_component name"
proof -
  have "app_map_wf (get_project_apps pid (st_mem st))"
    using api_wfD(4) [OF assms(1)] apps_wf_get by (auto simp: get_project_apps_def split: option.split)
  moreover have "(name, a) \<in> set (get_project_apps pid (st_mem st))"
    using assms(2) by (auto simp: get_app_def dest: map_of_SomeD)
  ultimately show "app_name a = name" "plain_component name" by (auto simp: app_map_wf_def)
qed

section \<open>Writes in memory\<close>

lemma srv_store_simps [simp]:
  "projects (srv_store (put_project k p s)) = gm_set k p (projects (srv_store s))"
  "instances (srv_store (put_project k p s)) = instances (srv_store s)"
  "nodes (srv_store (put_project k p s)) = nodes (srv_store s)"
  "apps_of (srv_store (put_project k p s)) = apps_of (srv_store s)"
  "projects (srv_store (put_instance iid i s)) = projects (srv_store s)"
  "instances (srv_store (put_instance iid i s)) = gm_set iid i (instances (srv_store s))"
  "nodes (srv_store (put_instance iid i s)) = nodes (srv_store s)"
  "apps_of (srv_store (put_instance iid i s)) = apps_of (srv_store s)"
  "projects (srv_store (put_app pid n a s)) = projects (srv_store s)"
  "instances (srv_store (put_app pid n a s)) = instances (srv_store s)"
  "nodes (srv_store (put_app pid n a s)) = nodes (srv_store s)"
  "srv_rt (put_project k p s) = srv_rt s" "srv_rt (put_instance iid i s) = srv_rt s"
  by (simp_all add: put_project_def put_instance_def put_app_def set_projects_def set_instances_def)

lemma put_project_wf:
  assumes "srv_wf s" "gm_get (projects (srv_store s)) k = Some p0"
    "proj_id p = proj_id p0" "proj_name p = proj_name p0"
  shows "srv_wf (put_project k p s)"
proof -
  have k: "proj_id p = k" using projects_wfD [OF api_wfD(2) [OF assms(1)] assms(2)] assms(3) by simp
  have 1: "projects_wf (gm_set k p (projects (srv_store s)))"
    using projects_wf_update [OF api_wfD(2) [OF assms(1)]] assms(2,4) k by blast
  have "instances_wf (gm_set k p (projects (srv_store s))) (instances (srv_store s))"
    by (rule instances_wf_transfer [OF api_wfD(3) [OF assms(1)]])
      (use assms api_wfD(3) [OF assms(1)] in \<open>auto simp: gomap_simps instances_wf_def\<close>)
  then show ?thesis
    using 1 assms(1) by (simp add: api_wf_def state_wf_def)
qed

lemma put_app_wf:
  assumes "srv_wf s" "get_app pid name (srv_store s) = Some a0" "app_name a = app_name a0"
  shows "srv_wf (put_app pid name a s)"
proof -
  note n = get_app_wf [OF assms(1,2)]
  have "app_map_wf (get_project_apps pid (st_mem (srv_store s)))"
    using api_wfD(4) [OF assms(1)] apps_wf_get by (auto simp: get_project_apps_def split: option.split)
  then have "app_map_wf (gm_set name a (get_project_apps pid (st_mem (srv_store s))))"
    using app_map_wf_set [of _ a] n assms(3) by simp
  then have "apps_wf (apps_of (srv_store (put_app pid name a s)))"
    using api_wfD(4) [OF assms(1)] by (simp add: put_app_def apps_wf_set)
  then show ?thesis
    using assms(1) by (simp add: api_wf_def state_wf_def)
qed

lemma one_instance_set:
  assumes "one_instance im" "gm_ok im" "gm_get im k = Some j" "inst_project_id i = inst_project_id j"
  shows "one_instance (gm_set k i im)"
proof -
  have j: "(k, j) \<in> set im" using assms(3) by (rule map_of_SomeD)
  show ?thesis
    unfolding one_instance_def gm_set_elem [OF assms(2)]
    using assms(1,4) j unfolding one_instance_def by metis
qed

lemma put_instance_wf:
  assumes "srv_wf s" "gm_get (instances (srv_store s)) k = Some j" "same_identity j i"
  shows "srv_wf (put_instance k i s)"
proof -
  note j = wf_instance [OF assms(1,2)]
  have "validate_instance_binding (projects (srv_store s)) (Some i) = None"
    using j(2) assms(3) by (auto simp: validate_instance_binding_def binding_None_iff same_identity_def split: option.splits)
  then have "instances_wf (projects (srv_store s)) (gm_set k i (instances (srv_store s)))"
    using instances_wf_set [OF api_wfD(3) [OF assms(1)], of i] j(1) assms(3) by (simp add: same_identity_def)
  moreover have "one_instance (gm_set k i (instances (srv_store s)))"
    by (rule one_instance_set [OF api_wfD(6) [OF assms(1)] _ assms(2)])
      (use api_wfD(3) [OF assms(1)] assms(3) in \<open>simp_all add: instances_wf_def same_identity_def\<close>)
  ultimately show ?thesis
    using assms(1) by (simp add: api_wf_def state_wf_def)
qed

section \<open>Operations of the store\<close>

text \<open>The result of an operation: the invariant holds, and a success is on disk.\<close>

definition kept_saved :: "store \<times> store_error option \<Rightarrow> bool" where
  "kept_saved r \<longleftrightarrow> api_wf (fst r) \<and> (snd r = None \<longrightarrow> synced (fst r))"

lemma kept_saved_exec:
  assumes "api_wf st" "op_fits op st"
    and "one_instance (instances (fst (exec_op op st)))" "hostnames_unique (nodes (fst (exec_op op st)))"
  shows "kept_saved (exec_op op st)"
  using exec_op_keeps [OF api_wfD(1) [OF assms(1)] assms(2)] assms(3,4)
  by (simp add: kept_saved_def saved_def api_wf_def)

lemma save_fields [simp]:
  "projects (fst (save now io st)) = projects st" "instances (fst (save now io st)) = instances st"
  "apps_of (fst (save now io st)) = apps_of st" "nodes (fst (save now io st)) = nodes st"
  by (cases io; simp add: save_def Let_def)+

lemma update_project_fields:
  "instances (fst (update_project now io po st)) = instances st"
  "nodes (fst (update_project now io po st)) = nodes st"
  "apps_of (fst (update_project now io po st)) = apps_of st"
  by (auto simp: update_project_def set_projects_def split: option.split)

lemma set_app_fields:
  "instances (fst (set_app now io pid a st)) = instances st" "nodes (fst (set_app now io pid a st)) = nodes st"
  "projects (fst (set_app now io pid a st)) = projects st"
  by (auto simp: set_app_def split: option.split)

lemma delete_app_fields:
  "instances (fst (delete_app now io pid a st)) = instances st" "nodes (fst (delete_app now io pid a st)) = nodes st"
  "projects (fst (delete_app now io pid a st)) = projects st"
  by (auto simp: delete_app_def)

lemma node_op_fields:
  "instances (fst (set_node now io n st)) = instances st" "instances (fst (delete_node now io x st)) = instances st"
  by (auto simp: set_node_def delete_node_def set_nodes_def split: option.split prod.split)

lemma set_app_kept: "api_wf st \<Longrightarrow> kept_saved (set_app now io pid a st)"
  using kept_saved_exec [of st "OpSetApp now io pid a"] by (simp add: set_app_fields api_wf_def)

lemma delete_app_kept: "api_wf st \<Longrightarrow> kept_saved (delete_app now io pid n st)"
  using kept_saved_exec [of st "OpDeleteApp now io pid n"] by (simp add: delete_app_fields api_wf_def)

lemma update_project_kept:
  assumes "api_wf st" "gm_get (projects st) (proj_id p) = Some q" "proj_name p = proj_name q"
  shows "kept_saved (update_project now io (Some p) st)"
  using kept_saved_exec [of st "OpUpdateProject now io (Some p)"] assms
  by (simp add: update_project_fields api_wf_def)

lemma one_instance_del: "one_instance im \<Longrightarrow> one_instance (gm_del k im)"
  unfolding one_instance_def gm_del_elem by metis

lemma delete_instance_kept: "api_wf st \<Longrightarrow> kept_saved (delete_instance now io iid st)"
  using kept_saved_exec [of st "OpDeleteInstance now io iid"]
  by (simp add: delete_instance_def set_instances_def api_wf_def one_instance_del)

lemma update_instance_kept:
  assumes "api_wf st" "gm_get (instances st) (inst_id i) = Some j" "inst_project_id i = inst_project_id j"
  shows "kept_saved (update_instance now io (Some i) st)"
proof -
  have "one_instance (gm_set (inst_id i) (i\<lparr>inst_updated_at := now\<rparr>) (instances st))"
    by (rule one_instance_set [OF api_wfD(6) [OF assms(1)] _ assms(2)])
      (use api_wfD(3) [OF assms(1)] assms(3) in \<open>simp_all add: instances_wf_def\<close>)
  then have "one_instance (instances (fst (update_instance now io (Some i) st)))"
    using api_wfD(6) [OF assms(1)]
    by (simp add: update_instance_def set_instances_def split: option.split)
  moreover have "nodes (fst (update_instance now io (Some i) st)) = nodes st"
    by (simp add: update_instance_def set_instances_def split: option.split)
  ultimately show ?thesis
    using kept_saved_exec [of st "OpUpdateInstance now io (Some i)"] assms(1) by (simp add: api_wf_def)
qed

lemma set_instance_kept:
  assumes "api_wf st" "\<forall>(k, j) \<in> set (instances st). inst_project_id j \<noteq> inst_project_id i"
  shows "kept_saved (set_instance now io (Some i) st)"
proof -
  have ok: "gm_ok (instances st)" using api_wfD(3) [OF assms(1)] by (simp add: instances_wf_def)
  have "one_instance (gm_set (inst_id i) i (instances st))"
    unfolding one_instance_def gm_set_elem [OF ok]
    using assms(2) api_wfD(6) [OF assms(1)] unfolding one_instance_def by fastforce
  then have "one_instance (instances (fst (set_instance now io (Some i) st)))"
    using api_wfD(6) [OF assms(1)] by (simp add: set_instance_def set_instances_def split: option.split)
  moreover have "nodes (fst (set_instance now io (Some i) st)) = nodes st"
    by (simp add: set_instance_def set_instances_def split: option.split)
  ultimately show ?thesis
    using kept_saved_exec [of st "OpSetInstance now io (Some i)"] assms(1) by (simp add: api_wf_def)
qed

lemma delete_project_kept:
  assumes "api_wf st" "\<forall>(k, i) \<in> set (instances st). inst_project_id i \<noteq> pid" "pid \<noteq> []"
    "gm_get (projects st) pid \<noteq> None \<or> (\<forall>(k, p) \<in> set (projects st). proj_name p \<noteq> pid)"
  shows "kept_saved (delete_project now io pid st)"
proof -
  have fits: "op_fits (OpDeleteProject now io pid) st"
    using assms(2,4) find_Some_mem [of "\<lambda>(k, p). proj_name p = pid" "projects st"]
    by (fastforce simp: find_project_def split: option.splits)
  have "instances (fst (delete_project now io pid st)) = instances st \<or>
      (\<exists>k. instances (fst (delete_project now io pid st)) = gm_del k (instances st))"
    by (simp add: delete_project_def Let_def) blast
  then have "one_instance (instances (fst (delete_project now io pid st)))"
    using api_wfD(6) [OF assms(1)] one_instance_del by metis
  moreover have "nodes (fst (delete_project now io pid st)) = nodes st"
    by (simp add: delete_project_def Let_def)
  ultimately show ?thesis
    using kept_saved_exec [OF assms(1) fits] assms(1) by (simp add: api_wf_def)
qed

lemma hostnames_set:
  assumes "gm_ok nm" "hostnames_unique nm" "\<forall>(k, m) \<in> set nm. k \<noteq> x \<longrightarrow> node_hostname m \<noteq> node_hostname n"
  shows "hostnames_unique (gm_set x n nm)"
  using assms
proof (induction nm)
  case (Cons e nm)
  obtain k m where e: "e = (k, m)" by (cases e)
  have *: "h \<in> set (map (\<lambda>e. node_hostname (snd e)) (gm_set x n nm)) \<Longrightarrow>
      h = node_hostname n \<or> h \<in> set (map (\<lambda>e. node_hostname (snd e)) nm)" for h
    using gm_set_cases [of _ _ x n nm] by fastforce
  show ?case
  proof (cases "k = x")
    case True
    then have "gm_set x n (e # nm) = (x, n) # nm" using e by simp
    moreover have "\<forall>(k', m') \<in> set nm. k' \<noteq> x"
      using Cons.prems(1) e True by (force simp: gm_ok_def)
    ultimately show ?thesis using Cons.prems e True by (fastforce simp: hostnames_unique_def)
  next
    case False
    have "hostnames_unique (gm_set x n nm)"
      by (rule Cons.IH) (use Cons.prems in \<open>auto simp: gm_ok_def hostnames_unique_def\<close>)
    moreover have "node_hostname m \<notin> set (map (\<lambda>e. node_hostname (snd e)) (gm_set x n nm))"
      using * [of "node_hostname m"] Cons.prems(2,3) e False by (auto simp: hostnames_unique_def)
    ultimately show ?thesis using e False by (simp add: hostnames_unique_def)
  qed
qed (simp add: hostnames_unique_def)

lemma hostnames_del: "hostnames_unique nm \<Longrightarrow> hostnames_unique (gm_del k nm)"
  by (induction nm) (auto simp: hostnames_unique_def)

lemma set_node_kept:
  assumes "api_wf st" "\<forall>(k, m) \<in> set (nodes st). k \<noteq> node_id n \<longrightarrow> node_hostname m \<noteq> node_hostname n"
  shows "kept_saved (set_node now io n st)"
proof -
  have ok: "gm_ok (nodes st)" using api_wfD(5) [OF assms(1)] by (simp add: nodes_wf_def)
  have "hostnames_unique (gm_set (node_id n) n (nodes st))"
    using hostnames_set [OF ok api_wfD(7) [OF assms(1)] assms(2)] .
  then have "hostnames_unique (nodes (fst (set_node now io n st)))"
    using api_wfD(7) [OF assms(1)] by (auto simp: set_node_def set_nodes_def split: option.split)
  then show ?thesis
    using kept_saved_exec [of st "OpSetNode now io n"] assms(1) by (simp add: node_op_fields api_wf_def)
qed

lemma delete_node_kept: "api_wf st \<Longrightarrow> kept_saved (delete_node now io x st)"
  using kept_saved_exec [of st "OpDeleteNode now io x"] hostnames_del
  by (auto simp: node_op_fields api_wf_def delete_node_def set_nodes_def split: option.split prod.split)

end
