(* ===== verification/Api_Keeps.thy ===== *)
theory Api_Keeps
  imports Api_Inv
begin

text \<open>
  Every handler keeps the invariant, and a handler that reports success leaves what it changed on
  disk. The handlers that call the runtime are treated in the locale \<open>project_runtime\<close>.
\<close>

section \<open>The judgement\<close>

definition fine :: "bool \<Rightarrow> 'r server \<Rightarrow> 'r server \<times> response \<Rightarrow> bool" where
  "fine c s r \<longleftrightarrow> srv_wf (fst r) \<and>
     (c \<longrightarrow> synced (srv_store s) \<longrightarrow> success (snd r) \<longrightarrow> synced (srv_store (fst r)))"

lemma fine_mono: "fine c s r \<Longrightarrow> (c' \<Longrightarrow> c) \<Longrightarrow> fine c' s r"
  by (auto simp: fine_def)

lemma fine_same: "srv_wf s \<Longrightarrow> srv_store s' = srv_store s \<Longrightarrow> fine c s (s', rs)"
  by (simp add: fine_def)

lemma fine_error: "srv_wf s' \<Longrightarrow> \<not> success rs \<Longrightarrow> fine c s (s', rs)"
  by (simp add: fine_def)

lemma fine_synced: "srv_wf s' \<Longrightarrow> synced (srv_store s') \<Longrightarrow> fine c s (s', rs)"
  by (simp add: fine_def)

lemma fine_require: "srv_wf s' \<Longrightarrow> fine c s r \<Longrightarrow> fine c s (require_runtime s' r)"
  by (simp add: require_runtime_def fine_error)

lemma fine_with_project: "srv_wf s' \<Longrightarrow> (\<And>k p. find_project x (srv_store s') = Some (k, p) \<Longrightarrow> fine c s (rest k p)) \<Longrightarrow>
    fine c s (with_project x s' rest)"
  by (auto simp: with_project_def fine_error split: option.split)

lemma fine_with_app: "srv_wf s' \<Longrightarrow> (\<And>a. get_app (proj_id p) n (srv_store s') = Some a \<Longrightarrow> fine c s (rest a)) \<Longrightarrow>
    fine c s (with_app p n s' rest)"
  by (auto simp: with_app_def fine_error split: option.split)

lemma fine_with_instance: "srv_wf s' \<Longrightarrow> (\<And>i. get_instance (proj_id p) (srv_store s') = Some i \<Longrightarrow> fine c s (rest i)) \<Longrightarrow>
    fine c s (with_instance x p s' rest)"
  by (auto simp: with_instance_def fine_error split: option.split)

lemma fine_with_body: "srv_wf s' \<Longrightarrow> (\<And>y. fine c s (rest y)) \<Longrightarrow> fine c s (with_body b s' rest)"
  by (auto simp: with_body_def fine_error split: option.split)

lemma fine_with_node: "srv_wf s' \<Longrightarrow> (\<And>n. get_node x (srv_store s') = Inr n \<Longrightarrow> fine c s (rest n)) \<Longrightarrow>
    fine c s (with_node x s' rest)"
  by (auto simp: with_node_def fine_error split: sum.split)

lemma fine_check_none: "srv_wf s' \<Longrightarrow> 400 \<le> n \<Longrightarrow> (e = None \<Longrightarrow> fine c s r) \<Longrightarrow> fine c s (check_none e n s' r)"
  by (auto simp: check_none_def fine_error split: option.split)

lemma fine_If: "(b \<Longrightarrow> fine c s x) \<Longrightarrow> (\<not> b \<Longrightarrow> fine c s y) \<Longrightarrow> fine c s (if b then x else y)"
  by simp

lemmas fine_guards = fine_require fine_with_project fine_with_app fine_with_instance fine_with_body fine_with_node

section \<open>Writes of the store\<close>

lemma on_store_kept:
  assumes "on_store f s = (s', e)" "kept_saved (f (srv_store s))"
  shows "srv_wf s'" "e = None \<Longrightarrow> synced (srv_store s')"
  using assms by (auto simp: on_store_def kept_saved_def split: prod.splits)

text \<open>The usual end of a handler: save, report an error of the store, or reply.\<close>

lemma fine_save:
  assumes "kept_saved (f (srv_store s1))" "400 \<le> n" "\<And>s'. srv_store (g s') = srv_store s'"
  shows "fine c s (case on_store f s1 of (s', Some e) \<Rightarrow> (s', write_error n (h e)) | (s', None) \<Rightarrow> (g s', rs))"
  using on_store_kept [of f s1, OF _ assms(1)] assms(2,3)
  by (auto simp: fine_def split: prod.split option.split)

lemma on_store_other [simp]:
  "srv_rt (fst (on_store f s)) = srv_rt s"
  "srv_store (fst (on_store f s)) = fst (f (srv_store s))"
  "snd (on_store f s) = snd (f (srv_store s))"
  by (simp_all add: on_store_def split: prod.split)

lemma fine_save_reply:
  "kept_saved (f (srv_store s1)) \<Longrightarrow> 400 \<le> n \<Longrightarrow>
     fine c s (case on_store f s1 of (s', Some e) \<Rightarrow> (s', write_error n (h e)) | (s', None) \<Rightarrow> (s', rs))"
  using fine_save [of f s1 n "\<lambda>s. s"] by simp

lemma save_project_same_binding:
  assumes wf: "srv_wf s" and k: "gm_get (projects (srv_store s)) k = Some p0"
    and p: "proj_id p = proj_id p0" "proj_name p = proj_name p0"
    and r: "save_project q n k p s = (s', p', e)"
  shows "srv_wf s'" "e = None \<Longrightarrow> synced (srv_store s')" "srv_rt s' = srv_rt s"
    "instances (srv_store s') = instances (srv_store s)"
    "\<exists>p1. gm_get (projects (srv_store s')) k = Some p1 \<and> p' = p1 \<and> proj_id p1 = proj_id p0 \<and> proj_name p1 = proj_name p0"
    "gm_get (projects (srv_store s')) k' \<noteq> None \<longleftrightarrow> gm_get (projects (srv_store s)) k' \<noteq> None"
    "rq_save q n = SaveOk \<Longrightarrow> e = None"
proof -
  let ?s = "put_project k p s"
  have pk: "proj_id p = k" "plain_component (proj_name p)"
    using projects_wfD [OF api_wfD(2) [OF wf] k] p by simp_all
  have g: "gm_get (projects (srv_store ?s)) (proj_id p) = Some p" by (simp add: gomap_simps pk)
  have kept: "kept_saved (update_project (rq_now q) (rq_save q n) (Some p) (srv_store ?s))"
    by (rule update_project_kept [OF put_project_wf [OF wf k p] g]) simp
  obtain e1 where o: "on_store (update_project (rq_now q) (rq_save q n) (Some p)) ?s = (s', e1)" "e = e1"
    using r by (auto simp: save_project_def split: prod.splits)
  show "srv_wf s'" "e = None \<Longrightarrow> synced (srv_store s')" using on_store_kept [OF o(1) kept] o(2) by auto
  have s': "srv_store s' = fst (update_project (rq_now q) (rq_save q n) (Some p) (srv_store ?s))"
    using on_store_other(2) [of "update_project (rq_now q) (rq_save q n) (Some p)" ?s] o by simp
  show "srv_rt s' = srv_rt s"
    using on_store_other(1) [of "update_project (rq_now q) (rq_save q n) (Some p)" ?s] o by simp
  show "instances (srv_store s') = instances (srv_store s)"
    by (simp add: s' update_project_fields)
  have ps: "projects (srv_store s') = gm_set k (p\<lparr>proj_updated_at := rq_now q\<rparr>) (projects (srv_store ?s))"
    using pk g by (simp add: s' update_project_def) (simp add: set_projects_def)
  show "\<exists>p1. gm_get (projects (srv_store s')) k = Some p1 \<and> p' = p1 \<and> proj_id p1 = proj_id p0 \<and> proj_name p1 = proj_name p0"
    using r p pk o by (auto simp: save_project_def ps gomap_simps)
  show "gm_get (projects (srv_store s')) k' \<noteq> None \<longleftrightarrow> gm_get (projects (srv_store s)) k' \<noteq> None"
    using k by (simp add: ps gomap_simps)
  assume "rq_save q n = SaveOk"
  then show "e = None"
    using o pk g on_store_other(3) [of "update_project (rq_now q) (rq_save q n) (Some p)" ?s]
    by (simp add: update_project_def save_def Let_def)
qed

lemma fine_save_project:
  assumes "srv_wf s1" "gm_get (projects (srv_store s1)) k = Some p0" "proj_id p = proj_id p0" "proj_name p = proj_name p0"
    "\<And>s' p'. srv_store (g s' p') = srv_store s'"
  shows "fine c s (case save_project q n k p s1 of (s', _, Some e) \<Rightarrow> (s', write_error 500 (h e))
     | (s', p', None) \<Rightarrow> (g s' p', rs p'))"
  using save_project_same_binding(1,2) [OF assms(1-4)] assms(5)
  by (cases "save_project q n k p s1"; cases "snd (snd (save_project q n k p s1))") (auto simp: fine_def)

section \<open>Handlers without the runtime\<close>

lemma srv_store_quiet [simp]:
  "srv_store (on_routes f s) = srv_store s" "srv_store (rt_load ops i s) = srv_store s"
  "srv_store (drop_registry q p s) = srv_store s" "srv_rt (on_routes f s) = srv_rt s"
  by (simp_all add: on_routes_def rt_load_def drop_registry_def)

lemma fine_reads:
  assumes "srv_wf s"
  shows "fine c s (handle_healthz s)" "fine c s (handle_project_list s)" "fine c s (handle_project_get x s)"
    "fine c s (handle_proxy_routes s)" "fine c s (handle_node_list s)" "fine c s (handle_node_get x s)"
    "fine c s (handle_node_desired_state x s)" "fine c s (handle_app_list x s)" "fine c s (handle_app_get x n s)"
  unfolding handle_healthz_def handle_project_list_def handle_project_get_def handle_proxy_routes_def
    handle_node_list_def handle_node_get_def handle_node_desired_state_def handle_app_list_def handle_app_get_def
  by (intro fine_guards assms fine_same refl)+

lemma fine_app_create: "srv_wf s \<Longrightarrow> fine c s (handle_app_create q x b s)"
  unfolding handle_app_create_def
  unfolding Let_def
  by (intro fine_guards fine_check_none fine_If fine_save_reply set_app_kept fine_same; (assumption | simp)?)

lemma apply_names [simp]: "app_name (apply_first r a) = app_name a" "app_name (apply_second r a) = app_name a"
  by (simp_all add: apply_first_def apply_second_def set_opt_def split: option.split)

lemma get_app_put: "get_app pid n (srv_store (put_app pid n a s)) = Some a"
  by (simp add: get_app_def put_app_def get_project_apps_def gomap_simps)

lemma fine_app_update_rest:
  assumes "srv_wf s1" "get_app (proj_id p) n (srv_store s1) = Some a0" "app_name a1 = app_name a0"
  shows "fine c s (app_update_rest q p n r a1 s1)"
proof -
  let ?a = "apply_second r a1"
  have wf: "srv_wf (put_app (proj_id p) n ?a s1)" by (rule put_app_wf [OF assms(1,2)]) (simp add: assms(3))
  show ?thesis
    using on_store_kept [of "set_app (rq_now q) (rq_save q 0) (proj_id p) (Some ?a)", OF _ set_app_kept [OF wf]] wf
    by (auto simp: app_update_rest_def Let_def fine_def split: prod.split option.split)
qed

lemma fine_app_update: "srv_wf s \<Longrightarrow> fine c s (handle_app_update q x n b s)"
  unfolding handle_app_update_def
  apply (intro fine_guards; (assumption | simp only: Let_def)?)
  subgoal for k p a r
    using put_app_wf [of s "proj_id p" n a "apply_first r a"]
    by (auto intro!: fine_app_update_rest fine_error simp: get_app_put split: option.split)
  done

lemma init_vault_store [simp]: "srv_store (fst (init_vault q s)) = srv_store s"
  by (simp add: init_vault_def split: prod.split sum.split)

lemma sealed_env_store [simp]: "srv_store (fst (sealed_env q req s)) = srv_store s"
  using init_vault_store [of q s]
  by (cases "init_vault q s"; cases "snd (init_vault q s)") (simp_all add: sealed_env_def)

lemma open_vault_store [simp]: "srv_store (fst (open_vault q ov s)) = srv_store s"
  by (simp add: open_vault_def split: option.split)

lemma decrypt_values_store: "srv_store (fst (decrypt_values q ov env s)) = srv_store s"
proof (induction q ov env s rule: decrypt_values.induct)
  case (2 q ov k val env s)
  then show ?case
    using open_vault_store [of q ov s]
    by (cases "open_vault q ov s") (auto split: prod.split sum.split)
qed simp

lemma fine_env_set:
  assumes wf: "srv_wf s"
  shows "fine c s (handle_env_set q x b s)"
  unfolding handle_env_set_def
proof (intro fine_guards fine_If fine_same wf refl)
  fix k p req
  assume p: "find_project x (srv_store s) = Some (k, p)"
  obtain s1 r where r: "sealed_env q req s = (s1, r)" by fastforce
  then have e: "srv_store s1 = srv_store s" using sealed_env_store [of q req s] by simp
  show "fine c s (case sealed_env q req s of (s1, Inl e) \<Rightarrow> (s1, write_error 500 e)
       | (s1, Inr env) \<Rightarrow>
         (case save_project q 0 k (p\<lparr>proj_env := gm_copy (proj_env p) env\<rparr>) s1 of
            (s2, _, Some e) \<Rightarrow> (s2, write_error 500 (MsgStore e))
          | (s2, p', None) \<Rightarrow> (s2, reply 200 (BEnv (proj_env p')))))"
  proof (cases r)
    case (Inl a) then show ?thesis using wf e r by (simp add: fine_error)
  next
    case (Inr env)
    have "fine c s (case save_project q 0 k (p\<lparr>proj_env := gm_copy (proj_env p) env\<rparr>) s1 of
            (s2, _, Some e) \<Rightarrow> (s2, write_error 500 (MsgStore e))
          | (s2, p', None) \<Rightarrow> (s2, reply 200 (BEnv (proj_env p'))))"
      by (rule fine_save_project [OF _ find_project_wf(1)]) (use wf e p in simp_all)
    then show ?thesis using Inr r by simp
  qed
qed

lemma fine_env_list:
  assumes wf: "srv_wf s"
  shows "fine c s (handle_env_list q x v s)"
  unfolding handle_env_list_def
proof (intro fine_guards fine_If fine_same wf refl)
  fix k p
  show "fine c s (case decrypt_values q None (proj_env p) s of
         (s', Inl e) \<Rightarrow> (s', write_error 500 e) | (s', Inr env) \<Rightarrow> (s', reply 200 (BEnv env)))"
    using decrypt_values_store [of q None "proj_env p" s] wf
    by (auto intro: fine_same split: prod.split sum.split)
qed

lemma fine_env_delete:
  assumes wf: "srv_wf s"
  shows "fine c s (handle_env_delete q x b s)"
  unfolding handle_env_delete_def
  by (intro fine_guards fine_If fine_same wf refl fine_save_project [OF wf find_project_wf(1) [OF wf]])
    simp_all

lemma fine_domains_update:
  assumes wf: "srv_wf s"
  shows "fine c s (handle_domains_update q x b s)"
  unfolding handle_domains_update_def Let_def
  by (intro fine_guards wf fine_save_project [OF wf find_project_wf(1) [OF wf]]) simp_all

lemma found_node_kept:
  assumes "api_wf st" "get_node x st = Inr n0" "node_id n = node_id n0" "node_hostname n = node_hostname n0"
  shows "kept_saved (set_node now io n st)"
proof -
  obtain k where k: "(k, n0) \<in> set (nodes st)"
    using assms(2) by (auto simp: get_node_def split: option.splits dest!: map_of_SomeD find_Some_mem)
  have wf: "nodes_wf (nodes st)" "hostnames_unique (nodes st)" using api_wfD(5,7) [OF assms(1)] .
  have "k = node_id n0" using wf(1) k by (auto simp: nodes_wf_def)
  moreover have "\<forall>(k', m) \<in> set (nodes st). node_hostname m = node_hostname n0 \<longrightarrow> (k', m) = (k, n0)"
    using wf(2) k unfolding hostnames_unique_def distinct_map inj_on_def by fastforce
  ultimately show ?thesis
    using assms(3,4) by (intro set_node_kept [OF assms(1)]) auto
qed

lemma fine_save_node:
  assumes "srv_wf s" "get_node x (srv_store s) = Inr n0" "node_id n = node_id n0" "node_hostname n = node_hostname n0"
  shows "fine c s (save_node q n s)"
  unfolding save_node_def
  using found_node_kept [OF assms, of "rq_now q" "rq_save q 0"] by (intro fine_save_reply) simp_all

lemma fine_nodes:
  assumes wf: "srv_wf s"
  shows "fine c s (handle_node_heartbeat q x s)" "fine c s (handle_node_drain q x s)"
    "fine c s (handle_node_delete q x s)" "fine c s (handle_node_register q b s)"
proof -
  show "fine c s (handle_node_heartbeat q x s)" "fine c s (handle_node_drain q x s)"
    unfolding handle_node_heartbeat_def handle_node_drain_def
    by (intro fine_guards wf fine_save_node; simp)+
  show "fine c s (handle_node_delete q x s)"
    using on_store_kept [of "delete_node (rq_now q) (rq_save q 0) x", OF _ delete_node_kept [OF wf]]
    by (auto simp: handle_node_delete_def fine_def split: prod.split option.split store_error.split)
  show "fine c s (handle_node_register q b s)"
    unfolding handle_node_register_def
  proof (intro fine_guards wf)
    fix req
    let ?n = "node_of_request q req"
    show "fine c s (if rn_hostname req = [] then (s, write_error 400 MsgHostnameRequired)
       else if \<exists>n \<in> set (list_nodes (srv_store s)). node_hostname n = rn_hostname req
       then (s, write_error 409 (MsgNodeExists (rn_hostname req)))
       else (case on_store (set_node (rq_now q) (rq_save q 0) ?n) s of
         (s', Some e) \<Rightarrow> (s', write_error 500 (MsgStore e)) | (s', None) \<Rightarrow> (s', reply 201 (BNode ?n))))"
    proof (cases "\<exists>n \<in> set (list_nodes (srv_store s)). node_hostname n = rn_hostname req")
      case False
      then have "kept_saved (set_node (rq_now q) (rq_save q 0) ?n (srv_store s))"
        by (intro set_node_kept [OF wf]) (auto simp: list_nodes_def node_of_request_def)
      then show ?thesis
        using False by (intro fine_If fine_same wf refl fine_save_reply) auto
    qed (simp add: fine_error wf)
  qed
qed

end
