(* ===== verification/Api_Lifecycle.thy ===== *)
theory Api_Lifecycle
  imports Api_Keeps
begin

text \<open>
  The handlers that call the runtime. What they need of it is stated by the locale
  \<open>project_runtime\<close>: an operation never changes the identity of an instance it shares with the
  store, and most leave what they share alone.
\<close>

section \<open>Calls of the runtime\<close>

text \<open>Calls that change at most the contents of instances.\<close>

definition touched :: "'r server \<Rightarrow> 'r server \<Rightarrow> bool" where
  "touched s s' \<longleftrightarrow> srv_wf s' \<and> projects (srv_store s') = projects (srv_store s) \<and>
     (\<forall>k i. gm_get (instances (srv_store s)) k = Some i \<longrightarrow>
        (\<exists>j. gm_get (instances (srv_store s')) k = Some j \<and> same_identity i j))"

lemma touched_same: "srv_wf s \<Longrightarrow> srv_store s' = srv_store s \<Longrightarrow> touched s s'"
  by (auto simp: touched_def)

lemma touched_trans:
  assumes "touched s s'" "touched s' s''"
  shows "touched s s''"
  unfolding touched_def
proof (intro conjI allI impI)
  fix k i assume "gm_get (instances (srv_store s)) k = Some i"
  then obtain j where j: "gm_get (instances (srv_store s')) k = Some j" "same_identity i j"
    using assms(1) by (auto simp: touched_def)
  then obtain l where "gm_get (instances (srv_store s'')) k = Some l" "same_identity j l"
    using assms(2) by (auto simp: touched_def)
  then show "\<exists>j. gm_get (instances (srv_store s'')) k = Some j \<and> same_identity i j"
    using same_identity_trans [OF j(2)] by auto
qed (use assms in \<open>simp_all add: touched_def\<close>)

lemma touchedD:
  assumes "touched s s'" "gm_get (instances (srv_store s)) (inst_id i) = Some i"
  shows "srv_wf s'" "projects (srv_store s') = projects (srv_store s)"
    "gm_get (instances (srv_store s')) (inst_id i) = Some (current_instance i s')"
    "same_identity i (current_instance i s')"
proof -
  obtain j where j: "gm_get (instances (srv_store s')) (inst_id i) = Some j" "same_identity i j"
    using assms unfolding touched_def by blast
  then show "gm_get (instances (srv_store s')) (inst_id i) = Some (current_instance i s')"
    "same_identity i (current_instance i s')" by (simp_all add: current_instance_def)
qed (use assms in \<open>simp_all add: touched_def\<close>)

lemma touched_store: "srv_store s1 = srv_store s \<Longrightarrow> touched s1 s' = touched s s'"
  by (simp add: touched_def)

lemma put_same_instance: "gm_get (instances (srv_store s)) k = Some i \<Longrightarrow> srv_store (put_instance k i s) = srv_store s"
  by (simp add: put_instance_def set_instances_def gm_set_same)

lemma rt_call_store:
  "srv_store (fst (rt_call ops iid f s)) =
     (if shares ops iid s then srv_store (sync_instance ops iid (s\<lparr>srv_rt := fst (f (srv_rt s))\<rparr>)) else srv_store s)"
  by (cases "f (srv_rt s)") (simp add: rt_call_def Let_def)

lemma rt_call_quiet:
  assumes "op_view ops iid (fst (f (srv_rt s))) = op_view ops iid (srv_rt s)"
  shows "srv_store (fst (rt_call ops iid f s)) = srv_store s"
proof (cases "op_view ops iid (srv_rt s)")
  case None
  then show ?thesis using assms by (simp add: rt_call_store sync_instance_def)
next
  case (Some i)
  then show ?thesis
    using assms put_same_instance [of "s\<lparr>srv_rt := fst (f (srv_rt s))\<rparr>" iid i]
    by (cases "gm_get (instances (srv_store s)) iid") (auto simp: rt_call_store sync_instance_def shares_def)
qed

lemma rt_call_touched:
  assumes wf: "srv_wf s" and kept: "view_kept (\<lambda>x. op_view ops x (srv_rt s)) (\<lambda>x. op_view ops x (fst (f (srv_rt s))))"
  shows "touched s (fst (rt_call ops iid f s))"
proof (cases "shares ops iid s \<and> op_view ops iid (fst (f (srv_rt s))) \<noteq> None")
  case True
  let ?s = "s\<lparr>srv_rt := fst (f (srv_rt s))\<rparr>"
  obtain j where j: "op_view ops iid (fst (f (srv_rt s))) = Some j" using True by auto
  then obtain i where i: "op_view ops iid (srv_rt s) = Some i" "same_identity i j"
    using kept by (auto simp: view_kept_def)
  have r: "fst (rt_call ops iid f s) = put_instance iid j ?s"
    using True j by (cases "f (srv_rt s)") (simp add: rt_call_def sync_instance_def)
  have g: "gm_get (instances (srv_store ?s)) iid = Some i" using True i by (simp add: shares_def)
  have "srv_wf (put_instance iid j ?s)"
    by (rule put_instance_wf [OF _ g i(2)]) (simp add: wf)
  then show ?thesis
    using g i(2) by (auto simp: r touched_def gomap_simps)
next
  case False
  then have "srv_store (fst (rt_call ops iid f s)) = srv_store s"
    by (cases "f (srv_rt s)") (auto simp: rt_call_def sync_instance_def Let_def)
  then show ?thesis using wf by (simp add: touched_same)
qed

section \<open>Saving after a call\<close>

lemma save_instance_touched:
  assumes "srv_wf s" "gm_get (instances (srv_store s)) (inst_id i) = Some j" "same_identity j i"
  shows "touched s (save_instance q n i s)"
proof -
  let ?s = "put_instance (inst_id i) i s"
  have wf: "srv_wf ?s" by (rule put_instance_wf [OF assms])
  have g: "gm_get (instances (srv_store ?s)) (inst_id i) = Some i" by (simp add: gomap_simps)
  have kept: "kept_saved (update_instance (rq_now q) (rq_save q n) (Some i) (srv_store ?s))"
    by (rule update_instance_kept [OF wf g]) simp
  have "projects (srv_store (save_instance q n i s)) = projects (srv_store s)"
    by (auto simp: save_instance_def update_instance_def set_instances_def split: option.split)
  moreover have "\<exists>j. gm_get (instances (srv_store (save_instance q n i s))) k = Some j \<and> same_identity i' j"
    if "gm_get (instances (srv_store s)) k = Some i'" for k i'
    using that assms(2,3)
    by (auto simp: save_instance_def update_instance_def set_instances_def gomap_simps same_identity_def split: option.split)
  ultimately show ?thesis
    using kept by (simp add: touched_def kept_saved_def save_instance_def)
qed

text \<open>The project is saved last; its outcome is ignored, so the file is current if the save works.\<close>

lemma fine_save_last:
  assumes "srv_wf s1" "gm_get (projects (srv_store s1)) k = Some p0" "proj_id p = proj_id p0" "proj_name p = proj_name p0"
  shows "fine (\<forall>n. rq_save q n = SaveOk) s (case save_project q n k p s1 of (s', p', e) \<Rightarrow> (s', rs s' p'))"
proof -
  obtain s' p' e where r: "save_project q n k p s1 = (s', p', e)" by (cases "save_project q n k p s1")
  show ?thesis
    using save_project_same_binding(1,2,7) [OF assms r] by (simp add: fine_def r)
qed

lemma fine_started:
  assumes wf: "srv_wf s1" and i: "gm_get (instances (srv_store s1)) (inst_id i) = Some (current_instance i s1)"
    "same_identity i (current_instance i s1)"
    and k: "gm_get (projects (srv_store s1)) k = Some p"
  shows "fine (\<forall>n. rq_save q n = SaveOk) s (started q k p i s1)"
proof -
  let ?s = "save_instance q 0 (current_instance i s1) s1"
  have t: "touched s1 ?s"
    using save_instance_touched [OF wf, of "current_instance i s1"] i by (simp add: same_identity_def)
  have "fine (\<forall>n. rq_save q n = SaveOk) s (case save_project q 1 k (p\<lparr>proj_state := ProjRunning\<rparr>) ?s of (s', p', e) \<Rightarrow>
      (s', reply 200 (BProjectFull p' (Some (current_instance i s')) [])))"
    by (rule fine_save_last [where ?p0.0 = p]) (use t k in \<open>simp_all add: touched_def\<close>)
  then show ?thesis by (simp add: started_def Let_def)
qed

section \<open>The handlers\<close>

context project_runtime
begin

lemma start_and_reply_fine:
  assumes ops: "rq_ops q = ops" and t: "touched s s1" and i: "gm_get (instances (srv_store s)) (inst_id i) = Some i"
    and k: "gm_get (projects (srv_store s)) k = Some p"
  shows "fine (\<forall>n. rq_save q n = SaveOk) s' (start_and_reply q k p i s1)"
proof -
  obtain s2 r where c: "rt_call (rq_ops q) (inst_id i) (op_start (rq_ops q) (inst_id i)) s1 = (s2, r)" by fastforce
  have "touched s s2"
    using rt_call_touched [OF touchedD(1) [OF t i], of ops "op_start ops (inst_id i)" "inst_id i"] start c ops
      touched_trans [OF t] by simp
  note d = touchedD [OF this i]
  show ?thesis
    using d fine_started [OF d(1,3,4), of k p] k by (simp add: start_and_reply_def c fine_error split: option.split)
qed

lemma poll_stopped_touched:
  assumes "srv_wf s"
  shows "touched s (fst (poll_stopped ops iid ts s))"
  using assms
proof (induction ts arbitrary: s)
  case (Cons t ts)
  let ?s = "s\<lparr>srv_rt := t (srv_rt s)\<rparr>"
  obtain s1 r where c: "rt_call ops iid (op_status ops iid) ?s = (s1, r)" by fastforce
  have "touched ?s s1"
    using rt_call_touched [of ?s ops "op_status ops iid" iid] status c Cons.prems by simp
  then have t: "touched s s1" by (simp add: touched_def)
  then have "touched s (fst (poll_stopped ops iid ts s1))"
    using touched_trans [OF t Cons.IH [of s1]] by (simp add: touched_def)
  then show ?case using t c by (auto split: sum.split)
qed (simp add: touched_same)

text \<open>The call with which a handler on an instance starts.\<close>

lemma first_call:
  assumes wf: "srv_wf s" and p: "find_project x (srv_store s) = Some (k, p)"
    and i: "get_instance (proj_id p) (srv_store s) = Some i"
    and f: "\<And>r. view_kept (\<lambda>y. op_view ops y r) (\<lambda>y. op_view ops y (fst (f r)))"
    and c: "rt_call ops (inst_id i) f (rt_load ops i s) = (s1, r)"
  shows "touched s s1" "gm_get (instances (srv_store s)) (inst_id i) = Some i" "gm_get (projects (srv_store s)) k = Some p"
  using rt_call_touched [of "rt_load ops i s" ops f "inst_id i"] f c wf get_instance_Some [OF wf i]
    find_project_wf [OF wf p] by (simp_all add: touched_store [of "rt_load ops i s" s])

lemma fine_stop:
  assumes wf: "srv_wf s" and ops: "rq_ops q = ops"
  shows "fine (\<forall>n. rq_save q n = SaveOk) s (handle_project_stop q x s)"
  unfolding handle_project_stop_def ops
proof (intro fine_guards wf)
  fix k p i
  assume p: "find_project x (srv_store s) = Some (k, p)" and i: "get_instance (proj_id p) (srv_store s) = Some i"
  obtain s1 r where c: "rt_call ops (inst_id i) (op_stop ops (inst_id i)) (rt_load ops i s) = (s1, r)" by fastforce
  note f = first_call [OF wf p i stop c]
  note d = touchedD [OF f(1,2)]
  let ?s2 = "save_instance q 0 ((current_instance i s1)\<lparr>inst_state := InstStopped\<rparr>) s1"
  have "touched s1 ?s2"
    using save_instance_touched [OF d(1), of "(current_instance i s1)\<lparr>inst_state := InstStopped\<rparr>"] d(3,4)
    by (simp add: same_identity_def)
  then have "fine (\<forall>n. rq_save q n = SaveOk) s (case save_project q 1 k (p\<lparr>proj_state := ProjStopped\<rparr>) ?s2 of
      (s', p', e) \<Rightarrow> (s', reply 200 (BStatus ''stopped'')))"
    by (intro fine_save_last [where ?p0.0 = p]) (use f(3) d(2) in \<open>simp_all add: touched_def\<close>)
  then show "fine (\<forall>n. rq_save q n = SaveOk) s
     (case rt_call ops (inst_id i) (op_stop ops (inst_id i)) (rt_load ops i s) of
       (s1, Some e) \<Rightarrow> (s1, write_error 500 (MsgRuntime e))
     | (s1, None) \<Rightarrow>
       (let s2 = save_instance q 0 ((current_instance i s1)\<lparr>inst_state := InstStopped\<rparr>) s1
        in (fst (save_project q 1 k (p\<lparr>proj_state := ProjStopped\<rparr>) s2), reply 200 (BStatus ''stopped''))))"
    by (cases r; cases "save_project q 1 k (p\<lparr>proj_state := ProjStopped\<rparr>) ?s2")
      (simp_all add: c fine_error d(1))
qed

lemma fine_start:
  assumes wf: "srv_wf s" and ops: "rq_ops q = ops"
  shows "fine (\<forall>n. rq_save q n = SaveOk) s (handle_project_start q x s)"
  unfolding handle_project_start_def ops
proof (intro fine_guards wf)
  fix k p i
  assume p: "find_project x (srv_store s) = Some (k, p)" and i: "get_instance (proj_id p) (srv_store s) = Some i"
  show "fine (\<forall>n. rq_save q n = SaveOk) s (start_and_reply q k p i (rt_load ops i s))"
    by (rule start_and_reply_fine [OF ops touched_same [OF wf] get_instance_Some(1) [OF wf i] find_project_wf(1) [OF wf p]])
      simp
qed

lemma fine_restart:
  assumes wf: "srv_wf s" and ops: "rq_ops q = ops"
  shows "fine (\<forall>n. rq_save q n = SaveOk) s (handle_project_restart q x s)"
  unfolding handle_project_restart_def ops
proof (intro fine_guards wf)
  fix k p i
  assume p: "find_project x (srv_store s) = Some (k, p)" and i: "get_instance (proj_id p) (srv_store s) = Some i"
  obtain s1 r where c: "rt_call ops (inst_id i) (op_stop ops (inst_id i)) (rt_load ops i s) = (s1, r)" by fastforce
  obtain s2 b where b: "poll_stopped ops (inst_id i) (rq_ticks q) s1 = (s2, b)" by fastforce
  note f = first_call [OF wf p i stop c]
  have t: "touched s s2"
    using touched_trans [OF f(1)] poll_stopped_touched [OF touchedD(1) [OF f(1,2)]] b by (metis fst_conv)
  show "fine (\<forall>n. rq_save q n = SaveOk) s
     (case rt_call ops (inst_id i) (op_stop ops (inst_id i)) (rt_load ops i s) of
       (s1, Some e) \<Rightarrow> (s1, write_error 500 (MsgRuntime e))
     | (s1, None) \<Rightarrow>
       (case poll_stopped ops (inst_id i) (rq_ticks q) s1 of
          (s2, False) \<Rightarrow> (s2, write_error 504 MsgStopTimeout)
        | (s2, True) \<Rightarrow> start_and_reply q k p i s2))"
    using start_and_reply_fine [OF ops t f(2,3)] touchedD(1) [OF f(1,2)] touchedD(1) [OF t f(2)]
    by (cases r; cases b) (simp_all add: c b fine_error)
qed

end

end
