(* ===== verification/Api_Spec.thy ===== *)
theory Api_Spec
  imports Api_Lifecycle Libvirt_Spec
begin

text \<open>
  The remaining handlers that call the runtime, and the properties of the API server as a whole, with
  the libvirt runtime behind it.
\<close>

section \<open>Handlers that leave the instance alone\<close>

context project_runtime
begin

lemma quiet_call:
  assumes "\<And>r. op_view ops (inst_id i) (fst (f r)) = op_view ops (inst_id i) r"
    and "rt_call ops (inst_id i) f s = (s1, r)"
  shows "srv_store s1 = srv_store s"
  using rt_call_quiet [where iid = "inst_id i" and f = f and s = s, OF assms(1)] assms(2) by simp

lemma fine_call:
  assumes "\<And>r. op_view ops (inst_id i) (fst (f r)) = op_view ops (inst_id i) r"
    and "\<And>s' r. srv_store s' = srv_store s1 \<Longrightarrow> fine c s (rest s' r)"
  shows "fine c s (case rt_call ops (inst_id i) f s1 of (s', r) \<Rightarrow> rest s' r)"
proof -
  obtain s' r where c: "rt_call ops (inst_id i) f s1 = (s', r)" by fastforce
  show ?thesis using assms(2) [OF quiet_call [OF assms(1) c]] by (simp add: c)
qed

lemma fine_app_calls:
  assumes wf: "srv_wf s" and ops: "rq_ops q = ops"
  shows "fine c s (handle_app_stop q x n s)" "fine c s (handle_app_logs q x n t s)"
    "fine c s (handle_project_logs q x src t file s)" "fine c s (handle_push_image q x form s)"
proof -
  show "fine c s (handle_app_stop q x n s)"
    unfolding handle_app_stop_def ops
    by (intro fine_guards wf fine_call stop_app) (auto split: option.split intro: fine_same wf)
  show "fine c s (handle_app_logs q x n t s)"
    unfolding handle_app_logs_def ops
    by (intro fine_guards wf fine_call app_logs) (auto split: sum.split intro: fine_same wf)
  show "fine c s (handle_project_logs q x src t file s)"
    unfolding handle_project_logs_def ops
    by (intro fine_guards wf fine_call vm_logs) (auto split: sum.split intro: fine_same wf)
  show "fine c s (handle_push_image q x form s)"
    unfolding handle_push_image_def ops
    by (intro fine_guards wf)
      (auto split: option.split intro!: fine_same wf fine_If fine_call upload_image)
qed

lemma override_image_kept:
  assumes wf: "srv_wf s" and a: "get_app (proj_id p) n (srv_store s) = Some a"
    and r: "override_image q p n a b s = (s1, r)"
  shows "srv_wf s1" "\<not> is_ok r \<or> srv_store s1 = srv_store s \<or> synced (srv_store s1)"
proof -
  have "srv_wf s1 \<and> (\<not> is_ok r \<or> srv_store s1 = srv_store s \<or> synced (srv_store s1))"
  proof (cases "\<exists>img. b = ImageOverride img \<and> img \<noteq> []")
    case True
    then obtain img where b: "b = ImageOverride img" "img \<noteq> []" by blast
    let ?a = "a\<lparr>app_image := img\<rparr>"
    have wf': "srv_wf (put_app (proj_id p) n ?a s)" by (rule put_app_wf [OF wf a]) simp
    obtain s' e where o: "on_store (set_app (rq_now q) (rq_save q 0) (proj_id p) (Some ?a)) (put_app (proj_id p) n ?a s) = (s', e)"
      by fastforce
    note k = on_store_kept [OF o set_app_kept [OF wf']]
    show ?thesis using r b o k by (cases e) (auto simp: override_image_def)
  next
    case False
    then show ?thesis using r wf by (cases b) (auto simp: override_image_def)
  qed
  then show "srv_wf s1" "\<not> is_ok r \<or> srv_store s1 = srv_store s \<or> synced (srv_store s1)" by auto
qed

lemma fine_deploy:
  assumes wf: "srv_wf s" and ops: "rq_ops q = ops"
  shows "fine c s (handle_app_deploy q x n b s)"
  unfolding handle_app_deploy_def ops
proof (intro fine_guards wf)
  fix k and p :: project and a0
  assume a: "get_app (proj_id p) n (srv_store s) = Some a0"
  obtain s1 r where o: "override_image q p n a0 b s = (s1, r)" by fastforce
  note k = override_image_kept [OF wf a o]
  show "fine c s (case override_image q p n a0 b s of
         (s1, Inl (code, e)) \<Rightarrow> (s1, write_error code e)
       | (s1, Inr a) \<Rightarrow>
         if is_container_mode a \<and> app_image a = [] then (s1, write_error 400 (MsgNoImage n))
         else with_instance x p s1 (\<lambda>i.
           (case rt_call ops (inst_id i) (op_deploy ops (inst_id i) a) (rt_load ops i s1) of
              (s2, Some e) \<Rightarrow> (s2, write_error 500 (MsgRuntime e))
            | (s2, None) \<Rightarrow> (on_routes (register_app_routes p a (inst_ip_address i)) s2, reply 200 (BApp a)))))"
  proof (cases r)
    case (Inl ce)
    obtain code e where ce: "ce = (code, e)" by fastforce
    have "400 \<le> code"
      using o Inl ce by (auto simp: override_image_def Let_def split: deploy_body.splits if_splits prod.splits option.splits)
    then show ?thesis using o Inl ce k(1) by (simp add: fine_error)
  next
    case (Inr a1)
    have "fine c s (s', rs)" if "srv_store s' = srv_store s1" for s' rs
      using k Inr that by (auto simp: fine_def)
    then have "fine c s (with_instance x p s1 (\<lambda>i.
           (case rt_call ops (inst_id i) (op_deploy ops (inst_id i) a1) (rt_load ops i s1) of
              (s2, Some e) \<Rightarrow> (s2, write_error 500 (MsgRuntime e))
            | (s2, None) \<Rightarrow> (on_routes (register_app_routes p a1 (inst_ip_address i)) s2, reply 200 (BApp a1)))))"
      by (intro fine_with_instance k(1) fine_call deploy) (auto split: option.split)
    then show ?thesis using o Inr k(1) by (simp add: fine_error)
  qed
qed

lemma fine_app_delete:
  assumes wf: "srv_wf s" and ops: "rq_ops q = ops"
  shows "fine c s (handle_app_delete q x n s)"
  unfolding handle_app_delete_def ops Let_def
proof (intro fine_guards wf fine_save_reply)
  fix k p a
  let ?s1 = "on_routes (remove_app_routes p a) s"
  let ?s2 = "case get_instance (proj_id p) (srv_store ?s1) of None \<Rightarrow> ?s1
     | Some i \<Rightarrow> fst (rt_call ops (inst_id i) (op_remove_app ops (inst_id i) n) (rt_load ops i ?s1))"
  have "srv_store ?s2 = srv_store s"
    using rt_call_quiet [of ops _ "op_remove_app ops _ n", OF remove_app] by (simp split: option.split)
  then show "kept_saved (delete_app (rq_now q) (rq_save q 0) (proj_id p) n (srv_store ?s2))"
    using wf by (simp add: delete_app_kept)
qed simp

section \<open>Resources, creation and deletion\<close>

lemma fine_project_update:
  assumes wf: "srv_wf s" and ops: "rq_ops q = ops"
  shows "fine c s (handle_project_update q x b s)"
  unfolding handle_project_update_def ops Let_def
proof (intro fine_guards wf fine_If)
  fix k p i r
  assume p: "find_project x (srv_store s) = Some (k, p)"
  define put where "put = (\<lambda>c. put_project k (p\<lparr>proj_resources := c\<rparr>) s)"
  note k = find_project_wf [OF wf p]
  have w: "srv_wf (put c)" for c unfolding put_def by (rule put_project_wf [OF wf k(1)]) simp_all
  let ?p = "\<lambda>c. p\<lparr>proj_resources := c\<rparr>"
  have last: "fine c s (case rt_call ops (inst_id i) (op_resize ops (inst_id i) (?p c3)) (rt_load ops i (put c3)) of
        (s1, Some e) \<Rightarrow> (s1, write_error 500 (MsgRuntime e))
      | (s1, None) \<Rightarrow> (case save_project q 0 k (?p c3) s1 of
           (s2, _, Some e) \<Rightarrow> (s2, write_error 500 (MsgStore e))
         | (s2, p'', None) \<Rightarrow> (s2, reply 200 (BProjectFull p'' (Some i) []))))" for c3
  proof (rule fine_call [OF resize])
    fix s' :: "'r server" and r :: "rt_error option"
    assume s': "srv_store s' = srv_store (rt_load ops i (put c3))"
    have "fine c s (case save_project q 0 k (?p c3) s' of
           (s2, _, Some e) \<Rightarrow> (s2, write_error 500 (MsgStore e))
         | (s2, p'', None) \<Rightarrow> (s2, reply 200 (BProjectFull p'' (Some i) [])))"
      by (rule fine_save_project [where ?p0.0 = "?p c3"]) (use w s' in \<open>simp_all add: put_def gomap_simps\<close>)
    then show "fine c s (case r of Some e \<Rightarrow> (s', write_error 500 (MsgRuntime e)) | None \<Rightarrow>
        (case save_project q 0 k (?p c3) s' of
           (s2, _, Some e) \<Rightarrow> (s2, write_error 500 (MsgStore e))
         | (s2, p'', None) \<Rightarrow> (s2, reply 200 (BProjectFull p'' (Some i) []))))"
      using w s' by (auto simp: fine_error split: option.split)
  qed
  show "fine c s (case update_memory r (update_cpu r (proj_resources p)) of
      Inl e \<Rightarrow> (put_project k (p\<lparr>proj_resources := update_cpu r (proj_resources p)\<rparr>) s, write_error 400 e)
    | Inr c2 \<Rightarrow> (case update_disk r c2 of
        Inl e \<Rightarrow> (put_project k (p\<lparr>proj_resources := c2\<rparr>) s, write_error 400 e)
      | Inr c3 \<Rightarrow>
        if no_updates r then (put_project k (p\<lparr>proj_resources := c3\<rparr>) s, write_error 400 MsgNoChanges)
        else (case rt_call ops (inst_id i) (op_resize ops (inst_id i) (p\<lparr>proj_resources := c3\<rparr>))
              (rt_load ops i (put_project k (p\<lparr>proj_resources := c3\<rparr>) s)) of
            (s1, Some e) \<Rightarrow> (s1, write_error 500 (MsgRuntime e))
          | (s1, None) \<Rightarrow> (case save_project q 0 k (p\<lparr>proj_resources := c3\<rparr>) s1 of
               (s2, _, Some e) \<Rightarrow> (s2, write_error 500 (MsgStore e))
             | (s2, p'', None) \<Rightarrow> (s2, reply 200 (BProjectFull p'' (Some i) []))))))"
    using w last by (auto simp: put_def fine_error split: sum.split)
qed (simp add: fine_error wf)

text \<open>The instance of the project to delete, before its record is removed.\<close>

lemma fine_update_init:
  assumes wf: "srv_wf s" and ops: "rq_ops q = ops"
  shows "fine False s (handle_update_init_api q x form s)"
  unfolding handle_update_init_api_def ops
proof (intro fine_guards wf)
  fix k p i
  assume i: "get_instance (proj_id p) (srv_store s) = Some i"
  note g = get_instance_Some(1) [OF wf i]
  have upd: "srv_wf (fst (restart_after_update q i rs s1))" if "srv_store s1 = srv_store s" for s1 rs
  proof -
    have wf1: "srv_wf s1" using wf that by simp
    obtain s2 r where c: "rt_call ops (inst_id i) (op_stop ops (inst_id i)) s1 = (s2, r)" by fastforce
    obtain s3 b where b: "poll_stopped ops (inst_id i) (rq_ticks q) s2 = (s3, b)" by fastforce
    have 2: "srv_wf s2" using rt_call_touched [OF wf1, of ops "op_stop ops (inst_id i)" "inst_id i"] stop c by (simp add: touched_def)
    have 3: "srv_wf s3" using poll_stopped_touched [OF 2, of "inst_id i" "rq_ticks q"] b by (simp add: touched_def)
    obtain s4 r4 where d: "rt_call ops (inst_id i) (op_start ops (inst_id i)) s3 = (s4, r4)" by fastforce
    have 4: "srv_wf s4" using rt_call_touched [OF 3, of ops "op_start ops (inst_id i)" "inst_id i"] start d by (simp add: touched_def)
    show ?thesis using c b d 2 3 4 by (cases r; cases b; cases r4) (simp_all add: restart_after_update_def ops)
  qed
  have ok: "fine False s (case form of None \<Rightarrow> (s, write_error 400 MsgBadForm)
     | Some f \<Rightarrow> (case uf_file f of None \<Rightarrow> (s, write_error 400 MsgFileRequired)
        | Some (rd, len) \<Rightarrow>
          (case rt_call ops (inst_id i)
              (op_upload_binary ops (inst_id i) ''goship-init'' ''goship-init'' rd len []) (rt_load ops i s) of
             (s1, Some e) \<Rightarrow> (s1, write_error 500 (MsgRuntime e))
           | (s1, None) \<Rightarrow>
             if parse_bool (uf_field f) then restart_after_update q i (reply 200 (BPushed [] (hex_encode (rq_sha256 q (concat (rd_chunks rd)))))) s1
             else (s1, reply 200 (BPushed [] (hex_encode (rq_sha256 q (concat (rd_chunks rd)))))))))"
  proof (cases "\<exists>f rd len. form = Some f \<and> uf_file f = Some (rd, len)")
    case True
    then obtain f rd len where f: "form = Some f" "uf_file f = Some (rd, len)" by blast
    obtain s1 e where c: "rt_call ops (inst_id i)
        (op_upload_binary ops (inst_id i) ''goship-init'' ''goship-init'' rd len []) (rt_load ops i s) = (s1, e)" by fastforce
    have "srv_store s1 = srv_store s"
      using quiet_call [OF _ c] upload_binary by simp
    then show ?thesis using upd wf f c by (cases e) (simp_all add: fine_def)
  next
    case False
    then show ?thesis using wf by (auto simp: fine_error split: option.split)
  qed
  then show "fine False s (case form of None \<Rightarrow> (s, write_error 400 MsgBadForm)
     | Some f \<Rightarrow>
       (case uf_file f of None \<Rightarrow> (s, write_error 400 MsgFileRequired)
        | Some (rd, len) \<Rightarrow>
          (case rt_call ops (inst_id i)
              (op_upload_binary ops (inst_id i) ''goship-init'' ''goship-init'' rd len []) (rt_load ops i s) of
             (s1, Some e) \<Rightarrow> (s1, write_error 500 (MsgRuntime e))
           | (s1, None) \<Rightarrow>
             (let ok = reply 200 (BPushed [] (hex_encode (rq_sha256 q (concat (rd_chunks rd)))))
              in if parse_bool (uf_field f) then restart_after_update q i ok s1 else (s1, ok)))))"
    by (simp only: Let_def)
qed

end

section \<open>Creation and deletion\<close>

lemma create_project_fields:
  "instances (fst (create_project now uuid io name rt res st)) = instances st"
  "nodes (fst (create_project now uuid io name rt res st)) = nodes st"
  by (auto simp: create_project_def Let_def set_projects_def save_def split: option.split prod.split save_env.split)

lemma create_project_kept:
  assumes wf: "api_wf st" and fresh: "uuid \<noteq> []" "gm_get (projects st) uuid = None"
    and r: "create_project now uuid io name rt res st = (st', r)"
  shows "api_wf st'"
    "r = Inr p \<Longrightarrow> gm_get (projects st') uuid = Some p \<and> proj_id p = uuid \<and> proj_name p = name \<and> plain_component name"
proof -
  have "saved (exec_op (OpCreateProject now uuid io name rt res) st)"
    by (rule exec_op_keeps) (use wf fresh in \<open>simp_all add: api_wf_def\<close>)
  then have "state_wf (st_mem st')" using r by (simp add: saved_def split: sum.splits)
  then show "api_wf st'"
    using wf create_project_fields [of now uuid io name rt res st] r by (simp add: api_wf_def)
  assume "r = Inr p"
  then show "gm_get (projects st') uuid = Some p \<and> proj_id p = uuid \<and> proj_name p = name \<and> plain_component name"
    using r by (cases io)
      (auto simp: create_project_def Let_def save_def set_projects_def gomap_simps split: option.splits if_splits)
qed

lemma no_instance_of_fresh:
  assumes "api_wf st" "gm_get (projects st) uuid = None" "(k, i) \<in> set (instances st)"
  shows "inst_project_id i \<noteq> uuid"
proof -
  have "gm_get (instances st) k = Some i"
    using assms(1,3) api_wfD(3) [OF assms(1)] by (simp add: instances_wf_def gm_ok_get)
  then show ?thesis
    using wf_instance(2) [OF assms(1), of k i] assms(2) by (auto simp: validate_instance_binding_def split: option.splits)
qed

lemma with_domains_kept:
  assumes wf: "srv_wf s" and p: "gm_get (projects (srv_store s)) (proj_id p) = Some p"
    and r: "with_domains q req p s = (s', p')"
  shows "srv_wf s'" "gm_get (projects (srv_store s')) (proj_id p) = Some p'" "proj_id p' = proj_id p"
    "proj_name p' = proj_name p" "instances (srv_store s') = instances (srv_store s)" "srv_rt s' = srv_rt s"
proof -
  have "srv_wf s' \<and> gm_get (projects (srv_store s')) (proj_id p) = Some p' \<and> proj_id p' = proj_id p \<and>
    proj_name p' = proj_name p \<and> instances (srv_store s') = instances (srv_store s) \<and> srv_rt s' = srv_rt s"
  proof (cases "cp_domains req = []")
    case True
    then show ?thesis using r wf p by (simp add: with_domains_def)
  next
    case False
    let ?p = "p\<lparr>proj_domains := cp_domains req, proj_default_domain := default_domain (cp_domains req) (cp_default_domain req)\<rparr>"
    obtain e where sp: "save_project q 1 (proj_id p) ?p s = (s', p', e)"
      using r False by (auto simp: with_domains_def split: prod.splits)
    show ?thesis using save_project_same_binding [OF wf p _ _ sp] by auto
  qed
  then show "srv_wf s'" "gm_get (projects (srv_store s')) (proj_id p) = Some p'" "proj_id p' = proj_id p"
    "proj_name p' = proj_name p" "instances (srv_store s') = instances (srv_store s)" "srv_rt s' = srv_rt s" by auto
qed

context project_runtime
begin

text \<open>The end of a creation: the project is running and its instance is recorded.\<close>

lemma fine_created:
  assumes wf: "srv_wf s2" and p: "gm_get (projects (srv_store s2)) (proj_id p) = Some p"
    and none: "\<forall>(k, j) \<in> set (instances (srv_store s2)). inst_project_id j \<noteq> proj_id p"
    and i: "inst_project_id i = proj_id p" "inst_domain_name i = libvirt_domain_prefix @ proj_name p"
    and s3: "save_project q 2 (proj_id p) (p\<lparr>proj_state := ProjRunning\<rparr>) s2 = (s3, p', e)"
  shows "fine (\<forall>n. rq_save q n = SaveOk) s (fst (on_store (set_instance (rq_now q) (rq_save q 3) (Some i)) s3), rs)"
proof -
  note sp = save_project_same_binding [OF wf p _ _ s3, simplified]
  have kept: "kept_saved (set_instance (rq_now q) (rq_save q 3) (Some i) (srv_store s3))"
    by (rule set_instance_kept [OF sp(1)]) (use none i sp(4) in auto)
  obtain p1 where p1: "gm_get (projects (srv_store s3)) (proj_id p) = Some p1" "proj_id p1 = proj_id p" "proj_name p1 = proj_name p"
    using sp(5) by auto
  have "validate_instance_binding (projects (srv_store s3)) (Some i) = None"
    using p1 i projects_wfD [OF api_wfD(2) [OF sp(1)] p1(1)]
    by (simp add: validate_instance_binding_def binding_None_iff)
  then have "rq_save q 3 = SaveOk \<Longrightarrow> snd (set_instance (rq_now q) (rq_save q 3) (Some i) (srv_store s3)) = None"
    by (simp add: set_instance_def save_def Let_def)
  then show ?thesis using kept by (auto simp: fine_def kept_saved_def)
qed

lemma fine_project_create:
  assumes wf: "srv_wf s" and ops: "rq_ops q = ops" and fresh: "rq_uuid q \<noteq> []" "gm_get (projects (srv_store s)) (rq_uuid q) = None"
  shows "fine (\<forall>n. rq_save q n = SaveOk) s (handle_project_create q b s)"
  unfolding handle_project_create_def ops
proof (intro fine_guards fine_check_none wf)
  fix req :: create_project_request
  obtain s1 r where c: "on_store (create_project (rq_now q) (rq_uuid q) (rq_save q 0) (cp_name req) RuntimeQEMU (cp_resources req)) s = (s1, r)"
    by fastforce
  then obtain st1 where st1: "create_project (rq_now q) (rq_uuid q) (rq_save q 0) (cp_name req) RuntimeQEMU (cp_resources req) (srv_store s) = (st1, r)"
      "s1 = s\<lparr>srv_store := st1\<rparr>"
    by (auto simp: on_store_def split: prod.splits)
  note k = create_project_kept [OF wf fresh st1(1)]
  have wf1: "srv_wf s1" using k(1) st1(2) by simp
  show "fine (\<forall>n. rq_save q n = SaveOk) s
     (case on_store (create_project (rq_now q) (rq_uuid q) (rq_save q 0) (cp_name req) RuntimeQEMU (cp_resources req)) s of
        (s1, Inl (ProjectExists n)) \<Rightarrow> (s1, write_error 409 (MsgStore (ProjectExists n)))
      | (s1, Inl e) \<Rightarrow> (s1, write_error 500 (MsgStore e))
      | (s1, Inr p0) \<Rightarrow>
        (case with_domains q req p0 s1 of (s2, p) \<Rightarrow>
          (case op_create ops p (srv_rt s2) of
             (r, Inl e) \<Rightarrow>
               (fst (on_store (delete_project (rq_now q) (rq_save q 2) (proj_id p)) (s2\<lparr>srv_rt := r\<rparr>)),
                write_error 500 (MsgRuntime e))
           | (r, Inr i) \<Rightarrow>
             (case save_project q 2 (proj_id p) (p\<lparr>proj_state := ProjRunning\<rparr>) (s2\<lparr>srv_rt := r\<rparr>) of
               (s3, p', _) \<Rightarrow>
                 (fst (on_store (set_instance (rq_now q) (rq_save q 3) (Some i)) s3),
                  reply 201 (BProjectFull p' (Some i) []))))))"
  proof (cases r)
    case (Inl e)
    then show ?thesis unfolding c using wf1 by (cases e) (simp_all add: fine_error)
  next
    case (Inr p0)
    note k2 = k(2) [OF Inr]
    obtain s2 p where d: "with_domains q req p0 s1 = (s2, p)" by fastforce
    have p0: "gm_get (projects (srv_store s1)) (proj_id p0) = Some p0" using k2 st1(2) by simp
    note w = with_domains_kept [OF wf1 p0 d]
    have "instances st1 = instances (srv_store s)"
      using create_project_fields(1) [of "rq_now q" "rq_uuid q" "rq_save q 0" "cp_name req" RuntimeQEMU "cp_resources req" "srv_store s"] st1(1)
      by simp
    then have none: "\<forall>(k, j) \<in> set (instances (srv_store s2)). inst_project_id j \<noteq> proj_id p"
      using no_instance_of_fresh [OF wf fresh(2)] w(3,5) k2 st1(2) by auto
    obtain r' x where o: "op_create ops p (srv_rt s2) = (r', x)" by fastforce
    let ?s2 = "s2\<lparr>srv_rt := r'\<rparr>"
    show ?thesis
    proof (cases x)
      case (Inl e)
      have "kept_saved (delete_project (rq_now q) (rq_save q 2) (proj_id p) (srv_store ?s2))"
        by (rule delete_project_kept) (use w none k2 fresh in auto)
      then have "srv_wf (fst (on_store (delete_project (rq_now q) (rq_save q 2) (proj_id p)) ?s2))"
        by (simp add: kept_saved_def)
      then show ?thesis unfolding c Inr using d o Inl by (simp add: fine_error)
    next
      case i: (Inr i)
      note law = create_ok [OF o [unfolded i]]
      obtain s3 p' e where s3: "save_project q 2 (proj_id p) (p\<lparr>proj_state := ProjRunning\<rparr>) ?s2 = (s3, p', e)"
        by (cases "save_project q 2 (proj_id p) (p\<lparr>proj_state := ProjRunning\<rparr>) ?s2")
      have "fine (\<forall>n. rq_save q n = SaveOk) s
          (fst (on_store (set_instance (rq_now q) (rq_save q 3) (Some i)) s3), reply 201 (BProjectFull p' (Some i) []))"
        by (rule fine_created [OF _ _ _ _ _ s3]) (use w none law in simp_all)
      then show ?thesis unfolding c Inr using d o i s3 by simp
    qed
  qed
qed simp

lemma fine_project_delete:
  assumes wf: "srv_wf s" and ops: "rq_ops q = ops"
  shows "fine c s (handle_project_delete q x s)"
  unfolding handle_project_delete_def ops Let_def
proof (intro fine_guards fine_check_none fine_save_reply wf)
  fix k and p :: project
  assume p: "find_project x (srv_store s) = Some (k, p)"
  note k = find_project_wf [OF wf p]
  let ?s1 = "on_routes (fold (remove_app_routes p) (get_apps (proj_id p) (srv_store s))) s"
  let ?s2 = "case get_instance (proj_id p) (srv_store s) of None \<Rightarrow> ?s1 | Some i \<Rightarrow> drop_instance q i ?s1"
  have "srv_wf ?s2 \<and> projects (srv_store ?s2) = projects (srv_store s) \<and>
      (\<forall>(k, j) \<in> set (instances (srv_store ?s2)). inst_project_id j \<noteq> proj_id p)"
  proof (cases "get_instance (proj_id p) (srv_store s)")
    case None
    then show ?thesis using wf get_instance_None [OF None] by auto
  next
    case (Some i)
    obtain s3 r where c: "rt_call ops (inst_id i) (op_destroy ops (inst_id i)) (rt_load ops i ?s1) = (s3, r)" by fastforce
    have t: "touched s s3"
      using rt_call_touched [of "rt_load ops i ?s1" ops "op_destroy ops (inst_id i)" "inst_id i"] destroy c wf
      by (simp add: touched_store [of "rt_load ops i ?s1" s])
    note g = get_instance_Some [OF wf Some]
    note d = touchedD [OF t g(1)]
    have st: "srv_store ?s2 = fst (delete_instance (rq_now q) (rq_save q 0) (inst_id i) (srv_store s3))"
      using Some c by (simp add: drop_instance_def ops)
    then have w: "srv_wf ?s2"
      using delete_instance_kept [OF d(1), of "rq_now q" "rq_save q 0" "inst_id i"] by (simp add: kept_saved_def)
    have im: "instances (srv_store ?s2) = gm_del (inst_id i) (instances (srv_store s3))"
      by (simp add: st delete_instance_def set_instances_def)
    have "inst_project_id j \<noteq> proj_id p" if "(k', j) \<in> set (instances (srv_store ?s2))" for k' j
      using that im api_wfD(6) [OF d(1)] map_of_SomeD [OF d(3)] d(4) g(2)
      unfolding one_instance_def same_identity_def by auto
    moreover have "projects (srv_store ?s2) = projects (srv_store s)"
      using d(2) by (simp add: st delete_instance_def set_instances_def)
    ultimately show ?thesis using w by auto
  qed
  then show "kept_saved (delete_project (rq_now q) (rq_save q 1) (proj_id p) (srv_store (drop_registry q p ?s2)))"
    by (intro delete_project_kept) (use k in auto)
qed simp_all

end

end
