(* ===== verification/Api_Properties.thy ===== *)
theory Api_Properties
  imports Api_Spec
begin

text \<open>
  The API server with the libvirt runtime behind it, over its life: it is started without a state
  file, serves requests, and is started again; and what a client may conclude from a response.
\<close>

section \<open>The life of a server\<close>

text \<open>The writes whose outcome the handler ignores, so that a success does not vouch for them.\<close>

fun durable :: "'r api_env \<Rightarrow> request \<Rightarrow> bool" where
  "durable q (ReqUpdateInit x f) \<longleftrightarrow> False"
| "durable q (ReqProjectCreate b) \<longleftrightarrow> (\<forall>n. rq_save q n = SaveOk)"
| "durable q (ReqProjectStop x) \<longleftrightarrow> (\<forall>n. rq_save q n = SaveOk)"
| "durable q (ReqProjectStart x) \<longleftrightarrow> (\<forall>n. rq_save q n = SaveOk)"
| "durable q (ReqProjectRestart x) \<longleftrightarrow> (\<forall>n. rq_save q n = SaveOk)"
| "durable q _ \<longleftrightarrow> True"

lemmas fine_plain = fine_reads fine_app_create fine_app_update fine_env_set fine_env_list fine_env_delete
  fine_domains_update fine_nodes

context project_runtime
begin

lemmas fine_runtime = fine_app_calls fine_deploy fine_app_delete fine_project_update fine_project_delete

lemma handle_fine:
  assumes wf: "srv_wf s" and ops: "rq_ops q = ops"
    and fresh: "rq_uuid q \<noteq> []" "gm_get (projects (srv_store s)) (rq_uuid q) = None"
  shows "fine (durable q req) s (handle q req s)"
  by (cases req)
    (simp_all only: handle.simps durable.simps fine_plain [OF wf] fine_runtime [OF wf ops] fine_stop [OF wf ops]
      fine_start [OF wf ops] fine_restart [OF wf ops] fine_project_create [OF wf ops fresh] fine_update_init [OF wf ops])

end

inductive served :: "'w libvirt_runtime server \<Rightarrow> bool" where
  served_new: "new_store now home True NoFile dir = Inr (srv_store s) \<Longrightarrow> served s"
| served_request: "served s \<Longrightarrow> rq_ops q = libvirt_ops hv ch e \<Longrightarrow> rq_uuid q \<noteq> [] \<Longrightarrow>
    gm_get (projects (srv_store s)) (rq_uuid q) = None \<Longrightarrow> served (fst (handle q req s))"
| served_machines: "served s \<Longrightarrow> served (s\<lparr>srv_rt := r\<rparr>)"
| served_again: "served s \<Longrightarrow> synced (srv_store s) \<Longrightarrow>
    new_store now home True (st_disk (srv_store s)) dir = Inr (srv_store s') \<Longrightarrow> served s'"

lemma served_wf: "served s \<Longrightarrow> srv_wf s"
proof (induction rule: served.induct)
  case (served_new now home dir s)
  then have "st_mem (srv_store s) = new_local_state now"
    by (auto dest!: new_store_mem simp: load_state_def)
  then show ?case
    by (simp add: api_wf_def one_instance_def hostnames_unique_def) (simp add: new_local_state_def)
next
  case (served_request s q hv ch e req)
  then show ?case using lv.handle_fine [of s q] by (simp add: fine_def)
next
  case (served_machines s r)
  then show ?case by simp
next
  case (served_again s now home dir s')
  then show ?case by (auto dest!: new_store_mem simp: synced_def api_wf_def)
qed


text \<open>A server with no machine yet, to which a node is added.\<close>

definition demo_channel :: "(string \<Rightarrow> bool) channel" where
  "demo_channel = \<lparr>ch_dial = (\<lambda>a w. True), ch_send = (\<lambda>a c w. (w, None))\<rparr>"

definition demo_rt_env :: "(string \<Rightarrow> bool) rt_env" where
  "demo_rt_env = \<lparr>re_now = 5, re_uuid = ''i1'', re_create = demo_create_env, re_ssh_key = None,
     re_stop_ticks = [], re_ready_ticks = [], re_iso_exists = True, re_resize_disk = True\<rparr>"

definition demo_api_env :: "(string \<Rightarrow> bool) libvirt_runtime api_env" where
  "demo_api_env = \<lparr>rq_now = 5, rq_save = (\<lambda>n. SaveOk), rq_uuid = ''n1'',
     rq_ops = libvirt_ops (demo_hv True) demo_channel demo_rt_env, rq_ticks = [], rq_registry_ok = True,
     rq_env_allocated = False, rq_key_rand = None, rq_key_mkdir = True, rq_key_write = None,
     rq_sha256 = (\<lambda>x. x), rq_gcm = (\<lambda>k. None), rq_nonce = (\<lambda>k. None)\<rparr>"

definition demo_runtime :: "(string \<Rightarrow> bool) libvirt_runtime" where
  "demo_runtime = \<lparr>lr_config = default_config, lr_instances = [],
     lr_host = \<lparr>ho_world = (\<lambda>n. False), ho_fs = (\<lambda>p. False), ho_mode = (\<lambda>p. None)\<rparr>\<rparr>"

definition demo_api :: "(string \<Rightarrow> bool) libvirt_runtime server" where
  "demo_api = \<lparr>srv_store = \<lparr>st_path = ''/d/state.json'', st_data_dir = ''/d'',
       st_mem = new_local_state 1, st_disk = NoFile\<rparr>,
     srv_has_rt = True, srv_rt = demo_runtime, srv_routes = None, srv_registry = None, srv_key = KeyMissing\<rparr>"

definition demo_register :: request where
  "demo_register = ReqNodeRegister (Some \<lparr>rn_hostname = ''h1'', rn_endpoint = ''e'', rn_resources = zero_resources, rn_labels = []\<rparr>)"

lemma demo_api_served: "served demo_api"
proof (rule served_new)
  show "new_store 1 None True NoFile ''/d'' = Inr (srv_store demo_api)" by code_simp
qed

lemma demo_api_registered: "served (fst (handle demo_api_env demo_register demo_api))"
  by (rule served_request [OF demo_api_served]) (simp_all add: demo_api_env_def demo_api_def new_local_state_def)



definition demo_register2 :: request where
  "demo_register2 = ReqNodeRegister (Some \<lparr>rn_hostname = ''h2'', rn_endpoint = ''e'', rn_resources = zero_resources, rn_labels = []\<rparr>)"

lemma demo_synced: "synced (srv_store (fst (handle demo_api_env demo_register demo_api)))"
  by code_simp


end
