(* ===== verification/Api_Refusals.thy ===== *)
theory Api_Refusals
  imports Api_Properties
begin

text \<open>
  What a refused request leaves behind: nothing, but for the updates, which write to the stored
  objects while they still check the request.
\<close>

section \<open>Refusals that change nothing\<close>

definition clean :: "'r server \<Rightarrow> 'r server \<times> response \<Rightarrow> bool" where
  "clean s r \<longleftrightarrow> (400 \<le> rs_status (snd r) \<longrightarrow> rs_status (snd r) < 500 \<longrightarrow> fst r = s)"

lemma clean_reply [simp]: "clean s (s', reply n b) \<longleftrightarrow> (400 \<le> n \<longrightarrow> n < 500 \<longrightarrow> s' = s)"
  by (simp add: clean_def reply_def)

lemma clean_error [simp]: "clean s (s', write_error n e) \<longleftrightarrow> (400 \<le> n \<longrightarrow> n < 500 \<longrightarrow> s' = s)"
  by (simp add: write_error_def)

lemma clean_guards:
  "clean s r \<Longrightarrow> clean s (require_runtime s r)"
  "(\<And>k p. clean s (rest k p)) \<Longrightarrow> clean s (with_project x s rest)"
  "(\<And>a. clean s (rest_a a)) \<Longrightarrow> clean s (with_app p n s rest_a)"
  "(\<And>i. clean s (rest_i i)) \<Longrightarrow> clean s (with_instance x p s rest_i)"
  "(\<And>y. clean s (rest_b y)) \<Longrightarrow> clean s (with_body b s rest_b)"
  "(\<And>n. clean s (rest_n n)) \<Longrightarrow> clean s (with_node x s rest_n)"
  "clean s r \<Longrightarrow> clean s (check_none e m s r)"
  by (simp_all add: guard_defs with_node_def split: option.split sum.split prod.split)

lemma clean_If: "clean s x \<Longrightarrow> clean s y \<Longrightarrow> clean s (if b then x else y)"
  by simp

lemma clean_split:
  "(\<And>a b. clean s (f a b)) \<Longrightarrow> clean s (case z of (a, b) \<Rightarrow> f a b)"
  by (simp split: prod.split)

lemma clean_option: "clean s x \<Longrightarrow> (\<And>y. clean s (f y)) \<Longrightarrow> clean s (case o' of None \<Rightarrow> x | Some y \<Rightarrow> f y)"
  by (simp split: option.split)

lemma clean_sum: "(\<And>a. clean s (f a)) \<Longrightarrow> (\<And>b. clean s (g b)) \<Longrightarrow> clean s (case z of Inl a \<Rightarrow> f a | Inr b \<Rightarrow> g b)"
  by (simp split: sum.split)

lemma clean_bool: "clean s x \<Longrightarrow> clean s y \<Longrightarrow> clean s (case b of True \<Rightarrow> x | False \<Rightarrow> y)"
  by (cases b) simp_all

lemma status_reply [simp]: "rs_status (reply n b) = n"
  by (simp add: reply_def)

lemmas clean_rules = clean_guards clean_If clean_bool clean_split clean_option clean_sum

lemma clean_restart: "clean s (start_and_reply q k p i s1)" "rs_status rs < 400 \<Longrightarrow> clean s (restart_after_update q i rs s1)"
  by (auto simp: start_and_reply_def started_def restart_after_update_def Let_def clean_def reply_def write_error_def
      split: prod.split option.split bool.split)

lemma create_refused: "on_store (create_project now uuid io name rt res) s = (s', Inl (ProjectExists n)) \<Longrightarrow> s' = s"
  by (auto simp: on_store_def create_project_def Let_def save_def split: prod.splits option.splits if_splits save_env.splits)

lemma delete_refused: "on_store (delete_node now io x) s = (s', Some (NodeNotFound n)) \<Longrightarrow> s' = s"
  by (auto simp: on_store_def delete_node_def save_def Let_def split: prod.splits option.splits if_splits save_env.splits)

text \<open>The requests that check everything before they write.\<close>

fun checks_first :: "request \<Rightarrow> bool" where
  "checks_first (ReqAppUpdate x n b) \<longleftrightarrow> False"
| "checks_first (ReqProjectUpdate x b) \<longleftrightarrow> False"
| "checks_first (ReqAppDeploy x n b) \<longleftrightarrow> False"
| "checks_first _ \<longleftrightarrow> True"

lemma clean_project_create: "clean s (handle_project_create q b s)"
  unfolding handle_project_create_def
proof (intro clean_guards)
  fix req :: create_project_request
  obtain s1 r where c: "on_store (create_project (rq_now q) (rq_uuid q) (rq_save q 0) (cp_name req) RuntimeQEMU (cp_resources req)) s = (s1, r)"
    by fastforce
  show "clean s
     (case on_store (create_project (rq_now q) (rq_uuid q) (rq_save q 0) (cp_name req) RuntimeQEMU (cp_resources req)) s of
        (s1, Inl (ProjectExists n)) \<Rightarrow> (s1, write_error 409 (MsgStore (ProjectExists n)))
      | (s1, Inl e) \<Rightarrow> (s1, write_error 500 (MsgStore e))
      | (s1, Inr p0) \<Rightarrow>
        (case with_domains q req p0 s1 of (s2, p) \<Rightarrow>
          (case op_create (rq_ops q) p (srv_rt s2) of
             (r, Inl e) \<Rightarrow>
               (fst (on_store (delete_project (rq_now q) (rq_save q 2) (proj_id p)) (s2\<lparr>srv_rt := r\<rparr>)),
                write_error 500 (MsgRuntime e))
           | (r, Inr i) \<Rightarrow>
             (case save_project q 2 (proj_id p) (p\<lparr>proj_state := ProjRunning\<rparr>) (s2\<lparr>srv_rt := r\<rparr>) of
               (s3, p', _) \<Rightarrow>
                 (fst (on_store (set_instance (rq_now q) (rq_save q 3) (Some i)) s3),
                  reply 201 (BProjectFull p' (Some i) []))))))"
  proof (cases r)
    case (Inl e)
    show ?thesis
    proof (cases "\<exists>n. e = ProjectExists n")
      case True
      then obtain n where n: "e = ProjectExists n" by blast
      have "s1 = s" by (rule create_refused) (use c Inl n in blast)
      then show ?thesis using n by (simp add: c Inl)
    next
      case False
      then show ?thesis by (cases e) (simp_all add: c Inl)
    qed
  next
    case (Inr p0)
    then show ?thesis by (simp add: c clean_rules)
  qed
qed

lemma clean_node_delete: "clean s (handle_node_delete q x s)"
proof -
  obtain s1 r where c: "on_store (delete_node (rq_now q) (rq_save q 0) x) s = (s1, r)" by fastforce
  show ?thesis
    using delete_refused [of "rq_now q" "rq_save q 0" x s s1] c
    by (auto simp: handle_node_delete_def c split: option.split store_error.split)
qed

lemmas clean_handlers = handle_healthz_def handle_project_list_def handle_project_get_def handle_project_delete_def
  handle_project_stop_def handle_project_start_def handle_project_restart_def handle_project_logs_def
  handle_env_set_def handle_env_list_def handle_env_delete_def handle_domains_update_def handle_push_image_def
  handle_update_init_api_def handle_proxy_routes_def handle_node_register_def handle_node_list_def handle_node_get_def
  handle_node_drain_def handle_node_heartbeat_def handle_node_desired_state_def handle_app_list_def
  handle_app_create_def handle_app_get_def handle_app_stop_def handle_app_delete_def handle_app_logs_def save_node_def



section \<open>Refused updates that stick\<close>

text \<open>An update of an application with an unknown restart policy is refused, yet the fields it
  sets before the policy is looked at are changed in the stored application; nothing is written to
  the file, so the change lasts until the process ends or the next save makes it permanent.\<close>

theorem refused_update_sticks:
  assumes "find_project x (srv_store s) = Some (k, p)" "get_app (proj_id p) n (srv_store s) = Some a"
    and "ua_restart_policy r = Some rp" "rp \<notin> {RestartNever, RestartAlways, RestartOnFailure}"
    and "handle q (ReqAppUpdate x n (Some r)) s = (s', rs)"
  shows "rs_status rs = 400 \<and> get_app (proj_id p) n (srv_store s') = Some (apply_first r a) \<and>
    st_disk (srv_store s') = st_disk (srv_store s)"
proof -
  have "(s', rs) = (put_app (proj_id p) n (apply_first r a) s, write_error 400 (MsgInvalidPolicy rp))"
    using assms by (simp add: handle_app_update_def guard_defs valid_policy_def Let_def)
  then show ?thesis by (simp add: get_app_put write_error_def) (simp add: put_app_def)
qed

definition demo_app_request :: create_app_request where
  "demo_app_request = \<lparr>ca_name = ''api'', ca_execution_mode = ModeContainer, ca_image = ''img'', ca_binary = [],
     ca_ports = [\<lparr>host_port = 81, container_port = 80, protocol = ''tcp''\<rparr>], ca_env = [], ca_resources = zero_resources,
     ca_restart_policy = RestartNever, ca_replicas = 1, ca_hostname = [], ca_available = None\<rparr>"

definition demo_web :: "(string \<Rightarrow> bool) libvirt_runtime server" where
  "demo_web = fst (handle demo_api_env (ReqAppCreate ''web'' (Some demo_app_request))
     (demo_api\<lparr>srv_store := demo_store, srv_routes := Some [(''x.org'', ''h:1'')]\<rparr>))"

definition demo_update :: update_app_request where
  "demo_update = \<lparr>ua_image = Some ''img2'', ua_binary = None, ua_ports = None, ua_env = None, ua_description = None,
     ua_tags = None, ua_restart_policy = Some (RestartOther ''sometimes''), ua_cpu = None, ua_memory_mb = None,
     ua_hostname = None, ua_available = None\<rparr>"

theorem refused_update_sticks_witness:
  "\<exists>s' rs. handle demo_api_env (ReqAppUpdate ''web'' ''api'' (Some demo_update)) demo_web = (s', rs) \<and>
     rs_status rs = 400 \<and> map_option app_image (get_app ''u1'' ''api'' (srv_store s')) = Some ''img2''"
proof -
  obtain k p where p: "find_project ''web'' (srv_store demo_web) = Some (k, p)" "proj_id p = ''u1''"
  proof -
    have "map_option (proj_id \<circ> snd) (find_project ''web'' (srv_store demo_web)) = Some ''u1''" by code_simp
    then show ?thesis using that by auto
  qed
  obtain a where a: "get_app ''u1'' ''api'' (srv_store demo_web) = Some a"
  proof -
    have "map_option app_name (get_app ''u1'' ''api'' (srv_store demo_web)) = Some ''api''" by code_simp
    then show ?thesis using that by auto
  qed
  obtain s' rs where h: "handle demo_api_env (ReqAppUpdate ''web'' ''api'' (Some demo_update)) demo_web = (s', rs)"
    by fastforce
  have "rs_status rs = 400 \<and> get_app (proj_id p) ''api'' (srv_store s') = Some (apply_first demo_update a) \<and>
      st_disk (srv_store s') = st_disk (srv_store demo_web)"
    by (rule refused_update_sticks [where rp = "RestartOther ''sometimes''", OF p(1) _ _ _ h])
      (use a p(2) in \<open>simp_all add: demo_update_def\<close>)
  then show ?thesis using h p(2) by (auto simp: demo_update_def apply_first_def set_opt_def)
qed

end
