(* ===== verification/Api_Routes.thy ===== *)
theory Api_Routes
  imports Api_Refusals
begin

text \<open>
  The proxy routes after a change of domains, and the secrets a client stores and reads back.
\<close>

section \<open>Saving a project\<close>

lemma update_project_ok:
  assumes "update_project now io (Some p) st = (st', None)"
  shows "st_mem st' = (st_mem st)\<lparr>ls_projects := gm_set (proj_id p) (p\<lparr>proj_updated_at := now\<rparr>) (projects st), ls_updated_at := now\<rparr>"
  using assms
  by (auto simp: update_project_def save_def set_projects_def Let_def split: option.splits if_splits save_env.splits)

lemma save_project_ok:
  assumes wf: "srv_wf s" and k: "gm_get (projects (srv_store s)) k = Some p0"
    and p: "proj_id p = proj_id p0" "proj_name p = proj_name p0"
    and r: "save_project q n k p s = (s', p', None)"
  shows "p' = p\<lparr>proj_updated_at := rq_now q\<rparr>" "apps_of (srv_store s') = apps_of (srv_store s)"
    "instances (srv_store s') = instances (srv_store s)"
    "projects (srv_store s') = gm_set k p' (projects (srv_store s))"
    "srv_routes s' = srv_routes s" "srv_key s' = srv_key s"
proof -
  have pk: "proj_id p = k" using projects_wfD [OF api_wfD(2) [OF wf] k] p by simp
  obtain st' where st: "update_project (rq_now q) (rq_save q n) (Some p) (srv_store (put_project k p s)) = (st', None)"
      "s' = (put_project k p s)\<lparr>srv_store := st'\<rparr>"
      "p' = (case gm_get (projects (srv_store s')) (proj_id p) of Some p' \<Rightarrow> p' | None \<Rightarrow> p)"
    using r by (auto simp: save_project_def on_store_def split: prod.splits)
  note u = update_project_ok [OF st(1)]
  show "projects (srv_store s') = gm_set k p' (projects (srv_store s))" "p' = p\<lparr>proj_updated_at := rq_now q\<rparr>"
    using st(2,3) u pk by (simp_all add: gomap_simps)
  show "apps_of (srv_store s') = apps_of (srv_store s)" "instances (srv_store s') = instances (srv_store s)"
    using st(2) u by simp_all
  show "srv_routes s' = srv_routes s" "srv_key s' = srv_key s" using st(2) by (simp_all add: put_project_def)
qed

lemma find_set_project:
  assumes "projects_wf (projects st)" "find_project x st = Some (k, p)" "proj_name p' = proj_name p"
    and "projects st' = gm_set k p' (projects st)"
  shows "find_project x st' = Some (k, p')"
proof -
  note f = find_project_Some [OF assms(1,2)]
  show ?thesis
  proof (cases "gm_get (projects st) x")
    case (Some p1)
    then have "k = x" using assms(2) by (auto simp: find_project_def)
    then show ?thesis using f assms(4) by (simp add: find_project_def gomap_simps)
  next
    case None
    then have n: "k \<noteq> x" "proj_name p = x" using f by auto
    have ok: "gm_ok (projects st)" using assms(1) by (simp add: projects_wf_def)
    have 1: "find (\<lambda>(k, p). proj_name p = x) (projects st) = Some (k, p)"
      using assms(2) None by (simp add: find_project_def)
    have "find (\<lambda>(k, p). proj_name p = x) (gm_set k p' ps) = Some (k, p')"
      if "find (\<lambda>(k, p). proj_name p = x) ps = Some (k, p)" "gm_ok ps" for ps
      using that
    proof (induction ps)
      case (Cons e ps)
      obtain a b where e: "e = (a, b)" by (cases e)
      show ?case
      proof (cases "proj_name b = x")
        case True
        then show ?thesis using Cons.prems(1) e assms(3) n by simp
      next
        case False
        then have r: "find (\<lambda>(k, p). proj_name p = x) ps = Some (k, p)" using Cons.prems(1) e by simp
        then have "(k, p) \<in> set ps" using find_Some_mem by fast
        then have "a \<noteq> k" using Cons.prems(2) e by (force simp: gm_ok_def)
        then show ?thesis using Cons e False r by (simp add: gm_ok_def)
      qed
    qed simp
    then show ?thesis using 1 ok None n(1) assms(4) by (simp add: find_project_def gomap_simps)
  qed
qed

section \<open>Routes\<close>

lemma register_app_lookup:
  "rt_lookup h (register_app_routes p a ip rt) =
     (if is_available a \<and> app_ports a \<noteq> [] \<and> h \<in> app_route a ` set (proj_domains p)
      then Some (app_backend ip a) else rt_lookup h rt)"
  by (auto simp: register_app_routes_def routable_def rt.find_put_all)

lemma register_all_lookup:
  "rt_lookup h (fold (\<lambda>a. register_app_routes p a ip) apps rt) =
     (case find (\<lambda>a. is_available a \<and> app_ports a \<noteq> [] \<and> h \<in> app_route a ` set (proj_domains p)) (rev apps) of
        Some a \<Rightarrow> Some (app_backend ip a) | None \<Rightarrow> rt_lookup h rt)"
proof (induction apps rule: rev_induct)
  case (snoc a apps)
  then show ?case by (simp add: register_app_lookup)
qed simp

lemma drop_all_lookup:
  "rt_lookup h (fold (\<lambda>a. fold rt_delete (map (app_route a) ds)) apps rt) =
     (if \<exists>a \<in> set apps. h \<in> app_route a ` set ds then None else rt_lookup h rt)"
  by (induction apps arbitrary: rt) (auto simp: rt.find_drop_all)

text \<open>C19: after a change of the domains of a project the proxy sends a host to an application of the
  project exactly if the application is available, has a port, and the host is its hostname below
  one of the new domains, and the project has an instance with an address (the last such
  application in the listing wins); the names below the old domains are gone otherwise, and no other
  host is affected.\<close>

theorem domains_update_routes:
  assumes "api_wf (srv_store s)" "find_project x (srv_store s) = Some (k, p)" "srv_routes s = Some rt"
    and "handle q (ReqDomainsUpdate x (Some req)) s = (s', rs)" "rs_status rs = 200"
  shows "\<exists>rt'. srv_routes s' = Some rt' \<and> (\<forall>h. rt_lookup h rt' =
    (case (running_ip (proj_id p) (srv_store s),
           find (\<lambda>a. is_available a \<and> app_ports a \<noteq> [] \<and> h \<in> app_route a ` set (ud_domains req))
             (rev (get_apps (proj_id p) (srv_store s)))) of
       (Some ip, Some a) \<Rightarrow> Some (app_backend ip a)
     | _ \<Rightarrow> if \<exists>a \<in> set (get_apps (proj_id p) (srv_store s)). h \<in> app_route a ` set (proj_domains p) then None
           else rt_lookup h rt))"
proof -
  note wf = assms(1)
  let ?p1 = "p\<lparr>proj_domains := ud_domains req, proj_default_domain := default_domain (ud_domains req) (ud_default_domain req)\<rparr>"
  note k = find_project_wf(1) [OF wf assms(2)]
  obtain s1 p2 e where r: "save_project q 0 k ?p1 s = (s1, p2, e)" by (cases "save_project q 0 k ?p1 s")
  have h: "(s', rs) = (case e of Some m \<Rightarrow> (s1, write_error 500 (MsgStore m))
      | None \<Rightarrow> (on_routes (reconcile_routes_on_domain_change p2 (proj_domains p) (srv_store s1)) s1, reply 200 (BProject p2)))"
    using assms(2,4) r by (simp add: handle_domains_update_def guard_defs Let_def)
  have e: "e = None" using h assms(5) by (cases e) (auto simp: write_error_def)
  note sp = save_project_ok [OF wf k _ _ r [unfolded e], simplified]
  have 1: "get_apps (proj_id p) (srv_store s1) = get_apps (proj_id p) (srv_store s)"
    using sp(2) by (simp add: get_apps_def get_project_apps_def)
  have 2: "running_ip (proj_id p) (srv_store s1) = running_ip (proj_id p) (srv_store s)"
    using sp(3) by (simp add: running_ip_def get_instance_def ls_get_instance_def)
  let ?rt = "reconcile_routes_on_domain_change p2 (proj_domains p) (srv_store s1) rt"
  have "srv_routes s' = Some ?rt" using h e sp(5) assms(3) by (simp add: on_routes_def)
  moreover have "rt_lookup h ?rt = (case (running_ip (proj_id p) (srv_store s),
           find (\<lambda>a. is_available a \<and> app_ports a \<noteq> [] \<and> h \<in> app_route a ` set (ud_domains req))
             (rev (get_apps (proj_id p) (srv_store s)))) of
       (Some ip, Some a) \<Rightarrow> Some (app_backend ip a)
     | _ \<Rightarrow> if \<exists>a \<in> set (get_apps (proj_id p) (srv_store s)). h \<in> app_route a ` set (proj_domains p) then None
           else rt_lookup h rt)" for h
    using sp(1) 1 2
    by (simp add: reconcile_routes_on_domain_change_def register_all_def Let_def register_all_lookup drop_all_lookup
        split: option.split)
  ultimately show ?thesis by blast
qed

lemma demo_store_wf: "api_wf demo_store"
proof -
  have "nodes demo_store = []" by code_simp
  then show ?thesis
    using reached_wf [OF demo_reached] by (simp add: api_wf_def one_instance_def hostnames_unique_def demo_instances)
qed

lemma demo_web_wf: "api_wf (srv_store demo_web)"
  using fine_app_create [of "demo_api\<lparr>srv_store := demo_store, srv_routes := Some [(''x.org'', ''h:1'')]\<rparr>" True demo_api_env]
  by (simp add: demo_web_def fine_def demo_store_wf)

lemma demo_web_project: "\<exists>p. find_project ''web'' (srv_store demo_web) = Some (''u1'', p) \<and> proj_id p = ''u1'' \<and> proj_env p = [] \<and> proj_domains p = []"
proof -
  have "map_option (\<lambda>(k, p). (k, proj_id p, proj_env p, proj_domains p)) (find_project ''web'' (srv_store demo_web)) =
      Some (''u1'', ''u1'', [], [])" by code_simp
  then show ?thesis by auto
qed

theorem domains_update_routes_witness:
  "\<exists>s' rs rt'. handle demo_api_env (ReqDomainsUpdate ''web'' (Some \<lparr>ud_domains = [''x.org'', ''y.org''], ud_default_domain = []\<rparr>)) demo_web = (s', rs) \<and>
     srv_routes s' = Some rt' \<and> rt_lookup ''api.y.org'' rt' = Some ''10.0.0.2:81'' \<and> rt_lookup ''x.org'' rt' = Some ''h:1''"
proof -
  let ?req = "\<lparr>ud_domains = [''x.org'', ''y.org''], ud_default_domain = []\<rparr>"
  obtain p where p: "find_project ''web'' (srv_store demo_web) = Some (''u1'', p)" "proj_id p = ''u1''" "proj_domains p = []"
    using demo_web_project by auto
  obtain s' rs where h: "handle demo_api_env (ReqDomainsUpdate ''web'' (Some ?req)) demo_web = (s', rs)" by fastforce
  have "rs_status (snd (handle demo_api_env (ReqDomainsUpdate ''web'' (Some ?req)) demo_web)) = 200" by code_simp
  then have r: "rs_status rs = 200" using h by simp
  have rt: "srv_routes demo_web = Some [(''x.org'', ''h:1'')]" by code_simp
  obtain rt' where rt': "srv_routes s' = Some rt'"
    "\<And>h. rt_lookup h rt' = (case (running_ip (proj_id p) (srv_store demo_web),
           find (\<lambda>a. is_available a \<and> app_ports a \<noteq> [] \<and> h \<in> app_route a ` set (ud_domains ?req))
             (rev (get_apps (proj_id p) (srv_store demo_web)))) of
       (Some ip, Some a) \<Rightarrow> Some (app_backend ip a)
     | _ \<Rightarrow> if \<exists>a \<in> set (get_apps (proj_id p) (srv_store demo_web)). h \<in> app_route a ` set (proj_domains p) then None
           else rt_lookup h [(''x.org'', ''h:1'')])"
    using domains_update_routes [OF demo_web_wf p(1) rt h r] by blast
  have "(case (running_ip ''u1'' (srv_store demo_web),
           find (\<lambda>a. is_available a \<and> app_ports a \<noteq> [] \<and> ''api.y.org'' \<in> set (map (app_route a) [''x.org'', ''y.org'']))
             (rev (get_apps ''u1'' (srv_store demo_web)))) of
       (Some ip, Some a) \<Rightarrow> Some (app_backend ip a) | _ \<Rightarrow> None) = Some ''10.0.0.2:81''"
    "find (\<lambda>a. is_available a \<and> app_ports a \<noteq> [] \<and> ''x.org'' \<in> set (map (app_route a) [''x.org'', ''y.org'']))
             (rev (get_apps ''u1'' (srv_store demo_web))) = None" by code_simp+
  then show ?thesis
    using rt' h p(2,3) by (auto simp: rt_lookup_def split: option.splits)
qed

section \<open>Secrets\<close>

text \<open>A key that was loaded or made is loaded again, whatever the surroundings.\<close>

lemma key_again:
  assumes "load_or_create_master_key r m w f = (f', Inr key)"
  shows "load_or_create_master_key r' m' w' f' = (f', Inr key)"
  using assms
  by (auto simp: load_or_create_master_key_def trim_hex hex.dec_enc split: key_file.splits option.splits if_splits)

lemma encrypt_all_values:
  assumes "encrypt_all q v env = Inr sealed" "aead_ok v" "\<And>k n. rq_nonce q k = Some n \<Longrightarrow> length n = ae_nonce_size v"
  shows "map fst sealed = map fst env" "list_all2 (\<lambda>c e. fst c = fst e \<and> is_encrypted (snd c) \<and> decrypt v (snd c) = Inr (snd e)) sealed env"
proof -
  have one: "fst y = fst e \<and> is_encrypted (snd y) \<and> decrypt v (snd y) = Inr (snd e)"
    if t: "(case encrypt v (rq_nonce q (fst e)) (snd e) of Inl x \<Rightarrow> Inl (MsgVault x) | Inr c \<Rightarrow> Inr (fst e, c)) = Inr y" for e y
  proof -
    obtain c where c: "encrypt v (rq_nonce q (fst e)) (snd e) = Inr c" "y = (fst e, c)"
      using t by (cases "encrypt v (rq_nonce q (fst e)) (snd e)") auto
    obtain n where n: "rq_nonce q (fst e) = Some n" using c(1) by (auto simp: encrypt_def split: option.splits)
    have "decrypt v c = Inr (snd e)" "is_encrypted c"
      using c(1) n assms(2) assms(3) [OF n]
      by (auto simp: encrypt_def decrypt_def is_encrypted_def b64.dec_enc aead_ok_def)
    then show ?thesis using c(2) by simp
  qed
  have "list_all2 (\<lambda>e y. (case encrypt v (rq_nonce q (fst e)) (snd e) of Inl x \<Rightarrow> Inl (MsgVault x) | Inr c \<Rightarrow> Inr (fst e, c)) = Inr y) env sealed"
    using assms(1) by (simp add: encrypt_all_def collect_Inr split_def)
  then have a: "list_all2 (\<lambda>e y. fst y = fst e \<and> is_encrypted (snd y) \<and> decrypt v (snd y) = Inr (snd e)) env sealed"
    by (rule list.rel_mono_strong) (rule one)
  then show "map fst sealed = map fst env" by (induction env sealed rule: list_all2_induct) auto
  show "list_all2 (\<lambda>c e. fst c = fst e \<and> is_encrypted (snd c) \<and> decrypt v (snd c) = Inr (snd e)) sealed env"
    using a by (induction env sealed rule: list_all2_induct) auto
qed

text \<open>Copying values into a map and decrypting commute.\<close>

lemma list_all2_update:
  "list_all2 (\<lambda>c e. fst c = fst e \<and> R (snd c) (snd e)) cs es \<Longrightarrow> R c v \<Longrightarrow>
   list_all2 (\<lambda>c e. fst c = fst e \<and> R (snd c) (snd e)) (gm_set k c cs) (gm_set k v es)"
  by (induction cs es rule: list_all2_induct) auto

lemma list_all2_copy:
  "list_all2 (\<lambda>c e. fst c = fst e \<and> R (snd c) (snd e)) src src' \<Longrightarrow>
   list_all2 (\<lambda>c e. fst c = fst e \<and> R (snd c) (snd e)) dst dst' \<Longrightarrow>
   list_all2 (\<lambda>c e. fst c = fst e \<and> R (snd c) (snd e)) (gm_copy dst src) (gm_copy dst' src')"
proof (induction src src' arbitrary: dst dst' rule: list_all2_induct)
  case (Cons x xs y ys)
  then show ?case by (cases x; cases y) (auto intro: list_all2_update)
qed simp

lemma gm_get_copy_notin: "n \<notin> fst ` set src \<Longrightarrow> gm_get (gm_copy dst src) n = gm_get dst n"
proof (induction src arbitrary: dst)
  case (Cons e src)
  then show ?case by (cases e) (simp add: gomap_simps)
qed simp

lemma gm_get_copy_in: "n \<in> fst ` set src \<Longrightarrow> \<exists>c. (n, c) \<in> set src \<and> gm_get (gm_copy dst src) n = Some c"
proof (induction src arbitrary: dst)
  case (Cons e src)
  obtain k c where e: "e = (k, c)" by (cases e)
  show ?case
  proof (cases "n \<in> fst ` set src")
    case True
    then show ?thesis using Cons.IH [of "gm_set k c dst"] e by auto
  next
    case False
    then show ?thesis using Cons.prems e gm_get_copy_notin [OF False, of "gm_set k c dst"] by (auto simp: gomap_simps)
  qed
qed simp

text \<open>What a listing shows for a stored value.\<close>

definition shown_as :: "aead \<Rightarrow> string \<Rightarrow> string \<Rightarrow> bool" where
  "shown_as v c e \<longleftrightarrow> (if is_encrypted c then decrypt v c = Inr e else c = e)"

lemma decrypt_values_all:
  assumes "list_all2 (\<lambda>c e. fst c = fst e \<and> shown_as v (snd c) (snd e)) cs es"
    and "\<And>s'. srv_key s' = srv_key s \<Longrightarrow> init_vault q s' = (s', Inr v)" "ov = None \<or> ov = Some v"
  shows "decrypt_values q ov cs s = (s, Inr es)"
  using assms(1,3)
proof (induction cs es arbitrary: ov rule: list_all2_induct)
  case (Cons x xs y ys)
  obtain k c where x: "x = (k, c)" by (cases x)
  obtain e where y: "y = (k, e)" using Cons.hyps x by (cases y) auto
  have o: "open_vault q ov s = (s, Inr v)"
    using Cons.prems assms(2) [of s] by (auto simp: open_vault_def)
  show ?case
    using Cons.hyps Cons.IH [of ov] Cons.IH [of "Some v"] Cons.prems x y o
    by (cases "is_encrypted c") (simp_all add: shown_as_def)
qed simp


definition demo_key_env :: "(string \<Rightarrow> bool) libvirt_runtime api_env" where
  "demo_key_env = demo_api_env\<lparr>rq_key_rand := Some ''0123'', rq_gcm := (\<lambda>k. Some demo_aead), rq_nonce := (\<lambda>n. Some ''ab'')\<rparr>"


end
