(* ===== verification/Reconcile.thy ===== *)
theory Reconcile
  imports Api_Requests Vm_Manager_Spec Libvirt_Spec Store_Inv
begin

text \<open>
  The node agent (internal/agent/agent.go and reconciler.go): at every tick it sends a heartbeat to
  the API server, pulls the desired state and reconciles the runtime of its node with it. The
  surroundings of each creation (the new identifier among them) are an argument per project; the
  failures the code logs are part of the result.
\<close>

section \<open>The reconciler (reconciler.go)\<close>

datatype reconcile_failure = CreateFailed string rt_error | DeployFailed string string rt_error

text \<open>The existing instances by project; of two instances of a project the later one counts.\<close>

definition existing_projects :: "proj_instance list \<Rightarrow> string gomap" where
  "existing_projects is = fold (\<lambda>i. gm_set (inst_project_id i) (inst_id i)) is []"

fun create_missing :: "(string \<Rightarrow> 'r runtime) \<Rightarrow> project list \<Rightarrow> string gomap \<Rightarrow> 'r \<Rightarrow>
    'r \<times> string gomap \<times> reconcile_failure list" where
  "create_missing ops [] ex r = (r, ex, [])"
| "create_missing ops (p # ps) ex r =
     (if gm_get ex (proj_id p) \<noteq> None then create_missing ops ps ex r
      else (case op_create (ops (proj_id p)) p r of
          (r1, Inl e) \<Rightarrow> (case create_missing ops ps ex r1 of
              (r2, ex', fs) \<Rightarrow> (r2, ex', CreateFailed (proj_id p) e # fs))
        | (r1, Inr i) \<Rightarrow> create_missing ops ps (gm_set (proj_id p) (inst_id i) ex) r1))"

fun deploy_each :: "'r runtime \<Rightarrow> string \<Rightarrow> string \<Rightarrow> app_spec list \<Rightarrow> 'r \<Rightarrow> 'r \<times> reconcile_failure list" where
  "deploy_each ops pid iid [] r = (r, [])"
| "deploy_each ops pid iid (a # as) r =
     (case op_deploy ops iid a r of (r1, e) \<Rightarrow>
        (case deploy_each ops pid iid as r1 of
           (r2, fs) \<Rightarrow> (r2, case e of None \<Rightarrow> fs | Some err \<Rightarrow> DeployFailed pid (app_name a) err # fs)))"

fun deploy_missing :: "(string \<Rightarrow> 'r runtime) \<Rightarrow> (string \<times> app_spec list) list \<Rightarrow> string gomap \<Rightarrow> 'r \<Rightarrow>
    'r \<times> reconcile_failure list" where
  "deploy_missing ops [] ex r = (r, [])"
| "deploy_missing ops ((pid, as) # rest) ex r =
     (case gm_get ex pid of None \<Rightarrow> deploy_missing ops rest ex r
      | Some iid \<Rightarrow> (case deploy_each (ops pid) pid iid as r of
          (r1, fs) \<Rightarrow> (case deploy_missing ops rest ex r1 of (r2, fs') \<Rightarrow> (r2, fs @ fs'))))"

definition reconcile ::
    "bool \<Rightarrow> (string \<Rightarrow> 'r runtime) \<Rightarrow> project list \<Rightarrow> (string \<times> app_spec list) list \<Rightarrow> 'r \<Rightarrow>
     'r \<times> (rt_error + reconcile_failure list)" where
  "reconcile has_rt ops ps apps r =
     (if \<not> has_rt then (r, Inr [])
      else (case op_list (ops []) r of Inl e \<Rightarrow> (r, Inl e)
        | Inr is \<Rightarrow>
          (case create_missing ops ps (existing_projects is) r of
             (r1, ex, fs) \<Rightarrow> (case deploy_missing ops apps ex r1 of (r2, fs') \<Rightarrow> (r2, Inr (fs @ fs'))))))"

section \<open>The agent (agent.go)\<close>

datatype tick_error = Unreachable | RefusedWith nat | BadState | ReconcileFailed rt_error

text \<open>A request that reaches the server, if the network does its part.\<close>

definition send_request :: "bool \<Rightarrow> 'r api_env \<Rightarrow> request \<Rightarrow> 'r server \<Rightarrow> 'r server \<times> (tick_error + body)" where
  "send_request reaches q req s =
     (if \<not> reaches then (s, Inl Unreachable)
      else (case handle q req s of (s', rs) \<Rightarrow>
        (s', if 400 \<le> rs_status rs then Inl (RefusedWith (rs_status rs)) else Inr (rs_body rs))))"

definition heartbeat :: "bool \<Rightarrow> 'r api_env \<Rightarrow> string \<Rightarrow> 'r server \<Rightarrow> 'r server \<times> tick_error option" where
  "heartbeat reaches q node s =
     (case send_request reaches q (ReqNodeHeartbeat node) s of
        (s', Inl e) \<Rightarrow> (s', Some e) | (s', Inr _) \<Rightarrow> (s', None))"

definition pull_and_reconcile ::
    "bool \<Rightarrow> 'r api_env \<Rightarrow> string \<Rightarrow> bool \<Rightarrow> (string \<Rightarrow> 'n runtime) \<Rightarrow> 'r server \<Rightarrow> 'n \<Rightarrow>
     'r server \<times> 'n \<times> (tick_error + reconcile_failure list)" where
  "pull_and_reconcile reaches q node has_rt ops s r =
     (case send_request reaches q (ReqNodeDesired node) s of
        (s', Inl e) \<Rightarrow> (s', r, Inl e)
      | (s', Inr (BDesired ps apps)) \<Rightarrow>
        (case reconcile has_rt ops ps apps r of (r', res) \<Rightarrow> (s', r', map_err ReconcileFailed res))
      | (s', Inr _) \<Rightarrow> (s', r, Inl BadState))"

text \<open>The errors of a tick are logged; the heartbeat does not keep the second half from running.\<close>

definition tick ::
    "(nat \<Rightarrow> bool) \<Rightarrow> 'r api_env \<Rightarrow> string \<Rightarrow> bool \<Rightarrow> (string \<Rightarrow> 'n runtime) \<Rightarrow> 'r server \<Rightarrow> 'n \<Rightarrow>
     'r server \<times> 'n \<times> tick_error option \<times> (tick_error + reconcile_failure list)" where
  "tick reaches q node has_rt ops s r =
     (case heartbeat (reaches 0) q node s of (s1, e) \<Rightarrow>
       (case pull_and_reconcile (reaches 1) q node has_rt ops s1 r of (s2, r', res) \<Rightarrow> (s2, r', e, res)))"

definition register :: "bool \<Rightarrow> 'r api_env \<Rightarrow> string \<Rightarrow> string \<Rightarrow> 'r server \<Rightarrow> 'r server \<times> tick_error option" where
  "register reaches q hostname endpoint s =
     (case send_request reaches q (ReqNodeRegister (Some \<lparr>rn_hostname = hostname, rn_endpoint = endpoint,
          rn_resources = zero_resources, rn_labels = []\<rparr>)) s of
        (s', Inl e) \<Rightarrow> (s', Some e) | (s', Inr _) \<Rightarrow> (s', None))"

section \<open>What a reconciliation achieves\<close>

text \<open>The instances a libvirt runtime knows, by identifier.\<close>

abbreviation known :: "'w libvirt_runtime \<Rightarrow> string \<Rightarrow> proj_instance option" where
  "known r iid \<equiv> lr_view iid r"

definition covered :: "'w libvirt_runtime \<Rightarrow> string \<Rightarrow> bool" where
  "covered r pid \<longleftrightarrow> (\<exists>iid i. lr_view iid r = Some i \<and> inst_project_id i = pid)"

definition create_failures :: "reconcile_failure list \<Rightarrow> string set" where
  "create_failures fs = {pid. \<exists>e. CreateFailed pid e \<in> set fs}"

lemma create_failures_simps [simp]:
  "create_failures [] = {}" "create_failures (CreateFailed pid e # fs) = insert pid (create_failures fs)"
  "create_failures (DeployFailed pid a e # fs) = create_failures fs"
  "create_failures (fs @ gs) = create_failures fs \<union> create_failures gs"
  by (auto simp: create_failures_def)

text \<open>An environment per creation, each with an identifier of its own.\<close>

definition libvirt_for :: "'w hypervisor \<Rightarrow> 'w channel \<Rightarrow> (string \<Rightarrow> 'w rt_env) \<Rightarrow> string \<Rightarrow> 'w libvirt_runtime runtime" where
  "libvirt_for hv ch env pid = libvirt_ops hv ch (env pid)"

lemma libvirt_for_sel [simp]:
  "op_create (libvirt_for hv ch env pid) = create_instance hv ch (env pid)"
  "op_deploy (libvirt_for hv ch env pid) = deploy_app ch" "op_list (libvirt_for hv ch env pid) = list_instances"
  by (simp_all add: libvirt_for_def)

text \<open>The map of the runtime is a map, and its entries are kept under their own identifier.\<close>

definition runtime_wf :: "'w libvirt_runtime \<Rightarrow> bool" where
  "runtime_wf r \<longleftrightarrow> gm_ok (lr_instances r) \<and> (\<forall>iid i. lr_view iid r = Some i \<longrightarrow> inst_id i = iid)"

lemma runtime_wf_touch: "runtime_wf r \<Longrightarrow> identity_kept f \<Longrightarrow> runtime_wf (touch x f r)"
  by (auto simp: runtime_wf_def view_simps identity_kept_def same_identity_def split: if_splits)
    (auto simp: touch_def split: option.split)

lemma runtime_wf_same: "runtime_wf r \<Longrightarrow> lr_instances r' = lr_instances r \<Longrightarrow> runtime_wf r'"
  by (simp add: runtime_wf_def lr_view_def lr_find_def)

lemma wait_ready_wf:
  assumes "runtime_wf r"
  shows "runtime_wf (fst (wait_ready hv ch e stream iid r))"
proof -
  have w: "runtime_wf (with_world w r)" for w
    by (rule runtime_wf_same [OF assms]) (simp add: with_world_def)
  show ?thesis
    using assms w runtime_wf_touch [OF w identity_ready]
    by (auto simp: wait_ready_def split: option.split prod.split)
qed

lemma create_instance_wf:
  assumes "runtime_wf r"
  shows "runtime_wf (fst (create_instance hv ch e p r))"
proof (cases "\<exists>(k, (i, s)) \<in> set (lr_instances r). inst_project_id i = proj_id p")
  case True
  then show ?thesis using assms by (simp add: create_instance_def)
next
  case False
  obtain h m where m: "manager_create hv (re_create e) (rc_data_dir (lr_config r)) (create_options (lr_config r) e p) (lr_host r) = (h, m)"
    by fastforce
  show ?thesis
  proof (cases m)
    case (Inl err)
    then show ?thesis
      using False m assms by (auto simp: create_instance_def Let_def intro: runtime_wf_same)
  next
    case (Inr v)
    let ?s = "filepath_join (filepath_dir (vd_disk v)) ''goship.sock''"
    let ?r1 = "r\<lparr>lr_host := h, lr_instances := gm_set (re_uuid e) (new_instance e p v, ?s) (lr_instances r)\<rparr>"
    have 1: "runtime_wf ?r1"
      using assms by (auto simp: runtime_wf_def view_simps new_instance_def)
    obtain r2 w where w: "wait_ready hv ch e True (re_uuid e) ?r1 = (r2, w)" by fastforce
    then have "runtime_wf r2" using wait_ready_wf [OF 1] by (metis fst_conv)
    then have "runtime_wf (r2\<lparr>lr_instances := gm_del (re_uuid e) (lr_instances r2), lr_host := x\<rparr>)" for x
      by (auto simp: runtime_wf_def lr_view_def lr_find_def gomap_simps split: if_splits)
    then show ?thesis
      using False m Inr w \<open>runtime_wf r2\<close> by (auto simp: create_instance_def Let_def split: option.split)
  qed
qed

lemma create_instance_other:
  assumes "j \<noteq> re_uuid e"
  shows "lr_view j (fst (create_instance hv ch e p r)) = lr_view j r"
proof (cases "create_instance hv ch e p r")
  case (Pair r' x)
  show ?thesis
  proof (cases x)
    case (Inr i)
    then show ?thesis using create_instance_Inr(5) [of hv ch e p r r' i j] Pair assms by simp
  next
    case (Inl err)
    show ?thesis
    proof (cases "\<exists>(k, (i, s)) \<in> set (lr_instances r). inst_project_id i = proj_id p")
      case True
      then show ?thesis by (simp add: create_instance_def)
    next
      case False
      obtain h m where m: "manager_create hv (re_create e) (rc_data_dir (lr_config r)) (create_options (lr_config r) e p) (lr_host r) = (h, m)"
        by fastforce
      show ?thesis
      proof (cases m)
        case (Inl err)
        then show ?thesis using False m by (auto simp: create_instance_def Let_def view_simps)
      next
        case (Inr v)
        let ?s = "filepath_join (filepath_dir (vd_disk v)) ''goship.sock''"
        let ?r1 = "r\<lparr>lr_host := h, lr_instances := gm_set (re_uuid e) (new_instance e p v, ?s) (lr_instances r)\<rparr>"
        obtain r2 w where w: "wait_ready hv ch e True (re_uuid e) ?r1 = (r2, w)" by fastforce
        have "lr_view j r2 = lr_view j ?r1" using wait_ready_view [OF w] assms by simp
        also have "\<dots> = lr_view j r" using assms by (simp add: view_simps)
        finally have j: "lr_view j r2 = lr_view j r" .
        then have "lr_view j (r2\<lparr>lr_instances := gm_del (re_uuid e) (lr_instances r2), lr_host := x\<rparr>) = lr_view j r" for x
          using assms by (simp add: lr_view_def lr_find_def gomap_simps)
        then show ?thesis
          using False m Inr w j by (auto simp: create_instance_def Let_def split: option.split)
      qed
    qed
  qed
qed

section \<open>Coverage\<close>

text \<open>The reconciler's map of existing projects agrees with the runtime.\<close>

definition agrees :: "string gomap \<Rightarrow> 'w libvirt_runtime \<Rightarrow> bool" where
  "agrees ex r \<longleftrightarrow> (\<forall>pid. gm_get ex pid \<noteq> None \<longleftrightarrow> covered r pid)"

lemma existing_projects_keys: "gm_get (existing_projects is) pid \<noteq> None \<longleftrightarrow> (\<exists>i \<in> set is. inst_project_id i = pid)"
proof -
  have "gm_get (fold (\<lambda>i. gm_set (inst_project_id i) (inst_id i)) is m) pid \<noteq> None \<longleftrightarrow>
      (\<exists>i \<in> set is. inst_project_id i = pid) \<or> gm_get m pid \<noteq> None" for m
    by (induction "is" arbitrary: m) (auto simp: gomap_simps)
  then show ?thesis by (simp add: existing_projects_def)
qed

lemma listed_agrees:
  assumes "runtime_wf r" "list_instances r = Inr is"
  shows "agrees (existing_projects is) r"
proof -
  have "(\<exists>i \<in> set is. inst_project_id i = pid) \<longleftrightarrow> covered r pid" for pid
  proof
    assume "\<exists>i \<in> set is. inst_project_id i = pid"
    then obtain k i s where "(k, (i, s)) \<in> set (lr_instances r)" "inst_project_id i = pid"
      using assms(2) by (force simp: list_instances_def)
    then have "lr_view k r = Some i" using assms(1) by (simp add: runtime_wf_def gm_ok_get lr_view_def lr_find_def)
    then show "covered r pid" using \<open>inst_project_id i = pid\<close> by (auto simp: covered_def)
  next
    assume "covered r pid"
    then obtain k i s where "gm_get (lr_instances r) k = Some (i, s)" "inst_project_id i = pid"
      by (auto simp: covered_def lr_view_def lr_find_def)
    then show "\<exists>i \<in> set is. inst_project_id i = pid"
      using assms(2) map_of_SomeD [of "lr_instances r" k] by (force simp: list_instances_def)
  qed
  then show ?thesis unfolding agrees_def existing_projects_keys by blast
qed

text \<open>The identifiers the creations will use are new, and each is used once.\<close>

definition fresh_ids :: "(string \<Rightarrow> 'w rt_env) \<Rightarrow> project list \<Rightarrow> 'w libvirt_runtime \<Rightarrow> bool" where
  "fresh_ids env ps r \<longleftrightarrow> distinct (map (\<lambda>p. re_uuid (env (proj_id p))) ps) \<and>
     (\<forall>p \<in> set ps. lr_view (re_uuid (env (proj_id p))) r = None)"

definition extends :: "'w libvirt_runtime \<Rightarrow> 'w libvirt_runtime \<Rightarrow> bool" where
  "extends r r' \<longleftrightarrow> (\<forall>iid i. lr_view iid r = Some i \<longrightarrow> lr_view iid r' = Some i)"

lemma create_step:
  assumes wf: "runtime_wf r" and ag: "agrees ex r" and fresh: "fresh_ids env (p # ps) r"
    and c: "create_instance hv ch (env (proj_id p)) p r = (r1, res)"
  shows "runtime_wf r1" "fresh_ids env ps r1" "extends r r1"
    "res = Inr i \<Longrightarrow> agrees (gm_set (proj_id p) (inst_id i) ex) r1"
    "res = Inl e \<Longrightarrow> agrees ex r1"
proof -
  let ?e = "env (proj_id p)"
  have new: "lr_view (re_uuid ?e) r = None" using fresh by (simp add: fresh_ids_def)
  have oth: "j \<noteq> re_uuid ?e \<Longrightarrow> lr_view j r1 = lr_view j r" for j
    using create_instance_other [of j ?e hv ch p r] c by simp
  show "runtime_wf r1" using create_instance_wf [OF wf, of hv ch ?e p] c by simp
  show "fresh_ids env ps r1"
    unfolding fresh_ids_def
  proof (intro conjI ballI)
    show "distinct (map (\<lambda>p. re_uuid (env (proj_id p))) ps)" using fresh by (simp add: fresh_ids_def)
    fix q assume q: "q \<in> set ps"
    have "re_uuid ?e \<notin> (\<lambda>p. re_uuid (env (proj_id p))) ` set ps" using fresh by (simp add: fresh_ids_def)
    then have "re_uuid (env (proj_id q)) \<noteq> re_uuid ?e" using imageI [OF q, of "\<lambda>p. re_uuid (env (proj_id p))"] by metis
    then show "lr_view (re_uuid (env (proj_id q))) r1 = None"
      using oth [of "re_uuid (env (proj_id q))"] fresh q by (simp add: fresh_ids_def)
  qed
  show ext: "extends r r1"
    unfolding extends_def
  proof (intro allI impI)
    fix j i assume "lr_view j r = Some i"
    then show "lr_view j r1 = Some i" using oth [of j] new by (cases "j = re_uuid ?e") auto
  qed
  {
    assume "res = Inr i"
    note k = create_instance_Inr [OF c [unfolded this]]
    have "covered r1 pid \<longleftrightarrow> pid = proj_id p \<or> covered r pid" for pid
    proof
      assume "covered r1 pid"
      then obtain j x where j: "lr_view j r1 = Some x" "inst_project_id x = pid" by (auto simp: covered_def)
      then show "pid = proj_id p \<or> covered r pid"
        using k(2,4) oth [of j] by (cases "j = re_uuid ?e") (auto simp: covered_def)
    next
      assume "pid = proj_id p \<or> covered r pid"
      then show "covered r1 pid" using k(2,4) ext by (auto simp: covered_def extends_def)
    qed
    then show "agrees (gm_set (proj_id p) (inst_id i) ex) r1"
      using ag by (auto simp: agrees_def gomap_simps)
  next
    assume "res = Inl e"
    then have "kept r r1" using create_instance_Inl c by blast
    then have "lr_view (re_uuid ?e) r1 = None" using new by (cases "lr_view (re_uuid ?e) r1") (force simp: view_kept_def)+
    then have "lr_view j r1 = lr_view j r" for j using oth new by (cases "j = re_uuid ?e") auto
    then show "agrees ex r1" using ag by (simp add: agrees_def covered_def)
  }
qed

lemma create_missing_spec:
  assumes "runtime_wf r" "agrees ex r" "fresh_ids env ps r"
    and "create_missing (libvirt_for hv ch env) ps ex r = (r', ex', fs)"
  shows "runtime_wf r' \<and> extends r r' \<and> agrees ex' r' \<and>
    (\<forall>p \<in> set ps. covered r' (proj_id p) \<or> proj_id p \<in> create_failures fs)"
  using assms
proof (induction ps arbitrary: ex r ex' fs)
  case Nil
  then show ?case by (simp add: extends_def)
next
  case (Cons p ps)
  show ?case
  proof (cases "gm_get ex (proj_id p) = None")
    case False
    have f: "fresh_ids env ps r" using Cons.prems(3) by (simp add: fresh_ids_def)
    have "create_missing (libvirt_for hv ch env) ps ex r = (r', ex', fs)" using Cons.prems(4) False by simp
    note ih = Cons.IH [OF Cons.prems(1,2) f this]
    have "covered r (proj_id p)" using False Cons.prems(2) by (simp add: agrees_def)
    then have "covered r' (proj_id p)" using ih by (auto simp: covered_def extends_def)
    then show ?thesis using ih by simp
  next
    case True
    obtain r1 res where c: "create_instance hv ch (env (proj_id p)) p r = (r1, res)" by fastforce
    note st = create_step [OF Cons.prems(1-3) c]
    show ?thesis
    proof (cases res)
      case (Inl e)
      obtain ex2 fs2 where r: "create_missing (libvirt_for hv ch env) ps ex r1 = (r', ex2, fs2)"
          "ex' = ex2" "fs = CreateFailed (proj_id p) e # fs2"
        using Cons.prems(4) True c Inl by (auto split: prod.splits)
      note ih = Cons.IH [OF st(1) st(5) [OF Inl] st(2) r(1)]
      then show ?thesis using r st(3) by (auto simp: extends_def)
    next
      case (Inr i)
      have r: "create_missing (libvirt_for hv ch env) ps (gm_set (proj_id p) (inst_id i) ex) r1 = (r', ex', fs)"
        using Cons.prems(4) True c Inr by simp
      note ih = Cons.IH [OF st(1) st(4) [OF Inr] st(2) r]
      have "covered r1 (proj_id p)" using st(4) [OF Inr] by (auto simp: agrees_def gomap_simps)
      then have "covered r' (proj_id p)" using ih by (auto simp: covered_def extends_def)
      then show ?thesis using ih st(3) by (auto simp: extends_def)
    qed
  qed
qed

lemma deploy_app_instances: "lr_instances (fst (deploy_app ch iid a r)) = lr_instances r"
  by (auto simp: deploy_app_def agent_call_def with_world_def split: option.split prod.split)

lemma deploy_each_quiet:
  assumes "deploy_each (libvirt_for hv ch env pid) pid' iid as r = (r', fs)"
  shows "lr_instances r' = lr_instances r \<and> create_failures fs = {}"
  using assms
proof (induction "as" arbitrary: r fs)
  case (Cons a "as")
  obtain r1 e where d: "deploy_app ch iid a r = (r1, e)" by fastforce
  obtain fs1 where r: "deploy_each (libvirt_for hv ch env pid) pid' iid as r1 = (r', fs1)"
      "create_failures fs = create_failures fs1"
    using Cons.prems d by (auto split: prod.splits option.splits)
  show ?case using Cons.IH [OF r(1)] r(2) deploy_app_instances [of ch iid a r] d by simp
qed simp

lemma deploy_missing_quiet:
  assumes "deploy_missing (libvirt_for hv ch env) apps ex r = (r', fs)"
  shows "lr_instances r' = lr_instances r \<and> create_failures fs = {}"
  using assms
proof (induction apps arbitrary: r fs)
  case (Cons a rest)
  obtain pid "as" where a: "a = (pid, as)" by fastforce
  show ?case
  proof (cases "gm_get ex pid")
    case None
    then show ?thesis using Cons a by simp
  next
    case (Some iid)
    obtain r1 fs1 where d: "deploy_each (libvirt_for hv ch env pid) pid iid as r = (r1, fs1)" by fastforce
    obtain fs2 where r: "deploy_missing (libvirt_for hv ch env) rest ex r1 = (r', fs2)" "fs = fs1 @ fs2"
      using Cons.prems Some a d by (auto split: prod.splits)
    show ?thesis using Cons.IH [OF r(1)] deploy_each_quiet [OF d] r(2) by simp
  qed
qed simp

lemma reconcile_split:
  assumes "reconcile True (libvirt_for hv ch env) ps apps r = (r', Inr fs)"
  obtains r1 ex fs1 where "create_missing (libvirt_for hv ch env) ps (existing_projects (map (fst \<circ> snd) (lr_instances r))) r = (r1, ex, fs1)"
    "lr_instances r' = lr_instances r1" "create_failures fs = create_failures fs1"
proof -
  obtain r1 ex fs1 where c: "create_missing (libvirt_for hv ch env) ps (existing_projects (map (fst \<circ> snd) (lr_instances r))) r = (r1, ex, fs1)"
    by (metis prod_cases3)
  obtain r2 fs2 where d: "deploy_missing (libvirt_for hv ch env) apps ex r1 = (r2, fs2)" by fastforce
  have "r' = r2" "fs = fs1 @ fs2" using assms c d by (simp_all add: reconcile_def list_instances_def)
  then show ?thesis using that [OF c] deploy_missing_quiet [OF d] by simp
qed

lemma lr_view_instances: "lr_instances r' = lr_instances r \<Longrightarrow> lr_view iid r' = lr_view iid r"
  by (simp add: lr_view_def lr_find_def)

lemma create_missing_none: "\<forall>p \<in> set ps. gm_get ex (proj_id p) \<noteq> None \<Longrightarrow> create_missing ops ps ex r = (r, ex, [])"
  by (induction ps) auto

text \<open>C12: a reconciliation leaves every desired project with an instance, or names it among the
  failures; instances that were there stay as they are; and once all are covered, every later
  reconciliation with the same projects creates nothing and changes no instance.\<close>

theorem reconcile_converges:
  assumes "runtime_wf r" "fresh_ids env ps r"
    and "reconcile True (libvirt_for hv ch env) ps apps r = (r', Inr fs)"
  shows "(\<forall>p \<in> set ps. covered r' (proj_id p) \<or> proj_id p \<in> create_failures fs) \<and> extends r r' \<and>
    (create_failures fs = {} \<longrightarrow> (\<forall>hv' ch' env' apps' r'' fs'.
       reconcile True (libvirt_for hv' ch' env') ps apps' r' = (r'', Inr fs') \<longrightarrow>
       create_failures fs' = {} \<and> (\<forall>iid. lr_view iid r'' = lr_view iid r')))"
proof -
  obtain r1 ex fs1 where c: "create_missing (libvirt_for hv ch env) ps (existing_projects (map (fst \<circ> snd) (lr_instances r))) r = (r1, ex, fs1)"
    "lr_instances r' = lr_instances r1" "create_failures fs = create_failures fs1"
    using reconcile_split [OF assms(3)] by metis
  have "agrees (existing_projects (map (fst \<circ> snd) (lr_instances r))) r"
    by (rule listed_agrees [OF assms(1)]) (simp add: list_instances_def)
  note k = create_missing_spec [OF assms(1) this assms(2) c(1)]
  note v = lr_view_instances [OF c(2)]
  have 1: "\<forall>p \<in> set ps. covered r' (proj_id p) \<or> proj_id p \<in> create_failures fs" "extends r r'"
    using k v c(3) by (simp_all add: covered_def extends_def)
  have wf: "runtime_wf r'" using k c(2) runtime_wf_same by metis
  have "create_failures fs' = {} \<and> (\<forall>iid. lr_view iid r'' = lr_view iid r')"
    if none: "create_failures fs = {}" and again: "reconcile True (libvirt_for hv' ch' env') ps apps' r' = (r'', Inr fs')"
    for hv' ch' env' apps' r'' fs'
  proof -
    obtain r2 ex2 fs2 where d: "create_missing (libvirt_for hv' ch' env') ps (existing_projects (map (fst \<circ> snd) (lr_instances r'))) r' = (r2, ex2, fs2)"
      "lr_instances r'' = lr_instances r2" "create_failures fs' = create_failures fs2"
      using reconcile_split [OF again] by metis
    have "agrees (existing_projects (map (fst \<circ> snd) (lr_instances r'))) r'"
      by (rule listed_agrees [OF wf]) (simp add: list_instances_def)
    then have "\<forall>p \<in> set ps. gm_get (existing_projects (map (fst \<circ> snd) (lr_instances r'))) (proj_id p) \<noteq> None"
      using 1(1) none by (simp add: agrees_def)
    then have "r2 = r'" "fs2 = []" using d(1) create_missing_none by (metis prod.inject)+
    then show ?thesis using d(2,3) lr_view_instances [OF d(2)] by simp
  qed
  then show ?thesis using 1 by blast
qed

text \<open>A node that has a machine for the first of two projects, and no base image for the second.\<close>

definition demo_project :: project where
  "demo_project = \<lparr>proj_id = ''u1'', proj_name = ''web'', proj_runtime = RuntimeQEMU, proj_resources = zero_resources,
     proj_topology = None, proj_state = ProjPending, proj_labels = [], proj_domains = [], proj_default_domain = [],
     proj_env = [], proj_created_at = 1, proj_updated_at = 1\<rparr>"

definition node_env :: "string \<Rightarrow> (string \<Rightarrow> bool) rt_env" where
  "node_env pid = \<lparr>re_now = 5, re_uuid = CHR ''i'' # pid, re_create = demo_create_env\<lparr>ce_base_exists := False\<rparr>, re_ssh_key = None,
     re_stop_ticks = [], re_ready_ticks = [\<lambda>w. w], re_iso_exists = True, re_resize_disk = True\<rparr>"

definition node_channel :: "(string \<Rightarrow> bool) channel" where
  "node_channel = \<lparr>ch_dial = (\<lambda>a w. True), ch_send = (\<lambda>a c w. (w, None))\<rparr>"

definition node_runtime :: "(string \<Rightarrow> bool) libvirt_runtime" where
  "node_runtime = \<lparr>lr_config = default_config, lr_instances = [(''i0'', (demo_inst\<lparr>inst_id := ''i0''\<rparr>, ''/s''))],
     lr_host = \<lparr>ho_world = (\<lambda>n. False), ho_fs = (\<lambda>p. False), ho_mode = (\<lambda>p. None)\<rparr>\<rparr>"

theorem reconcile_converges_witness:
  "\<exists>r' fs. reconcile True (libvirt_for (demo_hv True) node_channel node_env)
      [demo_project, demo_project\<lparr>proj_id := ''u2'', proj_name := ''db''\<rparr>] [] node_runtime = (r', Inr fs) \<and>
    create_failures fs = {''u2''} \<and> covered r' ''u1''"
proof -
  let ?ps = "[demo_project, demo_project\<lparr>proj_id := ''u2'', proj_name := ''db''\<rparr>]"
  have v: "lr_view iid node_runtime = (if iid = ''i0'' then Some (demo_inst\<lparr>inst_id := ''i0''\<rparr>) else None)" for iid
    by (simp add: lr_view_def lr_find_def node_runtime_def)
  have wf: "runtime_wf node_runtime"
    using v by (simp add: runtime_wf_def) (simp add: node_runtime_def gm_ok_def)
  have fresh: "fresh_ids node_env ?ps node_runtime"
    by (simp add: fresh_ids_def v node_env_def demo_project_def)
  let ?q = "reconcile True (libvirt_for (demo_hv True) node_channel node_env) ?ps [] node_runtime"
  have "map_option (map (\<lambda>f. case f of CreateFailed p e \<Rightarrow> Some p | DeployFailed p a e \<Rightarrow> None)) (case snd ?q of Inr fs \<Rightarrow> Some fs | Inl e \<Rightarrow> None)
      = Some [Some ''u2'']" by code_simp
  then obtain r' fs where q: "?q = (r', Inr fs)" "map (\<lambda>f. case f of CreateFailed p e \<Rightarrow> Some p | DeployFailed p a e \<Rightarrow> None) fs = [Some ''u2'']"
    by (cases ?q; cases "snd ?q") auto
  then have f: "create_failures fs = {''u2''}" by (auto simp: create_failures_def split: reconcile_failure.splits)
  have "\<forall>p \<in> set ?ps. covered r' (proj_id p) \<or> proj_id p \<in> create_failures fs"
    using reconcile_converges [OF wf fresh q(1)] by blast
  then have "covered r' ''u1''" using f by (simp add: demo_project_def)
  then show ?thesis using q(1) f by blast
qed

section \<open>A restarted agent\<close>


definition busy_env :: "string \<Rightarrow> (string \<Rightarrow> bool) rt_env" where
  "busy_env pid = (node_env pid)\<lparr>re_create := demo_create_env\<lparr>ce_disk_create := False, ce_setfacl := False\<rparr>\<rparr>"

definition restarted_node :: "(string \<Rightarrow> bool) libvirt_runtime" where
  "restarted_node = \<lparr>lr_config = default_config\<lparr>rc_data_dir := ''/d''\<rparr>, lr_instances = [],
     lr_host = \<lparr>ho_world = (\<lambda>n. n = ''goship-web''), ho_fs = (\<lambda>p. p = ''/d/vms/web/disk.qcow2''), ho_mode = (\<lambda>p. Some 1)\<rparr>\<rparr>"


section \<open>A start comes to an end\<close>

text \<open>The hypervisor runs the domain and its agent answers.\<close>

definition answers :: "'w hypervisor \<Rightarrow> 'w channel \<Rightarrow> string \<Rightarrow> string \<Rightarrow> 'w \<Rightarrow> bool" where
  "answers hv ch dname sock w \<longleftrightarrow> (\<exists>w' resp. ready_round hv ch False dname sock w = (w', Some resp))"

lemma wait_ready_loop_answers:
  assumes "t \<in> set ts" "\<And>w. answers hv ch dname sock (t w)"
  shows "snd (wait_ready_loop hv ch False dname sock ts w) \<noteq> None"
  using assms(1)
proof (induction ts arbitrary: w)
  case (Cons t' ts)
  obtain w1 r where r: "ready_round hv ch False dname sock (t' w) = (w1, r)" by fastforce
  show ?case
  proof (cases r)
    case None
    then have "t' \<noteq> t" using assms(2) [of w] r by (auto simp: answers_def)
    then show ?thesis using Cons r None by simp
  qed (simp add: r)
qed simp


definition calm_hv :: "(string \<Rightarrow> bool) hypervisor" where
  "calm_hv = (demo_hv True)\<lparr>hv_lookup := \<lambda>n w. DomFound (string_code n)\<rparr>"

definition calm_channel :: "(string \<Rightarrow> bool) channel" where
  "calm_channel = \<lparr>ch_dial = (\<lambda>a w. True), ch_send = (\<lambda>a c w. (w, Some ok_response))\<rparr>"


end
