(* ===== verification/Client.thy ===== *)
theory Client
  imports Api_Requests
begin

text \<open>
  The HTTP client of the API (internal/client) up to the handler a request reaches: the targets the
  methods build with \<open>fmt.Sprintf\<close>, what net/url makes of them on the way, and the patterns of the
  server's multiplexer (\<open>Server.routes\<close> of internal/api/server.go). A body is the value that is encoded
  as JSON and decoded again; \<open>wire_update\<close> accounts for \<open>omitempty\<close>. The server is reachable; a
  redirect of the multiplexer is not followed further.
\<close>

section \<open>net/url and net/http\<close>

definition unreserved :: "char \<Rightarrow> bool" where
  "unreserved c \<longleftrightarrow> (let n = (of_char c :: nat) in
     (48 \<le> n \<and> n \<le> 57) \<or> (65 \<le> n \<and> n \<le> 90) \<or> (97 \<le> n \<and> n \<le> 122) \<or>
     c = CHR ''-'' \<or> c = CHR ''_'' \<or> c = CHR ''.'' \<or> c = CHR ''~'')"

definition control :: "char \<Rightarrow> bool" where
  "control c \<longleftrightarrow> (of_char c :: nat) < 32 \<or> (of_char c :: nat) = 127"

text \<open>\<open>unescape\<close> in its modes for paths and for queries, where a plus sign is a space.\<close>

fun unescape :: "bool \<Rightarrow> string \<Rightarrow> string option" where
  "unescape q [] = Some []"
| "unescape q (c # s) =
     (if c = CHR ''%''
      then (case s of h # l # t \<Rightarrow>
            (case (hex_val h, hex_val l) of
               (Some x, Some y) \<Rightarrow> map_option ((#) (char_of (16 * x + y))) (unescape q t)
             | _ \<Rightarrow> None)
          | _ \<Rightarrow> None)
      else map_option ((#) (if q \<and> c = CHR ''+'' then CHR '' '' else c)) (unescape q s))"

definition path_char :: "char \<Rightarrow> bool" where
  "path_char c \<longleftrightarrow> unreserved c \<or> c \<in> set ''$&+,/:;=@''"

definition hex_upper :: "nat \<Rightarrow> char" where
  "hex_upper n = (if n < 10 then char_of (48 + n) else char_of (65 + (n - 10)))"

definition escape_path :: "string \<Rightarrow> string" where
  "escape_path s = concat (map (\<lambda>c. if path_char c then [c]
     else [CHR ''%'', hex_upper (of_char c div 16), hex_upper (of_char c mod 16)]) s)"

text \<open>\<open>URL.EscapedPath\<close>: the text as it was written, if it is a valid encoding (\<open>validEncoded\<close>).\<close>

definition valid_encoded :: "string \<Rightarrow> bool" where
  "valid_encoded s \<longleftrightarrow> (\<forall>c \<in> set s. path_char c \<or> c = CHR ''%'' \<or> c \<in> set ''!()*[]'' \<or> c = CHR 0x27)"

definition escaped_path :: "string \<Rightarrow> string \<Rightarrow> string" where
  "escaped_path raw path = (if valid_encoded raw then raw else escape_path path)"

text \<open>\<open>url.Parse\<close> on the part after the host: the path as it is sent, and the raw query.\<close>

definition parse_target :: "string \<Rightarrow> (string \<times> string) option" where
  "parse_target t =
     (if \<exists>c \<in> set t. control c then None
      else (case cut t ''#'' of (u, frag, _) \<Rightarrow>
        (case cut u ''?'' of (raw, query, _) \<Rightarrow>
          (case (unescape False frag, unescape False raw) of
             (Some _, Some path) \<Rightarrow> Some (escaped_path raw path, query)
           | _ \<Rightarrow> None))))"

text \<open>\<open>r.URL.Query().Get(k)\<close>: the first value of the key, the empty string without one. A pair that
  has a semicolon or a broken escape is passed over.\<close>

fun query_pairs :: "string list \<Rightarrow> string gomap" where
  "query_pairs [] = []"
| "query_pairs (p # ps) =
     (if p = [] \<or> CHR '';'' \<in> set p then query_pairs ps
      else (case cut p ''='' of (k, v, _) \<Rightarrow>
        (case (unescape True k, unescape True v) of
           (Some k', Some v') \<Rightarrow> (k', v') # query_pairs ps
         | _ \<Rightarrow> query_pairs ps)))"

definition query_get :: "string \<Rightarrow> string \<Rightarrow> string" where
  "query_get q k = (case map_of (query_pairs (split_on CHR ''&'' q)) k of None \<Rightarrow> [] | Some v \<Rightarrow> v)"

section \<open>The patterns of the server\<close>

datatype payload = PNone | PCreateProject create_project_request | PUpdateProject update_project_request
  | PDomains update_domains_request | PSetEnv set_env_request | PKeys "string list"
  | PCreateApp create_app_request | PDeploy string | PUpdateApp update_app_request
  | PNode register_node_request | PForm upload_form

text \<open>
  The body a handler reads: an empty one does not decode, and one made for another handler is outside
  the model.
\<close>

definition json_body :: "(payload \<Rightarrow> 'a option) \<Rightarrow> ('a option \<Rightarrow> request) \<Rightarrow> payload \<Rightarrow> request option" where
  "json_body f mk pl = (if pl = PNone then Some (mk None) else map_option (\<lambda>r. mk (Some r)) (f pl))"

definition as_create_project :: "payload \<Rightarrow> create_project_request option" where
  "as_create_project p = (case p of PCreateProject r \<Rightarrow> Some r | _ \<Rightarrow> None)"
definition as_update_project :: "payload \<Rightarrow> update_project_request option" where
  "as_update_project p = (case p of PUpdateProject r \<Rightarrow> Some r | _ \<Rightarrow> None)"
definition as_domains :: "payload \<Rightarrow> update_domains_request option" where
  "as_domains p = (case p of PDomains r \<Rightarrow> Some r | _ \<Rightarrow> None)"
definition as_set_env :: "payload \<Rightarrow> set_env_request option" where
  "as_set_env p = (case p of PSetEnv r \<Rightarrow> Some r | _ \<Rightarrow> None)"
definition as_keys :: "payload \<Rightarrow> string list option" where
  "as_keys p = (case p of PKeys r \<Rightarrow> Some r | _ \<Rightarrow> None)"
definition as_create_app :: "payload \<Rightarrow> create_app_request option" where
  "as_create_app p = (case p of PCreateApp r \<Rightarrow> Some r | _ \<Rightarrow> None)"
definition as_update_app :: "payload \<Rightarrow> update_app_request option" where
  "as_update_app p = (case p of PUpdateApp r \<Rightarrow> Some r | _ \<Rightarrow> None)"
definition as_node :: "payload \<Rightarrow> register_node_request option" where
  "as_node p = (case p of PNode r \<Rightarrow> Some r | _ \<Rightarrow> None)"
definition as_form :: "payload \<Rightarrow> upload_form option" where
  "as_form p = (case p of PForm r \<Rightarrow> Some r | _ \<Rightarrow> None)"

lemmas payload_defs = json_body_def as_create_project_def as_update_project_def as_domains_def
  as_set_env_def as_keys_def as_create_app_def as_update_app_def as_node_def as_form_def

definition deploy_body_of :: "payload \<Rightarrow> deploy_body option" where
  "deploy_body_of p = (case p of PNone \<Rightarrow> Some NoBody | PDeploy img \<Rightarrow> Some (ImageOverride img) | _ \<Rightarrow> None)"

datatype verb = GET | POST | PUT | DELETE

definition project_op :: "verb \<Rightarrow> string \<Rightarrow> string \<Rightarrow> string \<Rightarrow> payload \<Rightarrow> request option" where
  "project_op m x op q pl =
     (if m = POST \<and> op = ''stop'' then Some (ReqProjectStop x)
      else if m = POST \<and> op = ''start'' then Some (ReqProjectStart x)
      else if m = POST \<and> op = ''restart'' then Some (ReqProjectRestart x)
      else if m = GET \<and> op = ''logs''
        then Some (ReqProjectLogs x (query_get q ''source'') (query_get q ''lines'') (query_get q ''file''))
      else if m = PUT \<and> op = ''env'' then json_body as_set_env (ReqEnvSet x) pl
      else if m = GET \<and> op = ''env'' then Some (ReqEnvList x (query_get q ''show-values''))
      else if m = DELETE \<and> op = ''env'' then json_body as_keys (ReqEnvDelete x) pl
      else if m = PUT \<and> op = ''domains'' then json_body as_domains (ReqDomainsUpdate x) pl
      else if m = POST \<and> op = ''push-image'' then json_body as_form (ReqPushImage x) pl
      else if m = POST \<and> op = ''update-init'' then json_body as_form (ReqUpdateInit x) pl
      else if m = GET \<and> op = ''apps'' then Some (ReqAppList x)
      else if m = POST \<and> op = ''apps'' then json_body as_create_app (ReqAppCreate x) pl
      else None)"

definition app_op :: "verb \<Rightarrow> string \<Rightarrow> string \<Rightarrow> string \<Rightarrow> string \<Rightarrow> payload \<Rightarrow> request option" where
  "app_op m x n op q pl =
     (if m = POST \<and> op = ''deploy'' then map_option (ReqAppDeploy x n) (deploy_body_of pl)
      else if m = POST \<and> op = ''stop'' then Some (ReqAppStop x n)
      else if m = GET \<and> op = ''logs'' then Some (ReqAppLogs x n (query_get q ''lines''))
      else None)"

definition project_route :: "verb \<Rightarrow> string list \<Rightarrow> string \<Rightarrow> payload \<Rightarrow> request option" where
  "project_route m segs q pl =
     (case segs of
        [] \<Rightarrow> (case m of GET \<Rightarrow> Some ReqProjectList | POST \<Rightarrow> json_body as_create_project ReqProjectCreate pl | _ \<Rightarrow> None)
      | [x] \<Rightarrow> (case m of GET \<Rightarrow> Some (ReqProjectGet x) | DELETE \<Rightarrow> Some (ReqProjectDelete x)
          | PUT \<Rightarrow> json_body as_update_project (ReqProjectUpdate x) pl | _ \<Rightarrow> None)
      | [x, op] \<Rightarrow> project_op m x op q pl
      | [x, apps, n] \<Rightarrow> (if apps \<noteq> ''apps'' then None
          else case m of GET \<Rightarrow> Some (ReqAppGet x n) | DELETE \<Rightarrow> Some (ReqAppDelete x n)
            | PUT \<Rightarrow> json_body as_update_app (ReqAppUpdate x n) pl | _ \<Rightarrow> None)
      | [x, apps, n, op] \<Rightarrow> (if apps \<noteq> ''apps'' then None else app_op m x n op q pl)
      | _ \<Rightarrow> None)"

definition node_route :: "verb \<Rightarrow> string list \<Rightarrow> payload \<Rightarrow> request option" where
  "node_route m segs pl =
     (case segs of
        [] \<Rightarrow> (case m of GET \<Rightarrow> Some ReqNodeList | POST \<Rightarrow> json_body as_node ReqNodeRegister pl | _ \<Rightarrow> None)
      | [x] \<Rightarrow> (case m of GET \<Rightarrow> Some (ReqNodeGet x) | DELETE \<Rightarrow> Some (ReqNodeDelete x) | _ \<Rightarrow> None)
      | [x, op] \<Rightarrow>
         (if m = POST \<and> op = ''drain'' then Some (ReqNodeDrain x)
          else if m = POST \<and> op = ''heartbeat'' then Some (ReqNodeHeartbeat x)
          else if m = GET \<and> op = ''desired-state'' then Some (ReqNodeDesired x) else None)
      | _ \<Rightarrow> None)"

definition routes :: "verb \<Rightarrow> string list \<Rightarrow> string \<Rightarrow> payload \<Rightarrow> request option" where
  "routes m segs q pl =
     (case segs of
        [a] \<Rightarrow> if m = GET \<and> a = ''healthz'' then Some ReqHealthz else None
      | a # b # c # rest \<Rightarrow>
         (if a \<noteq> ''api'' \<or> b \<noteq> ''v1'' then None
          else if c = ''projects'' then project_route m rest q pl
          else if c = ''nodes'' then node_route m rest pl
          else if m = GET \<and> c = ''proxy'' \<and> rest = [''routes''] then Some ReqProxyRoutes else None)
      | _ \<Rightarrow> None)"

text \<open>
  \<open>ServeMux\<close> looks at the segments of the escaped path, redirects to the cleaned path when that is
  another one, and unescapes the segments it matches. A single wildcard does not match a final slash.
\<close>

datatype routing = Routed request | BadUrl | BadRequestLine | NotClean | NoRoute

definition serve_mux :: "verb \<Rightarrow> string \<Rightarrow> payload \<Rightarrow> routing" where
  "serve_mux m t pl =
     (case parse_target t of None \<Rightarrow> BadUrl
      | Some (path, q) \<Rightarrow>
        if CHR '' '' \<in> set q then BadRequestLine
        else let segs = tl (split_on CHR ''/'' path)
             in if '''' \<in> set (butlast segs) \<or> ''.'' \<in> set segs \<or> ''..'' \<in> set segs then NotClean
                else if '''' \<in> set segs then NoRoute
                else (case routes m (map (\<lambda>s. the (unescape False s)) segs) q pl of
                    None \<Rightarrow> NoRoute | Some r \<Rightarrow> Routed r))"

section \<open>The methods of the client\<close>

datatype client_op = ListProjects | CreateProject string resources | GetProject string
  | DeleteProject string | StopProject string | StartProject string | RestartProject string
  | UpdateProject string update_project_request | UpdateDomains string update_domains_request
  | GetProjectLogs string string string int
  | SetEnv string "string gomap" bool | ListEnv string bool | DeleteEnv string "string list"
  | PushImage string string stream int | UpdateInit string stream int bool
  | ListApps string | CreateApp string create_app_request | GetApp string string
  | DeployApp string string string | StopApp string string | DeleteApp string string
  | UpdateApp string string update_app_request | GetAppLogs string string int
  | RegisterNode register_node_request | ListNodes | GetNode string | DeleteNode string
  | DrainNode string | Heartbeat string | GetDesiredState string

definition api_path :: "string list \<Rightarrow> string" where
  "api_path segs = ''/api/v1'' @ concat (map ((@) ''/'') segs)"

abbreviation project_path :: "string \<Rightarrow> string list \<Rightarrow> string" where
  "project_path x segs \<equiv> api_path (''projects'' # x # segs)"

definition query_arg :: "string \<Rightarrow> string \<Rightarrow> string" where
  "query_arg k v = (if v = [] then [] else ''&'' @ k @ ''='' @ v)"

definition non_nil :: "'a list option \<Rightarrow> 'a list option" where
  "non_nil v = (if v = Some [] then None else v)"

definition wire_update :: "update_app_request \<Rightarrow> update_app_request" where
  "wire_update r = r\<lparr>ua_ports := non_nil (ua_ports r), ua_env := non_nil (ua_env r), ua_tags := non_nil (ua_tags r)\<rparr>"

definition create_project_payload :: "string \<Rightarrow> resources \<Rightarrow> payload" where
  "create_project_payload name res =
     PCreateProject \<lparr>cp_name = name, cp_resources = res, cp_domains = [], cp_default_domain = []\<rparr>"

definition form_payload :: "string \<Rightarrow> stream \<Rightarrow> int \<Rightarrow> payload" where
  "form_payload field rd len = PForm \<lparr>uf_field = field, uf_file = Some (rd, len)\<rparr>"

definition logs_target :: "string \<Rightarrow> string \<Rightarrow> string \<Rightarrow> int \<Rightarrow> string" where
  "logs_target x source file n = project_path x [''logs''] @ ''?lines='' @ show_int n @
     query_arg ''source'' source @ query_arg ''file'' file"

text \<open>What each method sends: of the environment (env.go), the applications (apps.go) and the nodes (nodes.go).\<close>

definition set_env_call :: "string \<Rightarrow> string gomap \<Rightarrow> bool \<Rightarrow> verb \<times> string \<times> payload" where
  "set_env_call x env secret = (PUT, project_path x [''env''], PSetEnv \<lparr>se_env = env, se_secret = secret\<rparr>)"

definition list_env_call :: "string \<Rightarrow> bool \<Rightarrow> verb \<times> string \<times> payload" where
  "list_env_call x v = (GET, project_path x [''env''] @ (if v then ''?show-values=true'' else []), PNone)"

definition delete_env_call :: "string \<Rightarrow> string list \<Rightarrow> verb \<times> string \<times> payload" where
  "delete_env_call x ks = (DELETE, project_path x [''env''], PKeys ks)"

definition list_apps_call :: "string \<Rightarrow> verb \<times> string \<times> payload" where
  "list_apps_call x = (GET, project_path x [''apps''], PNone)"

definition create_app_call :: "string \<Rightarrow> create_app_request \<Rightarrow> verb \<times> string \<times> payload" where
  "create_app_call x r = (POST, project_path x [''apps''], PCreateApp r)"

definition get_app_call :: "string \<Rightarrow> string \<Rightarrow> verb \<times> string \<times> payload" where
  "get_app_call x n = (GET, project_path x [''apps'', n], PNone)"

definition deploy_app_call :: "string \<Rightarrow> string \<Rightarrow> string \<Rightarrow> verb \<times> string \<times> payload" where
  "deploy_app_call x n img = (POST, project_path x [''apps'', n, ''deploy''], PDeploy img)"

definition stop_app_call :: "string \<Rightarrow> string \<Rightarrow> verb \<times> string \<times> payload" where
  "stop_app_call x n = (POST, project_path x [''apps'', n, ''stop''], PNone)"

definition delete_app_call :: "string \<Rightarrow> string \<Rightarrow> verb \<times> string \<times> payload" where
  "delete_app_call x n = (DELETE, project_path x [''apps'', n], PNone)"

definition update_app_call :: "string \<Rightarrow> string \<Rightarrow> update_app_request \<Rightarrow> verb \<times> string \<times> payload" where
  "update_app_call x n r = (PUT, project_path x [''apps'', n], PUpdateApp (wire_update r))"

definition app_logs_call :: "string \<Rightarrow> string \<Rightarrow> int \<Rightarrow> verb \<times> string \<times> payload" where
  "app_logs_call x n k = (GET, project_path x [''apps'', n, ''logs''] @ ''?lines='' @ show_int k, PNone)"

definition register_node_call :: "register_node_request \<Rightarrow> verb \<times> string \<times> payload" where
  "register_node_call r = (POST, api_path [''nodes''], PNode r)"

definition list_nodes_call :: "verb \<times> string \<times> payload" where
  "list_nodes_call = (GET, api_path [''nodes''], PNone)"

definition get_node_call :: "string \<Rightarrow> verb \<times> string \<times> payload" where
  "get_node_call x = (GET, api_path [''nodes'', x], PNone)"

definition delete_node_call :: "string \<Rightarrow> verb \<times> string \<times> payload" where
  "delete_node_call x = (DELETE, api_path [''nodes'', x], PNone)"

definition drain_node_call :: "string \<Rightarrow> verb \<times> string \<times> payload" where
  "drain_node_call x = (POST, api_path [''nodes'', x, ''drain''], PNone)"

definition heartbeat_call :: "string \<Rightarrow> verb \<times> string \<times> payload" where
  "heartbeat_call x = (POST, api_path [''nodes'', x, ''heartbeat''], PNone)"

definition desired_state_call :: "string \<Rightarrow> verb \<times> string \<times> payload" where
  "desired_state_call x = (GET, api_path [''nodes'', x, ''desired-state''], PNone)"

lemmas call_defs [simp] = set_env_call_def list_env_call_def delete_env_call_def list_apps_call_def create_app_call_def
  get_app_call_def deploy_app_call_def stop_app_call_def delete_app_call_def update_app_call_def
  app_logs_call_def register_node_call_def list_nodes_call_def get_node_call_def delete_node_call_def
  drain_node_call_def heartbeat_call_def desired_state_call_def

fun client_request :: "client_op \<Rightarrow> verb \<times> string \<times> payload" where
  "client_request ListProjects = (GET, api_path [''projects''], PNone)"
| "client_request (CreateProject n res) = (POST, api_path [''projects''], create_project_payload n res)"
| "client_request (GetProject x) = (GET, project_path x [], PNone)"
| "client_request (DeleteProject x) = (DELETE, project_path x [], PNone)"
| "client_request (StopProject x) = (POST, project_path x [''stop''], PNone)"
| "client_request (StartProject x) = (POST, project_path x [''start''], PNone)"
| "client_request (RestartProject x) = (POST, project_path x [''restart''], PNone)"
| "client_request (UpdateProject x r) = (PUT, project_path x [], PUpdateProject r)"
| "client_request (UpdateDomains x r) = (PUT, project_path x [''domains''], PDomains r)"
| "client_request (GetProjectLogs x source file n) = (GET, logs_target x source file n, PNone)"
| "client_request (SetEnv x env secret) = set_env_call x env secret"
| "client_request (ListEnv x v) = list_env_call x v"
| "client_request (DeleteEnv x ks) = delete_env_call x ks"
| "client_request (PushImage x ref rd len) = (POST, project_path x [''push-image''], form_payload ref rd len)"
| "client_request (UpdateInit x rd len b) = (POST, project_path x [''update-init''],
     form_payload (if b then ''true'' else ''false'') rd len)"
| "client_request (ListApps x) = list_apps_call x"
| "client_request (CreateApp x r) = create_app_call x r"
| "client_request (GetApp x n) = get_app_call x n"
| "client_request (DeployApp x n img) = deploy_app_call x n img"
| "client_request (StopApp x n) = stop_app_call x n"
| "client_request (DeleteApp x n) = delete_app_call x n"
| "client_request (UpdateApp x n r) = update_app_call x n r"
| "client_request (GetAppLogs x n k) = app_logs_call x n k"
| "client_request (RegisterNode r) = register_node_call r"
| "client_request ListNodes = list_nodes_call"
| "client_request (GetNode x) = get_node_call x"
| "client_request (DeleteNode x) = delete_node_call x"
| "client_request (DrainNode x) = drain_node_call x"
| "client_request (Heartbeat x) = heartbeat_call x"
| "client_request (GetDesiredState x) = desired_state_call x"

text \<open>\<open>doJSON\<close>: a status of 400 or more is an error; otherwise the body is the result.\<close>

datatype client_error = ApiError nat body | RequestFailed routing

definition client_call :: "'r api_env \<Rightarrow> client_op \<Rightarrow> 'r server \<Rightarrow> 'r server \<times> (client_error + body)" where
  "client_call q op s =
     (case client_request op of (m, t, pl) \<Rightarrow>
       (case serve_mux m t pl of
          Routed r \<Rightarrow> (case handle q r s of (s', rs) \<Rightarrow>
            (s', if 400 \<le> rs_status rs then Inl (ApiError (rs_status rs) (rs_body rs)) else Inr (rs_body rs)))
        | e \<Rightarrow> (s, Inl (RequestFailed e))))"

text \<open>The request a method is meant to make.\<close>

fun intended :: "client_op \<Rightarrow> request" where
  "intended ListProjects = ReqProjectList"
| "intended (CreateProject n res) = ReqProjectCreate
     (Some \<lparr>cp_name = n, cp_resources = res, cp_domains = [], cp_default_domain = []\<rparr>)"
| "intended (GetProject x) = ReqProjectGet x"
| "intended (DeleteProject x) = ReqProjectDelete x"
| "intended (StopProject x) = ReqProjectStop x"
| "intended (StartProject x) = ReqProjectStart x"
| "intended (RestartProject x) = ReqProjectRestart x"
| "intended (UpdateProject x r) = ReqProjectUpdate x (Some r)"
| "intended (UpdateDomains x r) = ReqDomainsUpdate x (Some r)"
| "intended (GetProjectLogs x source file n) = ReqProjectLogs x source (show_int n) file"
| "intended (SetEnv x env secret) = ReqEnvSet x (Some \<lparr>se_env = env, se_secret = secret\<rparr>)"
| "intended (ListEnv x v) = ReqEnvList x (if v then ''true'' else [])"
| "intended (DeleteEnv x ks) = ReqEnvDelete x (Some ks)"
| "intended (PushImage x ref rd len) = ReqPushImage x (Some \<lparr>uf_field = ref, uf_file = Some (rd, len)\<rparr>)"
| "intended (UpdateInit x rd len b) =
     ReqUpdateInit x (Some \<lparr>uf_field = (if b then ''true'' else ''false''), uf_file = Some (rd, len)\<rparr>)"
| "intended (ListApps x) = ReqAppList x"
| "intended (CreateApp x r) = ReqAppCreate x (Some r)"
| "intended (GetApp x n) = ReqAppGet x n"
| "intended (DeployApp x n img) = ReqAppDeploy x n (ImageOverride img)"
| "intended (StopApp x n) = ReqAppStop x n"
| "intended (DeleteApp x n) = ReqAppDelete x n"
| "intended (UpdateApp x n r) = ReqAppUpdate x n (Some (wire_update r))"
| "intended (GetAppLogs x n k) = ReqAppLogs x n (show_int k)"
| "intended (RegisterNode r) = ReqNodeRegister (Some r)"
| "intended ListNodes = ReqNodeList"
| "intended (GetNode x) = ReqNodeGet x"
| "intended (DeleteNode x) = ReqNodeDelete x"
| "intended (DrainNode x) = ReqNodeDrain x"
| "intended (Heartbeat x) = ReqNodeHeartbeat x"
| "intended (GetDesiredState x) = ReqNodeDesired x"

text \<open>The arguments of a method that become part of a path, and of a query.\<close>

fun op_names :: "client_op \<Rightarrow> string list" where
  "op_names (GetProject x) = [x]" | "op_names (DeleteProject x) = [x]" | "op_names (StopProject x) = [x]"
| "op_names (StartProject x) = [x]" | "op_names (RestartProject x) = [x]" | "op_names (UpdateProject x r) = [x]"
| "op_names (UpdateDomains x r) = [x]" | "op_names (GetProjectLogs x a b n) = [x]"
| "op_names (SetEnv x env secret) = [x]" | "op_names (ListEnv x v) = [x]" | "op_names (DeleteEnv x ks) = [x]"
| "op_names (PushImage x ref rd len) = [x]" | "op_names (UpdateInit x rd len b) = [x]"
| "op_names (ListApps x) = [x]" | "op_names (CreateApp x r) = [x]" | "op_names (GetApp x n) = [x, n]"
| "op_names (DeployApp x n img) = [x, n]" | "op_names (StopApp x n) = [x, n]" | "op_names (DeleteApp x n) = [x, n]"
| "op_names (UpdateApp x n r) = [x, n]" | "op_names (GetAppLogs x n k) = [x, n]"
| "op_names (GetNode x) = [x]" | "op_names (DeleteNode x) = [x]" | "op_names (DrainNode x) = [x]"
| "op_names (Heartbeat x) = [x]" | "op_names (GetDesiredState x) = [x]" | "op_names op = []"

fun op_query :: "client_op \<Rightarrow> string list" where
  "op_query (GetProjectLogs x source file n) = [source, file]" | "op_query op = []"

section \<open>Requests reach the handler they are meant for\<close>

definition url_name :: "string \<Rightarrow> bool" where
  "url_name s \<longleftrightarrow> s \<noteq> [] \<and> s \<noteq> ''.'' \<and> s \<noteq> ''..'' \<and> list_all unreserved s"

definition url_value :: "string \<Rightarrow> bool" where
  "url_value s \<longleftrightarrow> list_all (\<lambda>c. unreserved c \<or> c = CHR ''/'') s"

lemma unreserved_not:
  "\<not> unreserved CHR ''/''" "\<not> unreserved CHR ''%''" "\<not> unreserved CHR ''?''" "\<not> unreserved CHR ''#''"
  "\<not> unreserved CHR '' ''" "\<not> unreserved CHR ''&''" "\<not> unreserved CHR ''=''" "\<not> unreserved CHR '';''" "\<not> unreserved CHR ''+''"
  by (simp_all add: unreserved_def)

lemma unreserved_digit: "is_digit c \<Longrightarrow> unreserved c"
  by (auto simp: unreserved_def is_digit_def Let_def)

lemma not_control:
  assumes "unreserved c \<or> c \<in> set ''/?=&''" shows "\<not> control c"
  using assms by (auto simp: unreserved_def control_def Let_def)

lemma url_nameD: "url_name s \<Longrightarrow> c \<in> set s \<Longrightarrow> unreserved c"
  by (auto simp: url_name_def list_all_iff)

lemma unescape_plain: "CHR ''%'' \<notin> set s \<Longrightarrow> CHR ''+'' \<notin> set s \<Longrightarrow> unescape q s = Some s"
  by (induction s) auto

lemma split_segs: "\<forall>s \<in> set segs. d \<notin> set s \<Longrightarrow> split_on d (concat (map ((#) d) segs)) = [] # segs"
proof (induction segs)
  case (Cons a segs)
  then show ?case
  proof (cases segs)
    case (Cons b rest)
    then have "concat (map ((#) d) segs) = d # (b @ concat (map ((#) d) rest))" by simp
    then have "split_on d (a @ concat (map ((#) d) segs)) = a # segs"
      using Cons.prems Cons.IH Cons by (auto simp: split_on_append)
    then show ?thesis using \<open>segs = b # rest\<close> by simp
  qed (simp add: split_on_none)
qed simp

definition path_of :: "string list \<Rightarrow> string" where
  "path_of segs = concat (map ((#) CHR ''/'') segs)"

definition tail_of :: "string \<Rightarrow> string \<Rightarrow> bool" where
  "tail_of t q \<longleftrightarrow> t = [] \<and> q = [] \<or> t = CHR ''?'' # q"

lemma path_of_chars:
  "\<forall>s \<in> set segs. url_name s \<Longrightarrow> c \<in> set (path_of segs) \<Longrightarrow> unreserved c \<or> c = CHR ''/''"
  unfolding path_of_def using url_nameD by (induction segs) auto

definition query_text :: "string \<Rightarrow> bool" where
  "query_text q \<longleftrightarrow> (\<forall>c \<in> set q. unreserved c \<or> c \<in> set ''/=&'')"

lemma parse_target_plain:
  assumes "\<forall>s \<in> set segs. url_name s" "query_text q" "tail_of t q"
  shows "parse_target (path_of segs @ t) = Some (path_of segs, q)"
proof -
  note pc = path_of_chars [OF assms(1)]
  have no: "CHR ''#'' \<notin> set (path_of segs)" "CHR ''?'' \<notin> set (path_of segs)" "CHR ''%'' \<notin> set (path_of segs)"
    "CHR ''+'' \<notin> set (path_of segs)"
    using pc unreserved_not by fastforce+
  have "CHR ''#'' \<notin> set q" using assms(2) unreserved_not by (fastforce simp: query_text_def)
  then have "CHR ''#'' \<notin> set (path_of segs @ t)" using no assms(3) by (auto simp: tail_of_def)
  then have f: "cut (path_of segs @ t) ''#'' = (path_of segs @ t, [], False)"
    by (rule cut_none)
  have g: "fst (cut (path_of segs @ t) ''?'') = path_of segs"
    "fst (snd (cut (path_of segs @ t) ''?'')) = q"
    using cut_none [OF no(2)] cut_found [OF no(2)] assms(3) by (auto simp: tail_of_def)
  have v: "valid_encoded (path_of segs)" using pc by (auto simp: valid_encoded_def path_char_def)
  have "\<not> control c" if "c \<in> set (path_of segs @ t)" for c
    using that pc assms(2,3) by (intro not_control) (auto simp: query_text_def tail_of_def split: if_splits)
  then have c: "\<not> (\<exists>c \<in> set (path_of segs @ t). control c)" by blast
  obtain fl where k: "cut (path_of segs @ t) ''?'' = (path_of segs, q, fl)"
    using g by (metis prod.collapse)
  show ?thesis
    unfolding parse_target_def
    using c f k v unescape_plain [OF no(3,4)] by (simp add: escaped_path_def)
qed

lemma serve_mux_plain:
  assumes "\<forall>s \<in> set segs. url_name s" "query_text q" "tail_of t q"
  shows "serve_mux m (path_of segs @ t) pl =
    (case routes m segs q pl of None \<Rightarrow> NoRoute | Some r \<Rightarrow> Routed r)"
proof -
  have "CHR ''/'' \<notin> set s" if "s \<in> set segs" for s
    using that assms(1) url_nameD unreserved_not by blast
  then have sp: "tl (split_on CHR ''/'' (path_of segs)) = segs"
    by (simp add: path_of_def split_segs)
  have "unescape False s = Some s" if "s \<in> set segs" for s
    using that assms(1) url_nameD unreserved_not by (intro unescape_plain) blast+
  then have us: "map (\<lambda>s. the (unescape False s)) segs = segs" by (simp add: map_idI)
  have ok: "[] \<notin> set segs" "''.'' \<notin> set segs" "''..'' \<notin> set segs"
    using assms(1) by (auto simp: url_name_def)
  then have "[] \<notin> set (butlast segs)" by (meson in_set_butlastD)
  moreover have "CHR '' '' \<notin> set q" using assms(2) unreserved_not by (fastforce simp: query_text_def)
  ultimately show ?thesis
    unfolding serve_mux_def parse_target_plain [OF assms]
    using ok sp us by simp
qed

lemma api_path_of: "api_path segs = path_of (''api'' # ''v1'' # segs)"
proof -
  have "concat (map ((@) ''/'') segs) = concat (map ((#) CHR ''/'') segs)" by (induction segs) auto
  then show ?thesis by (simp add: api_path_def path_of_def)
qed

lemma fixed_names [simp]:
  "url_name ''api''" "url_name ''v1''" "url_name ''projects''" "url_name ''nodes''" "url_name ''apps''"
  "url_name ''stop''" "url_name ''start''" "url_name ''restart''" "url_name ''logs''" "url_name ''env''"
  "url_name ''domains''" "url_name ''push-image''" "url_name ''update-init''" "url_name ''deploy''"
  "url_name ''drain''" "url_name ''heartbeat''" "url_name ''desired-state''"
  by (simp_all add: url_name_def unreserved_def)

lemma serve_mux_api:
  assumes "\<forall>s \<in> set segs. url_name s" "query_text q" "tail_of t q"
  shows "serve_mux m (api_path segs @ t) pl =
    (case routes m (''api'' # ''v1'' # segs) q pl of None \<Rightarrow> NoRoute | Some r \<Rightarrow> Routed r)"
  unfolding api_path_of by (rule serve_mux_plain) (use assms in simp_all)

lemma serve_mux_api_plain:
  assumes "\<forall>s \<in> set segs. url_name s"
  shows "serve_mux m (api_path segs) pl =
    (case routes m (''api'' # ''v1'' # segs) [] pl of None \<Rightarrow> NoRoute | Some r \<Rightarrow> Routed r)"
  using serve_mux_api [OF assms, of "[]" "[]"] by (simp add: tail_of_def query_text_def)

definition pair_text :: "string \<times> string \<Rightarrow> string" where
  "pair_text e = fst e @ CHR ''='' # snd e"

definition plain_pair :: "string \<times> string \<Rightarrow> bool" where
  "plain_pair e \<longleftrightarrow> (\<forall>c \<in> set (fst e) \<union> set (snd e). unreserved c \<or> c = CHR ''/'')"

lemma plain_pair_not:
  assumes "plain_pair e"
  shows "CHR ''&'' \<notin> set (pair_text e)" "CHR '';'' \<notin> set (pair_text e)" "CHR ''='' \<notin> set (fst e)"
    "CHR ''%'' \<notin> set (fst e)" "CHR ''+'' \<notin> set (fst e)" "CHR ''%'' \<notin> set (snd e)" "CHR ''+'' \<notin> set (snd e)"
  using assms unreserved_not by (fastforce simp: plain_pair_def pair_text_def)+

lemma query_pairs_plain:
  assumes "plain_pair e" "\<forall>e \<in> set es. plain_pair e"
  shows "query_pairs (split_on CHR ''&'' (pair_text e @ concat (map (\<lambda>e. CHR ''&'' # pair_text e) es))) = e # es"
  using assms
proof (induction es arbitrary: e)
  case Nil
  note n = plain_pair_not [OF Nil.prems(1)]
  have "cut (pair_text e) ''='' = (fst e, snd e, True)"
    unfolding pair_text_def by (rule cut_found) (rule n)
  moreover have "pair_text e \<noteq> []" by (simp add: pair_text_def)
  ultimately show ?case
    using n(2) unescape_plain [OF n(4,5)] unescape_plain [OF n(6,7)] by (simp add: split_on_none [OF n(1)])
next
  case (Cons f es)
  note n = plain_pair_not [OF Cons.prems(1)]
  have "cut (pair_text e) ''='' = (fst e, snd e, True)"
    unfolding pair_text_def by (rule cut_found) (rule n)
  moreover have "pair_text e \<noteq> []" by (simp add: pair_text_def)
  moreover have "query_pairs (split_on CHR ''&'' (pair_text f @ concat (map (\<lambda>e. CHR ''&'' # pair_text e) es))) = f # es"
    by (rule Cons.IH) (use Cons.prems in simp_all)
  ultimately show ?case
    using n(2) unescape_plain [OF n(4,5)] unescape_plain [OF n(6,7)] by (simp add: split_on_append [OF n(1)])
qed

lemma query_get_plain:
  assumes "plain_pair e" "\<forall>e \<in> set es. plain_pair e"
  shows "query_get (pair_text e @ concat (map (\<lambda>e. CHR ''&'' # pair_text e) es)) k =
    (case map_of (e # es) k of None \<Rightarrow> [] | Some v \<Rightarrow> v)"
  by (simp add: query_get_def query_pairs_plain [OF assms])

lemma query_text_plain:
  assumes "plain_pair e" "\<forall>e \<in> set es. plain_pair e"
  shows "query_text (pair_text e @ concat (map (\<lambda>e. CHR ''&'' # pair_text e) es))"
  using assms by (auto simp: query_text_def plain_pair_def pair_text_def)

lemma plain_pair_number: "list_all unreserved k \<Longrightarrow> plain_pair (k, show_int n)"
  using show_nat_digits unreserved_digit
  by (fastforce simp: plain_pair_def show_int_def list_all_iff unreserved_def)

lemma plain_pair_value: "list_all unreserved k \<Longrightarrow> url_value v \<Longrightarrow> plain_pair (k, v)"
  by (auto simp: plain_pair_def url_value_def list_all_iff)

definition log_args :: "string \<Rightarrow> string \<Rightarrow> (string \<times> string) list" where
  "log_args source file = (if source = [] then [] else [(''source'', source)]) @ (if file = [] then [] else [(''file'', file)])"

lemma serve_mux_pairs:
  assumes "\<forall>s \<in> set segs. url_name s" "plain_pair e" "\<forall>e \<in> set es. plain_pair e"
  shows "serve_mux m (api_path segs @ CHR ''?'' # pair_text e @ concat (map (\<lambda>e. CHR ''&'' # pair_text e) es)) pl =
    (case routes m (''api'' # ''v1'' # segs) (pair_text e @ concat (map (\<lambda>e. CHR ''&'' # pair_text e) es)) pl of
       None \<Rightarrow> NoRoute | Some r \<Rightarrow> Routed r)"
  by (rule serve_mux_api [OF assms(1) query_text_plain [OF assms(2,3)]]) (simp add: tail_of_def)

lemma show_values_target:
  assumes "url_name x"
  shows "serve_mux GET (project_path x [''env''] @ ''?show-values=true'') PNone = Routed (ReqEnvList x ''true'')"
proof -
  have p: "plain_pair (''show-values'', ''true'')" by (simp add: plain_pair_def unreserved_def)
  have t: "''?show-values=true'' = CHR ''?'' # pair_text (''show-values'', ''true'') @ concat (map (\<lambda>e. CHR ''&'' # pair_text e) [])"
    by (simp add: pair_text_def)
  show ?thesis
    unfolding t using assms
    by (subst serve_mux_pairs [OF _ p])
      (simp_all add: routes_def project_route_def project_op_def query_get_plain [OF p, of "[]", simplified])
qed

lemma app_logs_target:
  assumes "url_name x" "url_name n"
  shows "serve_mux GET (project_path x [''apps'', n, ''logs''] @ ''?lines='' @ show_int k) PNone =
    Routed (ReqAppLogs x n (show_int k))"
proof -
  have p: "plain_pair (''lines'', show_int k)" by (rule plain_pair_number) (simp add: unreserved_def)
  have t: "''?lines='' @ show_int k = CHR ''?'' # pair_text (''lines'', show_int k) @ concat (map (\<lambda>e. CHR ''&'' # pair_text e) [])"
    by (simp add: pair_text_def)
  show ?thesis
    unfolding t using assms
    by (subst serve_mux_pairs [OF _ p])
      (simp_all add: routes_def project_route_def app_op_def query_get_plain [OF p, of "[]", simplified])
qed

lemma project_logs_target:
  assumes "url_name x" "url_value source" "url_value file"
  shows "serve_mux GET (logs_target x source file k) PNone = Routed (ReqProjectLogs x source (show_int k) file)"
proof -
  let ?e = "(''lines'', show_int k)" and ?es = "log_args source file"
  have p: "plain_pair ?e" by (rule plain_pair_number) (simp add: unreserved_def)
  have ps: "\<forall>e \<in> set ?es. plain_pair e"
    using assms(2,3) by (auto simp: log_args_def intro!: plain_pair_value) (simp_all add: unreserved_def)
  have t: "logs_target x source file k =
      project_path x [''logs''] @ CHR ''?'' # pair_text ?e @ concat (map (\<lambda>e. CHR ''&'' # pair_text e) ?es)"
    by (simp add: logs_target_def pair_text_def query_arg_def log_args_def)
  let ?q = "pair_text ?e @ concat (map (\<lambda>e. CHR ''&'' # pair_text e) ?es)"
  have g: "query_get ?q ''source'' = source" "query_get ?q ''lines'' = show_int k" "query_get ?q ''file'' = file"
    unfolding query_get_plain [OF p ps] by (simp_all add: log_args_def)
  show ?thesis
    unfolding t using assms(1)
    by (subst serve_mux_pairs [OF _ p ps])
      (simp_all add: routes_def project_route_def project_op_def g del: append.simps map_append)
qed

lemma reaches_handler:
  assumes "list_all url_name (op_names op)" "list_all url_value (op_query op)"
  shows "(case client_request op of (m, t, pl) \<Rightarrow> serve_mux m t pl) = Routed (intended op)"
proof (cases op)
  case (GetProjectLogs x source path n)
  then show ?thesis using assms project_logs_target [of x source path n] by simp
next
  case (ListEnv x v)
  then show ?thesis
    using assms show_values_target
    by (cases v) (simp_all add: serve_mux_api_plain routes_def project_route_def project_op_def query_get_def)
next
  case (GetAppLogs x n k)
  then show ?thesis using assms app_logs_target [of x n k] by simp
qed (use assms in \<open>simp_all add: serve_mux_api_plain routes_def project_route_def project_op_def app_op_def
       node_route_def payload_defs deploy_body_of_def create_project_payload_def form_payload_def\<close>)

text \<open>C17: for arguments of unreserved characters (values of a query may have slashes), every method of
  the client reaches exactly the handler it is meant for, with the path values, the query parameters
  and the body it was given.\<close>

theorem client_reaches_handler:
  assumes "list_all url_name (op_names op)" "list_all url_value (op_query op)"
  shows "(case client_request op of (m, t, pl) \<Rightarrow> serve_mux m t pl) = Routed (intended op)"
  using assms by (rule reaches_handler)

theorem client_reaches_handler_witness:
  "(case client_request (GetProjectLogs ''shop'' ''cloud-init'' ''/var/log/syslog'' 50) of (m, t, pl) \<Rightarrow> serve_mux m t pl) =
     Routed (ReqProjectLogs ''shop'' ''cloud-init'' ''50'' ''/var/log/syslog'')"
proof -
  have "show_int 50 = ''50''" by code_simp
  then show ?thesis
    using client_reaches_handler [of "GetProjectLogs ''shop'' ''cloud-init'' ''/var/log/syslog'' 50"]
    by (simp add: url_name_def url_value_def unreserved_def)
qed

text \<open>The methods put their arguments into the target without escaping them. A question mark is
  legal in the name of a project, but deleting the project \<open>x?y\<close> through the API asks the server to
  delete the project \<open>x\<close>, and reading it returns \<open>x\<close>; stopping it reaches no handler.\<close>

theorem client_unescaped:
  assumes "url_name x" "list_all unreserved y"
  shows "validate_project_name (x @ ''?'' @ y) = None \<and>
    (case client_request (DeleteProject (x @ ''?'' @ y)) of (m, t, pl) \<Rightarrow> serve_mux m t pl) = Routed (ReqProjectDelete x) \<and>
    (case client_request (GetProject (x @ ''?'' @ y)) of (m, t, pl) \<Rightarrow> serve_mux m t pl) = Routed (ReqProjectGet x) \<and>
    (case client_request (StopProject (x @ ''?'' @ y)) of (m, t, pl) \<Rightarrow> serve_mux m t pl) = NoRoute"
proof -
  have u: "unreserved c" if "c \<in> set x \<union> set y" for c
    using that assms url_nameD by (auto simp: list_all_iff)
  have n0: "\<not> unreserved CHR 0x00" by (simp add: unreserved_def)
  have l: "\<exists>c d z. x @ ''?'' @ y = c # z \<and> CHR ''?'' \<in> set (c # z)" using assms(1) by (cases x) (auto simp: url_name_def)
  have v: "plain_component (x @ ''?'' @ y)"
    using u unreserved_not(1) n0 l by (auto simp: plain_component_def)
  have x: "\<forall>s \<in> set [''projects'', x]. url_name s" using assms(1) by simp
  have qt: "query_text y" "query_text (y @ ''/stop'')"
    using assms(2) by (auto simp: query_text_def list_all_iff unreserved_def)
  have t: "project_path (x @ CHR ''?'' # y) [] = api_path [''projects'', x] @ CHR ''?'' # y"
    "project_path (x @ CHR ''?'' # y) [''stop''] = api_path [''projects'', x] @ CHR ''?'' # (y @ ''/stop'')"
    by (simp_all add: api_path_def)
  have "tail_of (CHR ''?'' # q) q" for q by (simp add: tail_of_def)
  note mux = serve_mux_api [OF x _ this]
  show ?thesis
    using v by (simp add: t mux [OF qt(1)] mux [OF qt(2)] routes_def project_route_def)
qed

theorem client_unescaped_witness:
  "validate_project_name ''a?b'' = None \<and>
   (case client_request (DeleteProject ''a?b'') of (m, t, pl) \<Rightarrow> serve_mux m t pl) = Routed (ReqProjectDelete ''a'')"
  using client_unescaped [of "''a''" "''b''"] by (simp add: url_name_def unreserved_def)

end
