(* ===== verification/Cli_Flags.thy ===== *)
theory Cli_Flags
  imports Compose Store Vault
begin

text \<open>
  What the command line makes of its arguments and flags (cmd/goship/commands): ports, variables,
  domains and images, the choice between the API server and direct mode, and the values it shows. A
  flag that the code asks for with \<open>Flags().Changed\<close> is an option; the files named by a flag and the
  home directory are arguments.
\<close>

section \<open>Ports and variables (app.go)\<close>

datatype flag_error = InvalidPort string | EnvFileFailed env_file_error

definition parse_port_flag :: "string \<Rightarrow> flag_error + port_mapping" where
  "parse_port_flag s =
     (case cut s '':'' of (h, c, two) \<Rightarrow>
       (case parse_int64 h of None \<Rightarrow> Inl (InvalidPort s)
        | Some hp \<Rightarrow>
          (case (if two then parse_int64 c else Some hp) of None \<Rightarrow> Inl (InvalidPort s)
           | Some cp \<Rightarrow> Inr \<lparr>host_port = hp, container_port = cp, protocol = ''tcp''\<rparr>)))"

definition parse_port_flags :: "string list \<Rightarrow> flag_error + port_mapping list" where
  "parse_port_flags = collect parse_port_flag"

definition parse_env_flags :: "string list \<Rightarrow> string gomap" where
  "parse_env_flags strs = fold (\<lambda>s env. case cut s ''='' of (k, v, two) \<Rightarrow> if two then gm_set k v env else env) strs []"

definition env_file_flag :: "(string \<Rightarrow> string option) \<Rightarrow> string \<Rightarrow> flag_error + string gomap" where
  "env_file_flag files path = (if path = [] then Inr [] else map_err EnvFileFailed (load_env_file (files path)))"

definition merge_env_flags :: "(string \<Rightarrow> string option) \<Rightarrow> string \<Rightarrow> string list \<Rightarrow> flag_error + string gomap" where
  "merge_env_flags files path flags = and_then (env_file_flag files path) (\<lambda>file_env.
     Inr (gm_copy (gm_copy [] file_env) (parse_env_flags flags)))"

text \<open>\<open>env_flags\<close> is there if the flag was given.\<close>

definition apply_env_edits ::
    "(string \<Rightarrow> string option) \<Rightarrow> string \<Rightarrow> string list option \<Rightarrow> app_spec \<Rightarrow> flag_error + app_spec" where
  "apply_env_edits files path env_flags a = and_then (env_file_flag files path) (\<lambda>file_env.
     let env = gm_copy (app_env a) file_env
     in Inr (a\<lparr>app_env := (case env_flags of None \<Rightarrow> env | Some fs \<Rightarrow> gm_copy env (parse_env_flags fs))\<rparr>))"

definition format_port :: "port_mapping \<Rightarrow> string" where
  "format_port p = show_int (host_port p) @ '':'' @ show_int (container_port p)"

definition format_ports :: "port_mapping list \<Rightarrow> string" where
  "format_ports ports = join '', '' (map format_port ports)"

definition mode_of_text :: "string \<Rightarrow> execution_mode" where
  "mode_of_text s = (if s = [] then ModeUnset else if s = ''container'' then ModeContainer
     else if s = ''process'' then ModeProcess else ModeOther s)"

definition policy_of_text :: "string \<Rightarrow> restart_policy" where
  "policy_of_text s = (if s = [] then RestartUnset else if s = ''always'' then RestartAlways
     else if s = ''on-failure'' then RestartOnFailure else if s = ''never'' then RestartNever else RestartOther s)"

section \<open>Images (app.go)\<close>

text \<open>The part of the registry's listen address after its last colon.\<close>

definition registry_port :: "string \<Rightarrow> string" where
  "registry_port addr =
     (let port = trim_prefix '':'' addr
      in if port = addr \<and> CHR '':'' \<in> set addr then rev (takeWhile (\<lambda>c. c \<noteq> CHR '':'') (rev addr)) else port)"

definition default_bridge_ip :: string where "default_bridge_ip = ''192.168.122.1''"

definition registry_host_for_push :: "string \<Rightarrow> string" where
  "registry_host_for_push addr = default_bridge_ip @ '':'' @ registry_port addr"

definition replace_first :: "string \<Rightarrow> string \<Rightarrow> string \<Rightarrow> string" where
  "replace_first s old new = (case cut s old of (a, b, found) \<Rightarrow> if found then a @ new @ b else s)"

definition local_ref :: "string \<Rightarrow> string \<Rightarrow> string" where
  "local_ref addr ref = replace_first ref (default_bridge_ip @ '':'' @ registry_port addr @ ''/'')
     (''localhost:'' @ registry_port addr @ ''/'')"

text \<open>The reference of the image that a deploy with a local image exports.\<close>

definition local_image_ref :: "app_spec \<Rightarrow> string" where
  "local_image_ref a = (if app_tag a \<noteq> [] then app_image a @ '':'' @ app_tag a
     else if CHR '':'' \<notin> set (app_image a) then app_image a @ '':latest'' else app_image a)"

section \<open>Docker builds (app.go, compose.go)\<close>

text \<open>
  The commands run one after the other; \<open>docker args\<close> is the outcome of one. The result is the list of
  the commands run and the first failure.
\<close>

datatype build_error = DockerBuildFailed string | DockerTagFailed string | DockerPushFailed string

definition push_to_registry :: "(string list \<Rightarrow> bool) \<Rightarrow> string \<Rightarrow> string \<Rightarrow> string list list \<times> build_error option" where
  "push_to_registry docker addr ref =
     (let lr = local_ref addr ref; tag = [''tag'', ref, lr]; push = [''push'', lr]; rmi = [''rmi'', lr]
      in if \<not> docker tag then ([tag], Some (DockerTagFailed ref))
         else if \<not> docker push then ([tag, push], Some (DockerPushFailed ref))
         else ([tag, push, rmi], None))"

definition build_args :: "build_context \<Rightarrow> string list" where
  "build_args bc = [''build'', ''-t'', bc_image_name bc] @
     (if bc_dockerfile bc = [] then [] else [''-f'', bc_dockerfile bc]) @ [bc_context bc]"

fun build_images ::
    "(string list \<Rightarrow> bool) \<Rightarrow> string \<Rightarrow> build_context gomap \<Rightarrow> string list list \<times> build_error option" where
  "build_images docker addr [] = ([], None)"
| "build_images docker addr ((svc, bc) # builds) =
     (if \<not> docker (build_args bc) then ([build_args bc], Some (DockerBuildFailed svc))
      else (case push_to_registry docker addr (bc_image_name bc) of
          (cs, Some e) \<Rightarrow> (build_args bc # cs, Some e)
        | (cs, None) \<Rightarrow> (case build_images docker addr builds of (cs', e) \<Rightarrow> (build_args bc # cs @ cs', e))))"

text \<open>Without \<open>--build\<close>, the services that need a build are left out.\<close>

definition without_builds :: "build_context gomap \<Rightarrow> app_spec list \<Rightarrow> app_spec list" where
  "without_builds builds apps = filter (\<lambda>a. gm_get builds (app_name a) = None) apps"

definition cap_cpu :: "float64 \<Rightarrow> app_spec \<Rightarrow> app_spec" where
  "cap_cpu cpus a = (if 0 < cpus \<and> cpus < res_cpu (app_resources a)
     then a\<lparr>app_resources := (app_resources a)\<lparr>res_cpu := cpus\<rparr>\<rparr> else a)"

section \<open>Domains and keys (domain.go, deploy.go)\<close>

definition filter_domains :: "string list \<Rightarrow> string list \<Rightarrow> string list" where
  "filter_domains domains remove = filter (\<lambda>d. d \<notin> set remove) domains"

definition format_keys :: "string gomap \<Rightarrow> string" where
  "format_keys m = join '', '' (sort (map fst m))"

section \<open>Values that are shown (env.go, app.go, project.go)\<close>

definition masked_value :: string where "masked_value = ''********''"

definition mask :: "string \<Rightarrow> string" where
  "mask v = (if is_encrypted v then masked_value else v)"

text \<open>The environment of \<open>project info\<close> and \<open>app info\<close>, in the order of the keys.\<close>

definition shown_env :: "string gomap \<Rightarrow> (string \<times> string) list" where
  "shown_env env = map (\<lambda>k. (k, mask (the (gm_get env k)))) (sort (map fst env))"

text \<open>
  The rows of \<open>env list\<close>: key, displayed value, and whether it is marked as a secret. In direct mode
  \<open>decrypted\<close> is there with \<open>--show-values\<close>; through the API the values come as the server sends them.
\<close>

definition env_rows :: "string gomap option \<Rightarrow> string gomap \<Rightarrow> (string \<times> string \<times> bool) list" where
  "env_rows decrypted env = map (\<lambda>k. let raw = the (gm_get env k)
     in (k, if is_encrypted raw
            then (case decrypted of None \<Rightarrow> masked_value | Some m \<Rightarrow> (case gm_get m k of None \<Rightarrow> [] | Some v \<Rightarrow> v))
            else raw, is_encrypted raw)) (sort (map fst env))"

definition env_rows_api :: "bool \<Rightarrow> string gomap \<Rightarrow> (string \<times> string \<times> bool) list" where
  "env_rows_api show_values env = map (\<lambda>k. let v = the (gm_get env k)
     in (k, if is_encrypted v \<and> \<not> show_values then masked_value else v, is_encrypted v)) (sort (map fst env))"

section \<open>What a command needs (root.go)\<close>

definition needs_store :: "string \<Rightarrow> string \<Rightarrow> bool" where
  "needs_store parent name \<longleftrightarrow> parent \<in> set [''project'', ''app'', ''compose'', ''env'', ''domain'', ''node''] \<or>
     name = ''deploy''"

definition needs_runtime :: "string \<Rightarrow> string \<Rightarrow> bool" where
  "needs_runtime parent name \<longleftrightarrow>
     parent = ''app'' \<and> name \<in> set [''deploy'', ''stop'', ''delete'', ''logs'', ''push-image''] \<or>
     parent = ''project'' \<and> name \<in> set [''create'', ''delete'', ''edit'', ''stop'', ''start'', ''restart'', ''update-init''] \<or>
     parent = ''compose'' \<and> name \<in> set [''up'', ''down''] \<or> name = ''deploy''"

definition needs_runtime_optional :: "string \<Rightarrow> string \<Rightarrow> bool" where
  "needs_runtime_optional parent name \<longleftrightarrow> parent = ''project'' \<and> name \<in> set [''list'', ''info'']"

datatype cli_mode = NoResources | ViaApi string | Direct

definition client_base_url :: "string \<Rightarrow> string" where
  "client_base_url url = rev (dropWhile (\<lambda>c. c = CHR ''/'') (rev url))"

text \<open>\<open>detected\<close> is the address of a server that answered the probe.\<close>

definition choose_mode :: "string \<Rightarrow> string \<Rightarrow> string \<Rightarrow> bool \<Rightarrow> string option \<Rightarrow> cli_mode" where
  "choose_mode parent name api_url direct detected =
     (if \<not> needs_store parent name then NoResources
      else if api_url \<noteq> [] then ViaApi (client_base_url api_url)
      else if direct then Direct
      else (case detected of Some url \<Rightarrow> ViaApi (client_base_url url) | None \<Rightarrow> Direct))"

text \<open>The flags of \<open>project create\<close> take precedence over the configuration.\<close>

definition network_option :: "string \<Rightarrow> string \<Rightarrow> string \<Rightarrow> string \<Rightarrow> (string \<times> string) option" where
  "network_option flag_type flag_source cfg_type cfg_source =
     (let t = (if flag_type = [] then cfg_type else flag_type);
          s = (if flag_source = [] then cfg_source else flag_source)
      in if t = [] then None else Some (t, if t = ''network'' \<and> s = [] then ''default'' else s))"

definition map_instance_to_project_state :: "instance_state \<Rightarrow> project_state" where
  "map_instance_to_project_state s = (case s of InstRunning \<Rightarrow> ProjRunning | InstStopped \<Rightarrow> ProjStopped
     | InstStopping \<Rightarrow> ProjStopping | InstFailed \<Rightarrow> ProjFailed | _ \<Rightarrow> ProjPending)"

definition expand_data_dir :: "string option \<Rightarrow> string \<Rightarrow> string" where
  "expand_data_dir home dir = (if has_prefix ''~/'' dir
     then (case home of None \<Rightarrow> dir | Some h \<Rightarrow> filepath_join h (drop 2 dir)) else dir)"

section \<open>Properties\<close>

lemma parse_int64_show_int: "in_int64 i \<Longrightarrow> parse_int64 (show_int i) = Some i"
proof (cases "i < 0")
  case True
  assume "in_int64 i"
  then show ?thesis using True by (simp add: show_int_def parse_int64_def)
next
  case False
  assume "in_int64 i"
  then show ?thesis using False by (simp add: show_int_def parse_int64_show_nat)
qed

lemma show_int_no: "\<not> is_digit c \<Longrightarrow> c \<noteq> CHR ''-'' \<Longrightarrow> c \<notin> set (show_int i)"
  using show_nat_digits by (auto simp: show_int_def)

text \<open>The text that \<open>format_port\<close> shows for a mapping is read back as that mapping, for every pair
  of 64-bit numbers, negative ones included; a single number stands for both ports.\<close>

theorem parse_format_port:
  assumes "in_int64 (host_port p)" "in_int64 (container_port p)" "protocol p = ''tcp''"
  shows "parse_port_flag (format_port p) = Inr p \<and>
    parse_port_flag (show_int (host_port p)) = Inr (p\<lparr>container_port := host_port p\<rparr>)"
proof -
  have c: "CHR '':'' \<notin> set (show_int i)" for i by (rule show_int_no) (simp_all add: is_digit_def)
  have "cut (format_port p) '':'' = (show_int (host_port p), show_int (container_port p), True)"
    using cut_found [OF c] by (simp add: format_port_def)
  then show ?thesis
    using assms cut_none [OF c] by (simp add: parse_port_flag_def parse_int64_show_int)
qed

theorem parse_format_port_witness:
  "parse_port_flag (format_port \<lparr>host_port = 8080, container_port = - 1, protocol = ''tcp''\<rparr>) =
     Inr \<lparr>host_port = 8080, container_port = - 1, protocol = ''tcp''\<rparr>"
  using parse_format_port [of "\<lparr>host_port = 8080, container_port = - 1, protocol = ''tcp''\<rparr>"]
  by (simp add: in_int64_def int64_min_def int64_max_def)

text \<open>Two environments with the same keys, whose plain values agree.\<close>

definition same_public :: "string gomap \<Rightarrow> string gomap \<Rightarrow> bool" where
  "same_public m m' \<longleftrightarrow> map fst m = map fst m' \<and> (\<forall>k. case (gm_get m k, gm_get m' k) of
     (Some v, Some v') \<Rightarrow> v = v' \<or> is_encrypted v \<and> is_encrypted v' | (None, None) \<Rightarrow> True | _ \<Rightarrow> False)"

lemma same_public_get:
  assumes "same_public m m'" "k \<in> set (map fst m)"
  obtains v v' where "gm_get m k = Some v" "gm_get m' k = Some v'" "v = v' \<or> is_encrypted v \<and> is_encrypted v'"
proof -
  have "gm_get m k \<noteq> None" using assms(2) by (simp add: map_of_eq_None_iff)
  then show thesis
    using assms(1) that unfolding same_public_def by (fastforce split: option.splits)
qed

text \<open>C34: what the commands show of an environment without \<open>--show-values\<close> does not depend on the
  encrypted values: two environments that differ in nothing else look the same, in \<open>project info\<close>,
  \<open>app info\<close> and in \<open>env list\<close> of both modes.\<close>

theorem shown_env_hides_secrets:
  assumes "same_public m m'"
  shows "shown_env m = shown_env m' \<and> env_rows None m = env_rows None m' \<and> env_rows_api False m = env_rows_api False m'"
proof -
  have k: "map fst m = map fst m'" using assms by (simp add: same_public_def)
  have e: "mask (the (gm_get m x)) = mask (the (gm_get m' x))"
    "is_encrypted (the (gm_get m x)) = is_encrypted (the (gm_get m' x))"
    "\<not> is_encrypted (the (gm_get m x)) \<Longrightarrow> the (gm_get m x) = the (gm_get m' x)"
    if x: "x \<in> set (map fst m)" for x
    by (rule same_public_get [OF assms x]; auto simp: mask_def)+
  have "shown_env m = shown_env m'"
    unfolding shown_env_def k using e(1) k by (intro map_cong) auto
  moreover have "env_rows None m = env_rows None m'"
    unfolding env_rows_def k using e(2,3) k by (intro map_cong) (auto simp: Let_def)
  moreover have "env_rows_api False m = env_rows_api False m'"
    unfolding env_rows_api_def k using e(2,3) k by (intro map_cong) (auto simp: Let_def)
  ultimately show ?thesis by blast
qed

theorem shown_env_hides_secrets_witness:
  "env_rows None [(''PW'', encrypted_prefix @ ''abc''), (''A'', ''1'')] =
   env_rows None [(''PW'', encrypted_prefix @ ''xyz''), (''A'', ''1'')]"
  using shown_env_hides_secrets [of "[(''PW'', encrypted_prefix @ ''abc''), (''A'', ''1'')]"
      "[(''PW'', encrypted_prefix @ ''xyz''), (''A'', ''1'')]"]
  by (simp add: same_public_def is_encrypted_def)

end
