(* ===== verification/Cli_Projects.thy ===== *)
theory Cli_Projects
  imports Client Cli_Flags Libvirt_Runtime Manifest
begin

text \<open>
  The commands \<open>project\<close>, \<open>env\<close> and \<open>domain\<close> of the command line (cmd/goship/commands/project.go,
  env.go, domain.go). In direct mode a command works on the state store and the runtime of its own
  process: the state is a server without proxy and registry (\<open>srv_routes\<close> and \<open>srv_registry\<close> are
  \<open>None\<close>), the surroundings are one \<open>api_env\<close>. Through the API a command is a sequence of calls of the
  client; \<open>qs n\<close> are the surroundings of the server at its \<open>n\<close>-th call. Failures the code only prints to
  standard error are left out, and so is the layout of what is printed: an \<open>outcome\<close> is its contents.
\<close>

section \<open>Results\<close>

datatype cli_error = CliNotFound string | CliAppNotFound string string | CliNoInstance string
  | CliAppExists string | CliStore store_error | CliRuntime rt_error | CliApi client_error
  | CliBadMemory size_error | CliBadDisk size_error | CliBinding entity_error
  | CliMustStop instance_state | CliDiskGrow int int | CliNoChanges | CliStopTimeout
  | CliBadPairs | CliSecret api_error | CliNoEnv string | CliUnknownSource string | CliBadName name_error
  | CliConnect | CliSend | CliAgent agent_error | CliNoBinary string | CliChecksum | CliUpload upload_error
  | CliInvalidMode string | CliBinaryRequired | CliPortRequired | CliInvalidPolicy string | CliFlag flag_error
  | CliNotForProcess | CliNotForContainer | CliImageRequired string | CliExportFailed string
  | CliCompose compose_error | CliBuild build_error | CliManifest manifest_error | CliBadResources size_error
  | CliNoDomain string | CliNoVirsh | CliNoRuntime | CliNoRegistry | CliNodeExists string | CliUnexpected

datatype service_result = SvcDeployed | SvcStateFailed store_error | SvcDeployFailed rt_error
  | SvcCreateFailed client_error | SvcApiFailed client_error | SvcRemoved

datatype dry_step = DryCreate string float64 string string | DryEnv nat string | DrySecrets nat string
  | DryDomains "string list" string | DryCompose string bool

datatype outcome = Done | OutProject project "proj_instance option" | OutProjects "project list"
  | OutInfo project "(string \<times> string) list" "(string \<times> bool) list" "proj_instance option" "app_spec list"
  | OutStopped | OutStopTimedOut | OutStarted "string" | OutEdited resources
  | OutEnvSet "(string \<times> string) list" | OutEnvRows "(string \<times> string \<times> bool) list"
  | OutKeys "(string \<times> bool) list" | OutDomains "(string \<times> bool) list"
  | OutLogs "string list" | OutConsole string | OutUpdated bool
  | OutApp app_spec | OutAppInfo app_spec "(string \<times> string) list" "app_status option"
  | OutApps "(app_spec \<times> app_state option) list"
  | OutServices "compose_warning list" "string list list" "(string \<times> service_result) list"
  | OutNodes "node list" | OutDryRun "dry_step list" | OutDeployed "outcome option"

type_synonym 'r cli = "'r server \<times> (cli_error + outcome)"

text \<open>What the process finds around it: files, the home directory, the configuration, docker.\<close>

record cli_host =
  hs_files :: "string \<Rightarrow> string option"
  hs_stat :: "string \<Rightarrow> bool"
  hs_binaries :: "string \<Rightarrow> (stream \<times> int) option"
  hs_home :: "string option"
  hs_data_dir :: string
  hs_init_binary :: string
  hs_registry_addr :: string
  hs_docker :: "string list \<Rightarrow> bool"
  hs_export :: "string \<Rightarrow> (stream \<times> int) option"
  hs_virsh :: bool
  hs_compose :: host_env
  hs_compose_yaml :: "string \<Rightarrow> compose_file option"
  hs_manifest_yaml :: "string \<Rightarrow> manifest option"
  hs_cwd :: "string option"

section \<open>Look-ups in direct mode\<close>

definition cli_project :: "string \<Rightarrow> 'r server \<Rightarrow> (string \<Rightarrow> project \<Rightarrow> 'r cli) \<Rightarrow> 'r cli" where
  "cli_project x s rest = (case find_project x (srv_store s) of
      None \<Rightarrow> (s, Inl (CliNotFound x)) | Some (k, p) \<Rightarrow> rest k p)"

definition cli_app :: "string \<Rightarrow> project \<Rightarrow> string \<Rightarrow> 'r server \<Rightarrow> (app_spec \<Rightarrow> 'r cli) \<Rightarrow> 'r cli" where
  "cli_app x p n s rest = (case get_app (proj_id p) n (srv_store s) of
      None \<Rightarrow> (s, Inl (CliAppNotFound n x)) | Some a \<Rightarrow> rest a)"

definition cli_instance :: "string \<Rightarrow> project \<Rightarrow> 'r server \<Rightarrow> (proj_instance \<Rightarrow> 'r cli) \<Rightarrow> 'r cli" where
  "cli_instance x p s rest = (case get_instance (proj_id p) (srv_store s) of
      None \<Rightarrow> (s, Inl (CliNoInstance x)) | Some i \<Rightarrow> rest i)"

lemmas cli_guard_defs = cli_project_def cli_app_def cli_instance_def

section \<open>Calls of the API\<close>

definition api_do :: "'r api_env \<Rightarrow> client_op \<Rightarrow> (body \<Rightarrow> cli_error + outcome) \<Rightarrow> 'r server \<Rightarrow> 'r cli" where
  "api_do q op out s = (case client_call q op s of
      (s', Inl e) \<Rightarrow> (s', Inl (CliApi e)) | (s', Inr b) \<Rightarrow> (s', out b))"

text \<open>\<open>getProjectIDViaAPI\<close>\<close>

definition api_project_id :: "'r api_env \<Rightarrow> string \<Rightarrow> 'r server \<Rightarrow> 'r server \<times> (cli_error + string)" where
  "api_project_id q x s = (case client_call q (GetProject x) s of
      (s', Inr (BProjectFull p _ _)) \<Rightarrow> (s', Inr (proj_id p))
    | (s', Inr _) \<Rightarrow> (s', Inr [])
    | (s', Inl e) \<Rightarrow> (s', Inl (CliNotFound x)))"

definition with_api_project :: "'r api_env \<Rightarrow> string \<Rightarrow> 'r server \<Rightarrow> (string \<Rightarrow> 'r server \<Rightarrow> 'r cli) \<Rightarrow> 'r cli" where
  "with_api_project q x s rest = (case api_project_id q x s of
      (s', Inl e) \<Rightarrow> (s', Inl e) | (s', Inr pid) \<Rightarrow> rest pid s')"

definition out_full :: "body \<Rightarrow> cli_error + outcome" where
  "out_full b = (case b of BProjectFull p i _ \<Rightarrow> Inr (OutProject p i) | _ \<Rightarrow> Inl CliUnexpected)"

definition out_started :: "body \<Rightarrow> cli_error + outcome" where
  "out_started b = (case b of BProjectFull p i _ \<Rightarrow>
      Inr (OutStarted (case i of None \<Rightarrow> [] | Some j \<Rightarrow> inst_ip_address j)) | _ \<Rightarrow> Inl CliUnexpected)"

definition out_logs :: "body \<Rightarrow> cli_error + outcome" where
  "out_logs b = (case b of BLogs l \<Rightarrow> Inr (OutLogs [l]) | _ \<Rightarrow> Inl CliUnexpected)"

section \<open>project create, list, delete\<close>

definition create_resources :: "float64 \<Rightarrow> string \<Rightarrow> string \<Rightarrow> cli_error + resources" where
  "create_resources cpu mem disk =
     and_then (map_err CliBadMemory (parse_size_mb mem)) (\<lambda>m.
     and_then (map_err CliBadDisk (parse_size_mb disk)) (\<lambda>d.
       Inr \<lparr>res_cpu = cpu, res_memory_mb = m, res_disk_mb = d\<rparr>))"

definition create_with_vm ::
    "'r api_env \<Rightarrow> string \<Rightarrow> resources \<Rightarrow> 'r server \<Rightarrow> 'r server \<times> (cli_error + project \<times> proj_instance)" where
  "create_with_vm q name res s =
     (case on_store (create_project (rq_now q) (rq_uuid q) (rq_save q 0) name RuntimeQEMU res) s of
        (s1, Inl e) \<Rightarrow> (s1, Inl (CliStore e))
      | (s1, Inr p) \<Rightarrow>
        (case op_create (rq_ops q) p (srv_rt s1) of
           (r, Inl e) \<Rightarrow>
             (fst (on_store (delete_project (rq_now q) (rq_save q 2) (proj_id p)) (s1\<lparr>srv_rt := r\<rparr>)), Inl (CliRuntime e))
         | (r, Inr i) \<Rightarrow>
           (case save_project q 2 (proj_id p) (p\<lparr>proj_state := ProjRunning\<rparr>) (s1\<lparr>srv_rt := r\<rparr>) of
             (s2, p', _) \<Rightarrow> (fst (on_store (set_instance (rq_now q) (rq_save q 3) (Some i)) s2), Inr (p', i)))))"

definition cli_project_create :: "'r api_env \<Rightarrow> string \<Rightarrow> resources \<Rightarrow> 'r server \<Rightarrow> 'r cli" where
  "cli_project_create q name res s = (case create_with_vm q name res s of
      (s', Inl e) \<Rightarrow> (s', Inl e) | (s', Inr (p, i)) \<Rightarrow> (s', Inr (OutProject p (Some i))))"

definition api_project_create :: "'r api_env \<Rightarrow> string \<Rightarrow> resources \<Rightarrow> 'r server \<Rightarrow> 'r cli" where
  "api_project_create q name res s = api_do q (CreateProject name res) out_full s"

definition cli_project_list :: "'r server \<Rightarrow> 'r cli" where
  "cli_project_list s = (s, Inr (OutProjects (list_projects (srv_store s))))"

definition api_project_list :: "'r api_env \<Rightarrow> 'r server \<Rightarrow> 'r cli" where
  "api_project_list q s = api_do q ListProjects
     (\<lambda>b. case b of BProjects ps \<Rightarrow> Inr (OutProjects ps) | _ \<Rightarrow> Inl CliUnexpected) s"

text \<open>Failures to destroy the machine and to remove its instance are only printed.\<close>

definition cli_project_delete :: "'r api_env \<Rightarrow> string \<Rightarrow> 'r server \<Rightarrow> 'r cli" where
  "cli_project_delete q x s = cli_project x s (\<lambda>k p.
     let oi = get_instance (proj_id p) (srv_store s)
     in case (case oi of None \<Rightarrow> None | Some i \<Rightarrow> validate_project_instance_binding (Some p) (Some i)) of
          Some e \<Rightarrow> (s, Inl (CliBinding e))
        | None \<Rightarrow>
          (let s1 = (case oi of None \<Rightarrow> s | Some i \<Rightarrow> drop_instance q i s)
           in case on_store (delete_project (rq_now q) (rq_save q 1) (proj_id p)) s1 of
                (s2, Some e) \<Rightarrow> (s2, Inl (CliStore e)) | (s2, None) \<Rightarrow> (s2, Inr Done)))"

definition api_project_delete :: "'r api_env \<Rightarrow> string \<Rightarrow> 'r server \<Rightarrow> 'r cli" where
  "api_project_delete q x s = api_do q (DeleteProject x) (\<lambda>_. Inr Done) s"

section \<open>project info, console, logs\<close>

definition domain_rows :: "string list \<Rightarrow> string \<Rightarrow> (string \<times> bool) list" where
  "domain_rows domains dflt = map (\<lambda>d. (d, d = dflt)) domains"

definition cli_project_info :: "string \<Rightarrow> 'r server \<Rightarrow> 'r cli" where
  "cli_project_info x s = cli_project x s (\<lambda>k p. (s, Inr (OutInfo p (shown_env (proj_env p))
     (domain_rows (proj_domains p) (proj_default_domain p))
     (get_instance (proj_id p) (srv_store s)) (get_apps (proj_id p) (srv_store s)))))"

text \<open>Through the API no environment is shown.\<close>

definition api_project_info :: "'r api_env \<Rightarrow> string \<Rightarrow> 'r server \<Rightarrow> 'r cli" where
  "api_project_info q x s = api_do q (GetProject x) (\<lambda>b. case b of BProjectFull p i apps \<Rightarrow>
       Inr (OutInfo p [] (domain_rows (proj_domains p) (proj_default_domain p)) i apps)
     | _ \<Rightarrow> Inl CliUnexpected) s"

text \<open>The name of the domain the process replaces itself with a console of.\<close>

definition cli_project_console :: "cli_host \<Rightarrow> string \<Rightarrow> 'r server \<Rightarrow> 'r cli" where
  "cli_project_console h x s = cli_project x s (\<lambda>k p. cli_instance x p s (\<lambda>i.
     if inst_domain_name i = [] then (s, Inl (CliNoDomain (inst_id i)))
     else if \<not> hs_virsh h then (s, Inl CliNoVirsh)
     else (s, Inr (OutConsole (inst_domain_name i)))))"

definition instance_socket :: "cli_host \<Rightarrow> proj_instance \<Rightarrow> name_error + string" where
  "instance_socket h i = and_then (project_name_from_domain (inst_domain_name i))
     (\<lambda>name. vm_socket_path (expand_data_dir (hs_home h) (hs_data_dir h)) name)"

definition on_rt :: "('r \<Rightarrow> 'r \<times> 'a) \<Rightarrow> 'r server \<Rightarrow> 'r server \<times> 'a" where
  "on_rt f s = (case f (srv_rt s) of (r, a) \<Rightarrow> (s\<lparr>srv_rt := r\<rparr>, a))"

text \<open>\<open>fetchLogs\<close>: the channel is dialled for each request. With \<open>--follow\<close> this is repeated for ever.\<close>

definition fetch_logs :: "'r channel \<Rightarrow> string \<Rightarrow> int \<Rightarrow> string \<Rightarrow> 'r server \<Rightarrow> 'r cli" where
  "fetch_logs ch sock n file s =
     (if \<not> ch_dial ch sock (srv_rt s) then (s, Inl CliConnect)
      else (case on_rt (ch_send ch sock ((blank_command action_logs)\<lparr>cmd_lines := n, cmd_log_file := file\<rparr>)) s of
          (s', None) \<Rightarrow> (s', Inl CliSend)
        | (s', Some resp) \<Rightarrow> (s', case resp_error resp of Some e \<Rightarrow> Inl (CliAgent e) | None \<Rightarrow> Inr (OutLogs [resp_logs resp]))))"

text \<open>The flag \<open>--file\<close> takes precedence over the alias; without both the agent chooses.\<close>

definition log_file :: "string \<Rightarrow> string option \<Rightarrow> cli_error + string" where
  "log_file file alias = (if file \<noteq> [] then Inr file else case alias of None \<Rightarrow> Inr []
     | Some a \<Rightarrow> (case gm_get log_aliases a of None \<Rightarrow> Inl (CliUnknownSource a) | Some f \<Rightarrow> Inr f))"

definition cli_project_logs ::
    "cli_host \<Rightarrow> 'r channel \<Rightarrow> string \<Rightarrow> string option \<Rightarrow> string \<Rightarrow> int \<Rightarrow> 'r server \<Rightarrow> 'r cli" where
  "cli_project_logs h ch x alias file n s =
     (case log_file file alias of Inl e \<Rightarrow> (s, Inl e)
      | Inr f \<Rightarrow> cli_project x s (\<lambda>k p. cli_instance x p s (\<lambda>i.
          case instance_socket h i of Inl e \<Rightarrow> (s, Inl (CliBadName e)) | Inr sock \<Rightarrow> fetch_logs ch sock n f s)))"

definition api_project_logs ::
    "'r api_env \<Rightarrow> string \<Rightarrow> string option \<Rightarrow> string \<Rightarrow> int \<Rightarrow> 'r server \<Rightarrow> 'r cli" where
  "api_project_logs q x alias file n s =
     api_do q (GetProjectLogs x (if file \<noteq> [] then [] else case alias of None \<Rightarrow> [] | Some a \<Rightarrow> a) file n) out_logs s"

section \<open>project edit\<close>

text \<open>The flags that were given; the request record of the API with its textual fields.\<close>

definition edit_flags :: "float64 option \<Rightarrow> string option \<Rightarrow> string option \<Rightarrow> update_project_request" where
  "edit_flags cpu mem disk =
     \<lparr>up_cpu = cpu, up_memory_mb = None, up_memory = mem, up_disk_mb = None, up_disk = disk\<rparr>"

definition edit_memory :: "update_project_request \<Rightarrow> resources \<Rightarrow> cli_error + resources" where
  "edit_memory r c = (case up_memory r of None \<Rightarrow> Inr c
     | Some t \<Rightarrow> (case parse_size_mb t of Inl e \<Rightarrow> Inl (CliBadMemory e) | Inr m \<Rightarrow> Inr (c\<lparr>res_memory_mb := m\<rparr>)))"

definition edit_disk :: "update_project_request \<Rightarrow> resources \<Rightarrow> cli_error + resources" where
  "edit_disk r c = (case up_disk r of None \<Rightarrow> Inr c
     | Some t \<Rightarrow> (case parse_size_mb t of Inl e \<Rightarrow> Inl (CliBadDisk e)
         | Inr m \<Rightarrow> if m < res_disk_mb c then Inl (CliDiskGrow (res_disk_mb c) m) else Inr (c\<lparr>res_disk_mb := m\<rparr>)))"

text \<open>Each field is written to the project in memory before the next is looked at.\<close>

definition cli_project_edit :: "'r api_env \<Rightarrow> string \<Rightarrow> update_project_request \<Rightarrow> 'r server \<Rightarrow> 'r cli" where
  "cli_project_edit q x r s = cli_project x s (\<lambda>k p. cli_instance x p s (\<lambda>i.
     if inst_state i \<noteq> InstStopped then (s, Inl (CliMustStop (inst_state i)))
     else let put = (\<lambda>c. put_project k (p\<lparr>proj_resources := c\<rparr>) s); c1 = update_cpu r (proj_resources p)
       in case edit_memory r c1 of Inl e \<Rightarrow> (put c1, Inl e)
          | Inr c2 \<Rightarrow>
            (case edit_disk r c2 of Inl e \<Rightarrow> (put c2, Inl e)
             | Inr c3 \<Rightarrow>
               if no_updates r then (put c3, Inl CliNoChanges)
               else let p' = p\<lparr>proj_resources := c3\<rparr>
                    in (case rt_call (rq_ops q) (inst_id i) (op_resize (rq_ops q) (inst_id i) p')
                          (rt_load (rq_ops q) i (put c3)) of
                      (s1, Some e) \<Rightarrow> (s1, Inl (CliRuntime e))
                    | (s1, None) \<Rightarrow>
                      (case save_project q 0 k p' s1 of
                         (s2, _, Some e) \<Rightarrow> (s2, Inl (CliStore e))
                       | (s2, p'', None) \<Rightarrow> (s2, Inr (OutEdited (proj_resources p''))))))))"

definition api_project_edit :: "'r api_env \<Rightarrow> string \<Rightarrow> update_project_request \<Rightarrow> 'r server \<Rightarrow> 'r cli" where
  "api_project_edit q x r s = (if no_updates r then (s, Inl CliNoChanges)
     else api_do q (UpdateProject x r) (\<lambda>b. case b of BProjectFull p _ _ \<Rightarrow> Inr (OutEdited (proj_resources p))
       | _ \<Rightarrow> Inl CliUnexpected) s)"

section \<open>project stop, start, restart\<close>

text \<open>After the shutdown request the instance is saved as stopping; when the poll sees it stopped,
  instance and project are saved again. A time-out is printed, and the command still succeeds.\<close>

definition cli_project_stop :: "'r api_env \<Rightarrow> string \<Rightarrow> 'r server \<Rightarrow> 'r cli" where
  "cli_project_stop q x s = cli_project x s (\<lambda>k p. cli_instance x p s (\<lambda>i.
     case rt_call (rq_ops q) (inst_id i) (op_stop (rq_ops q) (inst_id i)) (rt_load (rq_ops q) i s) of
       (s1, Some e) \<Rightarrow> (s1, Inl (CliRuntime e))
     | (s1, None) \<Rightarrow>
       (case poll_stopped (rq_ops q) (inst_id i) (rq_ticks q)
           (save_instance q 0 ((current_instance i s1)\<lparr>inst_state := InstStopping\<rparr>) s1) of
          (s2, False) \<Rightarrow> (s2, Inr OutStopTimedOut)
        | (s2, True) \<Rightarrow>
          (let s3 = save_instance q 1 ((current_instance i s2)\<lparr>inst_state := InstStopped\<rparr>) s2
           in (fst (save_project q 2 k (p\<lparr>proj_state := ProjStopped\<rparr>) s3), Inr OutStopped)))))"

definition api_project_stop :: "'r api_env \<Rightarrow> string \<Rightarrow> 'r server \<Rightarrow> 'r cli" where
  "api_project_stop q x s = api_do q (StopProject x) (\<lambda>_. Inr OutStopped) s"

definition cli_started :: "'r api_env \<Rightarrow> string \<Rightarrow> project \<Rightarrow> proj_instance \<Rightarrow> 'r server \<Rightarrow> 'r cli" where
  "cli_started q k p i s =
     (case rt_call (rq_ops q) (inst_id i) (op_start (rq_ops q) (inst_id i)) s of
        (s1, Some e) \<Rightarrow> (s1, Inl (CliRuntime e))
      | (s1, None) \<Rightarrow>
        (let s2 = save_instance q 0 (current_instance i s1) s1;
             s3 = fst (save_project q 1 k (p\<lparr>proj_state := ProjRunning\<rparr>) s2)
         in (s3, Inr (OutStarted (inst_ip_address (current_instance i s3))))))"

definition cli_project_start :: "'r api_env \<Rightarrow> string \<Rightarrow> 'r server \<Rightarrow> 'r cli" where
  "cli_project_start q x s = cli_project x s (\<lambda>k p. cli_instance x p s (\<lambda>i.
     cli_started q k p i (rt_load (rq_ops q) i s)))"

definition api_project_start :: "'r api_env \<Rightarrow> string \<Rightarrow> 'r server \<Rightarrow> 'r cli" where
  "api_project_start q x s = api_do q (StartProject x) out_started s"

definition cli_project_restart :: "'r api_env \<Rightarrow> string \<Rightarrow> 'r server \<Rightarrow> 'r cli" where
  "cli_project_restart q x s = cli_project x s (\<lambda>k p. cli_instance x p s (\<lambda>i.
     case rt_call (rq_ops q) (inst_id i) (op_stop (rq_ops q) (inst_id i)) (rt_load (rq_ops q) i s) of
       (s1, Some e) \<Rightarrow> (s1, Inl (CliRuntime e))
     | (s1, None) \<Rightarrow>
       (case poll_stopped (rq_ops q) (inst_id i) (rq_ticks q) s1 of
          (s2, False) \<Rightarrow> (s2, Inl CliStopTimeout)
        | (s2, True) \<Rightarrow> cli_started q k p i s2)))"

definition api_project_restart :: "'r api_env \<Rightarrow> string \<Rightarrow> 'r server \<Rightarrow> 'r cli" where
  "api_project_restart q x s = api_do q (RestartProject x) out_started s"

section \<open>project update-init\<close>

definition update_binary_path :: "cli_host \<Rightarrow> string \<Rightarrow> string" where
  "update_binary_path h flag = expand_data_dir (hs_home h) (if flag = [] then hs_init_binary h else flag)"

text \<open>The binary is read once for its checksum and once for sending it over the socket.\<close>

definition cli_project_update_init ::
    "cli_host \<Rightarrow> 'r channel \<Rightarrow> 'r api_env \<Rightarrow> string \<Rightarrow> string \<Rightarrow> bool \<Rightarrow> 'r server \<Rightarrow> 'r cli" where
  "cli_project_update_init h ch q x flag restart s = cli_project x s (\<lambda>k p. cli_instance x p s (\<lambda>i.
     let path = update_binary_path h flag
     in case hs_binaries h path of None \<Rightarrow> (s, Inl (CliNoBinary path))
        | Some (rd, len) \<Rightarrow>
          if rd_fails rd then (s, Inl CliChecksum)
          else (case instance_socket h i of Inl e \<Rightarrow> (s, Inl (CliBadName e))
            | Inr sock \<Rightarrow>
              if \<not> ch_dial ch sock (srv_rt s) then (s, Inl CliConnect)
              else (case on_rt (send_update (ch_send ch sock) rd len (hex_encode (rq_sha256 q (concat (rd_chunks rd))))) s of
                  (s1, Some e) \<Rightarrow> (s1, Inl (CliUpload e))
                | (s1, None) \<Rightarrow> if restart then cli_project_restart q x s1 else (s1, Inr (OutUpdated False))))))"

definition api_project_update_init ::
    "cli_host \<Rightarrow> 'r api_env \<Rightarrow> string \<Rightarrow> string \<Rightarrow> bool \<Rightarrow> 'r server \<Rightarrow> 'r cli" where
  "api_project_update_init h q x flag restart s =
     (case hs_binaries h (update_binary_path h flag) of None \<Rightarrow> (s, Inl (CliNoBinary (update_binary_path h flag)))
      | Some (rd, len) \<Rightarrow> api_do q (UpdateInit x rd len restart) (\<lambda>_. Inr (OutUpdated restart)) s)"

section \<open>env\<close>

text \<open>The arguments KEY=VALUE; two for the same key are refused as malformed.\<close>

definition env_pairs :: "string list \<Rightarrow> cli_error + string gomap" where
  "env_pairs kvs = (let parsed = parse_env_flags kvs
     in if length parsed \<noteq> length kvs then Inl CliBadPairs else Inr parsed)"

definition env_set_rows :: "bool \<Rightarrow> string gomap \<Rightarrow> (string \<times> string) list" where
  "env_set_rows secret parsed = map (\<lambda>k. (k, if secret then masked_value else the (gm_get parsed k))) (sort (map fst parsed))"

definition cli_env_set :: "'r api_env \<Rightarrow> string \<Rightarrow> string gomap \<Rightarrow> bool \<Rightarrow> 'r server \<Rightarrow> 'r cli" where
  "cli_env_set q x parsed secret s = cli_project x s (\<lambda>k p.
     case sealed_env q \<lparr>se_env = parsed, se_secret = secret\<rparr> s of
       (s1, Inl e) \<Rightarrow> (s1, Inl (CliSecret e))
     | (s1, Inr env) \<Rightarrow>
       (case save_project q 0 k (p\<lparr>proj_env := gm_copy (proj_env p) env\<rparr>) s1 of
          (s2, _, Some e) \<Rightarrow> (s2, Inl (CliStore e))
        | (s2, _, None) \<Rightarrow> (s2, Inr (OutEnvSet (env_set_rows secret parsed)))))"

definition api_env_set :: "'r api_env \<Rightarrow> string \<Rightarrow> string gomap \<Rightarrow> bool \<Rightarrow> 'r server \<Rightarrow> 'r cli" where
  "api_env_set q x parsed secret s =
     api_do q (SetEnv x parsed secret) (\<lambda>_. Inr (OutEnvSet (env_set_rows secret parsed))) s"

definition cli_env_list :: "'r api_env \<Rightarrow> string \<Rightarrow> bool \<Rightarrow> 'r server \<Rightarrow> 'r cli" where
  "cli_env_list q x show_values s = cli_project x s (\<lambda>k p.
     if \<not> show_values \<or> proj_env p = [] then (s, Inr (OutEnvRows (env_rows None (proj_env p))))
     else (case decrypt_values q None (proj_env p) s of
         (s', Inl e) \<Rightarrow> (s', Inl (CliSecret e))
       | (s', Inr m) \<Rightarrow> (s', Inr (OutEnvRows (env_rows (Some m) (proj_env p))))))"

definition api_env_list :: "'r api_env \<Rightarrow> string \<Rightarrow> bool \<Rightarrow> 'r server \<Rightarrow> 'r cli" where
  "api_env_list q x show_values s = api_do q (ListEnv x show_values)
     (\<lambda>b. case b of BEnv m \<Rightarrow> Inr (OutEnvRows (env_rows_api show_values m)) | _ \<Rightarrow> Inl CliUnexpected) s"

text \<open>The keys with whether they were there; the project is saved if any was.\<close>

fun delete_keys :: "string list \<Rightarrow> string gomap \<Rightarrow> string gomap \<times> (string \<times> bool) list" where
  "delete_keys [] env = (env, [])"
| "delete_keys (k # ks) env = (let found = gm_get env k \<noteq> None
     in case delete_keys ks (if found then gm_del k env else env) of (env', rows) \<Rightarrow> (env', (k, found) # rows))"

definition cli_env_delete :: "'r api_env \<Rightarrow> string \<Rightarrow> string list \<Rightarrow> 'r server \<Rightarrow> 'r cli" where
  "cli_env_delete q x keys s = cli_project x s (\<lambda>k p.
     if proj_env p = [] \<and> \<not> rq_env_allocated q then (s, Inl (CliNoEnv x))
     else (case delete_keys keys (proj_env p) of (env, rows) \<Rightarrow>
       if \<not> list_ex snd rows then (s, Inr (OutKeys rows))
       else (case save_project q 0 k (p\<lparr>proj_env := env\<rparr>) s of
           (s1, _, Some e) \<Rightarrow> (s1, Inl (CliStore e)) | (s1, _, None) \<Rightarrow> (s1, Inr (OutKeys rows)))))"

definition api_env_delete :: "'r api_env \<Rightarrow> string \<Rightarrow> string list \<Rightarrow> 'r server \<Rightarrow> 'r cli" where
  "api_env_delete q x keys s = api_do q (DeleteEnv x keys) (\<lambda>_. Inr (OutKeys (map (\<lambda>k. (k, True)) keys))) s"

section \<open>domain\<close>

definition domain_default :: "string \<Rightarrow> string list \<Rightarrow> string" where
  "domain_default flag domains = (if flag = [] then (case domains of [] \<Rightarrow> [] | d # _ \<Rightarrow> d) else flag)"

definition cli_domain_set :: "'r api_env \<Rightarrow> string \<Rightarrow> string list \<Rightarrow> string \<Rightarrow> 'r server \<Rightarrow> 'r cli" where
  "cli_domain_set q x domains flag s = cli_project x s (\<lambda>k p.
     let dflt = domain_default flag domains
     in case save_project q 0 k (p\<lparr>proj_domains := domains, proj_default_domain := dflt\<rparr>) s of
          (s1, _, Some e) \<Rightarrow> (s1, Inl (CliStore e))
        | (s1, _, None) \<Rightarrow> (s1, Inr (OutDomains (domain_rows domains dflt))))"

definition api_domain_set :: "'r api_env \<Rightarrow> string \<Rightarrow> string list \<Rightarrow> string \<Rightarrow> 'r server \<Rightarrow> 'r cli" where
  "api_domain_set q x domains flag s = (let dflt = domain_default flag domains
     in api_do q (UpdateDomains x \<lparr>ud_domains = domains, ud_default_domain = dflt\<rparr>)
          (\<lambda>_. Inr (OutDomains (domain_rows domains dflt))) s)"

definition cli_domain_list :: "string \<Rightarrow> 'r server \<Rightarrow> 'r cli" where
  "cli_domain_list x s = cli_project x s (\<lambda>k p.
     (s, Inr (OutDomains (domain_rows (proj_domains p) (proj_default_domain p)))))"

definition api_domain_list :: "'r api_env \<Rightarrow> string \<Rightarrow> 'r server \<Rightarrow> 'r cli" where
  "api_domain_list q x s = api_do q (GetProject x) (\<lambda>b. case b of BProjectFull p _ _ \<Rightarrow>
       Inr (OutDomains (domain_rows (proj_domains p) (proj_default_domain p))) | _ \<Rightarrow> Inl CliUnexpected) s"

definition remaining_default :: "string list \<Rightarrow> string list \<Rightarrow> string \<Rightarrow> string" where
  "remaining_default remove remaining dflt =
     (if dflt \<in> set remove then (case remaining of [] \<Rightarrow> [] | d # _ \<Rightarrow> d) else dflt)"

definition cli_domain_remove :: "'r api_env \<Rightarrow> string \<Rightarrow> string list \<Rightarrow> 'r server \<Rightarrow> 'r cli" where
  "cli_domain_remove q x remove s = cli_project x s (\<lambda>k p.
     let remaining = filter_domains (proj_domains p) remove
     in case save_project q 0 k (p\<lparr>proj_domains := remaining,
           proj_default_domain := remaining_default remove remaining (proj_default_domain p)\<rparr>) s of
          (s1, _, Some e) \<Rightarrow> (s1, Inl (CliStore e)) | (s1, _, None) \<Rightarrow> (s1, Inr Done))"

text \<open>Through the API the default stays when no domain remains.\<close>

definition remaining_default_api :: "string list \<Rightarrow> string list \<Rightarrow> string \<Rightarrow> string" where
  "remaining_default_api remove remaining dflt =
     (if dflt \<in> set remove \<and> remaining \<noteq> [] then hd remaining else dflt)"

definition api_domain_remove :: "(nat \<Rightarrow> 'r api_env) \<Rightarrow> string \<Rightarrow> string list \<Rightarrow> 'r server \<Rightarrow> 'r cli" where
  "api_domain_remove qs x remove s =
     (case client_call (qs 0) (GetProject x) s of
        (s1, Inl e) \<Rightarrow> (s1, Inl (CliApi e))
      | (s1, Inr (BProjectFull p _ _)) \<Rightarrow>
        (let remaining = filter_domains (proj_domains p) remove
         in api_do (qs 1) (UpdateDomains x \<lparr>ud_domains = remaining,
              ud_default_domain = remaining_default_api remove remaining (proj_default_domain p)\<rparr>) (\<lambda>_. Inr Done) s1)
      | (s1, Inr _) \<Rightarrow> (s1, Inl CliUnexpected))"

end
