(* ===== verification/Cli_Apps.thy ===== *)
theory Cli_Apps
  imports Cli_Projects
begin

text \<open>
  The commands \<open>app\<close> of the command line (cmd/goship/commands/app.go), in direct mode and through the
  API. In direct mode \<open>store.GetApp\<close> returns a pointer into the store; the edits of \<open>app edit\<close> and the
  merged environment of \<open>app deploy\<close> go to the stored application in memory, which \<open>put_app\<close> does.
\<close>

section \<open>app create\<close>

record app_flags =
  af_mode :: string
  af_image :: string
  af_binary :: string
  af_ports :: "string list"
  af_replicas :: int
  af_env :: "string list"
  af_env_file :: string
  af_cpu :: float64
  af_memory :: string
  af_description :: string
  af_tags :: "string list"
  af_restart_policy :: string

definition memory_flag :: "string \<Rightarrow> cli_error + int" where
  "memory_flag t = (if t = [] then Inr 0 else map_err CliBadMemory (parse_size_mb t))"

definition app_of_flags ::
    "timestamp \<Rightarrow> string \<Rightarrow> app_flags \<Rightarrow> port_mapping list \<Rightarrow> string gomap \<Rightarrow> int \<Rightarrow> app_spec" where
  "app_of_flags now n f ports env mem = zero_app\<lparr>app_name := n, app_execution_mode := mode_of_text (af_mode f),
     app_image := af_image f, app_binary := af_binary f, app_replicas := af_replicas f, app_ports := ports,
     app_env := env, app_resources := \<lparr>res_cpu = af_cpu f, res_memory_mb = mem, res_disk_mb = 0\<rparr>,
     app_restart_policy := policy_of_text (af_restart_policy f), app_description := af_description f,
     app_tags := af_tags f, app_created_at := now\<rparr>"

definition check_app_flags :: "app_flags \<Rightarrow> cli_error option" where
  "check_app_flags f = (let mode = mode_of_text (af_mode f) in
     if mode \<noteq> ModeContainer \<and> mode \<noteq> ModeProcess then Some (CliInvalidMode (af_mode f))
     else if mode = ModeProcess \<and> af_binary f = [] then Some CliBinaryRequired
     else if mode = ModeContainer \<and> af_ports f = [] then Some CliPortRequired else None)"

definition cli_app_create ::
    "cli_host \<Rightarrow> 'r api_env \<Rightarrow> string \<Rightarrow> string \<Rightarrow> app_flags \<Rightarrow> 'r server \<Rightarrow> 'r cli" where
  "cli_app_create h q x n f s = cli_project x s (\<lambda>k p.
     case check_app_flags f of Some e \<Rightarrow> (s, Inl e)
     | None \<Rightarrow>
       if get_app (proj_id p) n (srv_store s) \<noteq> None then (s, Inl (CliAppExists n))
       else if \<not> valid_policy (policy_of_text (af_restart_policy f)) then (s, Inl (CliInvalidPolicy (af_restart_policy f)))
       else (case and_then (map_err CliFlag (parse_port_flags (af_ports f))) (\<lambda>ports.
             and_then (map_err CliFlag (merge_env_flags (hs_files h) (af_env_file f) (af_env f))) (\<lambda>env.
             and_then (memory_flag (af_memory f)) (\<lambda>mem. Inr (app_of_flags (rq_now q) n f ports env mem)))) of
           Inl e \<Rightarrow> (s, Inl e)
         | Inr a \<Rightarrow> (case on_store (set_app (rq_now q) (rq_save q 0) (proj_id p) (Some a)) s of
             (s', Some e) \<Rightarrow> (s', Inl (CliStore e)) | (s', None) \<Rightarrow> (s', Inr (OutApp a)))))"

text \<open>The request has no description and no tags.\<close>

definition create_request ::
    "string \<Rightarrow> app_flags \<Rightarrow> port_mapping list \<Rightarrow> string gomap \<Rightarrow> int \<Rightarrow> create_app_request" where
  "create_request n f ports env mem = \<lparr>ca_name = n, ca_execution_mode = mode_of_text (af_mode f),
     ca_image = af_image f, ca_binary = af_binary f, ca_ports = ports, ca_env = env,
     ca_resources = \<lparr>res_cpu = af_cpu f, res_memory_mb = mem, res_disk_mb = 0\<rparr>,
     ca_restart_policy = policy_of_text (af_restart_policy f), ca_replicas = af_replicas f,
     ca_hostname = [], ca_available = None\<rparr>"

definition out_app :: "body \<Rightarrow> cli_error + outcome" where
  "out_app b = (case b of BApp a \<Rightarrow> Inr (OutApp a) | _ \<Rightarrow> Inl CliUnexpected)"

definition api_app_create ::
    "cli_host \<Rightarrow> (nat \<Rightarrow> 'r api_env) \<Rightarrow> string \<Rightarrow> string \<Rightarrow> app_flags \<Rightarrow> 'r server \<Rightarrow> 'r cli" where
  "api_app_create h qs x n f s = with_api_project (qs 0) x s (\<lambda>pid s1.
     case and_then (memory_flag (af_memory f)) (\<lambda>mem.
          and_then (map_err CliFlag (parse_port_flags (af_ports f))) (\<lambda>ports.
          and_then (map_err CliFlag (merge_env_flags (hs_files h) (af_env_file f) (af_env f))) (\<lambda>env.
            Inr (create_request n f ports env mem)))) of
       Inl e \<Rightarrow> (s1, Inl e)
     | Inr req \<Rightarrow> api_do (qs 1) (CreateApp pid req) out_app s1)"

section \<open>app edit\<close>

text \<open>The flags that were given.\<close>

record edit_app_flags =
  ae_image :: "string option"
  ae_binary :: "string option"
  ae_ports :: "string list option"
  ae_env_file :: "string option"
  ae_env :: "string list option"
  ae_description :: "string option"
  ae_tags :: "string list option"
  ae_restart_policy :: "string option"
  ae_cpu :: "float64 option"
  ae_memory :: "string option"

definition no_edits :: "edit_app_flags \<Rightarrow> bool" where
  "no_edits f \<longleftrightarrow> ae_image f = None \<and> ae_binary f = None \<and> ae_ports f = None \<and> ae_env_file f = None \<and>
     ae_env f = None \<and> ae_description f = None \<and> ae_tags f = None \<and> ae_restart_policy f = None \<and>
     ae_cpu f = None \<and> ae_memory f = None"

definition edit_if :: "'a option \<Rightarrow> ('a \<Rightarrow> app_spec \<Rightarrow> cli_error + app_spec) \<Rightarrow> app_spec \<Rightarrow> cli_error + app_spec" where
  "edit_if v f a = (case v of None \<Rightarrow> Inr a | Some x \<Rightarrow> f x a)"

definition edit_env :: "cli_host \<Rightarrow> edit_app_flags \<Rightarrow> app_spec \<Rightarrow> cli_error + app_spec" where
  "edit_env h f a = (if ae_env_file f = None \<and> ae_env f = None then Inr a
     else map_err CliFlag (apply_env_edits (hs_files h) (case ae_env_file f of None \<Rightarrow> [] | Some p \<Rightarrow> p) (ae_env f) a))"

text \<open>The edits in the order of the code.\<close>

definition app_edits :: "cli_host \<Rightarrow> edit_app_flags \<Rightarrow> (app_spec \<Rightarrow> cli_error + app_spec) list" where
  "app_edits h f = [
     edit_if (ae_image f) (\<lambda>v a. if is_process_mode a then Inl CliNotForProcess else Inr (a\<lparr>app_image := v\<rparr>)),
     edit_if (ae_binary f) (\<lambda>v a. if is_container_mode a then Inl CliNotForContainer else Inr (a\<lparr>app_binary := v\<rparr>)),
     edit_if (ae_ports f) (\<lambda>v a. and_then (map_err CliFlag (parse_port_flags v)) (\<lambda>ps. Inr (a\<lparr>app_ports := ps\<rparr>))),
     edit_env h f,
     edit_if (ae_description f) (\<lambda>v a. Inr (a\<lparr>app_description := v\<rparr>)),
     edit_if (ae_tags f) (\<lambda>v a. Inr (a\<lparr>app_tags := v\<rparr>)),
     edit_if (ae_restart_policy f) (\<lambda>v a. if valid_policy (policy_of_text v)
       then Inr (a\<lparr>app_restart_policy := policy_of_text v\<rparr>) else Inl (CliInvalidPolicy v)),
     edit_if (ae_cpu f) (\<lambda>v a. Inr (a\<lparr>app_resources := (app_resources a)\<lparr>res_cpu := v\<rparr>\<rparr>)),
     edit_if (ae_memory f) (\<lambda>v a. and_then (map_err CliBadMemory (parse_size_mb v))
       (\<lambda>m. Inr (a\<lparr>app_resources := (app_resources a)\<lparr>res_memory_mb := m\<rparr>\<rparr>)))]"

text \<open>The application as far as it was edited, and the error that stopped the edits.\<close>

fun run_edits :: "(app_spec \<Rightarrow> cli_error + app_spec) list \<Rightarrow> app_spec \<Rightarrow> app_spec \<times> cli_error option" where
  "run_edits [] a = (a, None)"
| "run_edits (f # fs) a = (case f a of Inl e \<Rightarrow> (a, Some e) | Inr a' \<Rightarrow> run_edits fs a')"

definition cli_app_edit ::
    "cli_host \<Rightarrow> 'r api_env \<Rightarrow> string \<Rightarrow> string \<Rightarrow> edit_app_flags \<Rightarrow> 'r server \<Rightarrow> 'r cli" where
  "cli_app_edit h q x n f s = cli_project x s (\<lambda>k p. cli_app x p n s (\<lambda>a0.
     case run_edits (app_edits h f) a0 of (a, err) \<Rightarrow>
       (let s1 = put_app (proj_id p) n a s
        in case err of Some e \<Rightarrow> (s1, Inl e)
           | None \<Rightarrow>
             if no_edits f then (s1, Inl CliNoChanges)
             else (case on_store (set_app (rq_now q) (rq_save q 0) (proj_id p) (Some a)) s1 of
                 (s2, Some e) \<Rightarrow> (s2, Inl (CliStore e)) | (s2, None) \<Rightarrow> (s2, Inr (OutApp a))))))"

definition opt_flag :: "('a \<Rightarrow> cli_error + 'b) \<Rightarrow> 'a option \<Rightarrow> cli_error + 'b option" where
  "opt_flag f v = (case v of None \<Rightarrow> Inr None | Some x \<Rightarrow> and_then (f x) (\<lambda>y. Inr (Some y)))"

definition update_request :: "cli_host \<Rightarrow> edit_app_flags \<Rightarrow> cli_error + update_app_request" where
  "update_request h f =
     and_then (opt_flag (\<lambda>v. map_err CliFlag (parse_port_flags v)) (ae_ports f)) (\<lambda>ports.
     and_then (if ae_env_file f = None \<and> ae_env f = None then Inr None
        else and_then (map_err CliFlag (merge_env_flags (hs_files h) (case ae_env_file f of None \<Rightarrow> [] | Some p \<Rightarrow> p)
               (case ae_env f of None \<Rightarrow> [] | Some fs \<Rightarrow> fs))) (\<lambda>env. Inr (Some env))) (\<lambda>env.
     and_then (opt_flag (\<lambda>v. map_err CliBadMemory (parse_size_mb v)) (ae_memory f)) (\<lambda>mem.
       Inr \<lparr>ua_image = ae_image f, ua_binary = ae_binary f, ua_ports = ports, ua_env = env,
            ua_description = ae_description f, ua_tags = ae_tags f,
            ua_restart_policy = map_option policy_of_text (ae_restart_policy f), ua_cpu = ae_cpu f,
            ua_memory_mb = mem, ua_hostname = None, ua_available = None\<rparr>)))"

definition api_app_edit ::
    "cli_host \<Rightarrow> (nat \<Rightarrow> 'r api_env) \<Rightarrow> string \<Rightarrow> string \<Rightarrow> edit_app_flags \<Rightarrow> 'r server \<Rightarrow> 'r cli" where
  "api_app_edit h qs x n f s = with_api_project (qs 0) x s (\<lambda>pid s1.
     case update_request h f of Inl e \<Rightarrow> (s1, Inl e)
     | Inr req \<Rightarrow> if no_edits f then (s1, Inl CliNoChanges) else api_do (qs 1) (UpdateApp pid n req) out_app s1)"

section \<open>app deploy\<close>

definition cli_set_image ::
    "'r api_env \<Rightarrow> project \<Rightarrow> string \<Rightarrow> string \<Rightarrow> app_spec \<Rightarrow> 'r server \<Rightarrow> 'r server \<times> (cli_error + app_spec)" where
  "cli_set_image q p n img a s =
     (if img = [] then (s, Inr a)
      else let a' = a\<lparr>app_image := img\<rparr>
           in case on_store (set_app (rq_now q) (rq_save q 0) (proj_id p) (Some a')) (put_app (proj_id p) n a' s) of
                (s', Some e) \<Rightarrow> (s', Inl (CliStore e)) | (s', None) \<Rightarrow> (s', Inr a'))"

definition file_checksum :: "'r api_env \<Rightarrow> stream \<Rightarrow> string" where
  "file_checksum q rd = hex_encode (rq_sha256 q (concat (rd_chunks rd)))"

text \<open>\<open>pushLocalImage\<close>: the exported image is read for its checksum and then sent.\<close>

definition push_local_image ::
    "cli_host \<Rightarrow> 'r api_env \<Rightarrow> string \<Rightarrow> string \<Rightarrow> 'r server \<Rightarrow> 'r server \<times> cli_error option" where
  "push_local_image h q iid ref s =
     (case hs_export h ref of None \<Rightarrow> (s, Some (CliExportFailed ref))
      | Some (rd, len) \<Rightarrow>
        if rd_fails rd then (s, Some CliChecksum)
        else (case rt_call (rq_ops q) iid (op_upload_image (rq_ops q) iid ref rd len (file_checksum q rd)) s of
            (s', e) \<Rightarrow> (s', map_option CliRuntime e)))"

definition push_if_local ::
    "cli_host \<Rightarrow> 'r api_env \<Rightarrow> bool \<Rightarrow> string \<Rightarrow> app_spec \<Rightarrow> 'r server \<Rightarrow> 'r server \<times> cli_error option" where
  "push_if_local h q local iid a s = (if local \<and> is_container_mode a
     then push_local_image h q iid (local_image_ref a) s else (s, None))"

text \<open>A binary that exists on the host is sent, and the application then names its place in the machine.\<close>

definition upload_local_binary ::
    "cli_host \<Rightarrow> 'r api_env \<Rightarrow> project \<Rightarrow> string \<Rightarrow> string \<Rightarrow> app_spec \<Rightarrow> 'r server \<Rightarrow>
     'r server \<times> (cli_error + app_spec)" where
  "upload_local_binary h q p n iid a s =
     (if \<not> (is_process_mode a \<and> app_binary a \<noteq> [] \<and> hs_stat h (app_binary a)) then (s, Inr a)
      else (case hs_binaries h (app_binary a) of None \<Rightarrow> (s, Inl (CliNoBinary (app_binary a)))
        | Some (rd, len) \<Rightarrow>
          if rd_fails rd then (s, Inl CliChecksum)
          else let file = filepath_base (app_binary a)
            in (case rt_call (rq_ops q) iid (op_upload_binary (rq_ops q) iid n file rd len (file_checksum q rd)) s of
                (s1, Some e) \<Rightarrow> (s1, Inl (CliRuntime e))
              | (s1, None) \<Rightarrow>
                (let a' = a\<lparr>app_binary := ''/opt/goship/binaries/'' @ n @ ''/'' @ file\<rparr>
                 in case on_store (set_app (rq_now q) (rq_save q 1) (proj_id p) (Some a')) (put_app (proj_id p) n a' s1) of
                      (s2, Some e) \<Rightarrow> (s2, Inl (CliStore e)) | (s2, None) \<Rightarrow> (s2, Inr a')))))"

text \<open>\<open>mergeProjectEnv\<close> (env.go): the decrypted variables of the project, overridden by the application's.\<close>

definition merge_project_env ::
    "'r api_env \<Rightarrow> string gomap \<Rightarrow> app_spec \<Rightarrow> 'r server \<Rightarrow> 'r server \<times> (cli_error + app_spec)" where
  "merge_project_env q env a s =
     (if env = [] then (s, Inr a)
      else (case decrypt_values q None env s of
          (s', Inl e) \<Rightarrow> (s', Inl (CliSecret e))
        | (s', Inr m) \<Rightarrow> (s', Inr (a\<lparr>app_env := gm_copy (gm_copy [] m) (app_env a)\<rparr>))))"

definition cli_app_deploy ::
    "cli_host \<Rightarrow> 'r api_env \<Rightarrow> string \<Rightarrow> string \<Rightarrow> string \<Rightarrow> bool \<Rightarrow> 'r server \<Rightarrow> 'r cli" where
  "cli_app_deploy h q x n img local s = cli_project x s (\<lambda>k p. cli_app x p n s (\<lambda>a0.
     case cli_set_image q p n img a0 s of (s1, Inl e) \<Rightarrow> (s1, Inl e)
     | (s1, Inr a1) \<Rightarrow>
       if is_container_mode a1 \<and> app_image a1 = [] then (s1, Inl (CliImageRequired n))
       else cli_instance x p s1 (\<lambda>i.
         case push_if_local h q local (inst_id i) a1 (rt_load (rq_ops q) i s1) of (s2, Some e) \<Rightarrow> (s2, Inl e)
         | (s2, None) \<Rightarrow>
           (case upload_local_binary h q p n (inst_id i) a1 s2 of (s3, Inl e) \<Rightarrow> (s3, Inl e)
            | (s3, Inr a2) \<Rightarrow>
              (case merge_project_env q (proj_env p) a2 s3 of (s4, Inl e) \<Rightarrow> (s4, Inl e)
               | (s4, Inr a) \<Rightarrow>
                 (case rt_call (rq_ops q) (inst_id i) (op_deploy (rq_ops q) (inst_id i) a) (put_app (proj_id p) n a s4) of
                    (s5, Some e) \<Rightarrow> (s5, Inl (CliRuntime e)) | (s5, None) \<Rightarrow> (s5, Inr (OutApp a))))))))"

definition api_app_deploy :: "(nat \<Rightarrow> 'r api_env) \<Rightarrow> string \<Rightarrow> string \<Rightarrow> string \<Rightarrow> 'r server \<Rightarrow> 'r cli" where
  "api_app_deploy qs x n img s = with_api_project (qs 0) x s (\<lambda>pid s1.
     api_do (qs 1) (DeployApp pid n img) out_app s1)"

section \<open>app list, info\<close>

text \<open>\<open>getLiveAppStatuses\<close>: nothing, if anything fails on the way to the agent.\<close>

definition live_statuses ::
    "cli_host \<Rightarrow> 'r channel \<Rightarrow> project \<Rightarrow> 'r server \<Rightarrow> 'r server \<times> app_status gomap" where
  "live_statuses h ch p s = (case get_instance (proj_id p) (srv_store s) of None \<Rightarrow> (s, [])
     | Some i \<Rightarrow>
       if inst_domain_name i = [] then (s, [])
       else (case instance_socket h i of Inl e \<Rightarrow> (s, [])
         | Inr sock \<Rightarrow>
           if \<not> ch_dial ch sock (srv_rt s) then (s, [])
           else (case on_rt (ch_send ch sock (blank_command action_status)) s of
               (s', None) \<Rightarrow> (s', [])
             | (s', Some resp) \<Rightarrow> (s', if resp_error resp \<noteq> None then []
                 else fold (\<lambda>a. gm_set (as_name a) a) (resp_apps resp) []))))"

definition cli_app_list :: "cli_host \<Rightarrow> 'r channel \<Rightarrow> string \<Rightarrow> 'r server \<Rightarrow> 'r cli" where
  "cli_app_list h ch x s = cli_project x s (\<lambda>k p.
     let apps = get_apps (proj_id p) (srv_store s)
     in if apps = [] then (s, Inr (OutApps []))
        else (case live_statuses h ch p s of (s', live) \<Rightarrow>
          (s', Inr (OutApps (map (\<lambda>a. (a, map_option as_state (gm_get live (app_name a)))) apps)))))"

definition api_app_list :: "(nat \<Rightarrow> 'r api_env) \<Rightarrow> string \<Rightarrow> 'r server \<Rightarrow> 'r cli" where
  "api_app_list qs x s = with_api_project (qs 0) x s (\<lambda>pid s1. api_do (qs 1) (ListApps pid)
     (\<lambda>b. case b of BApps apps \<Rightarrow> Inr (OutApps (map (\<lambda>a. (a, None)) apps)) | _ \<Rightarrow> Inl CliUnexpected) s1)"

definition cli_app_info :: "cli_host \<Rightarrow> 'r channel \<Rightarrow> string \<Rightarrow> string \<Rightarrow> 'r server \<Rightarrow> 'r cli" where
  "cli_app_info h ch x n s = cli_project x s (\<lambda>k p. cli_app x p n s (\<lambda>a.
     case live_statuses h ch p s of (s', live) \<Rightarrow> (s', Inr (OutAppInfo a (shown_env (app_env a)) (gm_get live n)))))"

definition api_app_info :: "(nat \<Rightarrow> 'r api_env) \<Rightarrow> string \<Rightarrow> string \<Rightarrow> 'r server \<Rightarrow> 'r cli" where
  "api_app_info qs x n s = with_api_project (qs 0) x s (\<lambda>pid s1. api_do (qs 1) (GetApp pid n) (\<lambda>b. case b of
       BApp a \<Rightarrow> Inr (OutAppInfo a [] None) | _ \<Rightarrow> Inl CliUnexpected) s1)"

section \<open>app stop, delete, logs, push-image\<close>

definition cli_app_stop :: "'r api_env \<Rightarrow> string \<Rightarrow> string \<Rightarrow> 'r server \<Rightarrow> 'r cli" where
  "cli_app_stop q x n s = cli_project x s (\<lambda>k p. cli_app x p n s (\<lambda>a. cli_instance x p s (\<lambda>i.
     case rt_call (rq_ops q) (inst_id i) (op_stop_app (rq_ops q) (inst_id i) n) (rt_load (rq_ops q) i s) of
       (s1, Some e) \<Rightarrow> (s1, Inl (CliRuntime e)) | (s1, None) \<Rightarrow> (s1, Inr OutStopped))))"

definition api_app_stop :: "(nat \<Rightarrow> 'r api_env) \<Rightarrow> string \<Rightarrow> string \<Rightarrow> 'r server \<Rightarrow> 'r cli" where
  "api_app_stop qs x n s = with_api_project (qs 0) x s (\<lambda>pid s1. api_do (qs 1) (StopApp pid n) (\<lambda>_. Inr OutStopped) s1)"

definition cli_app_delete :: "'r api_env \<Rightarrow> string \<Rightarrow> string \<Rightarrow> 'r server \<Rightarrow> 'r cli" where
  "cli_app_delete q x n s = cli_project x s (\<lambda>k p. cli_app x p n s (\<lambda>a.
     let s1 = (case get_instance (proj_id p) (srv_store s) of None \<Rightarrow> s
           | Some i \<Rightarrow> fst (rt_call (rq_ops q) (inst_id i) (op_remove_app (rq_ops q) (inst_id i) n) (rt_load (rq_ops q) i s)))
     in case on_store (delete_app (rq_now q) (rq_save q 0) (proj_id p) n) s1 of
          (s2, Some e) \<Rightarrow> (s2, Inl (CliStore e)) | (s2, None) \<Rightarrow> (s2, Inr Done)))"

definition api_app_delete :: "(nat \<Rightarrow> 'r api_env) \<Rightarrow> string \<Rightarrow> string \<Rightarrow> 'r server \<Rightarrow> 'r cli" where
  "api_app_delete qs x n s = with_api_project (qs 0) x s (\<lambda>pid s1. api_do (qs 1) (DeleteApp pid n) (\<lambda>_. Inr Done) s1)"

text \<open>With \<open>--follow\<close>: at each tick the part beyond the length of what was fetched before is printed.\<close>

fun follow_logs ::
    "'r api_env \<Rightarrow> string \<Rightarrow> string \<Rightarrow> int \<Rightarrow> nat \<Rightarrow> ('r \<Rightarrow> 'r) list \<Rightarrow> 'r server \<Rightarrow> 'r server \<times> string list" where
  "follow_logs q iid n k len [] s = (s, [])"
| "follow_logs q iid n k len (t # ts) s =
     (case rt_call (rq_ops q) iid (op_app_logs (rq_ops q) iid n k) (s\<lparr>srv_rt := t (srv_rt s)\<rparr>) of
        (s1, Inl e) \<Rightarrow> follow_logs q iid n k len ts s1
      | (s1, Inr logs) \<Rightarrow>
        if len < length logs
        then (case follow_logs q iid n k (length logs) ts s1 of (s2, out) \<Rightarrow> (s2, drop len logs # out))
        else follow_logs q iid n k len ts s1)"

definition cli_app_logs :: "'r api_env \<Rightarrow> string \<Rightarrow> string \<Rightarrow> int \<Rightarrow> bool \<Rightarrow> 'r server \<Rightarrow> 'r cli" where
  "cli_app_logs q x n k follow s = cli_project x s (\<lambda>kp p. cli_app x p n s (\<lambda>a. cli_instance x p s (\<lambda>i.
     case rt_call (rq_ops q) (inst_id i) (op_app_logs (rq_ops q) (inst_id i) n k) (rt_load (rq_ops q) i s) of
       (s1, Inl e) \<Rightarrow> (s1, Inl (CliRuntime e))
     | (s1, Inr logs) \<Rightarrow>
       (if \<not> follow then (s1, Inr (OutLogs [logs]))
        else (case follow_logs q (inst_id i) n k (length logs) (rq_ticks q) s1 of
            (s2, out) \<Rightarrow> (s2, Inr (OutLogs (logs # out))))))))"

definition api_app_logs :: "(nat \<Rightarrow> 'r api_env) \<Rightarrow> string \<Rightarrow> string \<Rightarrow> int \<Rightarrow> 'r server \<Rightarrow> 'r cli" where
  "api_app_logs qs x n k s = with_api_project (qs 0) x s (\<lambda>pid s1. api_do (qs 1) (GetAppLogs pid n k) out_logs s1)"

definition cli_push_image :: "cli_host \<Rightarrow> 'r api_env \<Rightarrow> string \<Rightarrow> string \<Rightarrow> 'r server \<Rightarrow> 'r cli" where
  "cli_push_image h q x ref s = cli_project x s (\<lambda>k p. cli_instance x p s (\<lambda>i.
     case push_local_image h q (inst_id i) ref (rt_load (rq_ops q) i s) of
       (s1, Some e) \<Rightarrow> (s1, Inl e) | (s1, None) \<Rightarrow> (s1, Inr Done)))"

definition api_push_image :: "cli_host \<Rightarrow> 'r api_env \<Rightarrow> string \<Rightarrow> string \<Rightarrow> 'r server \<Rightarrow> 'r cli" where
  "api_push_image h q x ref s = (case hs_export h ref of None \<Rightarrow> (s, Inl (CliExportFailed ref))
     | Some (rd, len) \<Rightarrow> api_do q (PushImage x ref rd len) (\<lambda>_. Inr Done) s)"

end
