(* ===== verification/Cli_Deploy.thy ===== *)
theory Cli_Deploy
  imports Cli_Apps
begin

text \<open>
  The commands that work on several applications at once, \<open>compose\<close> and \<open>deploy\<close>
  (cmd/goship/commands/compose.go, deploy.go). The \<open>n\<close>-th service of a run saves the state at the
  places \<open>n\<close> counts, and makes the calls of the API that it counts.
\<close>

section \<open>Services in direct mode\<close>

definition parse_compose ::
    "cli_host \<Rightarrow> (parse_config \<Rightarrow> parse_config) list \<Rightarrow> string \<Rightarrow>
     cli_error + app_spec list \<times> build_context gomap \<times> compose_warning list" where
  "parse_compose h opts path =
     map_err CliCompose (parse_path (hs_compose h) (hs_compose_yaml h) (hs_cwd h) opts path)"

definition registry_option :: "cli_host \<Rightarrow> string \<Rightarrow> parse_config \<Rightarrow> parse_config" where
  "registry_option h project = with_registry (registry_host_for_push (hs_registry_addr h)) project"

text \<open>Images are built and pushed, or the services that need a build are left out.\<close>

definition build_or_skip ::
    "cli_host \<Rightarrow> bool \<Rightarrow> build_context gomap \<Rightarrow> app_spec list \<Rightarrow> string list list \<times> (cli_error + app_spec list)" where
  "build_or_skip h build builds apps =
     (if builds = [] then ([], Inr apps)
      else if build
      then (case build_images (hs_docker h) (hs_registry_addr h) builds of
          (cs, Some e) \<Rightarrow> (cs, Inl (CliBuild e)) | (cs, None) \<Rightarrow> (cs, Inr apps))
      else ([], Inr (without_builds builds apps)))"

fun merge_envs ::
    "'r api_env \<Rightarrow> string gomap \<Rightarrow> app_spec list \<Rightarrow> 'r server \<Rightarrow> 'r server \<times> (cli_error + app_spec list)" where
  "merge_envs q env [] s = (s, Inr [])"
| "merge_envs q env (a # as) s =
     (case merge_project_env q env a s of
        (s1, Inl e) \<Rightarrow> (s1, Inl e)
      | (s1, Inr a') \<Rightarrow>
        (case merge_envs q env as s1 of (s2, Inl e) \<Rightarrow> (s2, Inl e) | (s2, Inr as') \<Rightarrow> (s2, Inr (a' # as'))))"

text \<open>The application is stored, then deployed; a failure is printed and the next one is tried.\<close>

definition deploy_service ::
    "'r api_env \<Rightarrow> project \<Rightarrow> string \<Rightarrow> nat \<Rightarrow> app_spec \<Rightarrow> 'r server \<Rightarrow> 'r server \<times> service_result" where
  "deploy_service q p iid n a s =
     (case on_store (set_app (rq_now q) (rq_save q n) (proj_id p) (Some a)) s of
        (s1, Some e) \<Rightarrow> (s1, SvcStateFailed e)
      | (s1, None) \<Rightarrow>
        (case rt_call (rq_ops q) iid (op_deploy (rq_ops q) iid a) s1 of
           (s2, Some e) \<Rightarrow> (s2, SvcDeployFailed e) | (s2, None) \<Rightarrow> (s2, SvcDeployed)))"

fun each_service ::
    "(nat \<Rightarrow> app_spec \<Rightarrow> 'r server \<Rightarrow> 'r server \<times> service_result) \<Rightarrow> nat \<Rightarrow> app_spec list \<Rightarrow> 'r server \<Rightarrow>
     'r server \<times> (string \<times> service_result) list" where
  "each_service f n [] s = (s, [])"
| "each_service f n (a # as) s =
     (case f n a s of (s1, r) \<Rightarrow> (case each_service f (Suc n) as s1 of (s2, rs) \<Rightarrow> (s2, (app_name a, r) # rs)))"

text \<open>From the parsed compose file on; the machine of the project is loaded.\<close>

definition deploy_parsed ::
    "cli_host \<Rightarrow> 'r api_env \<Rightarrow> project \<Rightarrow> proj_instance \<Rightarrow> bool \<Rightarrow> nat \<Rightarrow>
     app_spec list \<times> build_context gomap \<times> compose_warning list \<Rightarrow> 'r server \<Rightarrow> 'r cli" where
  "deploy_parsed h q p i build n parsed s =
     (case parsed of (apps, builds, ws) \<Rightarrow>
       (let s1 = rt_load (rq_ops q) i s
        in case build_or_skip h build builds apps of
             (cs, Inl e) \<Rightarrow> (s1, Inl e)
           | (cs, Inr apps1) \<Rightarrow>
             (case merge_envs q (proj_env p) (map (cap_cpu (res_cpu (proj_resources p))) apps1) s1 of
                (s2, Inl e) \<Rightarrow> (s2, Inl e)
              | (s2, Inr apps2) \<Rightarrow>
                (case each_service (deploy_service q p (inst_id i)) n apps2 s2 of
                  (s3, rs) \<Rightarrow> (s3, Inr (OutServices ws cs rs))))))"

definition cli_compose_up :: "cli_host \<Rightarrow> 'r api_env \<Rightarrow> string \<Rightarrow> string \<Rightarrow> bool \<Rightarrow> 'r server \<Rightarrow> 'r cli" where
  "cli_compose_up h q x path build s = cli_project x s (\<lambda>k p. cli_instance x p s (\<lambda>i.
     case parse_compose h [registry_option h x] path of
       Inl e \<Rightarrow> (s, Inl e) | Inr parsed \<Rightarrow> deploy_parsed h q p i build 0 parsed s))"

definition remove_service ::
    "'r api_env \<Rightarrow> project \<Rightarrow> string \<Rightarrow> nat \<Rightarrow> app_spec \<Rightarrow> 'r server \<Rightarrow> 'r server \<times> service_result" where
  "remove_service q p iid n a s =
     (let s1 = fst (rt_call (rq_ops q) iid (op_remove_app (rq_ops q) iid (app_name a)) s)
      in case on_store (delete_app (rq_now q) (rq_save q n) (proj_id p) (app_name a)) s1 of
           (s2, Some e) \<Rightarrow> (s2, SvcStateFailed e) | (s2, None) \<Rightarrow> (s2, SvcRemoved))"

definition cli_compose_down :: "cli_host \<Rightarrow> 'r api_env \<Rightarrow> string \<Rightarrow> string \<Rightarrow> 'r server \<Rightarrow> 'r cli" where
  "cli_compose_down h q x path s = cli_project x s (\<lambda>k p. cli_instance x p s (\<lambda>i.
     case parse_compose h [] path of Inl e \<Rightarrow> (s, Inl e)
     | Inr (apps, _, _) \<Rightarrow>
       (case each_service (remove_service q p (inst_id i)) 0 apps (rt_load (rq_ops q) i s) of
          (s', rs) \<Rightarrow> (s', Inr (OutServices [] [] rs)))))"

definition cli_compose_ps :: "cli_host \<Rightarrow> 'r channel \<Rightarrow> string \<Rightarrow> 'r server \<Rightarrow> 'r cli" where
  "cli_compose_ps h ch x s = cli_project x s (\<lambda>k p.
     let apps = get_apps (proj_id p) (srv_store s)
     in if apps = [] then (s, Inr (OutApps []))
        else (case live_statuses h ch p s of (s', live) \<Rightarrow>
          (s', Inr (OutApps (map (\<lambda>a. (a, map_option as_state (gm_get live (app_name a))))
             (filter is_container_mode apps))))))"

section \<open>Services through the API\<close>

definition request_of_app :: "app_spec \<Rightarrow> create_app_request" where
  "request_of_app a = \<lparr>ca_name = app_name a, ca_execution_mode = app_execution_mode a, ca_image = app_image a,
     ca_binary = app_binary a, ca_ports = app_ports a, ca_env = app_env a, ca_resources = app_resources a,
     ca_restart_policy = app_restart_policy a, ca_replicas = app_replicas a, ca_hostname = [], ca_available = None\<rparr>"

text \<open>
  The test for the words \<open>already exists\<close> in the text of an error. The texts of a creation that repeat
  a part of the request have them if that part does; the texts of the system do not have them.
\<close>

definition has_words :: "string \<Rightarrow> bool" where
  "has_words t \<longleftrightarrow> (case cut t ''already exists'' of (_, _, found) \<Rightarrow> found)"

definition says_exists :: "client_error \<Rightarrow> bool" where
  "says_exists e = (case e of
       ApiError n (BError (MsgAppExists name)) \<Rightarrow> True
     | ApiError n (BError (MsgProjectNotFound x)) \<Rightarrow> has_words x
     | ApiError n (BError (MsgEntity (NotPathComponent kind name))) \<Rightarrow> has_words name
     | ApiError n (BError (MsgInvalidMode (ModeOther m))) \<Rightarrow> has_words m
     | _ \<Rightarrow> False)"

definition api_deploy_service ::
    "(nat \<Rightarrow> 'r api_env) \<Rightarrow> string \<Rightarrow> nat \<Rightarrow> app_spec \<Rightarrow> 'r server \<Rightarrow> 'r server \<times> service_result" where
  "api_deploy_service qs pid n a s =
     (case client_call (qs (2 * n)) (CreateApp pid (request_of_app a)) s of (s1, created) \<Rightarrow>
       (case created of
          Inl e \<Rightarrow> if \<not> says_exists e then (s1, SvcCreateFailed e)
            else (case client_call (qs (2 * n + 1)) (DeployApp pid (app_name a) (app_image a)) s1 of
              (s2, Inl e') \<Rightarrow> (s2, SvcApiFailed e') | (s2, Inr _) \<Rightarrow> (s2, SvcDeployed))
        | Inr _ \<Rightarrow> (case client_call (qs (2 * n + 1)) (DeployApp pid (app_name a) (app_image a)) s1 of
              (s2, Inl e') \<Rightarrow> (s2, SvcApiFailed e') | (s2, Inr _) \<Rightarrow> (s2, SvcDeployed))))"

text \<open>Neither the limit of the CPUs nor the environment of the project is applied here.\<close>

definition api_deploy_parsed ::
    "cli_host \<Rightarrow> (nat \<Rightarrow> 'r api_env) \<Rightarrow> string \<Rightarrow> bool \<Rightarrow> nat \<Rightarrow>
     app_spec list \<times> build_context gomap \<times> compose_warning list \<Rightarrow> 'r server \<Rightarrow> 'r cli" where
  "api_deploy_parsed h qs pid build n parsed s =
     (case parsed of (apps, builds, ws) \<Rightarrow>
       (case build_or_skip h build builds apps of
          (cs, Inl e) \<Rightarrow> (s, Inl e)
        | (cs, Inr apps1) \<Rightarrow>
          (case each_service (api_deploy_service qs pid) n apps1 s of (s', rs) \<Rightarrow> (s', Inr (OutServices ws cs rs)))))"

definition api_compose_up ::
    "cli_host \<Rightarrow> (nat \<Rightarrow> 'r api_env) \<Rightarrow> string \<Rightarrow> string \<Rightarrow> bool \<Rightarrow> 'r server \<Rightarrow> 'r cli" where
  "api_compose_up h qs x path build s = with_api_project (qs 0) x s (\<lambda>pid s1.
     case parse_compose h [registry_option h x] path of
       Inl e \<Rightarrow> (s1, Inl e) | Inr parsed \<Rightarrow> api_deploy_parsed h qs pid build 1 parsed s1)"

definition api_remove_service ::
    "(nat \<Rightarrow> 'r api_env) \<Rightarrow> string \<Rightarrow> nat \<Rightarrow> app_spec \<Rightarrow> 'r server \<Rightarrow> 'r server \<times> service_result" where
  "api_remove_service qs pid n a s = (case client_call (qs n) (DeleteApp pid (app_name a)) s of
      (s', Inl e) \<Rightarrow> (s', SvcApiFailed e) | (s', Inr _) \<Rightarrow> (s', SvcRemoved))"

definition api_compose_down :: "cli_host \<Rightarrow> (nat \<Rightarrow> 'r api_env) \<Rightarrow> string \<Rightarrow> string \<Rightarrow> 'r server \<Rightarrow> 'r cli" where
  "api_compose_down h qs x path s = with_api_project (qs 0) x s (\<lambda>pid s1.
     case parse_compose h [] path of Inl e \<Rightarrow> (s1, Inl e)
     | Inr (apps, _, _) \<Rightarrow>
       (case each_service (api_remove_service qs pid) 1 apps s1 of (s', rs) \<Rightarrow> (s', Inr (OutServices [] [] rs))))"

definition api_compose_ps :: "(nat \<Rightarrow> 'r api_env) \<Rightarrow> string \<Rightarrow> 'r server \<Rightarrow> 'r cli" where
  "api_compose_ps qs x s = with_api_project (qs 0) x s (\<lambda>pid s1. api_do (qs 1) (ListApps pid)
     (\<lambda>b. case b of BApps apps \<Rightarrow> Inr (OutApps (map (\<lambda>a. (a, None)) (filter is_container_mode apps)))
       | _ \<Rightarrow> Inl CliUnexpected) s1)"

section \<open>deploy: the manifest\<close>

definition read_manifest :: "cli_host \<Rightarrow> string \<Rightarrow> string \<Rightarrow> cli_error + manifest" where
  "read_manifest h path env = map_err CliManifest
     (and_then (load_manifest (hs_files h) (hs_manifest_yaml h) path) (resolve_manifest env))"

definition manifest_resources :: "manifest \<Rightarrow> cli_error + resources" where
  "manifest_resources m = map_err CliBadResources (to_entity_resources (man_resources m))"

definition manifest_default :: "manifest \<Rightarrow> string" where
  "manifest_default m = (if man_default_domain m = [] then hd (man_domains m) else man_default_domain m)"

text \<open>The file of a compose section, and whether it builds, which is the default.\<close>

definition manifest_compose :: "manifest \<Rightarrow> (string \<times> bool) option" where
  "manifest_compose m = (case man_compose m of None \<Rightarrow> None
     | Some c \<Rightarrow> if mc_file c = [] then None
         else Some (mc_file c, case mc_build c of None \<Rightarrow> True | Some b \<Rightarrow> b))"

definition compose_file_path :: "cli_host \<Rightarrow> string \<Rightarrow> string \<Rightarrow> string" where
  "compose_file_path h manifest_path path =
     (if is_abs path then path
      else let base = filepath_dir manifest_path
        in if is_abs base then filepath_join (filepath_clean base) path
           else (case hs_cwd h of None \<Rightarrow> path | Some d \<Rightarrow> filepath_join (filepath_join d base) path))"

text \<open>The steps that \<open>--dry-run\<close> prints.\<close>

definition dry_steps :: "bool \<Rightarrow> manifest \<Rightarrow> resources \<Rightarrow> dry_step list" where
  "dry_steps exists m res =
     (if exists then [] else [DryCreate (man_project m) (res_cpu res) (format_mb (res_memory_mb res)) (format_mb (res_disk_mb res))]) @
     (if man_env m = [] then [] else [DryEnv (length (man_env m)) (format_keys (man_env m))]) @
     (if man_secrets m = [] then [] else [DrySecrets (length (man_secrets m)) (format_keys (man_secrets m))]) @
     (if man_domains m = [] then [] else [DryDomains (man_domains m) (manifest_default m)]) @
     (case manifest_compose m of None \<Rightarrow> [] | Some (path, build) \<Rightarrow> [DryCompose path build])"

section \<open>deploy in direct mode\<close>

definition ensure_project ::
    "'r api_env \<Rightarrow> manifest \<Rightarrow> resources \<Rightarrow> 'r server \<Rightarrow> 'r server \<times> (cli_error + string \<times> project)" where
  "ensure_project q m res s =
     (case find_project (man_project m) (srv_store s) of
        Some (k, p) \<Rightarrow> (s, Inr (k, p))
      | None \<Rightarrow> (case create_with_vm q (man_project m) res s of
          (s', Inl e) \<Rightarrow> (s', Inl e) | (s', Inr (p, i)) \<Rightarrow> (s', Inr (proj_id p, p))))"

text \<open>The secrets are encrypted into the environment one after the other.\<close>

fun seal_secrets ::
    "'r api_env \<Rightarrow> aead \<Rightarrow> string gomap \<Rightarrow> string gomap \<Rightarrow> string gomap \<times> api_error option" where
  "seal_secrets q v [] env = (env, None)"
| "seal_secrets q v ((k, val) # m) env =
     (case encrypt v (rq_nonce q k) val of
        Inl e \<Rightarrow> (env, Some (MsgVault e)) | Inr c \<Rightarrow> seal_secrets q v m (gm_set k c env))"

definition manifest_env ::
    "'r api_env \<Rightarrow> manifest \<Rightarrow> string gomap \<Rightarrow> 'r server \<Rightarrow> 'r server \<times> string gomap \<times> cli_error option" where
  "manifest_env q m env0 s =
     (let env = gm_copy env0 (man_env m)
      in if man_secrets m = [] then (s, env, None)
         else (case init_vault q s of
             (s1, Inl e) \<Rightarrow> (s1, env, Some (CliSecret e))
           | (s1, Inr v) \<Rightarrow>
             (case seal_secrets q v (man_secrets m) env of (env', e) \<Rightarrow> (s1, env', map_option CliSecret e))))"

definition manifest_domains :: "manifest \<Rightarrow> project \<Rightarrow> project" where
  "manifest_domains m p = (if man_domains m = [] then p
     else p\<lparr>proj_domains := man_domains m, proj_default_domain := manifest_default m\<rparr>)"

definition deploy_compose ::
    "cli_host \<Rightarrow> 'r api_env \<Rightarrow> string \<Rightarrow> manifest \<Rightarrow> project \<Rightarrow> 'r server \<Rightarrow> 'r cli" where
  "deploy_compose h q path m p s =
     (case manifest_compose m of None \<Rightarrow> (s, Inr (OutDeployed None))
      | Some (file', build) \<Rightarrow>
        (case parse_compose h [registry_option h (man_project m)] (compose_file_path h path file') of
           Inl e \<Rightarrow> (s, Inl e)
         | Inr parsed \<Rightarrow> cli_instance (man_project m) p s (\<lambda>i.
             case deploy_parsed h q p i build 5 parsed s of
               (s', Inl e) \<Rightarrow> (s', Inl e) | (s', Inr services) \<Rightarrow> (s', Inr (OutDeployed (Some services))))))"

definition cli_deploy :: "cli_host \<Rightarrow> 'r api_env \<Rightarrow> string \<Rightarrow> manifest \<Rightarrow> bool \<Rightarrow> 'r server \<Rightarrow> 'r cli" where
  "cli_deploy h q path m dry s =
     (case manifest_resources m of Inl e \<Rightarrow> (s, Inl e)
      | Inr res \<Rightarrow>
        if dry then (s, Inr (OutDryRun (dry_steps (find_project (man_project m) (srv_store s) \<noteq> None) m res)))
        else (case ensure_project q m res s of (s1, Inl e) \<Rightarrow> (s1, Inl e)
          | (s1, Inr (k, p)) \<Rightarrow>
            (case manifest_env q m (proj_env p) s1 of
               (s2, env, Some e) \<Rightarrow> (put_project k (p\<lparr>proj_env := env\<rparr>) s2, Inl e)
             | (s2, env, None) \<Rightarrow>
               (case save_project q 4 k (manifest_domains m (p\<lparr>proj_env := env\<rparr>)) s2 of
                  (s3, _, Some e) \<Rightarrow> (s3, Inl (CliStore e))
                | (s3, p', None) \<Rightarrow> deploy_compose h q path m p' s3))))"

section \<open>deploy through the API\<close>

text \<open>A step that is skipped or answered, and the rest.\<close>

definition api_step ::
    "bool \<Rightarrow> 'r api_env \<Rightarrow> client_op \<Rightarrow> 'r server \<Rightarrow> ('r server \<Rightarrow> 'r cli) \<Rightarrow> 'r cli" where
  "api_step needed q op s rest = (if \<not> needed then rest s
     else (case client_call q op s of (s', Inl e) \<Rightarrow> (s', Inl (CliApi e)) | (s', Inr _) \<Rightarrow> rest s'))"

definition api_ensure_project ::
    "(nat \<Rightarrow> 'r api_env) \<Rightarrow> manifest \<Rightarrow> resources \<Rightarrow> 'r server \<Rightarrow> ('r server \<Rightarrow> string \<Rightarrow> 'r cli) \<Rightarrow> 'r cli" where
  "api_ensure_project qs m res s rest =
     (case client_call (qs 0) (GetProject (man_project m)) s of
        (s1, Inr (BProjectFull p _ _)) \<Rightarrow> rest s1 (proj_id p)
      | (s1, Inr _) \<Rightarrow> rest s1 []
      | (s1, Inl _) \<Rightarrow>
        (case client_call (qs 1) (CreateProject (man_project m) res) s1 of
           (s2, Inl e) \<Rightarrow> (s2, Inl (CliApi e))
         | (s2, Inr (BProjectFull p _ _)) \<Rightarrow> rest s2 (proj_id p)
         | (s2, Inr _) \<Rightarrow> rest s2 []))"

definition api_deploy_compose ::
    "cli_host \<Rightarrow> (nat \<Rightarrow> 'r api_env) \<Rightarrow> string \<Rightarrow> manifest \<Rightarrow> string \<Rightarrow> 'r server \<Rightarrow> 'r cli" where
  "api_deploy_compose h qs path m pid s =
     (case manifest_compose m of None \<Rightarrow> (s, Inr (OutDeployed None))
      | Some (file', build) \<Rightarrow>
        (case parse_compose h [registry_option h (man_project m)] (compose_file_path h path file') of
           Inl e \<Rightarrow> (s, Inl e)
         | Inr parsed \<Rightarrow>
           (case api_deploy_parsed h qs pid build 3 parsed s of
              (s', Inl e) \<Rightarrow> (s', Inl e) | (s', Inr services) \<Rightarrow> (s', Inr (OutDeployed (Some services))))))"

definition api_deploy ::
    "cli_host \<Rightarrow> (nat \<Rightarrow> 'r api_env) \<Rightarrow> string \<Rightarrow> manifest \<Rightarrow> bool \<Rightarrow> 'r server \<Rightarrow> 'r cli" where
  "api_deploy h qs path m dry s =
     (case manifest_resources m of Inl e \<Rightarrow> (s, Inl e)
      | Inr res \<Rightarrow>
        if dry then (case client_call (qs 0) (GetProject (man_project m)) s of
            (s1, r) \<Rightarrow> (s1, Inr (OutDryRun (dry_steps (is_ok r) m res))))
        else api_ensure_project qs m res s (\<lambda>s1 pid.
          api_step (man_env m \<noteq> []) (qs 2) (SetEnv (man_project m) (man_env m) False) s1 (\<lambda>s2.
          api_step (man_secrets m \<noteq> []) (qs 3) (SetEnv (man_project m) (man_secrets m) True) s2 (\<lambda>s3.
          api_step (man_domains m \<noteq> []) (qs 4) (UpdateDomains (man_project m)
              \<lparr>ud_domains = man_domains m, ud_default_domain = manifest_default m\<rparr>) s3 (\<lambda>s4.
            api_deploy_compose h qs path m pid s4)))))"

definition run_deploy ::
    "cli_host \<Rightarrow> bool \<Rightarrow> (nat \<Rightarrow> 'r api_env) \<Rightarrow> string \<Rightarrow> string \<Rightarrow> bool \<Rightarrow> 'r server \<Rightarrow> 'r cli" where
  "run_deploy h via_api qs path env dry s =
     (case read_manifest h path env of Inl e \<Rightarrow> (s, Inl e)
      | Inr m \<Rightarrow> if via_api then api_deploy h qs path m dry s else cli_deploy h (qs 0) path m dry s)"

end
