(* ===== verification/Cli_Session.thy ===== *)
theory Cli_Session
  imports Cli_Deploy
begin

text \<open>
  How a process of the command line starts (cmd/goship/commands/root.go), the reconciliation with which
  the server starts (server.go), and the commands \<open>node\<close> (node.go). Both processes compare the stored states with what the
  runtime reports before anything else.
\<close>

section \<open>Reconciliation of the states\<close>

definition active :: "instance_state \<Rightarrow> bool" where
  "active st \<longleftrightarrow> st = InstRunning \<or> st = InstStarting \<or> st = InstStopping"

text \<open>The instance is loaded; its state and that of its project are saved if they drifted.\<close>

definition reconcile_loaded :: "'r api_env \<Rightarrow> nat \<Rightarrow> string \<Rightarrow> project \<Rightarrow> proj_instance \<Rightarrow> 'r server \<Rightarrow> 'r server" where
  "reconcile_loaded q n k p i s =
     (case rt_call (rq_ops q) (inst_id i) (op_status (rq_ops q) (inst_id i)) s of
        (s1, Inl e) \<Rightarrow> s1
      | (s1, Inr j) \<Rightarrow>
        if inst_state j = inst_state i then s1
        else let s2 = save_instance q n ((current_instance i s1)\<lparr>inst_state := inst_state j\<rparr>) s1;
                 ps = map_instance_to_project_state (inst_state j)
             in if ps = proj_state p then s2 else fst (save_project q (Suc n) k (p\<lparr>proj_state := ps\<rparr>) s2))"

definition reconcile_project :: "'r api_env \<Rightarrow> nat \<Rightarrow> string \<times> project \<Rightarrow> 'r server \<Rightarrow> 'r server" where
  "reconcile_project q n = (\<lambda>(k, p) s. case get_instance (proj_id p) (srv_store s) of None \<Rightarrow> s
     | Some i \<Rightarrow> if active (inst_state i) then reconcile_loaded q n k p i (rt_load (rq_ops q) i s) else s)"

text \<open>The server loads every instance, also the ones it then leaves alone.\<close>

definition server_reconcile_project :: "'r api_env \<Rightarrow> nat \<Rightarrow> string \<times> project \<Rightarrow> 'r server \<Rightarrow> 'r server" where
  "server_reconcile_project q n = (\<lambda>(k, p) s. case get_instance (proj_id p) (srv_store s) of None \<Rightarrow> s
     | Some i \<Rightarrow> let s1 = rt_load (rq_ops q) i s
         in if active (inst_state i) then reconcile_loaded q n k p i s1 else s1)"

fun reconcile_each ::
    "(nat \<Rightarrow> string \<times> project \<Rightarrow> 'r server \<Rightarrow> 'r server) \<Rightarrow> nat \<Rightarrow> (string \<times> project) list \<Rightarrow> 'r server \<Rightarrow> 'r server" where
  "reconcile_each f n [] s = s"
| "reconcile_each f n (e # es) s = reconcile_each f (n + 2) es (f n e s)"

definition reconcile_state :: "'r api_env \<Rightarrow> 'r server \<Rightarrow> 'r server" where
  "reconcile_state q s = reconcile_each (reconcile_project q) 0 (projects (srv_store s)) s"

definition server_reconcile_state :: "'r api_env \<Rightarrow> 'r server \<Rightarrow> 'r server" where
  "server_reconcile_state q s = reconcile_each (server_reconcile_project q) 0 (projects (srv_store s)) s"

section \<open>Start of a process\<close>

text \<open>\<open>initResources\<close> in direct mode: \<open>new_rt\<close> is the runtime if it could be made.\<close>

definition open_direct ::
    "string \<Rightarrow> string \<Rightarrow> 'r api_env \<Rightarrow> string option \<Rightarrow> bool \<Rightarrow> disk_file \<Rightarrow> string \<Rightarrow> key_file \<Rightarrow> 'r option \<Rightarrow> 'r \<Rightarrow>
     cli_error + 'r server" where
  "open_direct parent name q home mkdir disk dir key new_rt no_rt =
     (case new_store (rq_now q) home mkdir disk dir of Inl e \<Rightarrow> Inl (CliStore e)
      | Inr st \<Rightarrow>
        let s = \<lparr>srv_store = st, srv_has_rt = False, srv_rt = no_rt, srv_routes = None, srv_registry = None, srv_key = key\<rparr>
        in if \<not> needs_runtime parent name \<and> \<not> needs_runtime_optional parent name then Inr s
           else (case new_rt of
               None \<Rightarrow> if needs_runtime parent name then Inl CliNoRuntime else Inr s
             | Some r \<Rightarrow> Inr (reconcile_state q (s\<lparr>srv_has_rt := True, srv_rt := r\<rparr>))))"

text \<open>The registry's address in a machine: here only a leading colon is taken off the address.\<close>

definition vm_registry_addr :: "string \<Rightarrow> string" where
  "vm_registry_addr addr = default_bridge_ip @ '':'' @ trim_prefix '':'' addr"

definition server_options :: "cli_host \<Rightarrow> bool \<Rightarrow> bool \<Rightarrow> string \<Rightarrow> string \<Rightarrow> string \<Rightarrow> runtime_option list" where
  "server_options h provision docker uri net_ty net_src =
     [WithDataDir (hs_data_dir h), WithVMImage (hs_data_dir h @ ''/images/goship-vm.qcow2''),
      WithInitBinary (hs_init_binary h), WithProvisionGuest provision, WithInstallDocker docker,
      WithRegistryAddr (vm_registry_addr (hs_registry_addr h))] @
     (if uri = [] then [] else [WithLibvirtURI uri]) @
     (case network_option [] [] net_ty net_src of None \<Rightarrow> [] | Some (t, src) \<Rightarrow> [WithNetwork t src])"

section \<open>node\<close>

definition cli_node_register ::
    "'r api_env \<Rightarrow> string \<Rightarrow> string \<Rightarrow> string list \<Rightarrow> 'r server \<Rightarrow> 'r cli" where
  "cli_node_register q hostname endpoint labels s =
     (if \<exists>n \<in> set (list_nodes (srv_store s)). node_hostname n = hostname then (s, Inl (CliNodeExists hostname))
      else let n = \<lparr>node_id = rq_uuid q, node_hostname = hostname, node_endpoint = endpoint, node_status = NodeOnline,
             node_resources = zero_resources, node_labels = parse_env_flags labels, node_last_heartbeat = rq_now q,
             node_created_at = rq_now q, node_updated_at = rq_now q\<rparr>
        in case on_store (set_node (rq_now q) (rq_save q 0) n) s of
             (s', Some e) \<Rightarrow> (s', Inl (CliStore e)) | (s', None) \<Rightarrow> (s', Inr (OutNodes [n])))"

definition out_node :: "body \<Rightarrow> cli_error + outcome" where
  "out_node b = (case b of BNode n \<Rightarrow> Inr (OutNodes [n]) | _ \<Rightarrow> Inl CliUnexpected)"

definition api_node_register ::
    "'r api_env \<Rightarrow> string \<Rightarrow> string \<Rightarrow> string list \<Rightarrow> 'r server \<Rightarrow> 'r cli" where
  "api_node_register q hostname endpoint labels s = api_do q (RegisterNode \<lparr>rn_hostname = hostname,
     rn_endpoint = endpoint, rn_resources = zero_resources, rn_labels = parse_env_flags labels\<rparr>) out_node s"

definition cli_node_list :: "'r server \<Rightarrow> 'r cli" where
  "cli_node_list s = (s, Inr (OutNodes (list_nodes (srv_store s))))"

definition api_node_list :: "'r api_env \<Rightarrow> 'r server \<Rightarrow> 'r cli" where
  "api_node_list q s = api_do q ListNodes (\<lambda>b. case b of BNodes ns \<Rightarrow> Inr (OutNodes ns) | _ \<Rightarrow> Inl CliUnexpected) s"

definition cli_node_info :: "string \<Rightarrow> 'r server \<Rightarrow> 'r cli" where
  "cli_node_info x s = (case get_node x (srv_store s) of Inl e \<Rightarrow> (s, Inl (CliStore e)) | Inr n \<Rightarrow> (s, Inr (OutNodes [n])))"

definition api_node_info :: "'r api_env \<Rightarrow> string \<Rightarrow> 'r server \<Rightarrow> 'r cli" where
  "api_node_info q x s = api_do q (GetNode x) out_node s"

definition cli_node_remove :: "'r api_env \<Rightarrow> string \<Rightarrow> 'r server \<Rightarrow> 'r cli" where
  "cli_node_remove q x s = (case on_store (delete_node (rq_now q) (rq_save q 0) x) s of
      (s', Some e) \<Rightarrow> (s', Inl (CliStore e)) | (s', None) \<Rightarrow> (s', Inr Done))"

definition api_node_remove :: "'r api_env \<Rightarrow> string \<Rightarrow> 'r server \<Rightarrow> 'r cli" where
  "api_node_remove q x s = api_do q (DeleteNode x) (\<lambda>_. Inr Done) s"

definition cli_node_drain :: "'r api_env \<Rightarrow> string \<Rightarrow> 'r server \<Rightarrow> 'r cli" where
  "cli_node_drain q x s = (case get_node x (srv_store s) of Inl e \<Rightarrow> (s, Inl (CliStore e))
     | Inr n \<Rightarrow> (case on_store (set_node (rq_now q) (rq_save q 0)
           (n\<lparr>node_status := NodeDraining, node_updated_at := rq_now q\<rparr>)) s of
         (s', Some e) \<Rightarrow> (s', Inl (CliStore e)) | (s', None) \<Rightarrow> (s', Inr Done)))"

definition api_node_drain :: "'r api_env \<Rightarrow> string \<Rightarrow> 'r server \<Rightarrow> 'r cli" where
  "api_node_drain q x s = api_do q (DrainNode x) (\<lambda>_. Inr Done) s"

end
