(* ===== verification/Cli_Commands.thy ===== *)
theory Cli_Commands
  imports Cli_Session
begin

text \<open>
  The commands of the command line that use the state, as one data type: a constructor per command with
  its arguments and flags as they are given (the \<open>Use\<close> lines of cmd/goship/commands). \<open>run_direct\<close>
  and \<open>run_api\<close> are what a command does in the two modes.
\<close>

datatype project_command = ProjectCreate string float64 string string | ProjectList | ProjectDelete string
  | ProjectInfo string | ProjectConsole string | ProjectLogs string "string option" string int
  | ProjectEdit string "float64 option" "string option" "string option"
  | ProjectStop string | ProjectStart string | ProjectRestart string | ProjectUpdateInit string string bool

datatype env_command = EnvSet string "string list" bool | EnvList string bool | EnvDelete string "string list"

datatype domain_command = DomainSet string "string list" string | DomainList string | DomainRemove string "string list"

datatype app_command = AppCreate string string app_flags | AppEdit string string edit_app_flags
  | AppDeploy string string string bool | AppList string | AppInfo string string | AppStop string string
  | AppDelete string string | AppLogs string string int bool | AppPushImage string string

datatype compose_command = ComposeUp string string bool | ComposeDown string string | ComposePs string

datatype node_command = NodeRegister string string "string list" | NodeList | NodeInfo string | NodeRemove string
  | NodeDrain string

datatype command = Project_Command project_command | Env_Command env_command | Domain_Command domain_command
  | App_Command app_command | Compose_Command compose_command | Node_Command node_command
  | Deploy_Command string string bool

definition with_flags :: "cli_error + 'a \<Rightarrow> ('a \<Rightarrow> 'r server \<Rightarrow> 'r cli) \<Rightarrow> 'r server \<Rightarrow> 'r cli" where
  "with_flags x f s = (case x of Inl e \<Rightarrow> (s, Inl e) | Inr v \<Rightarrow> f v s)"

primrec project_direct :: "cli_host \<Rightarrow> 'r channel \<Rightarrow> 'r api_env \<Rightarrow> project_command \<Rightarrow> 'r server \<Rightarrow> 'r cli" where
  "project_direct h ch q (ProjectCreate name cpu mem disk) s =
     with_flags (create_resources cpu mem disk) (cli_project_create q name) s"
| "project_direct h ch q ProjectList s = cli_project_list s"
| "project_direct h ch q (ProjectDelete x) s = cli_project_delete q x s"
| "project_direct h ch q (ProjectInfo x) s = cli_project_info x s"
| "project_direct h ch q (ProjectConsole x) s = cli_project_console h x s"
| "project_direct h ch q (ProjectLogs x alias file n) s = cli_project_logs h ch x alias file n s"
| "project_direct h ch q (ProjectEdit x cpu mem disk) s = cli_project_edit q x (edit_flags cpu mem disk) s"
| "project_direct h ch q (ProjectStop x) s = cli_project_stop q x s"
| "project_direct h ch q (ProjectStart x) s = cli_project_start q x s"
| "project_direct h ch q (ProjectRestart x) s = cli_project_restart q x s"
| "project_direct h ch q (ProjectUpdateInit x flag restart) s = cli_project_update_init h ch q x flag restart s"

primrec env_direct :: "cli_host \<Rightarrow> 'r channel \<Rightarrow> 'r api_env \<Rightarrow> env_command \<Rightarrow> 'r server \<Rightarrow> 'r cli" where
  "env_direct h ch q (EnvSet x kvs secret) s = with_flags (env_pairs kvs) (\<lambda>env. cli_env_set q x env secret) s"
| "env_direct h ch q (EnvList x show) s = cli_env_list q x show s"
| "env_direct h ch q (EnvDelete x keys) s = cli_env_delete q x keys s"

primrec domain_direct :: "cli_host \<Rightarrow> 'r channel \<Rightarrow> 'r api_env \<Rightarrow> domain_command \<Rightarrow> 'r server \<Rightarrow> 'r cli" where
  "domain_direct h ch q (DomainSet x domains flag) s = cli_domain_set q x domains flag s"
| "domain_direct h ch q (DomainList x) s = cli_domain_list x s"
| "domain_direct h ch q (DomainRemove x remove) s = cli_domain_remove q x remove s"

primrec app_direct :: "cli_host \<Rightarrow> 'r channel \<Rightarrow> 'r api_env \<Rightarrow> app_command \<Rightarrow> 'r server \<Rightarrow> 'r cli" where
  "app_direct h ch q (AppCreate x n f) s = cli_app_create h q x n f s"
| "app_direct h ch q (AppEdit x n f) s = cli_app_edit h q x n f s"
| "app_direct h ch q (AppDeploy x n img local) s = cli_app_deploy h q x n img local s"
| "app_direct h ch q (AppList x) s = cli_app_list h ch x s"
| "app_direct h ch q (AppInfo x n) s = cli_app_info h ch x n s"
| "app_direct h ch q (AppStop x n) s = cli_app_stop q x n s"
| "app_direct h ch q (AppDelete x n) s = cli_app_delete q x n s"
| "app_direct h ch q (AppLogs x n k follow) s = cli_app_logs q x n k follow s"
| "app_direct h ch q (AppPushImage x ref) s = cli_push_image h q x ref s"

primrec compose_direct :: "cli_host \<Rightarrow> 'r channel \<Rightarrow> 'r api_env \<Rightarrow> compose_command \<Rightarrow> 'r server \<Rightarrow> 'r cli" where
  "compose_direct h ch q (ComposeUp x path build) s = cli_compose_up h q x path build s"
| "compose_direct h ch q (ComposeDown x path) s = cli_compose_down h q x path s"
| "compose_direct h ch q (ComposePs x) s = cli_compose_ps h ch x s"

primrec node_direct :: "cli_host \<Rightarrow> 'r channel \<Rightarrow> 'r api_env \<Rightarrow> node_command \<Rightarrow> 'r server \<Rightarrow> 'r cli" where
  "node_direct h ch q (NodeRegister hostname endpoint labels) s = cli_node_register q hostname endpoint labels s"
| "node_direct h ch q NodeList s = cli_node_list s"
| "node_direct h ch q (NodeInfo x) s = cli_node_info x s"
| "node_direct h ch q (NodeRemove x) s = cli_node_remove q x s"
| "node_direct h ch q (NodeDrain x) s = cli_node_drain q x s"

primrec run_direct :: "cli_host \<Rightarrow> 'r channel \<Rightarrow> 'r api_env \<Rightarrow> command \<Rightarrow> 'r server \<Rightarrow> 'r cli" where
  "run_direct h ch q (Project_Command c) s = project_direct h ch q c s"
| "run_direct h ch q (Env_Command c) s = env_direct h ch q c s"
| "run_direct h ch q (Domain_Command c) s = domain_direct h ch q c s"
| "run_direct h ch q (App_Command c) s = app_direct h ch q c s"
| "run_direct h ch q (Compose_Command c) s = compose_direct h ch q c s"
| "run_direct h ch q (Node_Command c) s = node_direct h ch q c s"
| "run_direct h ch q (Deploy_Command path env dry) s = run_deploy h False (\<lambda>_. q) path env dry s"

text \<open>The console and following the logs of an application have no counterpart in the API.\<close>

primrec project_api :: "cli_host \<Rightarrow> (nat \<Rightarrow> 'r api_env) \<Rightarrow> project_command \<Rightarrow> 'r server \<Rightarrow> 'r cli" where
  "project_api h qs (ProjectCreate name cpu mem disk) s =
     with_flags (create_resources cpu mem disk) (api_project_create (qs 0) name) s"
| "project_api h qs ProjectList s = api_project_list (qs 0) s"
| "project_api h qs (ProjectDelete x) s = api_project_delete (qs 0) x s"
| "project_api h qs (ProjectInfo x) s = api_project_info (qs 0) x s"
| "project_api h qs (ProjectConsole x) s = (s, Inl CliUnexpected)"
| "project_api h qs (ProjectLogs x alias file n) s = api_project_logs (qs 0) x alias file n s"
| "project_api h qs (ProjectEdit x cpu mem disk) s = api_project_edit (qs 0) x (edit_flags cpu mem disk) s"
| "project_api h qs (ProjectStop x) s = api_project_stop (qs 0) x s"
| "project_api h qs (ProjectStart x) s = api_project_start (qs 0) x s"
| "project_api h qs (ProjectRestart x) s = api_project_restart (qs 0) x s"
| "project_api h qs (ProjectUpdateInit x flag restart) s = api_project_update_init h (qs 0) x flag restart s"

primrec env_api :: "cli_host \<Rightarrow> (nat \<Rightarrow> 'r api_env) \<Rightarrow> env_command \<Rightarrow> 'r server \<Rightarrow> 'r cli" where
  "env_api h qs (EnvSet x kvs secret) s = with_flags (env_pairs kvs) (\<lambda>env. api_env_set (qs 0) x env secret) s"
| "env_api h qs (EnvList x show) s = api_env_list (qs 0) x show s"
| "env_api h qs (EnvDelete x keys) s = api_env_delete (qs 0) x keys s"

primrec domain_api :: "cli_host \<Rightarrow> (nat \<Rightarrow> 'r api_env) \<Rightarrow> domain_command \<Rightarrow> 'r server \<Rightarrow> 'r cli" where
  "domain_api h qs (DomainSet x domains flag) s = api_domain_set (qs 0) x domains flag s"
| "domain_api h qs (DomainList x) s = api_domain_list (qs 0) x s"
| "domain_api h qs (DomainRemove x remove) s = api_domain_remove qs x remove s"

primrec app_api :: "cli_host \<Rightarrow> (nat \<Rightarrow> 'r api_env) \<Rightarrow> app_command \<Rightarrow> 'r server \<Rightarrow> 'r cli" where
  "app_api h qs (AppCreate x n f) s = api_app_create h qs x n f s"
| "app_api h qs (AppEdit x n f) s = api_app_edit h qs x n f s"
| "app_api h qs (AppDeploy x n img local) s = api_app_deploy qs x n img s"
| "app_api h qs (AppList x) s = api_app_list qs x s"
| "app_api h qs (AppInfo x n) s = api_app_info qs x n s"
| "app_api h qs (AppStop x n) s = api_app_stop qs x n s"
| "app_api h qs (AppDelete x n) s = api_app_delete qs x n s"
| "app_api h qs (AppLogs x n k follow) s = api_app_logs qs x n k s"
| "app_api h qs (AppPushImage x ref) s = api_push_image h (qs 0) x ref s"

primrec compose_api :: "cli_host \<Rightarrow> (nat \<Rightarrow> 'r api_env) \<Rightarrow> compose_command \<Rightarrow> 'r server \<Rightarrow> 'r cli" where
  "compose_api h qs (ComposeUp x path build) s = api_compose_up h qs x path build s"
| "compose_api h qs (ComposeDown x path) s = api_compose_down h qs x path s"
| "compose_api h qs (ComposePs x) s = api_compose_ps qs x s"

primrec node_api :: "cli_host \<Rightarrow> (nat \<Rightarrow> 'r api_env) \<Rightarrow> node_command \<Rightarrow> 'r server \<Rightarrow> 'r cli" where
  "node_api h qs (NodeRegister hostname endpoint labels) s = api_node_register (qs 0) hostname endpoint labels s"
| "node_api h qs NodeList s = api_node_list (qs 0) s"
| "node_api h qs (NodeInfo x) s = api_node_info (qs 0) x s"
| "node_api h qs (NodeRemove x) s = api_node_remove (qs 0) x s"
| "node_api h qs (NodeDrain x) s = api_node_drain (qs 0) x s"

primrec run_api :: "cli_host \<Rightarrow> (nat \<Rightarrow> 'r api_env) \<Rightarrow> command \<Rightarrow> 'r server \<Rightarrow> 'r cli" where
  "run_api h qs (Project_Command c) s = project_api h qs c s"
| "run_api h qs (Env_Command c) s = env_api h qs c s"
| "run_api h qs (Domain_Command c) s = domain_api h qs c s"
| "run_api h qs (App_Command c) s = app_api h qs c s"
| "run_api h qs (Compose_Command c) s = compose_api h qs c s"
| "run_api h qs (Node_Command c) s = node_api h qs c s"
| "run_api h qs (Deploy_Command path env dry) s = run_deploy h True qs path env dry s"

text \<open>A process in direct mode: open the state, compare it with the runtime, run the command.\<close>

definition project_use :: "project_command \<Rightarrow> string" where
  "project_use c = (case c of
       ProjectCreate _ _ _ _ \<Rightarrow> ''create''
     | ProjectList \<Rightarrow> ''list''
     | ProjectDelete _ \<Rightarrow> ''delete''
     | ProjectInfo _ \<Rightarrow> ''info''
     | ProjectConsole _ \<Rightarrow> ''console''
     | ProjectLogs _ _ _ _ \<Rightarrow> ''logs''
     | ProjectEdit _ _ _ _ \<Rightarrow> ''edit''
     | ProjectStop _ \<Rightarrow> ''stop''
     | ProjectStart _ \<Rightarrow> ''start''
     | ProjectRestart _ \<Rightarrow> ''restart''
     | ProjectUpdateInit _ _ _ \<Rightarrow> ''update-init'')"

definition env_use :: "env_command \<Rightarrow> string" where
  "env_use c = (case c of
       EnvSet _ _ _ \<Rightarrow> ''set''
     | EnvList _ _ \<Rightarrow> ''list''
     | EnvDelete _ _ \<Rightarrow> ''delete'')"

definition domain_use :: "domain_command \<Rightarrow> string" where
  "domain_use c = (case c of
       DomainSet _ _ _ \<Rightarrow> ''set''
     | DomainList _ \<Rightarrow> ''list''
     | DomainRemove _ _ \<Rightarrow> ''remove'')"

definition app_use :: "app_command \<Rightarrow> string" where
  "app_use c = (case c of
       AppCreate _ _ _ \<Rightarrow> ''create''
     | AppEdit _ _ _ \<Rightarrow> ''edit''
     | AppDeploy _ _ _ _ \<Rightarrow> ''deploy''
     | AppList _ \<Rightarrow> ''list''
     | AppInfo _ _ \<Rightarrow> ''info''
     | AppStop _ _ \<Rightarrow> ''stop''
     | AppDelete _ _ \<Rightarrow> ''delete''
     | AppLogs _ _ _ _ \<Rightarrow> ''logs''
     | AppPushImage _ _ \<Rightarrow> ''push-image'')"

definition compose_use :: "compose_command \<Rightarrow> string" where
  "compose_use c = (case c of
       ComposeUp _ _ _ \<Rightarrow> ''up''
     | ComposeDown _ _ \<Rightarrow> ''down''
     | ComposePs _ \<Rightarrow> ''ps'')"

definition node_use :: "node_command \<Rightarrow> string" where
  "node_use c = (case c of
       NodeRegister _ _ _ \<Rightarrow> ''register''
     | NodeList \<Rightarrow> ''list''
     | NodeInfo _ \<Rightarrow> ''info''
     | NodeRemove _ \<Rightarrow> ''remove''
     | NodeDrain _ \<Rightarrow> ''drain'')"

definition parent_of :: "command \<Rightarrow> string \<times> string" where
  "parent_of c = (case c of
       Project_Command d \<Rightarrow> (''project'', project_use d)
     | Env_Command d \<Rightarrow> (''env'', env_use d)
     | Domain_Command d \<Rightarrow> (''domain'', domain_use d)
     | App_Command d \<Rightarrow> (''app'', app_use d)
     | Compose_Command d \<Rightarrow> (''compose'', compose_use d)
     | Node_Command d \<Rightarrow> (''node'', node_use d)
     | Deploy_Command _ _ _ \<Rightarrow> (''goship'', ''deploy''))"

definition direct_process ::
    "cli_host \<Rightarrow> 'r channel \<Rightarrow> 'r api_env \<Rightarrow> 'r api_env \<Rightarrow> string option \<Rightarrow> bool \<Rightarrow> disk_file \<Rightarrow> string \<Rightarrow> key_file \<Rightarrow>
     'r option \<Rightarrow> 'r \<Rightarrow> command \<Rightarrow> cli_error + 'r cli" where
  "direct_process h ch q0 q home mkdir disk dir key new_rt no_rt c =
     (case open_direct (fst (parent_of c)) (snd (parent_of c)) q0 home mkdir disk dir key new_rt no_rt of
        Inl e \<Rightarrow> Inl e | Inr s \<Rightarrow> Inr (run_direct h ch q c s))"

end
