(* ===== verification/Cli_Inv.thy ===== *)
theory Cli_Inv
  imports Cli_Commands Api_Properties
begin

text \<open>
  What the commands keep in direct mode: the state in memory stays well formed, and the state file is
  always one that the next process can open. Writes of the file are assumed to work.
\<close>

section \<open>The judgement\<close>

definition mem_wf :: "local_state \<Rightarrow> bool" where
  "mem_wf l \<longleftrightarrow> state_wf l \<and> one_instance (ls_instances l) \<and> hostnames_unique (ls_nodes l)"

lemma api_wf_mem: "api_wf st \<longleftrightarrow> mem_wf (st_mem st)"
  by (simp add: api_wf_def mem_wf_def)

definition loads :: "disk_file \<Rightarrow> bool" where
  "loads d \<longleftrightarrow> (\<exists>m. load_state d = Inr m \<and> (case m of None \<Rightarrow> True | Some l \<Rightarrow> mem_wf l))"

abbreviation disk :: "'r server \<Rightarrow> disk_file" where "disk s \<equiv> st_disk (srv_store s)"

definition good :: "'r server \<Rightarrow> bool" where
  "good s \<longleftrightarrow> srv_wf s \<and> loads (disk s)"

lemma goodD: "good s \<Longrightarrow> srv_wf s" "good s \<Longrightarrow> loads (disk s)"
  by (simp_all add: good_def)

lemma good_synced: "srv_wf s \<Longrightarrow> synced (srv_store s) \<Longrightarrow> good s"
  by (auto simp: good_def loads_def synced_def api_wf_mem)

lemma good_same: "good s \<Longrightarrow> srv_store s' = srv_store s \<Longrightarrow> good s'"
  by (simp add: good_def)

lemma good_ignores [simp]: "good (rt_load ops i s) \<longleftrightarrow> good s" "good (s\<lparr>srv_rt := r\<rparr>) \<longleftrightarrow> good s"
  by (simp_all add: good_def)

abbreviation saves :: "'r api_env \<Rightarrow> bool" where "saves q \<equiv> \<forall>n. rq_save q n = SaveOk"

section \<open>Operations of the store\<close>

lemma good_on_store:
  assumes "good s" "kept_saved (f (srv_store s))"
    "snd (f (srv_store s)) \<noteq> None \<Longrightarrow> st_disk (fst (f (srv_store s))) = disk s"
  shows "good (fst (on_store f s))"
proof (cases "snd (f (srv_store s))")
  case None
  then show ?thesis using assms(2) by (intro good_synced) (simp_all add: kept_saved_def)
qed (use assms in \<open>simp add: good_def kept_saved_def\<close>)

lemma save_works [simp]: "snd (save now SaveOk st) = None"
  by (simp add: save_def Let_def)

lemma works_or_refuses:
  "snd (set_app now SaveOk pid a st) = None \<or> fst (set_app now SaveOk pid a st) = st"
  "snd (update_instance now SaveOk i st) = None \<or> fst (update_instance now SaveOk i st) = st"
  "snd (set_instance now SaveOk i st) = None \<or> fst (set_instance now SaveOk i st) = st"
  "snd (delete_project now SaveOk x st) = None \<or> fst (delete_project now SaveOk x st) = st"
  "snd (delete_node now SaveOk x st) = None \<or> fst (delete_node now SaveOk x st) = st"
  by (simp add: set_app_def update_instance_def set_instance_def delete_project_def delete_node_def Let_def
      split: option.split prod.split)+

lemma refused_disk:
  "snd (set_app now SaveOk pid a st) \<noteq> None \<Longrightarrow> st_disk (fst (set_app now SaveOk pid a st)) = st_disk st"
  "snd (update_instance now SaveOk i st) \<noteq> None \<Longrightarrow> st_disk (fst (update_instance now SaveOk i st)) = st_disk st"
  "snd (set_instance now SaveOk i st) \<noteq> None \<Longrightarrow> st_disk (fst (set_instance now SaveOk i st)) = st_disk st"
  "snd (delete_project now SaveOk x st) \<noteq> None \<Longrightarrow> st_disk (fst (delete_project now SaveOk x st)) = st_disk st"
  "snd (delete_node now SaveOk x st) \<noteq> None \<Longrightarrow> st_disk (fst (delete_node now SaveOk x st)) = st_disk st"
  using works_or_refuses by metis+

lemma good_set_app: "good s \<Longrightarrow> good (fst (on_store (set_app now SaveOk pid (Some a)) s))"
  by (rule good_on_store) (simp_all add: set_app_kept goodD(1) refused_disk(1))

lemma good_delete_app: "good s \<Longrightarrow> good (fst (on_store (delete_app now SaveOk pid n) s))"
  by (rule good_on_store) (simp_all add: delete_app_kept goodD(1), simp add: delete_app_def)

lemma good_delete_instance: "good s \<Longrightarrow> good (fst (on_store (delete_instance now SaveOk iid) s))"
  by (rule good_on_store) (simp_all add: delete_instance_kept goodD(1), simp add: delete_instance_def)

lemma good_put_app:
  "good s \<Longrightarrow> get_app pid n (srv_store s) = Some a0 \<Longrightarrow> app_name a = app_name a0 \<Longrightarrow> good (put_app pid n a s)"
  using put_app_wf [of s pid n a0 a] by (simp add: good_def) (simp add: put_app_def)

lemma good_put_project:
  "good s \<Longrightarrow> gm_get (projects (srv_store s)) k = Some p0 \<Longrightarrow> proj_id p = proj_id p0 \<Longrightarrow> proj_name p = proj_name p0 \<Longrightarrow>
     good (put_project k p s)"
  using put_project_wf [of s k p0 p] by (simp add: good_def) (simp add: put_project_def set_projects_def)

lemma good_save_project:
  assumes "good s" "gm_get (projects (srv_store s)) k = Some p0" "proj_id p = proj_id p0" "proj_name p = proj_name p0"
    "rq_save q n = SaveOk"
  shows "good (fst (save_project q n k p s))"
proof -
  obtain s' p' e where r: "save_project q n k p s = (s', p', e)" by (cases "save_project q n k p s")
  note sp = save_project_same_binding [OF goodD(1) [OF assms(1)] assms(2-4) r]
  have "srv_wf s'" "synced (srv_store s')" using sp(1,2) sp(7) assms(5) by auto
  then show ?thesis using r by (simp add: good_synced)
qed

section \<open>Calls of the runtime\<close>

lemma rt_call_disk: "disk (fst (rt_call ops iid f s)) = disk s"
  by (simp add: rt_call_def sync_instance_def put_instance_def set_instances_def Let_def split: prod.split option.split)

lemma good_call:
  assumes "good s" "view_kept (\<lambda>x. op_view ops x (srv_rt s)) (\<lambda>x. op_view ops x (fst (f (srv_rt s))))"
    "rt_call ops iid f s = (s', r)"
  shows "good s'" "touched s s'"
proof -
  have s': "s' = fst (rt_call ops iid f s)" using assms(3) by simp
  show t: "touched s s'" unfolding s' by (rule rt_call_touched [where f = f and ops = ops and s = s, OF goodD(1) [OF assms(1)] assms(2)])
  then show "good s'"
    using rt_call_disk [of ops iid f s] goodD(2) [OF assms(1)] by (simp only: good_def touched_def s')
qed

lemma good_quiet_call:
  assumes "good s" "op_view ops iid (fst (f (srv_rt s))) = op_view ops iid (srv_rt s)" "rt_call ops iid f s = (s', r)"
  shows "good s'" "srv_store s' = srv_store s"
proof -
  show e: "srv_store s' = srv_store s" using rt_call_quiet [where f = f and ops = ops and iid = iid and s = s, OF assms(2)] assms(3) by simp
  show "good s'" by (rule good_same [OF assms(1) e])
qed

lemma good_save_instance:
  assumes "good s" "gm_get (instances (srv_store s)) (inst_id i) = Some j" "same_identity j i" "rq_save q n = SaveOk"
  shows "good (save_instance q n i s)" "touched s (save_instance q n i s)"
proof -
  show t: "touched s (save_instance q n i s)" by (rule save_instance_touched [OF goodD(1) [OF assms(1)] assms(2,3)])
  have w: "srv_wf (put_instance (inst_id i) i s)" by (rule put_instance_wf [OF goodD(1) [OF assms(1)] assms(2,3)])
  have g: "good (put_instance (inst_id i) i s)"
    using w goodD(2) [OF assms(1)] by (simp add: good_def) (simp add: put_instance_def set_instances_def)
  show "good (save_instance q n i s)"
    unfolding save_instance_def assms(4)
  proof (rule good_on_store [OF g])
    show "kept_saved (update_instance (rq_now q) SaveOk (Some i) (srv_store (put_instance (inst_id i) i s)))"
      by (rule update_instance_kept [OF w]) (simp_all add: gomap_simps)
  qed (rule refused_disk)
qed

section \<open>Guards\<close>

lemma good_cli_project:
  "good s \<Longrightarrow> (\<And>k p. find_project x (srv_store s) = Some (k, p) \<Longrightarrow> good (fst (rest k p))) \<Longrightarrow>
     good (fst (cli_project x s rest))"
  by (auto simp: cli_project_def split: option.split)

lemma good_cli_app:
  "good s \<Longrightarrow> (\<And>a. get_app (proj_id p) n (srv_store s) = Some a \<Longrightarrow> good (fst (rest a))) \<Longrightarrow>
     good (fst (cli_app x p n s rest))"
  by (auto simp: cli_app_def split: option.split)

lemma good_cli_instance:
  "good s \<Longrightarrow> (\<And>i. get_instance (proj_id p) (srv_store s) = Some i \<Longrightarrow> good (fst (rest i))) \<Longrightarrow>
     good (fst (cli_instance x p s rest))"
  by (auto simp: cli_instance_def split: option.split)

lemma good_If: "(b \<Longrightarrow> good (fst x)) \<Longrightarrow> (\<not> b \<Longrightarrow> good (fst y)) \<Longrightarrow> good (fst (if b then x else y))"
  by simp

lemma good_split: "(\<And>a b. x = (a, b) \<Longrightarrow> good (fst (f a b))) \<Longrightarrow> good (fst (case x of (a, b) \<Rightarrow> f a b))"
  by (cases x) simp

lemma good_sum: "(\<And>e. x = Inl e \<Longrightarrow> good (fst (f e))) \<Longrightarrow> (\<And>v. x = Inr v \<Longrightarrow> good (fst (g v))) \<Longrightarrow>
    good (fst (case x of Inl e \<Rightarrow> f e | Inr v \<Rightarrow> g v))"
  by (cases x) simp_all

lemma good_option: "(x = None \<Longrightarrow> good (fst f)) \<Longrightarrow> (\<And>v. x = Some v \<Longrightarrow> good (fst (g v))) \<Longrightarrow>
    good (fst (case x of None \<Rightarrow> f | Some v \<Rightarrow> g v))"
  by (cases x) simp_all

lemma good_bool: "(b \<Longrightarrow> good (fst f)) \<Longrightarrow> (\<not> b \<Longrightarrow> good (fst g)) \<Longrightarrow> good (fst (case b of True \<Rightarrow> f | False \<Rightarrow> g))"
  by (cases b) simp_all

lemma good_pair: "good s \<Longrightarrow> good (fst (s, r))"
  by simp

lemmas good_guards = good_cli_project good_cli_app good_cli_instance
lemmas good_cases = good_If good_split good_sum good_option good_bool

lemma fst_eq: "f = (s', r) \<Longrightarrow> good (fst f) \<Longrightarrow> good s'"
  by simp

section \<open>Commands without the runtime\<close>

lemma good_reads:
  assumes "good s"
  shows "good (fst (cli_project_list s))" "good (fst (cli_project_info x s))" "good (fst (cli_project_console h x s))"
    "good (fst (cli_domain_list x s))" "good (fst (cli_node_list s))" "good (fst (cli_node_info x s))"
  using assms
  by (auto simp: cli_project_list_def cli_project_info_def cli_project_console_def cli_domain_list_def cli_node_list_def
      cli_node_info_def cli_guard_defs split: option.split sum.split)

lemma srv_store_on_rt [simp]: "srv_store (fst (on_rt f s)) = srv_store s"
  by (simp add: on_rt_def split: prod.split)

lemma good_on_rt: "good s \<Longrightarrow> on_rt f s = (s', r) \<Longrightarrow> good s'"
  using srv_store_on_rt [of f s] good_same by (metis fst_conv)

lemma on_rt_store: "on_rt f s = (s', r) \<Longrightarrow> srv_store s' = srv_store s"
  using srv_store_on_rt [of f s] by simp

lemma live_statuses_store: "srv_store (fst (live_statuses h ch p s)) = srv_store s"
  by (auto simp: live_statuses_def Let_def dest: on_rt_store split: option.split sum.split prod.split)

lemma good_live: "good s \<Longrightarrow> live_statuses h ch p s = (s', l) \<Longrightarrow> good s'"
  using live_statuses_store [of h ch p s] good_same by (metis fst_conv)

lemma good_fetch: "good s \<Longrightarrow> good (fst (fetch_logs ch sock n file s))"
  unfolding fetch_logs_def by (intro good_cases good_pair) (auto intro: good_on_rt)

lemma good_looks:
  assumes "good s"
  shows "good (fst (cli_app_list h ch x s))" "good (fst (cli_app_info h ch x n s))" "good (fst (cli_compose_ps h ch x s))"
    "good (fst (cli_project_logs h ch x alias file k s))"
  unfolding cli_app_list_def cli_app_info_def cli_compose_ps_def cli_project_logs_def Let_def using assms
  by (auto intro!: good_guards good_cases good_pair intro: good_live good_fetch)

lemma sealed_good: "good s \<Longrightarrow> sealed_env q r s = (s', x) \<Longrightarrow> good s' \<and> srv_store s' = srv_store s"
  using sealed_env_store [of q r s] good_same by (metis fst_conv)

lemma init_vault_good: "good s \<Longrightarrow> init_vault q s = (s', x) \<Longrightarrow> good s' \<and> srv_store s' = srv_store s"
  using init_vault_store [of q s] good_same by (metis fst_conv)

lemma decrypt_good: "good s \<Longrightarrow> decrypt_values q ov env s = (s', x) \<Longrightarrow> good s' \<and> srv_store s' = srv_store s"
  using decrypt_values_store [of q ov env s] good_same by (metis fst_conv)

text \<open>The project found is saved with other contents.\<close>

lemma good_save_found:
  assumes "good s" "find_project x (srv_store s) = Some (k, p0)" "srv_store s1 = srv_store s"
    "proj_id p = proj_id p0" "proj_name p = proj_name p0" "saves q" "save_project q n k p s1 = (s', r)"
  shows "good s'"
proof -
  have "good (fst (save_project q n k p s1))"
    by (rule good_save_project [OF good_same [OF assms(1,3)]])
      (use assms find_project_wf(1) [OF goodD(1) [OF assms(1)] assms(2)] in simp_all)
  then show ?thesis using assms(7) by simp
qed

lemma good_env:
  assumes "good s" "saves q"
  shows "good (fst (cli_env_set q x env secret s))" "good (fst (cli_env_list q x show s))" "good (fst (cli_env_delete q x keys s))"
    "good (fst (cli_domain_set q x domains flag s))" "good (fst (cli_domain_remove q x remove s))"
proof -
  show "good (fst (cli_env_set q x env secret s))"
    unfolding cli_env_set_def
    by (intro good_guards good_cases good_pair assms(1))
      (use assms good_save_found in \<open>auto dest!: sealed_good [OF assms(1)] elim!: good_save_found [rotated 6]\<close>)
  show "good (fst (cli_env_list q x show s))"
    unfolding cli_env_list_def
    by (intro good_guards good_cases good_pair assms(1)) (use decrypt_good [OF assms(1)] in auto)
  show "good (fst (cli_env_delete q x keys s))" "good (fst (cli_domain_set q x domains flag s))"
    "good (fst (cli_domain_remove q x remove s))"
    unfolding cli_env_delete_def cli_domain_set_def cli_domain_remove_def Let_def
    by (intro good_guards good_cases good_pair assms(1); elim good_save_found [OF assms(1) _ _ _ _ assms(2), rotated 4]; simp)+
qed

section \<open>Nodes\<close>

lemma good_set_node:
  assumes "good s" "kept_saved (set_node now SaveOk n (srv_store s))" "on_store (set_node now SaveOk n) s = (s', e)"
  shows "good s'"
proof -
  have "good (fst (on_store (set_node now SaveOk n) s))"
    by (rule good_on_store [where f = "set_node now SaveOk n", OF assms(1,2)]) (simp add: set_node_def)
  then show ?thesis using assms(3) by simp
qed

lemma good_nodes:
  assumes "good s" "saves q"
  shows "good (fst (cli_node_register q hostname endpoint labels s))" "good (fst (cli_node_remove q x s))"
    "good (fst (cli_node_drain q x s))"
proof -
  show "good (fst (cli_node_register q hostname endpoint labels s))"
    unfolding cli_node_register_def Let_def assms(2) [THEN spec]
  proof (intro good_cases good_pair assms(1))
    fix s' and e :: "store_error option"
    let ?n = "\<lparr>node_id = rq_uuid q, node_hostname = hostname, node_endpoint = endpoint, node_status = NodeOnline,
      node_resources = zero_resources, node_labels = parse_env_flags labels, node_last_heartbeat = rq_now q,
      node_created_at = rq_now q, node_updated_at = rq_now q\<rparr>"
    assume new: "\<not> (\<exists>n \<in> set (list_nodes (srv_store s)). node_hostname n = hostname)"
      and r: "on_store (set_node (rq_now q) SaveOk ?n) s = (s', e)"
    show "good s'"
      by (rule good_set_node [OF assms(1) _ r], rule set_node_kept [OF goodD(1) [OF assms(1)]])
        (use new in \<open>force simp: list_nodes_def\<close>)
    then show "good s'" .
  qed
  show "good (fst (cli_node_remove q x s))"
    unfolding cli_node_remove_def assms(2) [THEN spec]
  proof (intro good_cases good_pair)
    fix s' and e :: "store_error option"
    assume r: "on_store (delete_node (rq_now q) SaveOk x) s = (s', e)"
    have "good (fst (on_store (delete_node (rq_now q) SaveOk x) s))"
      by (rule good_on_store [where f = "delete_node (rq_now q) SaveOk x", OF assms(1) delete_node_kept [OF goodD(1) [OF assms(1)]] refused_disk(5)])
    then show "good s'" using r by simp
    then show "good s'" .
  qed
  show "good (fst (cli_node_drain q x s))"
    unfolding cli_node_drain_def assms(2) [THEN spec]
    by (intro good_cases good_pair assms(1);
        erule good_set_node [OF assms(1) found_node_kept [OF goodD(1) [OF assms(1)]], rotated 3]; simp)
qed

section \<open>Applications\<close>

lemma run_edits_name:
  assumes "\<forall>f \<in> set fs. \<forall>a a'. f a = Inr a' \<longrightarrow> app_name a' = app_name a"
  shows "app_name (fst (run_edits fs a)) = app_name a"
  using assms by (induction fs arbitrary: a) (auto split: sum.split)

lemma app_edits_name: "\<forall>e \<in> set (app_edits h f). \<forall>a a'. e a = Inr a' \<longrightarrow> app_name a' = app_name a"
  by (auto simp: app_edits_def edit_if_def edit_env_def apply_env_edits_def and_then_def map_err_def Let_def
      split: option.splits if_splits sum.splits)

lemma good_app_edit:
  assumes "good s" "saves q"
  shows "good (fst (cli_app_create h q x n f s))" "good (fst (cli_app_edit h q x n e s))"
proof -
  show "good (fst (cli_app_create h q x n f s))"
    unfolding cli_app_create_def
    by (intro good_guards good_cases good_pair assms(1)) (use assms good_set_app fst_eq in \<open>metis\<close>)+
  show "good (fst (cli_app_edit h q x n e s))"
    unfolding cli_app_edit_def Let_def
  proof (intro good_guards good_cases good_pair assms(1))
    fix p :: project and a0 a er
    assume a0: "get_app (proj_id p) n (srv_store s) = Some a0" and r: "run_edits (app_edits h e) a0 = (a, er)"
    have n: "app_name a = app_name a0" using run_edits_name [OF app_edits_name, of h e a0] r by simp
    show g: "good (put_app (proj_id p) n a s)" by (rule good_put_app [OF assms(1) a0 n])
    show "good (put_app (proj_id p) n a s)" by (rule g)
    fix s' er'
    assume "on_store (set_app (rq_now q) (rq_save q 0) (proj_id p) (Some a)) (put_app (proj_id p) n a s) = (s', er')"
    then show "good s'" using good_set_app [OF g, of "rq_now q" "proj_id p" a] assms(2) by simp
    then show "good s'" .
  qed
qed

lemma good_set_app_after: "good s \<Longrightarrow> rq_save q n = SaveOk \<Longrightarrow> on_store (set_app (rq_now q) (rq_save q n) pid (Some a)) s = (s', e) \<Longrightarrow> good s'"
  using good_set_app [of s "rq_now q" pid a] by simp

text \<open>An application that is there keeps its name, whatever is written to it.\<close>

definition has_app :: "string \<Rightarrow> string \<Rightarrow> 'r server \<Rightarrow> bool" where
  "has_app pid n s \<longleftrightarrow> (\<exists>a. get_app pid n (srv_store s) = Some a)"

lemma has_app_store: "srv_store s' = srv_store s \<Longrightarrow> has_app pid n s' = has_app pid n s"
  by (simp add: has_app_def)

lemma has_app_put [simp]: "has_app pid n (put_app pid n a s)"
  by (simp add: has_app_def get_app_put)

lemma good_put_has:
  assumes "good s" "has_app pid n s" "app_name a = n"
  shows "good (put_app pid n a s)"
  using assms get_app_wf(1) [OF goodD(1) [OF assms(1)]] good_put_app [OF assms(1)] by (auto simp: has_app_def)

lemma get_app_set: "validate_app_name (app_name a) = None \<Longrightarrow>
    get_app pid (app_name a) (fst (set_app now SaveOk pid (Some a) st)) = Some a"
  by (simp add: set_app_def save_def get_app_def ls_set_app_def get_project_apps_def Let_def gomap_simps)

text \<open>The application is written through the pointer and saved.\<close>

lemma good_put_save:
  assumes "good s" "has_app pid n s" "app_name a = n" "rq_save q k = SaveOk"
    "on_store (set_app (rq_now q) (rq_save q k) pid (Some a)) (put_app pid n a s) = (s', e)"
  shows "good s'" "has_app pid n s'"
proof -
  note g = good_put_has [OF assms(1-3)]
  show "good s'" by (rule good_set_app_after [OF g assms(4,5)])
  have "plain_component n"
    using assms(2) get_app_wf(2) [OF goodD(1) [OF assms(1)]] by (auto simp: has_app_def)
  then have "get_app pid n (fst (set_app (rq_now q) SaveOk pid (Some a) (srv_store (put_app pid n a s)))) = Some a"
    using get_app_set [of a pid "rq_now q"] assms(3) by simp
  moreover have "srv_store s' = fst (set_app (rq_now q) SaveOk pid (Some a) (srv_store (put_app pid n a s)))"
    by (metis assms(4,5) fst_conv on_store_other(2))
  ultimately show "has_app pid n s'" by (simp add: has_app_def)
qed

context project_runtime
begin

lemma good_quiet:
  assumes "good s" "\<And>iid r. op_view ops iid (fst (f r)) = op_view ops iid r" "rt_call ops iid f s = (s', r)"
  shows "good s' \<and> srv_store s' = srv_store s"
  using good_quiet_call [where f = f, OF assms(1) assms(2) assms(3)] by simp

lemma quiet_calls:
  assumes "good s"
  shows "rt_call ops iid (op_deploy ops y a) s = (s', r) \<Longrightarrow> good s' \<and> srv_store s' = srv_store s"
    "rt_call ops iid (op_stop_app ops y n) s = (s', r) \<Longrightarrow> good s' \<and> srv_store s' = srv_store s"
    "rt_call ops iid (op_remove_app ops y n) s = (s', r) \<Longrightarrow> good s' \<and> srv_store s' = srv_store s"
    "rt_call ops iid (op_upload_binary ops y n file rd len c) s = (s', r) \<Longrightarrow> good s' \<and> srv_store s' = srv_store s"
    "rt_call ops iid (op_upload_image ops y n rd len c) s = (s', r) \<Longrightarrow> good s' \<and> srv_store s' = srv_store s"
    "rt_call ops iid (op_app_logs ops y n k) s = (s', l) \<Longrightarrow> good s' \<and> srv_store s' = srv_store s"
    "rt_call ops iid (op_resize ops y p) s = (s', r) \<Longrightarrow> good s' \<and> srv_store s' = srv_store s"
  by (erule good_quiet [OF assms, rotated];
      rule deploy stop_app remove_app upload_binary upload_image app_logs resize)+

lemma good_push:
  assumes "rq_ops q = ops" "good s"
  shows "good (fst (push_local_image h q iid ref s)) \<and> srv_store (fst (push_local_image h q iid ref s)) = srv_store s"
  unfolding push_local_image_def assms(1)
  by (auto dest: quiet_calls(5) [OF assms(2)] simp: assms(2) split: option.split prod.split)

lemma good_app_calls:
  assumes "good s" "rq_ops q = ops"
  shows "good (fst (cli_app_stop q x n s))" "good (fst (cli_push_image h q x ref s))"
proof -
  show "good (fst (cli_app_stop q x n s))"
    unfolding cli_app_stop_def assms(2)
    by (intro good_guards good_cases good_pair assms(1)) (use assms(1) quiet_calls(2) [of "rt_load ops _ s"] in simp)+
  show "good (fst (cli_push_image h q x ref s))"
    unfolding cli_push_image_def assms(2)
    by (intro good_guards good_cases good_pair assms(1)) (use assms(1) good_push [OF assms(2), of "rt_load ops _ s"] in \<open>metis fst_conv good_ignores(1)\<close>)+
qed

lemma set_image_good:
  assumes "good s" "has_app (proj_id p) n s" "app_name a = n" "saves q" "cli_set_image q p n img a s = (s', r)"
  shows "good s' \<and> has_app (proj_id p) n s' \<and> (\<forall>a'. r = Inr a' \<longrightarrow> app_name a' = n)"
proof (cases "img = []")
  case False
  let ?a = "a\<lparr>app_image := img\<rparr>"
  obtain s1 e where o: "on_store (set_app (rq_now q) (rq_save q 0) (proj_id p) (Some ?a)) (put_app (proj_id p) n ?a s) = (s1, e)"
    by (rule prod.exhaust)
  have "good s1" "has_app (proj_id p) n s1"
    using good_put_save [OF assms(1,2) _ _ o] assms(3,4) by simp_all
  then show ?thesis using assms(3,5) False o by (cases e) (auto simp: cli_set_image_def)
qed (use assms in \<open>auto simp: cli_set_image_def\<close>)

lemma upload_good:
  assumes "good s" "has_app (proj_id p) n s" "app_name a = n" "saves q" "rq_ops q = ops"
    "upload_local_binary h q p n iid a s = (s', r)"
  shows "good s' \<and> has_app (proj_id p) n s' \<and> (\<forall>a'. r = Inr a' \<longrightarrow> app_name a' = n)"
proof (cases "is_process_mode a \<and> app_binary a \<noteq> [] \<and> hs_stat h (app_binary a)")
  case True
  let ?file = "filepath_base (app_binary a)"
  let ?a = "a\<lparr>app_binary := ''/opt/goship/binaries/'' @ n @ ''/'' @ ?file\<rparr>"
  note d = upload_local_binary_def assms(5)
  show ?thesis
  proof (cases "\<exists>rd len. hs_binaries h (app_binary a) = Some (rd, len) \<and> \<not> rd_fails rd")
    case True
    then obtain rd len where b: "hs_binaries h (app_binary a) = Some (rd, len)" "\<not> rd_fails rd" by blast
    let ?c = "rt_call ops iid (op_upload_binary ops iid n ?file rd len (file_checksum q rd)) s"
    obtain s1 e where c: "?c = (s1, e)" by (rule prod.exhaust)
    have 1: "good s1" "srv_store s1 = srv_store s" using quiet_calls(4) [OF assms(1) c] by simp_all
    have h1: "has_app (proj_id p) n s1" using 1(2) assms(2) by (simp add: has_app_def)
    obtain s2 e2 where o: "on_store (set_app (rq_now q) (rq_save q 1) (proj_id p) (Some ?a)) (put_app (proj_id p) n ?a s1) = (s2, e2)"
      by (rule prod.exhaust)
    have 2: "good s2" "has_app (proj_id p) n s2"
      using good_put_save [OF 1(1) h1 _ _ o] assms(3,4) by simp_all
    show ?thesis
      using \<open>is_process_mode a \<and> app_binary a \<noteq> [] \<and> hs_stat h (app_binary a)\<close> assms(3,6) b c o 1(1) h1 2
      by (cases e; cases e2) (auto simp: d Let_def)
  qed (use assms True in \<open>auto simp: d split: option.splits if_splits\<close>)
qed (use assms in \<open>auto simp: upload_local_binary_def\<close>)

lemma merge_good:
  assumes "good s" "app_name a = n" "merge_project_env q env a s = (s', r)"
  shows "good s' \<and> srv_store s' = srv_store s \<and> (\<forall>a'. r = Inr a' \<longrightarrow> app_name a' = n)"
  using assms decrypt_good [OF assms(1)]
  by (auto simp: merge_project_env_def split: if_splits prod.splits sum.splits)

text \<open>The end of \<open>app deploy\<close>, its middle, and the whole.\<close>

lemma good_merge_deploy:
  assumes "good s3" "has_app (proj_id p) n s3" "app_name a2 = n"
  shows "good (fst (case merge_project_env q (proj_env p) a2 s3 of (s4, Inl e) \<Rightarrow> (s4, Inl e)
      | (s4, Inr a) \<Rightarrow>
        (case rt_call ops (inst_id i) (op_deploy ops (inst_id i) a) (put_app (proj_id p) n a s4) of
           (s5, Some e) \<Rightarrow> (s5, Inl (CliRuntime e)) | (s5, None) \<Rightarrow> (s5, Inr (OutApp a)))))"
proof -
  obtain s4 r4 where 4: "merge_project_env q (proj_env p) a2 s3 = (s4, r4)" by (rule prod.exhaust)
  note g4 = merge_good [OF assms(1,3) 4]
  show ?thesis
  proof (cases r4)
    case (Inr a)
    have g: "good (put_app (proj_id p) n a s4)"
      by (rule good_put_has) (use g4 Inr assms(2) in \<open>simp_all add: has_app_def\<close>)
    obtain s5 e where 5: "rt_call ops (inst_id i) (op_deploy ops (inst_id i) a) (put_app (proj_id p) n a s4) = (s5, e)"
      by (rule prod.exhaust)
    then show ?thesis using quiet_calls(1) [OF g 5] Inr by (cases e) (simp_all add: 4)
  qed (use g4 in \<open>simp add: 4\<close>)
qed

lemma good_upload_deploy:
  assumes "good s1" "has_app (proj_id p) n s1" "app_name a1 = n" "saves q" "rq_ops q = ops"
  shows "good (fst (case push_if_local h q local (inst_id i) a1 (rt_load ops i s1) of (s2, Some e) \<Rightarrow> (s2, Inl e)
     | (s2, None) \<Rightarrow>
       (case upload_local_binary h q p n (inst_id i) a1 s2 of (s3, Inl e) \<Rightarrow> (s3, Inl e)
        | (s3, Inr a2) \<Rightarrow>
          (case merge_project_env q (proj_env p) a2 s3 of (s4, Inl e) \<Rightarrow> (s4, Inl e)
           | (s4, Inr a) \<Rightarrow>
             (case rt_call ops (inst_id i) (op_deploy ops (inst_id i) a) (put_app (proj_id p) n a s4) of
                (s5, Some e) \<Rightarrow> (s5, Inl (CliRuntime e)) | (s5, None) \<Rightarrow> (s5, Inr (OutApp a)))))))"
proof -
  obtain s2 e2 where 2: "push_if_local h q local (inst_id i) a1 (rt_load ops i s1) = (s2, e2)" by (rule prod.exhaust)
  have "good s2 \<and> srv_store s2 = srv_store s1"
    using good_push [OF assms(5), of "rt_load ops i s1" h "inst_id i" "local_image_ref a1"] assms(1) 2
    by (auto simp: push_if_local_def split: if_splits)
  then have g2: "good s2" "has_app (proj_id p) n s2" using assms(2) by (simp_all add: has_app_def)
  obtain s3 r3 where 3: "upload_local_binary h q p n (inst_id i) a1 s2 = (s3, r3)" by (rule prod.exhaust)
  note g3 = upload_good [OF g2 assms(3-5) 3]
  show ?thesis using g2 g3 good_merge_deploy [where ?s3.0 = s3 and p = p and n = n and q = q and i = i] by (cases e2; cases r3) (simp_all add: 2 3)
qed

lemma good_app_deploy:
  assumes "good s" "saves q" "rq_ops q = ops"
  shows "good (fst (cli_app_deploy h q x n img local s))"
  unfolding cli_app_deploy_def assms(3)
proof (intro good_cli_project good_cli_app assms(1))
  fix k a0 and p :: project
  assume a0: "get_app (proj_id p) n (srv_store s) = Some a0"
  have h0: "has_app (proj_id p) n s" "app_name a0 = n"
    using a0 get_app_wf(1) [OF goodD(1) [OF assms(1)]] by (simp_all add: has_app_def)
  obtain s1 r1 where 1: "cli_set_image q p n img a0 s = (s1, r1)" by (rule prod.exhaust)
  note g1 = set_image_good [OF assms(1) h0 assms(2) 1]
  show "good (fst (case cli_set_image q p n img a0 s of (s1, Inl e) \<Rightarrow> (s1, Inl e)
     | (s1, Inr a1) \<Rightarrow>
       if is_container_mode a1 \<and> app_image a1 = [] then (s1, Inl (CliImageRequired n))
       else cli_instance x p s1 (\<lambda>i.
         case push_if_local h q local (inst_id i) a1 (rt_load ops i s1) of (s2, Some e) \<Rightarrow> (s2, Inl e)
         | (s2, None) \<Rightarrow>
           (case upload_local_binary h q p n (inst_id i) a1 s2 of (s3, Inl e) \<Rightarrow> (s3, Inl e)
            | (s3, Inr a2) \<Rightarrow>
              (case merge_project_env q (proj_env p) a2 s3 of (s4, Inl e) \<Rightarrow> (s4, Inl e)
               | (s4, Inr a) \<Rightarrow>
                 (case rt_call ops (inst_id i) (op_deploy ops (inst_id i) a) (put_app (proj_id p) n a s4) of
                    (s5, Some e) \<Rightarrow> (s5, Inl (CliRuntime e)) | (s5, None) \<Rightarrow> (s5, Inr (OutApp a))))))))"
  proof (cases r1)
    case (Inr a1)
    show ?thesis
      unfolding 1 Inr prod.case sum.case
      by (intro good_If good_pair good_cli_instance good_upload_deploy assms(2,3)) (use g1 Inr in simp_all)
  qed (use g1 in \<open>simp add: 1\<close>)
qed

lemma good_app_delete:
  assumes "good s" "saves q" "rq_ops q = ops"
  shows "good (fst (cli_app_delete q x n s))"
  unfolding cli_app_delete_def Let_def assms(3) assms(2) [THEN spec]
proof (intro good_cli_project good_cli_app good_cases good_pair assms(1))
  fix p :: project and s' and e :: "store_error option"
  let ?s1 = "case get_instance (proj_id p) (srv_store s) of None \<Rightarrow> s
     | Some i \<Rightarrow> fst (rt_call ops (inst_id i) (op_remove_app ops (inst_id i) n) (rt_load ops i s))"
  assume r: "on_store (delete_app (rq_now q) SaveOk (proj_id p) n) ?s1 = (s', e)"
  have "good ?s1"
    using quiet_calls(3) [of "rt_load ops _ s"] assms(1) by (simp split: option.split) (metis prod.collapse)
  then show "good s'" using good_delete_app [of ?s1 "rq_now q" "proj_id p" n] r by simp
  then show "good s'" .
qed

lemma good_follow: "good s \<Longrightarrow> rq_ops q = ops \<Longrightarrow> good (fst (follow_logs q iid n k len ts s))"
proof (induction ts arbitrary: s len)
  case (Cons t ts)
  obtain s1 r where c: "rt_call ops iid (op_app_logs ops iid n k) (s\<lparr>srv_rt := t (srv_rt s)\<rparr>) = (s1, r)" by (rule prod.exhaust)
  have "good s1" using quiet_calls(6) [OF _ c] Cons.prems(1) by simp
  then show ?case using c Cons by (simp split: sum.split prod.split) (metis fst_conv)
qed simp

lemma good_app_logs:
  assumes "good s" "rq_ops q = ops"
  shows "good (fst (cli_app_logs q x n k follow s))"
  unfolding cli_app_logs_def assms(2)
  by (intro good_cli_project good_cli_app good_cli_instance good_cases good_pair assms(1))
    (use assms quiet_calls(6) [of "rt_load ops _ s"] good_follow in \<open>metis fst_conv good_ignores(1)\<close>)+

end

end
