(* ===== verification/Cli_Keeps.thy ===== *)
theory Cli_Keeps
  imports Cli_Inv Api_Routes
begin

text \<open>
  The commands on machines, those on several applications, and the reconciliation at the start of a
  process keep the state loadable; then every command does.
\<close>

section \<open>Machines\<close>

context project_runtime
begin

lemma kept_calls:
  assumes "good s"
  shows "rt_call ops iid (op_start ops y) s = (s', r) \<Longrightarrow> good s' \<and> touched s s'"
    "rt_call ops iid (op_stop ops y) s = (s', r) \<Longrightarrow> good s' \<and> touched s s'"
    "rt_call ops iid (op_destroy ops y) s = (s', r) \<Longrightarrow> good s' \<and> touched s s'"
    "rt_call ops iid (op_status ops y) s = (s', r') \<Longrightarrow> good s' \<and> touched s s'"
  using good_call [where f = "op_start ops y", OF assms start] good_call [where f = "op_stop ops y", OF assms stop]
    good_call [where f = "op_destroy ops y", OF assms destroy] good_call [where f = "op_status ops y", OF assms status]
  by (simp_all add: conjI)

lemma good_poll: "good s \<Longrightarrow> poll_stopped ops iid ts s = (s', b) \<Longrightarrow> good s' \<and> touched s s'"
proof (induction ts arbitrary: s)
  case (Cons t ts)
  let ?s = "s\<lparr>srv_rt := t (srv_rt s)\<rparr>"
  obtain s1 r where c: "rt_call ops iid (op_status ops iid) ?s = (s1, r)" by (rule prod.exhaust)
  have 1: "good s1" "touched s s1" using kept_calls(4) [OF _ c] Cons.prems(1) by (simp_all add: touched_def)
  have "good s' \<and> touched s1 s'" if "poll_stopped ops iid ts s1 = (s', b)" by (rule Cons.IH [OF 1(1) that])
  moreover have "touched s1 s1" using 1(1) goodD(1) touched_same by blast
  ultimately show ?case
    using Cons.prems(2) c 1 touched_trans [OF 1(2)] by (auto split: sum.splits if_splits)
qed (simp add: goodD(1) touched_same)

text \<open>The instance is saved after a call, with another state or as it is.\<close>

lemma good_save_current:
  assumes "good s1" "touched s s1" "gm_get (instances (srv_store s)) (inst_id i) = Some i" "rq_save q n = SaveOk"
    "same_identity (current_instance i s1) j"
  shows "good (save_instance q n j s1)" "touched s (save_instance q n j s1)"
proof -
  note d = touchedD [OF assms(2,3)]
  have "inst_id j = inst_id i" using d(4) assms(5) by (simp add: same_identity_def)
  then have g: "gm_get (instances (srv_store s1)) (inst_id j) = Some (current_instance i s1)" using d(3) by simp
  note gs = good_save_instance [OF assms(1) g assms(5,4)]
  show "good (save_instance q n j s1)" by (rule gs)
  show "touched s (save_instance q n j s1)" by (rule touched_trans [OF assms(2) gs(2)])
qed

lemma good_save_state:
  assumes "good s1" "touched s s1" "gm_get (projects (srv_store s)) k = Some p" "rq_save q n = SaveOk"
  shows "good (fst (save_project q n k (p\<lparr>proj_state := st\<rparr>) s1))"
  by (rule good_save_project [OF assms(1)]) (use assms in \<open>simp_all add: touched_def\<close>)

lemma good_started:
  assumes "good s1" "touched s s1" "gm_get (instances (srv_store s)) (inst_id i) = Some i"
    "gm_get (projects (srv_store s)) k = Some p" "saves q" "rq_ops q = ops"
  shows "good (fst (cli_started q k p i s1))"
  unfolding cli_started_def Let_def assms(6)
proof (intro good_cases good_pair)
  fix s2 and e :: "rt_error option"
  assume c: "rt_call ops (inst_id i) (op_start ops (inst_id i)) s1 = (s2, e)"
  have 2: "good s2" "touched s s2" using kept_calls(1) [OF assms(1) c] touched_trans [OF assms(2)] by auto
  note 3 = good_save_current [OF 2 assms(3), of q 0 "current_instance i s2"]
  show "good s2" by (rule 2)
  show "good (fst (save_project q 1 k (p\<lparr>proj_state := ProjRunning\<rparr>) (save_instance q 0 (current_instance i s2) s2)))"
    by (rule good_save_state [OF 3 assms(4)]) (use assms(5) in simp_all)
qed

lemma found:
  assumes "good s" "find_project x (srv_store s) = Some (k, p)" "get_instance (proj_id p) (srv_store s) = Some i"
  shows "gm_get (instances (srv_store s)) (inst_id i) = Some i" "gm_get (projects (srv_store s)) k = Some p"
    "good (rt_load ops i s)" "touched s (rt_load ops i s)"
  using get_instance_Some(1) [OF goodD(1) [OF assms(1)] assms(3)] find_project_wf(1) [OF goodD(1) [OF assms(1)] assms(2)] assms(1)
  by (simp_all add: touched_same goodD)

lemma good_machine:
  assumes "good s" "saves q" "rq_ops q = ops"
  shows "good (fst (cli_project_start q x s))" "good (fst (cli_project_restart q x s))" "good (fst (cli_project_stop q x s))"
proof -
  show "good (fst (cli_project_start q x s))"
    unfolding cli_project_start_def assms(3)
    by (intro good_guards assms(1)) (use assms found in \<open>auto intro!: good_started [OF _ _ _ _ assms(2,3)]\<close>)
  show "good (fst (cli_project_restart q x s))"
    unfolding cli_project_restart_def assms(3)
  proof (intro good_guards good_cases good_pair assms(1))
    fix k p i s1 and e :: "rt_error option"
    assume p: "find_project x (srv_store s) = Some (k, p)" and i: "get_instance (proj_id p) (srv_store s) = Some i"
      and c: "rt_call ops (inst_id i) (op_stop ops (inst_id i)) (rt_load ops i s) = (s1, e)"
    note f = found [OF assms(1) p i]
    have 1: "good s1" "touched s s1" using kept_calls(2) [OF f(3) c] touched_trans [OF f(4)] by auto
    show "good s1" by (rule 1)
    fix s2 b
    assume po: "poll_stopped ops (inst_id i) (rq_ticks q) s1 = (s2, b)"
    have 2: "good s2" "touched s s2" using good_poll [OF 1(1) po] touched_trans [OF 1(2)] by auto
    show "good (fst (cli_started q k p i s2))" by (rule good_started [OF 2 f(1,2) assms(2,3)])
    show "good s2" by (rule 2)
  qed
  show "good (fst (cli_project_stop q x s))"
    unfolding cli_project_stop_def assms(3) Let_def
  proof (intro good_guards good_cases good_pair assms(1))
    fix k p i s1 and e :: "rt_error option"
    assume p: "find_project x (srv_store s) = Some (k, p)" and i: "get_instance (proj_id p) (srv_store s) = Some i"
      and c: "rt_call ops (inst_id i) (op_stop ops (inst_id i)) (rt_load ops i s) = (s1, e)"
    note f = found [OF assms(1) p i]
    have 1: "good s1" "touched s s1" using kept_calls(2) [OF f(3) c] touched_trans [OF f(4)] by auto
    show "good s1" by (rule 1)
    fix s2 b
    let ?s1 = "save_instance q 0 ((current_instance i s1)\<lparr>inst_state := InstStopping\<rparr>) s1"
    assume po: "poll_stopped ops (inst_id i) (rq_ticks q) ?s1 = (s2, b)"
    note s = good_save_current [OF 1 f(1), of q 0 "(current_instance i s1)\<lparr>inst_state := InstStopping\<rparr>"]
    have 2: "good s2" "touched s s2"
      using good_poll [OF s(1) po] touched_trans [OF s(2)] assms(2) by (auto simp: same_identity_def)
    note s' = good_save_current [OF 2 f(1), of q 1 "(current_instance i s2)\<lparr>inst_state := InstStopped\<rparr>"]
    show "good s2" by (rule 2)
    show "good (fst (save_project q 2 k (p\<lparr>proj_state := ProjStopped\<rparr>)
        (save_instance q 1 ((current_instance i s2)\<lparr>inst_state := InstStopped\<rparr>) s2)))"
      by (rule good_save_state [OF s' f(2)]) (use assms(2) in \<open>simp_all add: same_identity_def\<close>)
  qed
qed

lemma good_update_init:
  assumes "good s" "saves q" "rq_ops q = ops"
  shows "good (fst (cli_project_update_init h ch q x flag restart s))"
  unfolding cli_project_update_init_def Let_def
  by (intro good_guards good_cases good_pair assms(1); (rule good_machine(2) [OF _ assms(2,3)])?; erule good_on_rt [OF assms(1)])

lemma good_project_edit:
  assumes "good s" "rq_ops q = ops" "saves q"
  shows "good (fst (cli_project_edit q x r s))"
  unfolding cli_project_edit_def Let_def assms(2)
proof (intro good_guards good_cases good_pair assms(1))
  fix k p i
  assume p: "find_project x (srv_store s) = Some (k, p)" and i: "get_instance (proj_id p) (srv_store s) = Some i"
  note f = found [OF assms(1) p i]
  have put: "good (put_project k (p\<lparr>proj_resources := c\<rparr>) s)" for c
    by (rule good_put_project [OF assms(1) f(2)]) simp_all
  show "good (put_project k (p\<lparr>proj_resources := update_cpu r (proj_resources p)\<rparr>) s)"
    "good (put_project k (p\<lparr>proj_resources := c\<rparr>) s)" "good (put_project k (p\<lparr>proj_resources := c\<rparr>) s)" for c
    by (rule put)+
  fix c s1 and e :: "rt_error option"
  let ?p = "p\<lparr>proj_resources := c\<rparr>"
  assume c: "rt_call ops (inst_id i) (op_resize ops (inst_id i) ?p) (rt_load ops i (put_project k ?p s)) = (s1, e)"
  have 1: "good s1" "srv_store s1 = srv_store (put_project k ?p s)"
    using quiet_calls(7) [OF _ c] put by simp_all
  have "good (fst (save_project q 0 k ?p s1))"
    by (rule good_save_project [OF 1(1), where ?p0.0 = ?p]) (use 1(2) assms(3) in \<open>simp_all add: gomap_simps\<close>)
  then show "good s2" "good s2" if "save_project q 0 k ?p s1 = (s2, y)" for s2 y using that by simp_all
  show "good s1" by (rule 1)
qed

text \<open>The end of a creation: the project is saved as running, and its new instance.\<close>

lemma good_created:
  assumes "good s2" "gm_get (projects (srv_store s2)) (proj_id p) = Some p"
    "\<forall>(k, j) \<in> set (instances (srv_store s2)). inst_project_id j \<noteq> proj_id p"
    "inst_project_id i = proj_id p" "saves q" "save_project q 2 (proj_id p) (p\<lparr>proj_state := ProjRunning\<rparr>) s2 = (s3, p', e)"
  shows "good (fst (on_store (set_instance (rq_now q) SaveOk (Some i)) s3))"
    "gm_get (projects (srv_store (fst (on_store (set_instance (rq_now q) SaveOk (Some i)) s3)))) (proj_id p') = Some p'"
proof -
  note sp = save_project_same_binding [OF goodD(1) [OF assms(1)] assms(2) _ _ assms(6), simplified]
  have "good (fst (save_project q 2 (proj_id p) (p\<lparr>proj_state := ProjRunning\<rparr>) s2))"
    by (rule good_save_project [OF assms(1,2)]) (use assms(5) in simp_all)
  then have g3: "good s3" using assms(6) by simp
  show "good (fst (on_store (set_instance (rq_now q) SaveOk (Some i)) s3))"
  proof (rule good_on_store [where f = "set_instance (rq_now q) SaveOk (Some i)", OF g3 _ refused_disk(3)])
    show "kept_saved (set_instance (rq_now q) SaveOk (Some i) (srv_store s3))"
      by (rule set_instance_kept [OF sp(1)]) (use assms(3,4) sp(4) in auto)
  qed
  have "projects (fst (set_instance (rq_now q) SaveOk (Some i) (srv_store s3))) = projects (srv_store s3)"
    by (simp add: set_instance_def set_instances_def split: option.split)
  then show "gm_get (projects (srv_store (fst (on_store (set_instance (rq_now q) SaveOk (Some i)) s3)))) (proj_id p') = Some p'"
    using sp(5) by auto
qed

lemma create_works_or_refuses:
  "create_project now uuid SaveOk name rt res st = (st', r) \<Longrightarrow>
     (\<exists>e. r = Inl e) \<and> st' = st \<or> (\<exists>p. r = Inr p) \<and> st_disk st' = StateFile (marshal_state (st_mem st'))"
  by (auto simp: create_project_def save_def Let_def set_projects_def split: option.splits if_splits)

text \<open>A machine that could not be made takes its project along.\<close>

lemma good_create_with_vm:
  assumes "good s" "saves q" "rq_ops q = ops" and fresh: "rq_uuid q \<noteq> []" "gm_get (projects (srv_store s)) (rq_uuid q) = None"
    and r: "create_with_vm q name res s = (s', y)"
  shows "good s' \<and> (\<forall>p i. y = Inr (p, i) \<longrightarrow> gm_get (projects (srv_store s')) (proj_id p) = Some p)"
proof -
  let ?cr = "create_project (rq_now q) (rq_uuid q) SaveOk name RuntimeQEMU res"
  obtain st1 r0 where st1: "?cr (srv_store s) = (st1, r0)" by (rule prod.exhaust)
  let ?s1 = "s\<lparr>srv_store := st1\<rparr>"
  have c: "on_store ?cr s = (?s1, r0)" by (simp add: on_store_def st1)
  note wf = goodD(1) [OF assms(1)]
  note k = create_project_kept [OF wf fresh st1]
  show ?thesis
  proof (cases r0)
    case (Inl e)
    then have "st1 = srv_store s" using create_works_or_refuses [OF st1] by auto
    then show ?thesis using r c Inl assms(1,2) good_same [OF assms(1), of ?s1] by (auto simp: create_with_vm_def)
  next
    case (Inr p)
    note k2 = k(2) [OF Inr]
    have g1: "good ?s1"
      by (rule good_synced) (use k(1) create_works_or_refuses [OF st1] Inr state_wf_loads in \<open>auto simp: synced_def api_wf_def\<close>)
    have "instances st1 = instances (srv_store s)"
      using create_project_fields(1) [of "rq_now q" "rq_uuid q" SaveOk name RuntimeQEMU res "srv_store s"] st1 by simp
    then have none: "\<forall>(k, j) \<in> set (instances st1). inst_project_id j \<noteq> proj_id p"
      using no_instance_of_fresh [OF wf fresh(2)] k2 by auto
    obtain rt x where o: "op_create ops p (srv_rt ?s1) = (rt, x)" by (rule prod.exhaust)
    let ?s2 = "?s1\<lparr>srv_rt := rt\<rparr>"
    have g2: "good ?s2" using g1 by simp
    show ?thesis
    proof (cases x)
      case (Inl e)
      have "good (fst (on_store (delete_project (rq_now q) SaveOk (proj_id p)) ?s2))"
      proof (rule good_on_store [where f = "delete_project (rq_now q) SaveOk (proj_id p)", OF g2 _ refused_disk(4)])
        show "kept_saved (delete_project (rq_now q) SaveOk (proj_id p) (srv_store ?s2))"
          by (rule delete_project_kept) (use goodD(1) [OF g2] none k2 fresh in auto)
      qed
      then show ?thesis using r c Inr o Inl assms(2,3) by (auto simp: create_with_vm_def)
    next
      case i: (Inr i)
      note law = create_ok [OF o [unfolded i]]
      obtain s3 p' e where s3: "save_project q 2 (proj_id p) (p\<lparr>proj_state := ProjRunning\<rparr>) ?s2 = (s3, p', e)"
        by (cases "save_project q 2 (proj_id p) (p\<lparr>proj_state := ProjRunning\<rparr>) ?s2")
      note cr = good_created [OF g2 _ _ _ assms(2) s3]
      show ?thesis
        using r c Inr o i s3 assms(2,3) cr [of i] k2 none law by (auto simp: create_with_vm_def)
    qed
  qed
qed

lemma good_drop_instance:
  assumes "good s" "get_instance pid (srv_store s) = Some i" "saves q" "rq_ops q = ops"
  shows "good (drop_instance q i s)" "projects (srv_store (drop_instance q i s)) = projects (srv_store s)"
    "\<forall>(k, j) \<in> set (instances (srv_store (drop_instance q i s))). inst_project_id j \<noteq> pid"
proof -
  obtain s1 e where c: "rt_call ops (inst_id i) (op_destroy ops (inst_id i)) (rt_load ops i s) = (s1, e)" by (rule prod.exhaust)
  note g = get_instance_Some [OF goodD(1) [OF assms(1)] assms(2)]
  have 1: "good s1" "touched s s1"
    using kept_calls(3) [OF _ c] assms(1) touched_store [of "rt_load ops i s" s s1] by simp_all
  note d = touchedD [OF 1(2) g(1)]
  have st: "drop_instance q i s = fst (on_store (delete_instance (rq_now q) SaveOk (inst_id i)) s1)"
    using c assms(3) by (simp add: drop_instance_def assms(4))
  show "good (drop_instance q i s)" unfolding st by (rule good_delete_instance [OF 1(1)])
  show "projects (srv_store (drop_instance q i s)) = projects (srv_store s)"
    using d(2) by (simp add: st delete_instance_def set_instances_def)
  have im: "instances (srv_store (drop_instance q i s)) = gm_del (inst_id i) (instances (srv_store s1))"
    by (simp add: st delete_instance_def set_instances_def)
  show "\<forall>(k, j) \<in> set (instances (srv_store (drop_instance q i s))). inst_project_id j \<noteq> pid"
    unfolding im using api_wfD(6) [OF d(1)] map_of_SomeD [OF d(3)] d(4) g(2)
    unfolding one_instance_def same_identity_def by auto
qed

lemma good_project_create:
  assumes "good s" "saves q" "rq_ops q = ops" "rq_uuid q \<noteq> []" "gm_get (projects (srv_store s)) (rq_uuid q) = None"
  shows "good (fst (cli_project_create q name res s))"
  unfolding cli_project_create_def
  by (intro good_cases good_pair) (use good_create_with_vm [OF assms] in auto)

lemma good_project_delete:
  assumes "good s" "saves q" "rq_ops q = ops"
  shows "good (fst (cli_project_delete q x s))"
  unfolding cli_project_delete_def Let_def assms(2) [THEN spec]
proof (intro good_guards good_cases good_pair assms(1))
  fix k s' and p :: project and e :: "store_error option"
  assume p: "find_project x (srv_store s) = Some (k, p)"
  let ?s1 = "case get_instance (proj_id p) (srv_store s) of None \<Rightarrow> s | Some i \<Rightarrow> drop_instance q i s"
  assume r: "on_store (delete_project (rq_now q) SaveOk (proj_id p)) ?s1 = (s', e)"
  note k = find_project_wf [OF goodD(1) [OF assms(1)] p]
  have 1: "good ?s1" "projects (srv_store ?s1) = projects (srv_store s)"
    "\<forall>(k, j) \<in> set (instances (srv_store ?s1)). inst_project_id j \<noteq> proj_id p"
    using good_drop_instance [OF assms(1) _ assms(2,3)] assms(1) get_instance_None [of "proj_id p" "srv_store s"]
    by (auto split: option.split)
  have "good (fst (on_store (delete_project (rq_now q) SaveOk (proj_id p)) ?s1))"
  proof (rule good_on_store [where f = "delete_project (rq_now q) SaveOk (proj_id p)", OF 1(1) _ refused_disk(4)])
    show "kept_saved (delete_project (rq_now q) SaveOk (proj_id p) (srv_store ?s1))"
      by (rule delete_project_kept [OF goodD(1) [OF 1(1)] 1(3)]) (use k 1(2) in auto)
  qed
  then show "good s'" using r by simp
  then show "good s'" .
qed

end

section \<open>Several applications\<close>

lemma merge_envs_store: "merge_envs q env as s = (s', r) \<Longrightarrow> srv_store s' = srv_store s"
proof (induction as arbitrary: s r)
  case (Cons a as)
  obtain s1 r1 where 1: "merge_project_env q env a s = (s1, r1)" by (rule prod.exhaust)
  have "srv_store s1 = srv_store s"
    using 1 decrypt_values_store [of q None env s] by (auto simp: merge_project_env_def split: if_splits prod.splits sum.splits)
  then show ?case using Cons 1 by (auto split: sum.splits prod.splits)
qed simp

lemma good_each_service:
  assumes "\<And>n a s. good s \<Longrightarrow> good (fst (f n a s))" "good s"
  shows "good (fst (each_service f n as s))"
  using assms(2)
proof (induction as arbitrary: n s)
  case (Cons a as)
  obtain s1 r where 1: "f n a s = (s1, r)" by (rule prod.exhaust)
  have "good s1" using assms(1) [OF Cons.prems, of n a] 1 by simp
  then have "good (fst (each_service f (Suc n) as s1))" by (rule Cons.IH)
  then show ?case by (simp add: 1 split: prod.split) (metis fst_conv)
qed simp

context project_runtime
begin

lemma good_services:
  assumes "good s" "saves q" "rq_ops q = ops"
  shows "good (fst (deploy_service q p iid n a s))" "good (fst (remove_service q p iid n a s))"
proof -
  show "good (fst (deploy_service q p iid n a s))"
    unfolding deploy_service_def assms(3)
    by (intro good_cases good_pair)
      (use assms(1,2) good_set_app_after quiet_calls(1) in \<open>metis\<close>)+
  obtain s1 e where c: "rt_call ops iid (op_remove_app ops iid (app_name a)) s = (s1, e)" by (rule prod.exhaust)
  have "good s1" using quiet_calls(3) [OF assms(1) c] by simp
  then have "good (fst (on_store (delete_app (rq_now q) SaveOk (proj_id p) (app_name a)) s1))" by (rule good_delete_app)
  then show "good (fst (remove_service q p iid n a s))"
    using c assms(2) by (simp add: remove_service_def assms(3) Let_def split: prod.split option.split) (metis fst_conv)
qed

lemma good_deploy_parsed:
  assumes "good s" "saves q" "rq_ops q = ops"
  shows "good (fst (deploy_parsed h q p i build n parsed s))"
  unfolding deploy_parsed_def Let_def assms(3)
proof (intro good_cases good_pair)
  fix s2 s3 apps2 rs as r
  show "good (rt_load ops i s)" using assms(1) by simp
  assume "merge_envs q (proj_env p) as (rt_load ops i s) = (s2, r)"
  then have 2: "good s2" using merge_envs_store good_same [OF assms(1)] by fastforce
  then show "good s2" .
  assume "each_service (deploy_service q p (inst_id i)) n apps2 s2 = (s3, rs)"
  then show "good s3"
    using good_each_service [where f = "deploy_service q p (inst_id i)" and n = n and as = apps2,
        OF good_services(1) [OF _ assms(2,3)] 2] by simp
qed

lemma good_compose:
  assumes "good s" "saves q" "rq_ops q = ops"
  shows "good (fst (cli_compose_up h q x path build s))" "good (fst (cli_compose_down h q x path s))"
proof -
  show "good (fst (cli_compose_up h q x path build s))"
    unfolding cli_compose_up_def
    by (intro good_cli_project good_cli_instance good_sum good_pair assms(1) good_deploy_parsed [OF assms])
  show "good (fst (cli_compose_down h q x path s))"
    unfolding cli_compose_down_def assms(3)
  proof (intro good_guards good_cases good_pair assms(1))
    fix i apps s' rs and p :: project
    assume "each_service (remove_service q p (inst_id i)) 0 apps (rt_load ops i s) = (s', rs)"
    then show "good s'"
      using good_each_service [where f = "remove_service q p (inst_id i)" and s = "rt_load ops i s" and n = 0 and as = apps,
          OF good_services(2) [OF _ assms(2,3)]] assms(1) by simp
  qed
qed

lemma init_vault_same: "init_vault q s = (s', x) \<Longrightarrow> srv_store s' = srv_store s"
  using init_vault_store [of q s] by simp

lemma good_deploy:
  assumes "good s" "saves q" "rq_ops q = ops" "rq_uuid q \<noteq> []" "gm_get (projects (srv_store s)) (rq_uuid q) = None"
  shows "good (fst (cli_deploy h q path m dry s))"
  unfolding cli_deploy_def
proof (intro good_cases good_pair assms(1))
  fix res s1 r
  assume en: "ensure_project q m res s = (s1, r)"
  have 1: "good s1 \<and> (\<forall>k p. r = Inr (k, p) \<longrightarrow> gm_get (projects (srv_store s1)) k = Some p)"
  proof (cases "find_project (man_project m) (srv_store s)")
    case None
    then show ?thesis
      using en good_create_with_vm [OF assms] by (auto simp: ensure_project_def split: prod.splits sum.splits)
  next
    case (Some e)
    then show ?thesis
      using en assms(1) find_project_wf(1) [OF goodD(1) [OF assms(1)]] by (auto simp: ensure_project_def)
  qed
  show "good s1" using 1 by simp
  fix kp k p s2 y env and er :: "cli_error option"
  assume "r = Inr kp" "kp = (k, p)" "manifest_env q m (proj_env p) s1 = (s2, y)" "y = (env, er)"
  then have r: "r = Inr (k, p)" and me: "manifest_env q m (proj_env p) s1 = (s2, env, er)" by simp_all
  have "srv_store s2 = srv_store s1"
    using me by (auto simp: manifest_env_def Let_def dest: init_vault_same split: if_splits prod.splits sum.splits)
  then have 2: "good s2" "gm_get (projects (srv_store s2)) k = Some p" using 1 r good_same by auto
  show "good (put_project k (p\<lparr>proj_env := env\<rparr>) s2)" by (rule good_put_project [OF 2]) simp_all
  fix s3 p' y3 and e3 :: "store_error option"
  let ?p = "manifest_domains m (p\<lparr>proj_env := env\<rparr>)"
  assume sp: "save_project q 4 k ?p s2 = (s3, y3)"
  have "good (fst (save_project q 4 k ?p s2))"
    by (rule good_save_project [OF 2]) (use assms(2) in \<open>simp_all add: manifest_domains_def\<close>)
  then have 3: "good s3" using sp by simp
  show "good s3" by (rule 3)
  show "good (fst (deploy_compose h q path m p' s3))"
    unfolding deploy_compose_def
    by (intro good_cli_instance good_cases good_pair 3) (use good_deploy_parsed [OF 3 assms(2,3)] in \<open>metis fst_conv\<close>)+
qed

end

section \<open>Reconciliation\<close>

text \<open>The projects stay under their keys with identifier and name, while their contents change.\<close>

definition projects_kept :: "'r server \<Rightarrow> 'r server \<Rightarrow> bool" where
  "projects_kept s s' \<longleftrightarrow> (\<forall>k. map_option (\<lambda>p. (proj_id p, proj_name p)) (gm_get (projects (srv_store s')) k) =
     map_option (\<lambda>p. (proj_id p, proj_name p)) (gm_get (projects (srv_store s)) k))"

lemma projects_kept_touched: "touched s s' \<Longrightarrow> projects_kept s s'"
  by (simp add: projects_kept_def touched_def)

lemma projects_kept_trans: "projects_kept s s' \<Longrightarrow> projects_kept s' s'' \<Longrightarrow> projects_kept s s''"
  by (simp add: projects_kept_def)

lemma projects_keptD:
  assumes "projects_kept s s'"
  shows "gm_get (projects (srv_store s)) k = None \<Longrightarrow> gm_get (projects (srv_store s')) k = None"
    "gm_get (projects (srv_store s)) k = Some p \<Longrightarrow>
       \<exists>p'. gm_get (projects (srv_store s')) k = Some p' \<and> proj_id p' = proj_id p \<and> proj_name p' = proj_name p"
  using assms [unfolded projects_kept_def, THEN spec, of k] by auto

lemma projects_kept_save:
  assumes "srv_wf s" "gm_get (projects (srv_store s)) k = Some p0" "proj_id p = proj_id p0" "proj_name p = proj_name p0"
    "rq_save q n = SaveOk"
  shows "projects_kept s (fst (save_project q n k p s))"
proof -
  obtain s' p' e where r: "save_project q n k p s = (s', p', e)" by (cases "save_project q n k p s")
  have "e = None" using save_project_same_binding(7) [OF assms(1-4) r] assms(5) by simp
  note ok = save_project_ok [OF assms(1-4) r [unfolded this]]
  show ?thesis using assms(2-4) by (simp add: projects_kept_def r ok(1,4) gomap_simps)
qed

text \<open>A process opens the file that is there, and finds a state that is loadable again.\<close>

lemma good_opened:
  assumes "new_store now home mk d dir = Inr st" "loads d" "srv_store s = st"
  shows "good s"
proof -
  have dk: "st_disk st = d" using assms(1) by (auto simp: new_store_def split: option.splits if_splits sum.splits)
  obtain m where m: "load_state d = Inr m" "st_mem st = (case m of None \<Rightarrow> new_local_state now | Some l \<Rightarrow> l)"
    using new_store_mem [OF assms(1)] by blast
  have "mem_wf (new_local_state now)"
    by (simp add: mem_wf_def) (simp add: new_local_state_def one_instance_def hostnames_unique_def)
  then show ?thesis using m assms(2,3) dk by (auto simp: good_def api_wf_mem loads_def split: option.splits)
qed

context project_runtime
begin

lemma good_reconcile_loaded:
  assumes "good s1" "touched s s1" "gm_get (instances (srv_store s)) (inst_id i) = Some i"
    "gm_get (projects (srv_store s)) k = Some p0" "proj_id p = proj_id p0" "proj_name p = proj_name p0" "saves q" "rq_ops q = ops"
  shows "good (reconcile_loaded q n k p i s1) \<and> projects_kept s (reconcile_loaded q n k p i s1)"
proof -
  obtain s2 r where c: "rt_call ops (inst_id i) (op_status ops (inst_id i)) s1 = (s2, r)" by (rule prod.exhaust)
  have 2: "good s2" "touched s s2" using kept_calls(4) [OF assms(1) c] touched_trans [OF assms(2)] by auto
  show ?thesis
  proof (cases "\<exists>j. r = Inr j \<and> inst_state j \<noteq> inst_state i")
    case True
    then obtain j where r: "r = Inr j" "inst_state j \<noteq> inst_state i" by blast
    let ?s3 = "save_instance q n ((current_instance i s2)\<lparr>inst_state := inst_state j\<rparr>) s2"
    have 3: "good ?s3" "touched s ?s3"
      using good_save_current [OF 2 assms(3), of q n "(current_instance i s2)\<lparr>inst_state := inst_state j\<rparr>"] assms(7)
      by (simp_all add: same_identity_def)
    let ?p = "p\<lparr>proj_state := map_instance_to_project_state (inst_state j)\<rparr>"
    have k: "gm_get (projects (srv_store ?s3)) k = Some p0" using 3(2) assms(4) by (simp add: touched_def)
    have 4: "good (fst (save_project q (Suc n) k ?p ?s3))"
      by (rule good_save_project [OF 3(1) k]) (use assms(5-7) in simp_all)
    have "projects_kept ?s3 (fst (save_project q (Suc n) k ?p ?s3))"
      by (rule projects_kept_save [OF goodD(1) [OF 3(1)] k]) (use assms(5-7) in simp_all)
    then show ?thesis
      using 3 4 projects_kept_touched [OF 3(2)] projects_kept_trans
      by (simp add: reconcile_loaded_def assms(8) c r Let_def) blast
  next
    case False
    then show ?thesis
      using 2 projects_kept_touched [OF 2(2)] by (cases r) (auto simp: reconcile_loaded_def assms(8) c)
  qed
qed

lemma good_reconcile_project:
  assumes "good s" "gm_get (projects (srv_store s)) k = Some p0" "proj_id p = proj_id p0" "proj_name p = proj_name p0"
    "saves q" "rq_ops q = ops"
  shows "good (reconcile_project q n (k, p) s) \<and> projects_kept s (reconcile_project q n (k, p) s)"
    "good (server_reconcile_project q n (k, p) s) \<and> projects_kept s (server_reconcile_project q n (k, p) s)"
proof -
  have same: "projects_kept s s" "projects_kept s (rt_load ops i s)" for i by (simp_all add: projects_kept_def)
  have st: "good (reconcile_loaded q n k p i (rt_load ops i s)) \<and> projects_kept s (reconcile_loaded q n k p i (rt_load ops i s))"
    if "get_instance (proj_id p) (srv_store s) = Some i" for i
    by (rule good_reconcile_loaded [OF _ _ _ assms(2-6)])
      (use assms(1) that get_instance_Some(1) [OF goodD(1) [OF assms(1)]] in \<open>auto simp: touched_same goodD\<close>)
  show "good (reconcile_project q n (k, p) s) \<and> projects_kept s (reconcile_project q n (k, p) s)"
    using assms(1) same st by (simp add: reconcile_project_def assms(6) split: option.split)
  show "good (server_reconcile_project q n (k, p) s) \<and> projects_kept s (server_reconcile_project q n (k, p) s)"
    using assms(1) same st by (simp add: server_reconcile_project_def assms(6) Let_def split: option.split)
qed

lemma good_reconcile_each:
  assumes f: "f = reconcile_project q \<or> f = server_reconcile_project q"
    and "good s" "saves q" "rq_ops q = ops"
    and "\<forall>(k, p) \<in> set es. \<exists>p0. gm_get (projects (srv_store s)) k = Some p0 \<and> proj_id p0 = proj_id p \<and> proj_name p0 = proj_name p"
  shows "good (reconcile_each f n es s) \<and> projects_kept s (reconcile_each f n es s)"
  using assms(2,5)
proof (induction es arbitrary: n s)
  case (Cons e es)
  obtain k p where e: "e = (k, p)" by (cases e)
  obtain p0 where p0: "gm_get (projects (srv_store s)) k = Some p0" "proj_id p = proj_id p0" "proj_name p = proj_name p0"
    using Cons.prems(2) e by auto
  have 1: "good (f n e s)" "projects_kept s (f n e s)"
    using good_reconcile_project [OF Cons.prems(1) p0 assms(3,4), of n] f e by auto
  have "good (reconcile_each f (n + 2) es (f n e s)) \<and> projects_kept (f n e s) (reconcile_each f (n + 2) es (f n e s))"
    by (rule Cons.IH [OF 1(1)]) (use Cons.prems(2) projects_keptD(2) [OF 1(2)] in fastforce)
  then show ?case using projects_kept_trans [OF 1(2)] by simp
qed (simp add: projects_kept_def)

lemma good_reconcile:
  assumes "good s" "saves q" "rq_ops q = ops"
  shows "good (reconcile_state q s) \<and> projects_kept s (reconcile_state q s)"
    "good (server_reconcile_state q s) \<and> projects_kept s (server_reconcile_state q s)"
proof -
  have "\<forall>(k, p) \<in> set (projects (srv_store s)). \<exists>p0. gm_get (projects (srv_store s)) k = Some p0 \<and>
      proj_id p0 = proj_id p \<and> proj_name p0 = proj_name p"
    using api_wfD(2) [OF goodD(1) [OF assms(1)]] by (auto simp: projects_wf_def gm_ok_get)
  then show "good (reconcile_state q s) \<and> projects_kept s (reconcile_state q s)"
    "good (server_reconcile_state q s) \<and> projects_kept s (server_reconcile_state q s)"
    unfolding reconcile_state_def server_reconcile_state_def
    by (intro good_reconcile_each [OF _ assms]; simp)+
qed

section \<open>Every command\<close>

lemma good_with_flags: "good s \<Longrightarrow> (\<And>v. good (fst (f v s))) \<Longrightarrow> good (fst (with_flags x f s))"
  by (simp add: with_flags_def split: sum.split)

lemma run_direct_good:
  assumes "good s" "saves q" "rq_ops q = ops" "rq_uuid q \<noteq> []" "gm_get (projects (srv_store s)) (rq_uuid q) = None"
  shows "good (fst (run_direct h ch q c s))"
proof -
  note a = assms(1-3)
  show ?thesis
  proof (cases c)
    case (Project_Command d)
    then show ?thesis
      by (cases d) (auto intro!: good_with_flags a good_project_create [OF assms] good_reads [OF a(1)] good_project_delete [OF a]
          good_looks [OF a(1)] good_project_edit [OF a(1,3,2)] good_machine [OF a] good_update_init [OF a])
  next
    case (Env_Command d)
    then show ?thesis by (cases d) (auto intro!: good_with_flags a(1) good_env [OF a(1,2)])
  next
    case (Domain_Command d)
    then show ?thesis by (cases d) (auto intro!: good_reads [OF a(1)] good_env [OF a(1,2)])
  next
    case (App_Command d)
    then show ?thesis
      by (cases d) (auto intro!: good_app_edit [OF a(1,2)] good_app_deploy [OF a] good_looks [OF a(1)]
          good_app_calls [OF a(1,3)] good_app_delete [OF a] good_app_logs [OF a(1,3)])
  next
    case (Compose_Command d)
    then show ?thesis by (cases d) (auto intro!: good_compose [OF a] good_looks [OF a(1)])
  next
    case (Node_Command d)
    then show ?thesis by (cases d) (auto intro!: good_nodes [OF a(1,2)] good_reads [OF a(1)])
  next
    case (Deploy_Command path env dry)
    then show ?thesis using good_deploy [OF assms] a(1) by (simp add: run_deploy_def split: sum.split)
  qed
qed

text \<open>From opening the state to the end of the command.\<close>

lemma direct_process_good:
  assumes "loads d" "direct_process h ch q0 q home mk d dir key new_rt no_rt c = Inr (s', r)"
    and "saves q0" "saves q" "rq_ops q0 = ops" "rq_ops q = ops" "rq_uuid q \<noteq> []"
    and fresh: "\<And>l. load_state d = Inr (Some l) \<Longrightarrow> gm_get (ls_projects l) (rq_uuid q) = None"
  shows "good s'"
proof -
  obtain s where o: "open_direct (fst (parent_of c)) (snd (parent_of c)) q0 home mk d dir key new_rt no_rt = Inr s"
    and r: "run_direct h ch q c s = (s', r)"
    using assms(2) by (auto simp: direct_process_def split: sum.splits)
  obtain st where st: "new_store (rq_now q0) home mk d dir = Inr st"
    using o by (auto simp: open_direct_def split: sum.splits)
  let ?s0 = "\<lparr>srv_store = st, srv_has_rt = False, srv_rt = no_rt, srv_routes = None, srv_registry = None, srv_key = key\<rparr>"
  have g0: "good ?s0" by (rule good_opened [OF st assms(1)]) simp
  obtain m where m: "load_state d = Inr m" "st_mem st = (case m of None \<Rightarrow> new_local_state (rq_now q0) | Some l \<Rightarrow> l)"
    using new_store_mem [OF st] by blast
  have f0: "gm_get (projects st) (rq_uuid q) = None"
    using m fresh by (cases m) (auto simp: new_local_state_def)
  have "good s \<and> projects_kept ?s0 s"
  proof (cases "s = ?s0")
    case True
    then show ?thesis using g0 by (simp add: projects_kept_def)
  next
    case False
    then obtain rt where s: "s = reconcile_state q0 (?s0\<lparr>srv_has_rt := True, srv_rt := rt\<rparr>)"
      using o st by (auto simp: open_direct_def Let_def split: if_splits option.splits)
    have "good (?s0\<lparr>srv_has_rt := True, srv_rt := rt\<rparr>)" using g0 by (simp add: good_def)
    then have "good s \<and> projects_kept (?s0\<lparr>srv_has_rt := True, srv_rt := rt\<rparr>) s"
      unfolding s by (rule good_reconcile(1) [OF _ assms(3,5)])
    then show ?thesis by (simp add: projects_kept_def)
  qed
  then have "good s" "gm_get (projects (srv_store s)) (rq_uuid q) = None" using projects_keptD(1) [of ?s0 s] f0 by auto
  then show ?thesis using run_direct_good [OF _ assms(4,6,7), of s h ch c] r by simp
qed

end

lemma new_store_opens:
  assumes "load_state d = Inr m" "\<not> (dir \<noteq> [] \<and> hd dir = CHR ''~'' \<and> home = None)"
  obtains st where "new_store now home True d dir = Inr st"
  using assms by (cases home; cases "dir \<noteq> [] \<and> hd dir = CHR ''~''") (auto simp: new_store_def)

end
