(* ===== verification/Server_Life.thy ===== *)
theory Server_Life
  imports Cli_Keeps
begin

text \<open>
  The life of a server process (cmd/goship/commands/server.go): it opens the state, reconciles it with
  the machines, serves requests and ends. Every request keeps the state file loadable, so a command or
  another server may follow at any time.
\<close>

section \<open>Requests on the state file\<close>

lemma good_on_routes [simp]: "good (on_routes f s) \<longleftrightarrow> good s"
  by (simp add: good_def on_routes_def)

lemma good_require: "good s \<Longrightarrow> good (fst r) \<Longrightarrow> good (fst (require_runtime s r))"
  by (simp add: require_runtime_def)

lemma good_with_project:
  "good s \<Longrightarrow> (\<And>k p. find_project x (srv_store s) = Some (k, p) \<Longrightarrow> good (fst (rest k p))) \<Longrightarrow>
     good (fst (with_project x s rest))"
  by (auto simp: with_project_def split: option.split)

lemma good_with_app:
  "good s \<Longrightarrow> (\<And>a. get_app (proj_id p) n (srv_store s) = Some a \<Longrightarrow> good (fst (rest a))) \<Longrightarrow>
     good (fst (with_app p n s rest))"
  by (auto simp: with_app_def split: option.split)

lemma good_with_instance:
  "good s \<Longrightarrow> (\<And>i. get_instance (proj_id p) (srv_store s) = Some i \<Longrightarrow> good (fst (rest i))) \<Longrightarrow>
     good (fst (with_instance x p s rest))"
  by (auto simp: with_instance_def split: option.split)

lemma good_with_body: "good s \<Longrightarrow> (\<And>y. good (fst (rest y))) \<Longrightarrow> good (fst (with_body b s rest))"
  by (auto simp: with_body_def split: option.split)

lemma good_with_node: "good s \<Longrightarrow> (\<And>n. get_node x (srv_store s) = Inr n \<Longrightarrow> good (fst (rest n))) \<Longrightarrow>
    good (fst (with_node x s rest))"
  by (auto simp: with_node_def split: sum.split)

lemma good_check_none: "good s \<Longrightarrow> (e = None \<Longrightarrow> good (fst r)) \<Longrightarrow> good (fst (check_none e n s r))"
  by (auto simp: check_none_def split: option.split)

lemmas good_api_guards = good_require good_with_project good_with_app good_with_instance good_with_body
  good_with_node good_check_none

lemma good_handle_reads:
  assumes "good s"
  shows "good (fst (handle_project_list s))" "good (fst (handle_project_get x s))" "good (fst (handle_app_list x s))"
    "good (fst (handle_app_get x n s))" "good (fst (handle_node_list s))" "good (fst (handle_node_get x s))"
    "good (fst (handle_node_desired_state x s))" "good (fst (handle_proxy_routes s))" "good (fst (handle_healthz s))"
  unfolding handle_project_list_def handle_project_get_def handle_app_list_def handle_app_get_def handle_node_list_def
    handle_node_get_def handle_node_desired_state_def handle_proxy_routes_def handle_healthz_def
  by (intro good_api_guards good_pair assms)+

lemma good_handle_env:
  assumes "good s" "saves q"
  shows "good (fst (handle_env_set q x b s))" "good (fst (handle_env_list q x v s))" "good (fst (handle_env_delete q x b' s))"
    "good (fst (handle_domains_update q x b'' s))"
proof -
  show "good (fst (handle_env_set q x b s))"
    unfolding handle_env_set_def
    by (intro good_api_guards good_cases good_pair assms(1))
      (use assms good_save_found in \<open>auto dest!: sealed_good [OF assms(1)] elim!: good_save_found [rotated 6]\<close>)
  show "good (fst (handle_env_list q x v s))"
    unfolding handle_env_list_def
    by (intro good_api_guards good_cases good_pair assms(1)) (use decrypt_good [OF assms(1)] in auto)
  show "good (fst (handle_env_delete q x b' s))"
    unfolding handle_env_delete_def
    by (intro good_api_guards good_cases good_pair assms(1); elim good_save_found [OF assms(1) _ _ _ _ assms(2), rotated 4]; simp)
  show "good (fst (handle_domains_update q x b'' s))"
    unfolding handle_domains_update_def Let_def
    by (intro good_api_guards good_cases good_pair good_on_routes [THEN iffD2] assms(1);
        elim good_save_found [OF assms(1) _ _ _ _ assms(2), rotated 4]; simp)
qed

lemma good_handle_nodes:
  assumes "good s" "saves q"
  shows "good (fst (handle_node_register q b s))" "good (fst (handle_node_delete q x s))"
    "good (fst (handle_node_heartbeat q x s))" "good (fst (handle_node_drain q x s))"
proof -
  show "good (fst (handle_node_register q b s))"
    unfolding handle_node_register_def assms(2) [THEN spec]
  proof (intro good_api_guards good_cases good_pair assms(1))
    fix req s' and e :: "store_error option"
    assume new: "\<not> (\<exists>n \<in> set (list_nodes (srv_store s)). node_hostname n = rn_hostname req)"
      and r: "on_store (set_node (rq_now q) SaveOk (node_of_request q req)) s = (s', e)"
    show "good s'"
      by (rule good_set_node [OF assms(1) _ r], rule set_node_kept [OF goodD(1) [OF assms(1)]])
        (use new in \<open>force simp: list_nodes_def node_of_request_def\<close>)
    then show "good s'" .
  qed
  have "good (fst (on_store (delete_node (rq_now q) SaveOk x) s))"
    by (rule good_on_store [where f = "delete_node (rq_now q) SaveOk x", OF assms(1) delete_node_kept [OF goodD(1) [OF assms(1)]] refused_disk(5)])
  then show "good (fst (handle_node_delete q x s))"
    unfolding handle_node_delete_def assms(2) [THEN spec]
    by (auto split: prod.split option.split store_error.split)
  show "good (fst (handle_node_heartbeat q x s))" "good (fst (handle_node_drain q x s))"
    unfolding handle_node_heartbeat_def handle_node_drain_def save_node_def assms(2) [THEN spec]
    by (intro good_api_guards good_cases good_pair assms(1);
        erule good_set_node [OF assms(1) found_node_kept [OF goodD(1) [OF assms(1)]], rotated 3]; simp)+
qed

lemma good_update_rest:
  assumes "good s" "saves q" "has_app (proj_id p) n s" "app_name a = n"
  shows "good (fst (app_update_rest q p n r a s))"
  unfolding app_update_rest_def Let_def
proof (intro good_cases good_pair)
  let ?a = "apply_second r a"
  show g: "good (put_app (proj_id p) n ?a s)" by (rule good_put_has [OF assms(1,3)]) (simp add: assms(4))
  fix s3 and e :: "store_error option"
  assume o: "on_store (set_app (rq_now q) (rq_save q 0) (proj_id p) (Some ?a)) (put_app (proj_id p) n ?a s) = (s3, e)"
  have "good s3" by (rule good_set_app_after [OF g _ o]) (simp add: assms(2))
  then show "good s3" "good (if ua_hostname r \<noteq> None \<or> ua_available r \<noteq> None
      then on_routes (reconcile_app_routes p ?a (get_hostname a) (srv_store s3)) s3 else s3)" by simp_all
qed

lemma good_handle_apps:
  assumes "good s" "saves q"
  shows "good (fst (handle_app_create q x b s))" "good (fst (handle_app_update q x n u s))"
proof -
  show "good (fst (handle_app_create q x b s))"
    unfolding handle_app_create_def Let_def
    by (intro good_api_guards good_cases good_pair assms(1); erule good_set_app_after [OF assms(1), rotated]; simp add: assms(2))
  show "good (fst (handle_app_update q x n u s))"
    unfolding handle_app_update_def Let_def
  proof (intro good_api_guards assms(1))
    fix k a0 r and p :: project
    assume a0: "get_app (proj_id p) n (srv_store s) = Some a0"
    let ?a = "apply_first r a0"
    have nm: "app_name a0 = n" using get_app_wf(1) [OF goodD(1) [OF assms(1)] a0] by simp
    have g: "good (put_app (proj_id p) n ?a s)" by (rule good_put_app [OF assms(1) a0]) simp
    show "good (fst (case ua_restart_policy r of
         None \<Rightarrow> app_update_rest q p n r ?a (put_app (proj_id p) n ?a s)
       | Some rp \<Rightarrow> if \<not> valid_policy rp then (put_app (proj_id p) n ?a s, write_error 400 (MsgInvalidPolicy rp))
           else app_update_rest q p n r ?a (put_app (proj_id p) n ?a s)))"
      by (intro good_cases good_pair g good_update_rest [OF g assms(2)]) (simp_all add: nm)
  qed
qed

context project_runtime
begin

lemma quiet_vm_logs: "good s \<Longrightarrow> rt_call ops iid (op_vm_logs ops y src file k) s = (s', l) \<Longrightarrow> good s' \<and> srv_store s' = srv_store s"
  by (rule good_quiet [OF _ vm_logs])

lemma good_handle_calls:
  assumes "good s" "rq_ops q = ops"
  shows "good (fst (handle_app_stop q x n s))" "good (fst (handle_app_logs q x n k s))"
    "good (fst (handle_project_logs q x src k file s))" "good (fst (handle_push_image q x form s))"
proof -
  have l: "good (rt_load ops i s)" for i using assms(1) by simp
  show "good (fst (handle_app_stop q x n s))"
    unfolding handle_app_stop_def assms(2)
    by (intro good_api_guards good_cases good_pair good_on_routes [THEN iffD2] assms(1)) (use quiet_calls(2) [OF l] in blast)+
  show "good (fst (handle_app_logs q x n k s))"
    unfolding handle_app_logs_def assms(2)
    by (intro good_api_guards good_cases good_pair assms(1)) (use quiet_calls(6) [OF l] in blast)+
  show "good (fst (handle_project_logs q x src k file s))"
    unfolding handle_project_logs_def assms(2)
    by (intro good_api_guards good_cases good_pair assms(1)) (use quiet_vm_logs [OF l] in blast)+
  show "good (fst (handle_push_image q x form s))"
    unfolding handle_push_image_def assms(2)
    by (intro good_api_guards good_cases good_pair assms(1)) (use quiet_calls(5) [OF l] in blast)+
qed

lemma good_override:
  assumes "good s" "saves q" "get_app (proj_id p) n (srv_store s) = Some a0" "override_image q p n a0 b s = (s1, r)"
  shows "good s1"
proof -
  have "good (fst (override_image q p n a0 b s))"
  proof (cases b)
    case (ImageOverride img)
    let ?a = "a0\<lparr>app_image := img\<rparr>"
    have g: "good (put_app (proj_id p) n ?a s)" by (rule good_put_app [OF assms(1,3)]) simp
    show ?thesis
      unfolding override_image_def ImageOverride deploy_body.case Let_def
      by (intro good_cases good_pair assms(1); erule good_set_app_after [OF g, rotated]; simp add: assms(2))
  qed (simp_all add: override_image_def assms(1))
  then show ?thesis using assms(4) by simp
qed

lemma good_handle_deploy:
  assumes "good s" "saves q" "rq_ops q = ops"
  shows "good (fst (handle_app_deploy q x n b s))"
  unfolding handle_app_deploy_def assms(3)
proof (intro good_api_guards good_cases good_pair assms(1) good_on_routes [THEN iffD2])
  fix p :: project and a0 s1 and r :: "nat \<times> api_error + app_spec"
  assume a0: "get_app (proj_id p) n (srv_store s) = Some a0" and o: "override_image q p n a0 b s = (s1, r)"
  have 1: "good s1" by (rule good_override [OF assms(1,2) a0 o])
  show "good s1" "good s1" "good s1" by (rule 1)+
  fix s2 i a and e :: "rt_error option"
  assume "rt_call ops (inst_id i) (op_deploy ops (inst_id i) a) (rt_load ops i s1) = (s2, e)"
  then show "good s2" "good s2" using quiet_calls(1) [of "rt_load ops i s1"] 1 by auto
qed

lemma good_handle_app_delete:
  assumes "good s" "saves q" "rq_ops q = ops"
  shows "good (fst (handle_app_delete q x n s))"
  unfolding handle_app_delete_def Let_def assms(3) assms(2) [THEN spec]
proof (intro good_api_guards good_cases good_pair assms(1))
  fix a s3 and p :: project and e :: "store_error option"
  let ?s1 = "on_routes (remove_app_routes p a) s"
  let ?s2 = "case get_instance (proj_id p) (srv_store ?s1) of None \<Rightarrow> ?s1
     | Some i \<Rightarrow> fst (rt_call ops (inst_id i) (op_remove_app ops (inst_id i) n) (rt_load ops i ?s1))"
  assume r: "on_store (delete_app (rq_now q) SaveOk (proj_id p) n) ?s2 = (s3, e)"
  have "good ?s2"
    using quiet_calls(3) [of "rt_load ops _ ?s1"] assms(1) by (simp split: option.split) (metis prod.collapse)
  then show "good s3" using good_delete_app [of ?s2 "rq_now q" "proj_id p" n] r by simp
  then show "good s3" .
qed

lemma good_handle_update:
  assumes "good s" "saves q" "rq_ops q = ops"
  shows "good (fst (handle_project_update q x b s))"
  unfolding handle_project_update_def Let_def assms(3)
proof (intro good_api_guards good_cases good_pair assms(1))
  fix k p i r
  assume p: "find_project x (srv_store s) = Some (k, p)" and i: "get_instance (proj_id p) (srv_store s) = Some i"
  note f = found [OF assms(1) p i]
  have put: "good (put_project k (p\<lparr>proj_resources := c\<rparr>) s)" for c
    by (rule good_put_project [OF assms(1) f(2)]) simp_all
  show "good (put_project k (p\<lparr>proj_resources := update_cpu r (proj_resources p)\<rparr>) s)"
    "good (put_project k (p\<lparr>proj_resources := c\<rparr>) s)" "good (put_project k (p\<lparr>proj_resources := c\<rparr>) s)" for c
    by (rule put)+
  fix c s1 and e :: "rt_error option"
  let ?p = "p\<lparr>proj_resources := c\<rparr>"
  assume c: "rt_call ops (inst_id i) (op_resize ops (inst_id i) ?p) (rt_load ops i (put_project k ?p s)) = (s1, e)"
  have 1: "good s1" "srv_store s1 = srv_store (put_project k ?p s)"
    using quiet_calls(7) [OF _ c] put by simp_all
  have "good (fst (save_project q 0 k ?p s1))"
    by (rule good_save_project [OF 1(1), where ?p0.0 = ?p]) (use 1(2) assms(2) in \<open>simp_all add: gomap_simps\<close>)
  then show "good s2" "good s2" if "save_project q 0 k ?p s1 = (s2, y)" for s2 y using that by simp_all
  show "good s1" by (rule 1)
qed

text \<open>Starting, stopping and restarting machines.\<close>

lemma good_start_reply:
  assumes "good s1" "touched s s1" "gm_get (instances (srv_store s)) (inst_id i) = Some i"
    "gm_get (projects (srv_store s)) k = Some p" "saves q" "rq_ops q = ops"
  shows "good (fst (start_and_reply q k p i s1))"
  unfolding start_and_reply_def started_def Let_def assms(6)
proof (intro good_cases good_pair)
  fix s2 and e :: "rt_error option"
  assume c: "rt_call ops (inst_id i) (op_start ops (inst_id i)) s1 = (s2, e)"
  have 2: "good s2" "touched s s2" using kept_calls(1) [OF assms(1) c] touched_trans [OF assms(2)] by auto
  note 3 = good_save_current [OF 2 assms(3), of q 0 "current_instance i s2"]
  show "good s2" by (rule 2)
  fix s3 y
  assume "save_project q 1 k (p\<lparr>proj_state := ProjRunning\<rparr>) (save_instance q 0 (current_instance i s2) s2) = (s3, y)"
  moreover have "good (fst (save_project q 1 k (p\<lparr>proj_state := ProjRunning\<rparr>) (save_instance q 0 (current_instance i s2) s2)))"
    by (rule good_save_state [OF 3 assms(4)]) (use assms(5) in simp_all)
  ultimately show "good s3" by simp
qed

lemma good_handle_machine:
  assumes "good s" "saves q" "rq_ops q = ops"
  shows "good (fst (handle_project_start q x s))" "good (fst (handle_project_restart q x s))" "good (fst (handle_project_stop q x s))"
proof -
  show "good (fst (handle_project_start q x s))"
    unfolding handle_project_start_def assms(3)
    by (intro good_api_guards assms(1)) (use assms found in \<open>auto intro!: good_start_reply [OF _ _ _ _ assms(2,3)]\<close>)
  show "good (fst (handle_project_restart q x s))"
    unfolding handle_project_restart_def assms(3)
  proof (intro good_api_guards good_cases good_pair assms(1))
    fix k p i s1 and e :: "rt_error option"
    assume p: "find_project x (srv_store s) = Some (k, p)" and i: "get_instance (proj_id p) (srv_store s) = Some i"
      and c: "rt_call ops (inst_id i) (op_stop ops (inst_id i)) (rt_load ops i s) = (s1, e)"
    note f = found [OF assms(1) p i]
    have 1: "good s1" "touched s s1" using kept_calls(2) [OF f(3) c] touched_trans [OF f(4)] by auto
    show "good s1" by (rule 1)
    fix s2 b
    assume po: "poll_stopped ops (inst_id i) (rq_ticks q) s1 = (s2, b)"
    have 2: "good s2" "touched s s2" using good_poll [OF 1(1) po] touched_trans [OF 1(2)] by auto
    show "good (fst (start_and_reply q k p i s2))" by (rule good_start_reply [OF 2 f(1,2) assms(2,3)])
    show "good s2" by (rule 2)
  qed
  show "good (fst (handle_project_stop q x s))"
    unfolding handle_project_stop_def assms(3) Let_def
  proof (intro good_api_guards good_cases good_pair assms(1))
    fix k p i s1 and e :: "rt_error option"
    assume p: "find_project x (srv_store s) = Some (k, p)" and i: "get_instance (proj_id p) (srv_store s) = Some i"
      and c: "rt_call ops (inst_id i) (op_stop ops (inst_id i)) (rt_load ops i s) = (s1, e)"
    note f = found [OF assms(1) p i]
    have 1: "good s1" "touched s s1" using kept_calls(2) [OF f(3) c] touched_trans [OF f(4)] by auto
    show "good s1" by (rule 1)
    note s = good_save_current [OF 1 f(1), of q 0 "(current_instance i s1)\<lparr>inst_state := InstStopped\<rparr>"]
    show "good (fst (save_project q 1 k (p\<lparr>proj_state := ProjStopped\<rparr>)
        (save_instance q 0 ((current_instance i s1)\<lparr>inst_state := InstStopped\<rparr>) s1)))"
      by (rule good_save_state [OF s f(2)]) (use assms(2) in \<open>simp_all add: same_identity_def\<close>)
  qed
qed

text \<open>The update of the guest agent stops and starts the machine when asked to.\<close>

lemma good_restart_after:
  assumes "good s" "rq_ops q = ops"
  shows "good (fst (restart_after_update q i r s))"
  unfolding restart_after_update_def assms(2)
proof (intro good_cases good_pair)
  fix s1 and e :: "rt_error option"
  assume "rt_call ops (inst_id i) (op_stop ops (inst_id i)) s = (s1, e)"
  then have 1: "good s1" using kept_calls(2) [OF assms(1)] by blast
  then show "good s1" .
  fix s2 b
  assume "poll_stopped ops (inst_id i) (rq_ticks q) s1 = (s2, b)"
  then have 2: "good s2" using good_poll [OF 1] by blast
  then show "good s2" .
  fix s3 and e' :: "rt_error option"
  assume "rt_call ops (inst_id i) (op_start ops (inst_id i)) s2 = (s3, e')"
  then show "good s3" "good s3" using kept_calls(1) [OF 2] by blast+
qed

lemma good_handle_update_init:
  assumes "good s" "rq_ops q = ops"
  shows "good (fst (handle_update_init_api q x form s))"
  unfolding handle_update_init_api_def Let_def assms(2)
proof (intro good_api_guards good_cases good_pair assms(1))
  fix i rd len s1 and e :: "rt_error option" and rs :: response
  assume "rt_call ops (inst_id i) (op_upload_binary ops (inst_id i) ''goship-init'' ''goship-init'' rd len []) (rt_load ops i s) = (s1, e)"
  then have 1: "good s1" using quiet_calls(4) [of "rt_load ops i s"] assms(1) by auto
  then show "good s1" "good s1" by simp_all
  show "good (fst (restart_after_update q i rs s1))" for rs by (rule good_restart_after [OF 1 assms(2)])
qed

text \<open>Deletion and creation of projects.\<close>

lemma good_handle_delete:
  assumes "good s" "saves q" "rq_ops q = ops"
  shows "good (fst (handle_project_delete q x s))"
  unfolding handle_project_delete_def Let_def assms(2) [THEN spec]
proof (intro good_api_guards good_cases good_pair assms(1))
  fix k s' and p :: project and e :: "store_error option"
  assume p: "find_project x (srv_store s) = Some (k, p)"
  let ?s1 = "on_routes (fold (remove_app_routes p) (get_apps (proj_id p) (srv_store s))) s"
  let ?s2 = "case get_instance (proj_id p) (srv_store s) of None \<Rightarrow> ?s1 | Some i \<Rightarrow> drop_instance q i ?s1"
  assume r: "on_store (delete_project (rq_now q) SaveOk (proj_id p)) (drop_registry q p ?s2) = (s', e)"
  note k = find_project_wf [OF goodD(1) [OF assms(1)] p]
  have s1: "good ?s1" "srv_store ?s1 = srv_store s" using assms(1) by (simp, simp add: on_routes_def)
  have 2: "good ?s2" "projects (srv_store ?s2) = projects (srv_store s)"
    "\<forall>(k, j) \<in> set (instances (srv_store ?s2)). inst_project_id j \<noteq> proj_id p"
    using good_drop_instance [OF s1(1) _ assms(2,3), of "proj_id p"] s1 get_instance_None [of "proj_id p" "srv_store s"]
    by (auto split: option.split)
  have st: "srv_store (drop_registry q p ?s2) = srv_store ?s2" by (simp add: drop_registry_def)
  have "good (fst (on_store (delete_project (rq_now q) SaveOk (proj_id p)) (drop_registry q p ?s2)))"
  proof (rule good_on_store [where f = "delete_project (rq_now q) SaveOk (proj_id p)", OF good_same [OF 2(1) st] _ refused_disk(4)])
    show "kept_saved (delete_project (rq_now q) SaveOk (proj_id p) (srv_store (drop_registry q p ?s2)))"
      unfolding st by (rule delete_project_kept [OF goodD(1) [OF 2(1)] 2(3)]) (use k 2(2) in auto)
  qed
  then show "good s'" using r by simp
  then show "good s'" .
qed

lemma good_domains:
  assumes "good s" "gm_get (projects (srv_store s)) (proj_id p) = Some p" "saves q" "with_domains q req p s = (s', p')"
  shows "good s'"
proof (cases "cp_domains req = []")
  case False
  let ?p = "p\<lparr>proj_domains := cp_domains req, proj_default_domain := default_domain (cp_domains req) (cp_default_domain req)\<rparr>"
  have "good (fst (save_project q 1 (proj_id p) ?p s))"
    by (rule good_save_project [OF assms(1,2)]) (use assms(3) in simp_all)
  then show ?thesis using False assms(4) by (auto simp: with_domains_def Let_def split: prod.splits)
qed (use assms in \<open>simp add: with_domains_def\<close>)

lemma good_handle_create:
  assumes "good s" "saves q" "rq_ops q = ops" and fresh: "rq_uuid q \<noteq> []" "gm_get (projects (srv_store s)) (rq_uuid q) = None"
  shows "good (fst (handle_project_create q b s))"
  unfolding handle_project_create_def assms(3) assms(2) [THEN spec]
proof (intro good_api_guards assms(1))
  fix req :: create_project_request
  let ?cr = "create_project (rq_now q) (rq_uuid q) SaveOk (cp_name req) RuntimeQEMU (cp_resources req)"
  let ?rest = "\<lambda>s1 p0. case with_domains q req p0 s1 of (s2, p) \<Rightarrow>
          (case op_create ops p (srv_rt s2) of
             (r, Inl e) \<Rightarrow>
               (fst (on_store (delete_project (rq_now q) SaveOk (proj_id p)) (s2\<lparr>srv_rt := r\<rparr>)),
                write_error 500 (MsgRuntime e))
           | (r, Inr i) \<Rightarrow>
             (case save_project q 2 (proj_id p) (p\<lparr>proj_state := ProjRunning\<rparr>) (s2\<lparr>srv_rt := r\<rparr>) of
               (s3, p', _) \<Rightarrow>
                 (fst (on_store (set_instance (rq_now q) SaveOk (Some i)) s3),
                  reply 201 (BProjectFull p' (Some i) []))))"
  obtain st1 r0 where st1: "?cr (srv_store s) = (st1, r0)" by (rule prod.exhaust)
  let ?s1 = "s\<lparr>srv_store := st1\<rparr>"
  have c: "on_store ?cr s = (?s1, r0)" by (simp add: on_store_def st1)
  note wf = goodD(1) [OF assms(1)]
  note k = create_project_kept [OF wf fresh st1]
  have er: "good ?s1" if "r0 = Inl e" for e
    using create_works_or_refuses [OF st1] that good_same [OF assms(1), of ?s1] by auto
  have rest: "good (fst (?rest ?s1 p0))" if r0: "r0 = Inr p0" for p0
  proof -
    note k2 = k(2) [OF r0]
    have g1: "good ?s1"
      by (rule good_synced) (use k(1) create_works_or_refuses [OF st1] r0 state_wf_loads in \<open>auto simp: synced_def api_wf_def\<close>)
    have "instances st1 = instances (srv_store s)"
      using create_project_fields(1) [of "rq_now q" "rq_uuid q" SaveOk "cp_name req" RuntimeQEMU "cp_resources req" "srv_store s"] st1
      by simp
    then have none1: "\<forall>(k, j) \<in> set (instances st1). inst_project_id j \<noteq> proj_id p0"
      using no_instance_of_fresh [OF wf fresh(2)] k2 by auto
    obtain s2 p where wd: "with_domains q req p0 ?s1 = (s2, p)" by (rule prod.exhaust)
    have p0: "gm_get (projects (srv_store ?s1)) (proj_id p0) = Some p0" using k2 by simp
    note d = with_domains_kept [OF goodD(1) [OF g1] p0 wd]
    have g2: "good (s2\<lparr>srv_rt := r\<rparr>)" for r using good_domains [OF g1 p0 assms(2) wd] by simp
    have pp: "gm_get (projects (srv_store (s2\<lparr>srv_rt := r\<rparr>))) (proj_id p) = Some p" for r using d(2,3) by simp
    have none: "\<forall>(k, j) \<in> set (instances (srv_store (s2\<lparr>srv_rt := r\<rparr>))). inst_project_id j \<noteq> proj_id p" for r
      using none1 d(3,5) by simp
    show ?thesis
      unfolding wd prod.case
    proof (intro good_cases good_pair)
      fix rt and e :: rt_error
      let ?s2 = "s2\<lparr>srv_rt := rt\<rparr>"
      show "good (fst (on_store (delete_project (rq_now q) SaveOk (proj_id p)) ?s2))"
      proof (rule good_on_store [where f = "delete_project (rq_now q) SaveOk (proj_id p)", OF g2 _ refused_disk(4)])
        show "kept_saved (delete_project (rq_now q) SaveOk (proj_id p) (srv_store ?s2))"
          by (rule delete_project_kept [OF goodD(1) [OF g2] none]) (use pp [of rt] d(3) k2 fresh in simp_all)
      qed
    next
      fix rt x i s3 y p' and e :: "store_error option"
      assume o: "op_create ops p (srv_rt s2) = (rt, x)" "x = Inr i"
        and s3: "save_project q 2 (proj_id p) (p\<lparr>proj_state := ProjRunning\<rparr>) (s2\<lparr>srv_rt := rt\<rparr>) = (s3, y)" "y = (p', e)"
      show "good (fst (on_store (set_instance (rq_now q) SaveOk (Some i)) s3))"
        by (rule good_created(1) [OF g2 pp none _ assms(2) s3(1) [unfolded s3(2)]])
          (use create_ok [OF o(1) [unfolded o(2)]] in simp)
    qed
  qed
  show "good (fst (case on_store ?cr s of
        (s1, Inl (ProjectExists n)) \<Rightarrow> (s1, write_error 409 (MsgStore (ProjectExists n)))
      | (s1, Inl e) \<Rightarrow> (s1, write_error 500 (MsgStore e))
      | (s1, Inr p0) \<Rightarrow> ?rest s1 p0))"
    unfolding c prod.case
    by (cases r0) (use er rest in \<open>auto split: store_error.split\<close>)
qed

theorem good_handle:
  assumes "good s" "saves q" "rq_ops q = ops" "rq_uuid q \<noteq> []" "gm_get (projects (srv_store s)) (rq_uuid q) = None"
  shows "good (fst (handle q req s))"
  by (cases req)
    (simp_all only: handle.simps good_handle_reads [OF assms(1)] good_handle_env [OF assms(1,2)] good_handle_nodes [OF assms(1,2)]
      good_handle_apps [OF assms(1,2)] good_handle_calls [OF assms(1,3)] good_handle_deploy [OF assms(1-3)]
      good_handle_app_delete [OF assms(1-3)] good_handle_update [OF assms(1-3)] good_handle_machine [OF assms(1-3)]
      good_handle_update_init [OF assms(1,3)] good_handle_delete [OF assms(1-3)] good_handle_create [OF assms])

end

section \<open>A server process\<close>

text \<open>
  What happens to a running server: a request reaches the API, a visitor's request reaches the proxy,
  or the machines change. The proxy reads the route table the API writes, and keeps its cache of
  backends. \<open>Serve\<close> carries the surroundings of its request.
\<close>

datatype 'r server_event = Serve "'r api_env" request | Visit string | Machines 'r

datatype 'u server_answer = Answered response | Proxied "'u proxy_response"

definition route_table_of :: "'r server \<Rightarrow> route_table" where
  "route_table_of s = (case srv_routes s of None \<Rightarrow> new_route_table | Some rt \<Rightarrow> rt)"

fun serve :: "(string \<Rightarrow> 'u option) \<Rightarrow> 'r server_event list \<Rightarrow> 'r server \<Rightarrow> 'u gomap \<Rightarrow> 'r server \<times> 'u server_answer list" where
  "serve parse_url [] s cache = (s, [])"
| "serve parse_url (Serve q req # es) s cache =
     (case handle q req s of (s1, rs) \<Rightarrow>
       (case serve parse_url es s1 cache of (s2, as) \<Rightarrow> (s2, Answered rs # as)))"
| "serve parse_url (Visit host # es) s cache =
     (case serve_http parse_url (route_table_of s) host cache of (cache', r) \<Rightarrow>
       (case serve parse_url es s cache' of (s2, as) \<Rightarrow> (s2, Proxied r # as)))"
| "serve parse_url (Machines r # es) s cache = serve parse_url es (s\<lparr>srv_rt := r\<rparr>) cache"

text \<open>Store, runtime and reconciliation; then the registry, the routes and the listeners.\<close>

definition open_server ::
    "'r api_env \<Rightarrow> string option \<Rightarrow> bool \<Rightarrow> disk_file \<Rightarrow> string \<Rightarrow> key_file \<Rightarrow> 'r option \<Rightarrow> cli_error + 'r server" where
  "open_server q home mkdir d dir key new_rt =
     (case new_store (rq_now q) home mkdir d dir of Inl e \<Rightarrow> Inl (CliStore e)
      | Inr st \<Rightarrow>
        (case new_rt of None \<Rightarrow> Inl CliNoRuntime
         | Some r \<Rightarrow> Inr (server_reconcile_state q \<lparr>srv_store = st, srv_has_rt = True, srv_rt = r,
             srv_routes = None, srv_registry = None, srv_key = key\<rparr>)))"

definition start_server :: "(string \<Rightarrow> bool) \<Rightarrow> 'r server \<Rightarrow> 'r server" where
  "start_server reg s = rebuild_routes (s\<lparr>srv_routes := Some new_route_table, srv_registry := Some reg\<rparr>)"

text \<open>The server ends at a signal, with the outcome of its shutdown, or when it cannot listen.\<close>

datatype server_end = Signalled bool | ListenFailed

datatype server_error = StartFailed cli_error | ListenError | ShutdownFailed

fun end_error :: "server_end \<Rightarrow> server_error option" where
  "end_error ListenFailed = Some ListenError"
| "end_error (Signalled ok) = (if ok then None else Some ShutdownFailed)"

definition run_server ::
    "(string \<Rightarrow> 'u option) \<Rightarrow> 'r api_env \<Rightarrow> string option \<Rightarrow> bool \<Rightarrow> disk_file \<Rightarrow> string \<Rightarrow> key_file \<Rightarrow> 'r option \<Rightarrow>
     (string \<Rightarrow> bool) option \<Rightarrow> 'r server_event list \<Rightarrow> server_end \<Rightarrow>
     'r server option \<times> 'u server_answer list \<times> server_error option" where
  "run_server parse_url q home mkdir d dir key new_rt reg es fin =
     (case open_server q home mkdir d dir key new_rt of Inl e \<Rightarrow> (None, [], Some (StartFailed e))
      | Inr s \<Rightarrow>
        (case reg of None \<Rightarrow> (Some s, [], Some (StartFailed CliNoRegistry))
         | Some g \<Rightarrow> (case serve parse_url es (start_server g s) [] of (s', as) \<Rightarrow> (Some s', as, end_error fin))))"

section \<open>A server keeps the state file loadable\<close>

text \<open>The requests a life consists of: writes work, and a new identifier is in fact new.\<close>

fun calls_ok :: "('r api_env \<Rightarrow> bool) \<Rightarrow> 'r server_event list \<Rightarrow> 'r server \<Rightarrow> bool" where
  "calls_ok P [] s \<longleftrightarrow> True"
| "calls_ok P (Serve q req # es) s \<longleftrightarrow> P q \<and> saves q \<and> rq_uuid q \<noteq> [] \<and>
     gm_get (projects (srv_store s)) (rq_uuid q) = None \<and> calls_ok P es (fst (handle q req s))"
| "calls_ok P (Visit host # es) s \<longleftrightarrow> calls_ok P es s"
| "calls_ok P (Machines r # es) s \<longleftrightarrow> calls_ok P es (s\<lparr>srv_rt := r\<rparr>)"

lemma good_serve:
  assumes "\<And>q. P q \<Longrightarrow> project_runtime (rq_ops q)" "good s" "calls_ok P es s"
  shows "good (fst (serve parse_url es s cache))"
  using assms(2,3)
proof (induction es arbitrary: s cache)
  case (Cons e es)
  show ?case
  proof (cases e)
    case (Serve q req)
    obtain s1 rs where h: "handle q req s = (s1, rs)" by (rule prod.exhaust)
    have "good s1" using project_runtime.good_handle [OF assms(1) Cons.prems(1) _ refl, of q req] Cons.prems(2) h Serve by simp
    then have "good (fst (serve parse_url es s1 cache))" using Cons.IH Cons.prems(2) h Serve by simp
    then show ?thesis by (simp add: Serve h split: prod.split) (metis fst_conv)
  next
    case (Visit host)
    obtain cache' r where v: "serve_http parse_url (route_table_of s) host cache = (cache', r)" by (rule prod.exhaust)
    have "good (fst (serve parse_url es s cache'))" using Cons.IH Cons.prems Visit by simp
    then show ?thesis by (simp add: Visit v split: prod.split) (metis fst_conv)
  next
    case (Machines r)
    then show ?thesis using Cons.IH [of "s\<lparr>srv_rt := r\<rparr>"] Cons.prems by simp
  qed
qed simp

context project_runtime
begin

lemma good_open_server:
  assumes "loads d" "open_server q home mk d dir key new_rt = Inr s" "saves q" "rq_ops q = ops"
  shows "good s"
proof -
  obtain st r where st: "new_store (rq_now q) home mk d dir = Inr st"
    and s: "s = server_reconcile_state q \<lparr>srv_store = st, srv_has_rt = True, srv_rt = r, srv_routes = None,
      srv_registry = None, srv_key = key\<rparr>"
    using assms(2) by (auto simp: open_server_def split: sum.splits option.splits)
  show ?thesis
    unfolding s
    by (rule good_reconcile(2) [OF _ assms(3,4), THEN conjunct1], rule good_opened [OF st assms(1)]) simp
qed

lemma good_start_server: "good (start_server g s) \<longleftrightarrow> good s"
  by (simp add: start_server_def rebuild_routes_def) (simp add: good_def)

end

section \<open>State files\<close>

text \<open>The state files that processes leave one after the other, commands in direct mode and servers, each
  with its own clock, guests and machines: whatever these did meanwhile is in the runtime a process opens.\<close>

inductive left_behind :: "'w hypervisor \<Rightarrow> disk_file \<Rightarrow> bool" for hv where
  left_nothing: "left_behind hv NoFile"
| left_by_process: "left_behind hv d \<Longrightarrow>
    direct_process h ch q0 q home mk d dir key new_rt no_rt c = Inr (s', r) \<Longrightarrow>
    saves q0 \<Longrightarrow> saves q \<Longrightarrow> rq_ops q0 = libvirt_ops hv vch e \<Longrightarrow> rq_ops q = libvirt_ops hv vch e \<Longrightarrow>
    rq_uuid q \<noteq> [] \<Longrightarrow> (\<And>l. load_state d = Inr (Some l) \<Longrightarrow> gm_get (ls_projects l) (rq_uuid q) = None) \<Longrightarrow>
    left_behind hv (disk s')"
| left_by_server: "left_behind hv d \<Longrightarrow>
    run_server (parse_url :: string \<Rightarrow> string option) q0 home mk d dir key new_rt reg es fin = (Some s', as, r) \<Longrightarrow>
    saves q0 \<Longrightarrow> rq_ops q0 = libvirt_ops hv vch e \<Longrightarrow>
    (\<And>s g. open_server q0 home mk d dir key new_rt = Inr s \<Longrightarrow> reg = Some g \<Longrightarrow>
       calls_ok (\<lambda>q. \<exists>vch e. rq_ops q = libvirt_ops hv vch e) es (start_server g s)) \<Longrightarrow>
    left_behind hv (disk s')"

lemma left_behind_loads: "left_behind hv d \<Longrightarrow> loads d"
proof (induction rule: left_behind.induct)
  case left_nothing
  then show ?case by (simp add: loads_def load_state_def)
next
  case (left_by_process d h ch q0 q home mk dir key new_rt no_rt c s' r vch e)
  then have "good s'" using lv.direct_process_good [of d h ch q0 q home mk dir key new_rt no_rt c s' r] by blast
  then show ?case by (rule goodD)
next
  case (left_by_server d parse_url q0 home mk dir key new_rt reg es fin s' as r vch e)
  obtain s where o: "open_server q0 home mk d dir key new_rt = Inr s"
    using left_by_server.hyps(2) by (auto simp: run_server_def split: sum.splits)
  have g: "good s" by (rule lv.good_open_server [OF left_by_server.IH o left_by_server.hyps(3,4)])
  show ?case
  proof (cases reg)
    case (Some rg)
    have "good (start_server rg s)" by (simp add: lv.good_start_server g)
    then have "good (fst (serve parse_url es (start_server rg s) []))"
      by (rule good_serve [rotated, OF _ left_by_server.hyps(5) [OF o Some]]) (auto intro: lv.project_runtime_axioms)
    then show ?thesis
      using left_by_server.hyps(2) o Some goodD(2) by (auto simp: run_server_def split: prod.splits)
  qed (use left_by_server.hyps(2) o g goodD(2) in \<open>auto simp: run_server_def\<close>)
qed

end
