(* ===== verification/Server_Routes.thy ===== *)
theory Server_Routes
  imports Server_Life Reconcile
begin

text \<open>
  A running server as a whole: the API writes the route table that the proxy reads, so a deploy is
  visible to the next visitor.
\<close>

section \<open>The routes of a running server\<close>

text \<open>No handler takes the route table away from a server that has one.\<close>

definition routed :: "'r server \<Rightarrow> bool" where "routed s \<longleftrightarrow> srv_routes s \<noteq> None"

lemma routed_cong: "srv_routes s' = srv_routes s \<Longrightarrow> routed s' = routed s"
  by (simp add: routed_def)

lemma routed_writes [simp]:
  "srv_routes (fst (on_store f s)) = srv_routes s" "srv_routes (put_project k p s) = srv_routes s"
  "srv_routes (put_app pid n a s) = srv_routes s" "srv_routes (put_instance iid i s) = srv_routes s"
  "srv_routes (rt_load ops i s) = srv_routes s" "srv_routes (fst (rt_call ops iid c s)) = srv_routes s"
  "srv_routes (on_routes g s) = None \<longleftrightarrow> srv_routes s = None" "srv_routes (drop_registry q p s) = srv_routes s"
  "srv_routes (fst (init_vault q s)) = srv_routes s"
  by (simp_all add: on_store_def put_project_def put_app_def put_instance_def rt_load_def rt_call_def sync_instance_def
      on_routes_def drop_registry_def init_vault_def Let_def split: prod.split option.split sum.split)

lemma routed_results:
  "on_store f s = (s', e) \<Longrightarrow> srv_routes s' = srv_routes s" "rt_call ops iid c s = (s', r) \<Longrightarrow> srv_routes s' = srv_routes s"
  "init_vault q s = (s', v) \<Longrightarrow> srv_routes s' = srv_routes s"
  using routed_writes(1) [of f s] routed_writes(6) [of ops iid c s] routed_writes(9) [of q s] by simp_all

lemma routed_saves:
  "save_project q n k p s = (s', y) \<Longrightarrow> srv_routes s' = srv_routes s" "srv_routes (save_instance q n i s) = srv_routes s"
  "srv_routes (drop_instance q i s) = srv_routes s" "sealed_env q req s = (s', v) \<Longrightarrow> srv_routes s' = srv_routes s"
  "override_image q p an a b s = (s', oa) \<Longrightarrow> srv_routes s' = srv_routes s" "open_vault q ov s = (s', ov') \<Longrightarrow> srv_routes s' = srv_routes s"
  "with_domains q cp p s = (s', p') \<Longrightarrow> srv_routes s' = srv_routes s"
  by (auto simp: save_project_def save_instance_def drop_instance_def sealed_env_def override_image_def open_vault_def
      with_domains_def Let_def dest!: routed_results split: prod.splits sum.splits option.splits deploy_body.splits if_splits)

lemma routed_decrypt: "decrypt_values q ov env s = (s', v) \<Longrightarrow> srv_routes s' = srv_routes s"
proof (induction env arbitrary: ov s s' v)
  case (Cons e env)
  then show ?case
    by (cases e) (fastforce dest: routed_saves(6) split: if_splits prod.splits sum.splits)
qed simp

lemma routed_poll: "poll_stopped ops iid ts s = (s', b) \<Longrightarrow> srv_routes s' = srv_routes s"
proof (induction ts arbitrary: s)
  case (Cons t ts)
  then show ?case
    by (fastforce dest: routed_results(2) split: if_splits prod.splits sum.splits)
qed simp

lemmas routed_steps = routed_results [THEN routed_cong] routed_saves(1,4-7) [THEN routed_cong]
  routed_decrypt [THEN routed_cong] routed_poll [THEN routed_cong]

lemma routed_simps [simp]: "routed (on_routes g s) = routed s" "routed (put_project k p s) = routed s"
  "routed (put_app pid n a s) = routed s" "routed (rt_load ops i s) = routed s" "routed (drop_registry q p s) = routed s"
  "routed (drop_instance q i s) = routed s" "routed (save_instance q m i s) = routed s" "routed (s\<lparr>srv_rt := r\<rparr>) = routed s"
  "routed (fst (on_store f s)) = routed s" "routed (fst (save_project q m k p s)) = routed s"
  "routed (fst (rt_call ops iid c s)) = routed s"
  by (simp_all add: routed_def routed_saves(2,3)) (metis prod.collapse routed_saves(1))

lemmas routed_defs = handle_healthz_def handle_project_list_def handle_project_get_def handle_env_set_def handle_env_list_def
  handle_env_delete_def handle_domains_update_def handle_push_image_def handle_update_init_api_def restart_after_update_def
  handle_proxy_routes_def handle_node_register_def handle_node_list_def handle_node_get_def handle_node_delete_def save_node_def
  handle_node_drain_def handle_node_heartbeat_def handle_node_desired_state_def handle_app_update_def app_update_rest_def
  handle_app_list_def handle_app_create_def handle_app_get_def handle_app_deploy_def handle_app_stop_def handle_app_delete_def
  handle_app_logs_def handle_project_create_def handle_project_delete_def handle_project_stop_def handle_project_start_def
  handle_project_restart_def start_and_reply_def started_def handle_project_update_def handle_project_logs_def with_node_def

lemma routed_handle: "handle q req s = (s', rs) \<Longrightarrow> routed s' = routed s"
  by (cases req; auto simp: routed_defs guard_defs Let_def dest!: routed_steps
      split: option.splits prod.splits if_splits sum.splits store_error.splits bool.splits)

lemma routed_serve: "routed (fst (serve parse_url es s cache)) = routed s"
proof (induction es arbitrary: s cache)
  case (Cons e es)
  show ?case
  proof (cases e)
    case (Serve q req)
    obtain s1 rs where h: "handle q req s = (s1, rs)" by (rule prod.exhaust)
    then show ?thesis using Cons.IH [of s1 cache] routed_handle [OF h] by (simp add: Serve split: prod.split) (metis fst_conv)
  next
    case (Visit host)
    obtain c r where v: "serve_http parse_url (route_table_of s) host cache = (c, r)" by (rule prod.exhaust)
    then show ?thesis using Cons.IH [of s c] by (simp add: Visit split: prod.split) (metis fst_conv)
  qed (simp add: Cons.IH)
qed simp

text \<open>A visit after a request, whenever they come: the cache of the proxy makes no difference.\<close>

lemma serve_then_visit:
  assumes "cache_ok parse_url cache" "serve parse_url es s cache = (s1, as1)" "handle q req s1 = (s2, rs)"
  shows "serve parse_url (es @ [Serve q req, Visit host]) s cache =
    (s2, as1 @ [Answered rs, Proxied (spec_answer parse_url (\<lambda>d. rt_lookup d (route_table_of s2)) host)])"
  using assms(1,2)
proof (induction es arbitrary: s cache as1)
  case Nil
  then show ?case
    using serve_http_ok(1) [OF Nil.prems(1), of "route_table_of s2" host] assms(3)
    by (cases "serve_http parse_url (route_table_of s2) host cache") (simp del: spec_answer.simps)
next
  case (Cons e es)
  show ?case
  proof (cases e)
    case (Visit h)
    obtain c r where v: "serve_http parse_url (route_table_of s) h cache = (c, r)" by (rule prod.exhaust)
    have "cache_ok parse_url c" using serve_http_ok(2) [OF Cons.prems(1), of "route_table_of s" h] v by simp
    then show ?thesis using Cons.IH Cons.prems v Visit by (auto simp del: spec_answer.simps split: prod.splits)
  qed (use Cons.IH Cons.prems in \<open>auto simp del: spec_answer.simps split: prod.splits\<close>)
qed

text \<open>What a deploy that succeeds does to the routes.\<close>

lemma deploy_routes:
  assumes "handle_app_deploy q x n b s = (s', rs)" "rs_status rs = 200"
  obtains k p a i where "find_project x (srv_store s) = Some (k, p)" "rs_body rs = BApp a"
    "get_instance (proj_id p) (srv_store s) = Some i"
    "srv_routes s' = map_option (register_app_routes p a (inst_ip_address i)) (srv_routes s)"
proof -
  obtain k p where p: "find_project x (srv_store s) = Some (k, p)"
    using assms by (auto simp: handle_app_deploy_def guard_defs write_error_def reply_def split: if_splits option.splits)
  obtain a0 where a0: "get_app (proj_id p) n (srv_store s) = Some a0"
    using assms p by (auto simp: handle_app_deploy_def guard_defs write_error_def reply_def split: if_splits option.splits)
  obtain s1 y where o: "override_image q p n a0 b s = (s1, y)" by (rule prod.exhaust)
  have i: "instances (srv_store s1) = instances (srv_store s)"
    using o by (auto simp: override_image_def on_store_def set_app_def save_def put_app_def Let_def
        split: deploy_body.splits if_splits prod.splits option.splits save_env.splits)
  have "c \<noteq> 200" if "y = Inl (c, e)" for c e
    using o that by (auto simp: override_image_def Let_def split: deploy_body.splits if_splits prod.splits option.splits)
  then show ?thesis
    using assms p a0 o i routed_saves(5) [OF o] that
    by (auto simp: handle_app_deploy_def guard_defs write_error_def reply_def get_instance_def ls_get_instance_def on_routes_def
        dest!: routed_results(2) split: if_splits option.splits sum.splits prod.splits)
qed

text \<open>C8: when a deploy of an application succeeds on a running server, whatever requests and visits it
  served before, the next visitor who asks for a host below a domain of the project is forwarded to the
  port of the application on the address of the project's machine, if the application is available and
  has a port (a backend that is no URL is refused); every other host is answered as before the deploy.
  The cache of the proxy makes no difference.\<close>

theorem deployed_app_is_served:
  assumes "run_server parse_url q0 home mk d dir key new_rt (Some g) es fin = (Some s1, as1, r)"
    and "handle q (ReqAppDeploy x n b) s1 = (s2, rs)" "rs_status rs = 200"
  shows "\<exists>k p a i. find_project x (srv_store s1) = Some (k, p) \<and> get_instance (proj_id p) (srv_store s1) = Some i \<and>
    rs_body rs = BApp a \<and>
    run_server parse_url q0 home mk d dir key new_rt (Some g) (es @ [Serve q (ReqAppDeploy x n b), Visit host]) fin =
      (Some s2, as1 @ [Answered rs, Proxied (
         if is_available a \<and> app_ports a \<noteq> [] \<and> strip_port host \<in> app_route a ` set (proj_domains p)
         then (case parse_url (''http://'' @ app_backend (inst_ip_address i) a) of None \<Rightarrow> InvalidBackend | Some u \<Rightarrow> Forwarded u)
         else spec_answer parse_url (\<lambda>h. rt_lookup h (route_table_of s1)) host)], r)"
proof -
  obtain s0 where s0: "open_server q0 home mk d dir key new_rt = Inr s0"
    "serve parse_url es (start_server g s0) [] = (s1, as1)" "r = end_error fin"
    using assms(1) by (auto simp: run_server_def split: sum.splits prod.splits)
  have "routed (start_server g s0)" by (simp add: routed_def start_server_def rebuild_routes_def on_routes_def)
  then have "routed s1" using routed_serve [of parse_url es "start_server g s0" "[]"] s0(2) by simp
  then obtain rt where rt: "srv_routes s1 = Some rt" by (auto simp: routed_def)
  obtain k p a i where d: "find_project x (srv_store s1) = Some (k, p)" "rs_body rs = BApp a"
    "get_instance (proj_id p) (srv_store s1) = Some i" "srv_routes s2 = Some (register_app_routes p a (inst_ip_address i) rt)"
    by (rule deploy_routes [OF assms(2) [unfolded handle.simps] assms(3)]) (simp add: rt)
  have "serve parse_url (es @ [Serve q (ReqAppDeploy x n b), Visit host]) (start_server g s0) [] =
    (s2, as1 @ [Answered rs, Proxied (spec_answer parse_url (\<lambda>h. rt_lookup h (route_table_of s2)) host)])"
    by (rule serve_then_visit [OF _ s0(2) assms(2)]) (simp add: cache_ok_def)
  then show ?thesis
    using d rt s0(1,3) by (auto simp: run_server_def route_table_of_def register_app_lookup)
qed

text \<open>The domain of a project is changed, an application is deployed, and a visitor asks for it.\<close>

definition demo_deploy_env :: "(string \<Rightarrow> bool) libvirt_runtime api_env" where
  "demo_deploy_env = demo_api_env\<lparr>rq_ops := libvirt_ops (demo_hv True) calm_channel demo_rt_env\<rparr>"

definition demo_life :: "(string \<Rightarrow> bool) libvirt_runtime server_event list \<Rightarrow>
    (string \<Rightarrow> bool) libvirt_runtime server option \<times> string server_answer list \<times> server_error option" where
  "demo_life es = run_server Some demo_deploy_env None True (st_disk (srv_store demo_web)) ''/d'' KeyMissing (Some demo_runtime)
     (Some (\<lambda>n. False)) (Serve demo_deploy_env (ReqDomainsUpdate ''web''
       (Some \<lparr>ud_domains = [''y.org''], ud_default_domain = []\<rparr>)) # es) (Signalled True)"

definition demo_deploy :: request where "demo_deploy = ReqAppDeploy ''web'' ''api'' (ImageOverride ''img:1'')"

theorem deployed_app_is_served_witness:
  "\<exists>s2 as. demo_life [Serve demo_deploy_env demo_deploy, Visit ''api.y.org:8081''] = (Some s2, as, None) \<and>
     last as = Proxied (Forwarded ''http://10.0.0.2:81'')"
proof -
  have e: "(case demo_life [] of (x, as, y) \<Rightarrow> (case x of None \<Rightarrow> False | Some s1 \<Rightarrow> (case y of Some z \<Rightarrow> False | None \<Rightarrow>
     (case handle demo_deploy_env demo_deploy s1 of (s2, rs) \<Rightarrow> rs_status rs = 200 \<and>
       (case rs_body rs of BApp a \<Rightarrow> is_available a \<and> app_ports a \<noteq> [] \<and> app_backend ''10.0.0.2'' a = ''10.0.0.2:81'' \<and>
           app_route a ''y.org'' = strip_port ''api.y.org:8081'' | _ \<Rightarrow> False) \<and>
       (case find_project ''web'' (srv_store s1) of None \<Rightarrow> False | Some (k, p) \<Rightarrow> proj_domains p = [''y.org''] \<and>
         (case get_instance (proj_id p) (srv_store s1) of None \<Rightarrow> False | Some i \<Rightarrow> inst_ip_address i = ''10.0.0.2''))))))" by code_simp
  obtain x as1 y where xy: "demo_life [] = (x, as1, y)" by (rule prod_cases3)
  obtain s1 where 1: "demo_life [] = (Some s1, as1, None)" using e [unfolded xy] xy by (cases x; cases y) auto
  obtain s2 rs where h: "handle demo_deploy_env demo_deploy s1 = (s2, rs)" by (rule prod.exhaust)
  note e = e [unfolded 1 prod.case option.case h]
  have "rs_status rs = 200" using e by blast
  from deployed_app_is_served [OF 1 [unfolded demo_life_def] h [unfolded demo_deploy_def] this, where host = "''api.y.org:8081''"]
  obtain k p a i where d: "find_project ''web'' (srv_store s1) = Some (k, p)" "get_instance (proj_id p) (srv_store s1) = Some i"
    "rs_body rs = BApp a" and r: "demo_life [Serve demo_deploy_env demo_deploy, Visit ''api.y.org:8081''] =
      (Some s2, as1 @ [Answered rs, Proxied (
         if is_available a \<and> app_ports a \<noteq> [] \<and> strip_port ''api.y.org:8081'' \<in> app_route a ` set (proj_domains p)
         then (case Some (''http://'' @ app_backend (inst_ip_address i) a) of None \<Rightarrow> InvalidBackend | Some u \<Rightarrow> Forwarded u)
         else spec_answer Some (\<lambda>h. rt_lookup h (route_table_of s1)) ''api.y.org:8081'')], None)"
    unfolding demo_life_def demo_deploy_def append_Cons append_Nil by blast
  then show ?thesis using e by (simp add: d)
qed

end
