(* ===== verification/Cli_Agree.thy ===== *)
theory Cli_Agree
  imports Cli_Commands Api_Routes Compose_Spec
begin

text \<open>
  The two modes of the command line agree: a command that goes through the API changes the server's
  store, runtime and key file, and answers, as the same command in direct mode would on them. The
  routes and the registry exist only in the server.
\<close>

section \<open>The part of a server a direct process has\<close>

definition core :: "'r server \<Rightarrow> 'r server" where
  "core s = s\<lparr>srv_routes := None, srv_registry := None\<rparr>"

lemma core_simps [simp]:
  "srv_store (core s) = srv_store s" "srv_rt (core s) = srv_rt s" "srv_has_rt (core s) = srv_has_rt s"
  "srv_key (core s) = srv_key s" "core (core s) = core s"
  "(core s)\<lparr>srv_store := st\<rparr> = core (s\<lparr>srv_store := st\<rparr>)" "(core s)\<lparr>srv_rt := r\<rparr> = core (s\<lparr>srv_rt := r\<rparr>)"
  "(core s)\<lparr>srv_key := key\<rparr> = core (s\<lparr>srv_key := key\<rparr>)"
  "core (on_routes f s) = core s" "core (drop_registry q p s) = core s"
  by (simp_all add: core_def on_routes_def drop_registry_def)

lemma case_map_prod [simp]: "(case map_prod f g x of (a, b) \<Rightarrow> h a b) = (case x of (a, b) \<Rightarrow> h (f a) (g b))"
  by (cases x) simp

lemma on_store_core [simp]: "on_store f (core s) = map_prod core id (on_store f s)"
  by (simp add: on_store_def split: prod.split)

lemma put_core [simp]:
  "put_project k p (core s) = core (put_project k p s)" "put_app k n a (core s) = core (put_app k n a s)"
  "put_instance k i (core s) = core (put_instance k i s)" "rt_load ops i (core s) = core (rt_load ops i s)"
  by (simp_all add: put_project_def put_app_def put_instance_def rt_load_def)

lemma rt_call_core [simp]: "rt_call ops iid f (core s) = map_prod core id (rt_call ops iid f s)"
  by (simp add: rt_call_def shares_def sync_instance_def Let_def split: prod.split option.split)

lemma save_project_core [simp]: "save_project q n k p (core s) = map_prod core id (save_project q n k p s)"
  by (simp add: save_project_def split: prod.split)

lemma save_instance_core [simp]: "save_instance q n i (core s) = core (save_instance q n i s)"
  by (simp add: save_instance_def)

lemma current_instance_core [simp]: "current_instance i (core s) = current_instance i s"
  by (simp add: current_instance_def)

lemma poll_stopped_core [simp]: "poll_stopped ops iid ts (core s) = map_prod core id (poll_stopped ops iid ts s)"
  by (induction ts arbitrary: s) (simp_all split: prod.split sum.split)

lemma init_vault_core [simp]: "init_vault q (core s) = map_prod core id (init_vault q s)"
  by (simp add: init_vault_def split: prod.split sum.split)

lemma sealed_env_core [simp]: "sealed_env q r (core s) = map_prod core id (sealed_env q r s)"
  by (simp add: sealed_env_def split: prod.split sum.split)

lemma drop_instance_core [simp]: "drop_instance q i (core s) = core (drop_instance q i s)"
  by (simp add: drop_instance_def)

lemma on_store_same:
  assumes "core s = core t" "on_store f s = (s', a)" "on_store f t = (t', b)"
  shows "core s' = core t' \<and> a = b"
  using on_store_core [of f s] on_store_core [of f t] assms by simp

lemma rt_call_same:
  assumes "core s = core t"
  shows "core (fst (rt_call ops iid f s)) = core (fst (rt_call ops iid f t))"
proof -
  have h: "core (fst (rt_call ops iid f u)) = fst (rt_call ops iid f (core u))" for u by simp
  show ?thesis by (simp only: h assms)
qed

lemma rt_load_same: "core s = core t \<Longrightarrow> core (rt_load ops i s) = core (rt_load ops i t)"
  by (metis put_core(4))

section \<open>Calls that reach their handler\<close>

definition answer :: "response \<Rightarrow> client_error + body" where
  "answer rs = (if 400 \<le> rs_status rs then Inl (ApiError (rs_status rs) (rs_body rs)) else Inr (rs_body rs))"

lemma answer_simps [simp]:
  "answer (reply n b) = (if 400 \<le> n then Inl (ApiError n b) else Inr b)"
  "answer (write_error n e) = (if 400 \<le> n then Inl (ApiError n (BError e)) else Inr (BError e))"
  by (simp_all add: answer_def reply_def write_error_def)

lemma client_call_handle:
  assumes "list_all url_name (op_names op)" "op_query op = []"
  shows "client_call q op s = map_prod id answer (handle q (intended op) s)"
  using reaches_handler [OF assms(1)] assms(2)
  by (simp add: client_call_def answer_def split: prod.splits)

section \<open>The commands that agree\<close>

text \<open>
  Commands whose arguments survive the way into a URL. Left out are those whose modes differ in what they
  show (the information and logs of a project, of an application and its list, \<open>compose ps\<close>) and those
  that differ in what they do: \<open>project stop\<close> waits only in direct mode, \<open>env delete\<close> reports unknown
  keys, \<open>domain remove\<close> treats the default differently, and so do the commands on images and applications.
\<close>

definition plain_project :: "project_command \<Rightarrow> bool" where
  "plain_project c = (case c of ProjectCreate _ _ _ _ \<Rightarrow> True | ProjectList \<Rightarrow> True | ProjectDelete x \<Rightarrow> url_name x
     | ProjectEdit x _ _ _ \<Rightarrow> url_name x | ProjectStart x \<Rightarrow> url_name x | ProjectRestart x \<Rightarrow> url_name x | _ \<Rightarrow> False)"

definition plain_app :: "app_command \<Rightarrow> bool" where
  "plain_app c = (case c of AppStop x n \<Rightarrow> url_name x \<and> url_name n | AppDelete x n \<Rightarrow> url_name x \<and> url_name n | _ \<Rightarrow> False)"

definition plain_node :: "node_command \<Rightarrow> bool" where
  "plain_node c = (case c of NodeRegister hostname _ _ \<Rightarrow> hostname \<noteq> [] | NodeList \<Rightarrow> True
     | NodeInfo x \<Rightarrow> url_name x | NodeRemove x \<Rightarrow> url_name x | NodeDrain x \<Rightarrow> url_name x)"

definition plain_command :: "command \<Rightarrow> bool" where
  "plain_command c = (case c of Project_Command d \<Rightarrow> plain_project d | App_Command d \<Rightarrow> plain_app d
     | Node_Command d \<Rightarrow> plain_node d
     | Env_Command (EnvSet x kvs _) \<Rightarrow> url_name x \<and> kvs \<noteq> []
     | Domain_Command (DomainSet x _ _) \<Rightarrow> url_name x | Domain_Command (DomainList x) \<Rightarrow> url_name x | _ \<Rightarrow> False)"

text \<open>The same effect on what both have, and the same outcome unless both fail.\<close>

definition agrees :: "'r cli \<Rightarrow> 'r cli \<Rightarrow> bool" where
  "agrees a d \<longleftrightarrow> core (fst a) = fst d \<and> (snd a = snd d \<or> \<not> is_ok (snd a) \<and> \<not> is_ok (snd d))"

lemma agreesI [intro]: "core s = t \<Longrightarrow> a = b \<or> \<not> is_ok a \<and> \<not> is_ok b \<Longrightarrow> agrees (s, a) (t, b)"
  by (simp add: agrees_def)

lemma agrees_simp [simp]: "agrees (s, a) (t, b) \<longleftrightarrow> core s = t \<and> (a = b \<or> \<not> is_ok a \<and> \<not> is_ok b)"
  by (simp add: agrees_def)

lemma api_do_handle:
  assumes "list_all url_name (op_names op)" "op_query op = []"
  shows "api_do q op out s = (case handle q (intended op) s of (s', rs) \<Rightarrow>
     (s', case answer rs of Inl e \<Rightarrow> Inl (CliApi e) | Inr b \<Rightarrow> out b))"
  by (simp add: api_do_def client_call_handle [OF assms] split: prod.split sum.split)

lemmas splits = prod.split sum.split option.split store_error.split bool.split

lemma agree_node:
  "hostname \<noteq> [] \<Longrightarrow> agrees (api_node_register q hostname endpoint labels s) (cli_node_register q hostname endpoint labels (core s))"
  "agrees (api_node_list q s) (cli_node_list (core s))"
  "url_name x \<Longrightarrow> agrees (api_node_info q x s) (cli_node_info x (core s))"
  "url_name x \<Longrightarrow> agrees (api_node_remove q x s) (cli_node_remove q x (core s))"
  "url_name x \<Longrightarrow> agrees (api_node_drain q x s) (cli_node_drain q x (core s))"
  by (auto simp: api_node_register_def api_do_handle handle_node_register_def with_body_def cli_node_register_def
      node_of_request_def out_node_def api_node_list_def handle_node_list_def cli_node_list_def
      api_node_info_def handle_node_get_def with_node_def cli_node_info_def api_node_remove_def handle_node_delete_def
      cli_node_remove_def api_node_drain_def handle_node_drain_def save_node_def cli_node_drain_def split: splits)

lemma create_bad_name:
  "validate_project_name name = Some e \<Longrightarrow> on_store (create_project now uuid io name rt res) s = (s, Inl (EntityErr e))"
  by (simp add: on_store_def create_project_def)

lemma agree_project_create:
  assumes "srv_has_rt s"
  shows "agrees (api_project_create q name res s) (cli_project_create q name res (core s))"
proof (cases "validate_project_name name")
  case None
  then show ?thesis
    using assms
    by (auto simp: api_project_create_def api_do_handle handle_project_create_def guard_defs with_domains_def out_full_def
        cli_project_create_def create_with_vm_def Let_def split: splits)
next
  case (Some e)
  then show ?thesis
    using assms
    by (simp add: api_project_create_def api_do_handle handle_project_create_def guard_defs
        cli_project_create_def create_with_vm_def create_bad_name)
qed

lemma agree_project_list: "agrees (api_project_list q s) (cli_project_list (core s))"
  by (simp add: api_project_list_def api_do_handle handle_project_list_def cli_project_list_def)

lemma agree_domain_list: "url_name x \<Longrightarrow> agrees (api_domain_list q x s) (cli_domain_list x (core s))"
  by (auto simp: api_domain_list_def api_do_handle handle_project_get_def guard_defs cli_domain_list_def cli_guard_defs split: splits)

lemma agree_started:
  "agrees (case start_and_reply q k p i s of (s', rs) \<Rightarrow>
       (s', case answer rs of Inl e \<Rightarrow> Inl (CliApi e) | Inr b \<Rightarrow> out_started b))
     (cli_started q k p i (core s))"
  by (auto simp: start_and_reply_def started_def cli_started_def out_started_def Let_def split: splits)

lemma agree_project_start:
  assumes "url_name x" "srv_has_rt s"
  shows "agrees (api_project_start q x s) (cli_project_start q x (core s))"
proof (cases "find_project x (srv_store s)")
  case (Some e)
  then obtain k p where p: "find_project x (srv_store s) = Some (k, p)" by (cases e) simp
  note defs = api_project_start_def api_do_handle handle_project_start_def guard_defs cli_project_start_def cli_guard_defs
  show ?thesis
    using assms p agree_started [of q k p _ "rt_load (rq_ops q) _ s"]
    by (cases "get_instance (proj_id p) (srv_store s)") (simp_all add: defs)
qed (use assms in \<open>simp add: api_project_start_def api_do_handle handle_project_start_def guard_defs cli_project_start_def cli_guard_defs\<close>)

lemma agree_project_restart:
  assumes "url_name x" "srv_has_rt s"
  shows "agrees (api_project_restart q x s) (cli_project_restart q x (core s))"
proof (cases "find_project x (srv_store s)")
  case (Some e)
  then obtain k p where p: "find_project x (srv_store s) = Some (k, p)" by (cases e) simp
  note defs = api_project_restart_def api_do_handle handle_project_restart_def guard_defs cli_project_restart_def cli_guard_defs
  show ?thesis
  proof (cases "get_instance (proj_id p) (srv_store s)")
    case (Some i)
    let ?stop = "rt_call (rq_ops q) (inst_id i) (op_stop (rq_ops q) (inst_id i)) (rt_load (rq_ops q) i s)"
    obtain s1 e1 where st: "?stop = (s1, e1)" by (cases ?stop)
    obtain s2 b where po: "poll_stopped (rq_ops q) (inst_id i) (rq_ticks q) s1 = (s2, b)"
      by (cases "poll_stopped (rq_ops q) (inst_id i) (rq_ticks q) s1")
    show ?thesis using assms Some p agree_started [of q k p i s2] by (cases e1; cases b) (simp_all add: defs st po)
  qed (use assms p in \<open>simp add: defs\<close>)
qed (use assms in \<open>simp add: api_project_restart_def api_do_handle handle_project_restart_def guard_defs cli_project_restart_def cli_guard_defs\<close>)

lemma default_same: "default_domain domains (domain_default flag domains) = domain_default flag domains"
  by (auto simp: default_domain_def domain_default_def split: list.split)

lemma agree_domain_set: "url_name x \<Longrightarrow> agrees (api_domain_set q x domains flag s) (cli_domain_set q x domains flag (core s))"
  by (auto simp: api_domain_set_def api_do_handle handle_domains_update_def guard_defs default_same cli_domain_set_def
      cli_guard_defs Let_def split: splits)

lemma agree_env_set:
  "url_name x \<Longrightarrow> env \<noteq> [] \<Longrightarrow> agrees (api_env_set q x env secret s) (cli_env_set q x env secret (core s))"
  by (auto simp: api_env_set_def api_do_handle handle_env_set_def guard_defs cli_env_set_def cli_guard_defs split: splits)

lemma agree_project_delete:
  assumes "url_name x" "srv_has_rt s"
  shows "agrees (api_project_delete q x s) (cli_project_delete q x (core s))"
proof (cases "find_project x (srv_store s)")
  case (Some e)
  then obtain k p where p: "find_project x (srv_store s) = Some (k, p)" by (cases e) simp
  note defs = api_project_delete_def api_do_handle handle_project_delete_def guard_defs cli_project_delete_def cli_guard_defs
  let ?F = "delete_project (rq_now q) (rq_save q 1) (proj_id p)"
  let ?g = "fold (remove_app_routes p) (get_apps (proj_id p) (srv_store s))"
  show ?thesis
  proof (cases "get_instance (proj_id p) (srv_store s)")
    case None
    obtain s4 e where d: "on_store ?F (drop_registry q p (on_routes ?g s)) = (s4, e)" by (rule prod.exhaust)
    obtain t4 e' where t: "on_store ?F s = (t4, e')" by (rule prod.exhaust)
    have "core s4 = core t4 \<and> e = e'" by (rule on_store_same [OF _ d t]) simp
    then show ?thesis using assms p None d t by (cases e) (auto simp: defs)
  next
    case (Some i)
    obtain s4 e where d: "on_store ?F (drop_registry q p (drop_instance q i (on_routes ?g s))) = (s4, e)" by (rule prod.exhaust)
    obtain t4 e' where t: "on_store ?F (drop_instance q i s) = (t4, e')" by (rule prod.exhaust)
    have "core (drop_instance q i (on_routes ?g s)) = core (drop_instance q i s)"
      by (metis core_simps(9) drop_instance_core)
    then have "core s4 = core t4 \<and> e = e'" by (intro on_store_same [OF _ d t]) simp
    then show ?thesis
      using assms p Some d t
      by (cases e; cases "validate_project_instance_binding (Some p) (Some i)") (auto simp: defs)
  qed
qed (use assms in \<open>simp add: api_project_delete_def api_do_handle handle_project_delete_def guard_defs cli_project_delete_def cli_guard_defs\<close>)

text \<open>The fields of an edit are read alike; a text that is no size fails in both.\<close>

lemma edit_memory_same:
  assumes "up_memory_mb r = None"
  shows "(\<exists>e e'. update_memory r c = Inl e \<and> edit_memory r c = Inl e') \<or>
    (\<exists>c'. update_memory r c = Inr c' \<and> edit_memory r c = Inr c')"
  using assms by (auto simp: update_memory_def edit_memory_def split: option.split sum.split)

lemma edit_disk_same:
  assumes "up_disk_mb r = None"
  shows "(\<exists>e e'. update_disk r c = Inl e \<and> edit_disk r c = Inl e') \<or>
    (\<exists>c'. update_disk r c = Inr c' \<and> edit_disk r c = Inr c')"
  using assms by (auto simp: update_disk_def edit_disk_def grow_disk_def split: option.split sum.split)

lemma put_same_project: "gm_get (projects (srv_store s)) k = Some p \<Longrightarrow> put_project k p s = s"
  by (simp add: put_project_def set_projects_def gm_set_same)

lemma agree_project_edit:
  assumes "srv_wf s" "url_name x" "srv_has_rt s" "up_memory_mb r = None" "up_disk_mb r = None"
  shows "agrees (api_project_edit q x r s) (cli_project_edit q x r (core s))"
proof (cases "find_project x (srv_store s)")
  case (Some e)
  then obtain k p where p: "find_project x (srv_store s) = Some (k, p)" by (cases e) simp
  have same: "put_project k p s = s" by (rule put_same_project [OF find_project_wf(1) [OF assms(1) p]])
  note defs = api_project_edit_def api_do_handle handle_project_update_def guard_defs cli_project_edit_def cli_guard_defs
  show ?thesis
  proof (cases "get_instance (proj_id p) (srv_store s)")
    case (Some i)
    note facts = assms p Some
    show ?thesis
    proof (cases "inst_state i = InstStopped")
      case stopped: True
      show ?thesis
      proof (cases "no_updates r")
        case True
        then show ?thesis
          using facts same
          by (simp add: defs Let_def no_updates_def update_cpu_def set_opt_def edit_memory_def edit_disk_def)
      next
        case False
        let ?c = "update_cpu r (proj_resources p)"
        from edit_memory_same [OF assms(4), of ?c]
        consider (bad) e e' where "update_memory r ?c = Inl e" "edit_memory r ?c = Inl e'"
          | (good) c2 where "update_memory r ?c = Inr c2" "edit_memory r ?c = Inr c2" by blast
        then show ?thesis
        proof cases
          case bad
          then show ?thesis using facts stopped False by (simp add: defs Let_def)
        next
          case good
          from edit_disk_same [OF assms(5), of c2]
          consider (bad) e e' where "update_disk r c2 = Inl e" "edit_disk r c2 = Inl e'"
            | (good) c3 where "update_disk r c2 = Inr c3" "edit_disk r c2 = Inr c3" by blast
          then show ?thesis
          proof cases
            case bad
            then show ?thesis using facts stopped False good by (simp add: defs Let_def)
          next
            case disk: good
            show ?thesis
              using facts stopped False good disk by (simp add: defs Let_def split: prod.split option.split)
          qed
        qed
      qed
    qed (use facts in \<open>auto simp: defs Let_def\<close>)
  qed (use assms p in \<open>auto simp: defs\<close>)
qed (use assms in \<open>auto simp: api_project_edit_def api_do_handle handle_project_update_def guard_defs cli_project_edit_def cli_guard_defs\<close>)

section \<open>Applications\<close>

text \<open>The client looks the project up and then names it by its identifier.\<close>

lemma with_api_project_found:
  assumes "url_name x" "find_project x (srv_store s) = Some (k, p)"
  shows "with_api_project q x s rest = rest (proj_id p) s"
  using assms by (simp add: with_api_project_def api_project_id_def client_call_handle handle_project_get_def guard_defs)

lemma with_api_project_none:
  assumes "url_name x" "find_project x (srv_store s) = None"
  shows "with_api_project q x s rest = (s, Inl (CliNotFound x))"
  using assms by (simp add: with_api_project_def api_project_id_def client_call_handle handle_project_get_def guard_defs)

lemma find_by_id:
  assumes "srv_wf s" "find_project x (srv_store s) = Some (k, p)"
  shows "find_project (proj_id p) (srv_store s) = Some (k, p)"
  using find_project_wf [OF assms] by (simp add: find_project_def)

definition ids_plain :: "'r server \<Rightarrow> bool" where
  "ids_plain s \<longleftrightarrow> list_all (\<lambda>(k, p). url_name (proj_id p)) (projects (srv_store s))"

lemma ids_plainD:
  assumes "srv_wf s" "ids_plain s" "find_project x (srv_store s) = Some (k, p)"
  shows "url_name (proj_id p)"
  using assms(2) find_project_wf(1) [OF assms(1,3)] by (fastforce simp: ids_plain_def list_all_iff dest: map_of_SomeD)

lemma agree_app_stop:
  assumes "srv_wf s" "url_name x" "url_name n" "srv_has_rt s" "ids_plain s"
  shows "agrees (api_app_stop qs x n s) (cli_app_stop (qs 1) x n (core s))"
proof (cases "find_project x (srv_store s)")
  case (Some e)
  then obtain k p where p: "find_project x (srv_store s) = Some (k, p)" by (cases e) simp
  show ?thesis
    using assms p ids_plainD [OF assms(1,5) p] find_by_id [OF assms(1) p]
    by (auto simp: api_app_stop_def with_api_project_found api_do_handle handle_app_stop_def guard_defs
        cli_app_stop_def cli_guard_defs split: prod.split option.split)
qed (use assms in \<open>simp add: api_app_stop_def with_api_project_none cli_app_stop_def cli_guard_defs\<close>)

lemma agree_app_delete:
  assumes "srv_wf s" "url_name x" "url_name n" "srv_has_rt s" "ids_plain s"
  shows "agrees (api_app_delete qs x n s) (cli_app_delete (qs 1) x n (core s))"
proof (cases "find_project x (srv_store s)")
  case (Some e)
  then obtain k p where p: "find_project x (srv_store s) = Some (k, p)" by (cases e) simp
  let ?q = "qs 1" and ?g = "\<lambda>a. on_routes (remove_app_routes p a) s"
  let ?s1 = "\<lambda>t. case get_instance (proj_id p) (srv_store s) of None \<Rightarrow> t
             | Some i \<Rightarrow> fst (rt_call (rq_ops ?q) (inst_id i) (op_remove_app (rq_ops ?q) (inst_id i) n) (rt_load (rq_ops ?q) i t))"
  let ?F = "delete_app (rq_now ?q) (rq_save ?q 0) (proj_id p) n"
  have c: "core (?s1 (?g a)) = core (?s1 s)" for a
  proof (cases "get_instance (proj_id p) (srv_store s)")
    case (Some i)
    have "core (rt_load (rq_ops ?q) i (?g a)) = core (rt_load (rq_ops ?q) i s)" by (intro rt_load_same) simp
    then show ?thesis unfolding Some option.case by (rule rt_call_same)
  qed simp
  have st: "srv_store (?g a) = srv_store s" for a by (simp add: on_routes_def)
  show ?thesis
  proof (cases "get_app (proj_id p) n (srv_store s)")
    case (Some a)
    obtain s4 e where d: "on_store ?F (?s1 (?g a)) = (s4, e)" by (rule prod.exhaust)
    obtain t4 e' where t: "on_store ?F (?s1 s) = (t4, e')" by (rule prod.exhaust)
    have eq: "core s4 = core t4 \<and> e = e'" by (rule on_store_same [OF c [of a] d t])
    have "?s1 (core s) = core (?s1 s)" by (simp split: option.split)
    then have t': "on_store ?F (?s1 (core s)) = (core t4, e')" using t by simp
    have A: "api_app_delete qs x n s = (s4, case e of None \<Rightarrow> Inr Done | Some er \<Rightarrow> Inl (CliApi (ApiError 500 (BError (MsgStore er)))))"
      unfolding api_app_delete_def with_api_project_found [OF assms(2) p]
      using assms(3,4) p Some ids_plainD [OF assms(1,5) p] find_by_id [OF assms(1) p] st d
      by (cases e; cases "get_instance (proj_id p) (srv_store s)") (simp_all add: api_do_handle handle_app_delete_def guard_defs Let_def)
    have "cli_app_delete ?q x n (core s) = (core t4, case e' of None \<Rightarrow> Inr Done | Some er \<Rightarrow> Inl (CliStore er))"
      using p Some t'
      by (cases "get_instance (proj_id p) (srv_store s)"; cases e') (simp_all add: cli_app_delete_def cli_guard_defs Let_def)
    then show ?thesis using A eq by (cases e) auto
  qed (use assms p ids_plainD [OF assms(1,5) p] find_by_id [OF assms(1) p] in
      \<open>simp add: api_app_delete_def with_api_project_found api_do_handle handle_app_delete_def guard_defs
        cli_app_delete_def cli_guard_defs\<close>)
qed (use assms in \<open>simp add: api_app_delete_def with_api_project_none cli_app_delete_def cli_guard_defs\<close>)

section \<open>Agreement\<close>

lemma agree_with_flags:
  assumes "\<And>v. x = Inr v \<Longrightarrow> agrees (f v s) (g v (core s))"
  shows "agrees (with_flags x f s) (with_flags x g (core s))"
  using assms by (simp add: with_flags_def split: sum.split)

lemma env_pairs_nonempty: "env_pairs kvs = Inr env \<Longrightarrow> kvs \<noteq> [] \<Longrightarrow> env \<noteq> []"
  by (auto simp: env_pairs_def Let_def split: if_splits)

lemma edit_flags_simps: "up_memory_mb (edit_flags cpu mem disk) = None" "up_disk_mb (edit_flags cpu mem disk) = None"
  by (simp_all add: edit_flags_def)

lemma projects_agree:
  assumes "srv_wf s" "srv_has_rt s" "plain_project c"
  shows "agrees (project_api h (\<lambda>_. q) c s) (project_direct h ch q c (core s))"
  using assms
  by (cases c) (auto intro!: agree_with_flags agree_project_create agree_project_list agree_project_delete agree_project_edit
      agree_project_start agree_project_restart simp: plain_project_def edit_flags_simps simp del: agrees_simp)

lemma commands_agree:
  assumes "srv_wf s" "srv_has_rt s" "ids_plain s" "plain_command c"
  shows "agrees (run_api h (\<lambda>_. q) c s) (run_direct h ch q c (core s))"
proof (cases c)
  case (Project_Command d)
  then show ?thesis using projects_agree assms by (simp add: plain_command_def)
next
  case (Env_Command d)
  then show ?thesis
    using assms by (cases d) (auto intro!: agree_with_flags agree_env_set dest: env_pairs_nonempty simp: plain_command_def simp del: agrees_simp)
next
  case (Domain_Command d)
  then show ?thesis using assms by (cases d) (simp_all add: agree_domain_set agree_domain_list plain_command_def del: agrees_simp)
next
  case (App_Command d)
  then show ?thesis
    using assms agree_app_stop [of s _ _ "\<lambda>_. q"] agree_app_delete [of s _ _ "\<lambda>_. q"]
    by (cases d) (simp_all add: plain_command_def plain_app_def del: agrees_simp)
next
  case (Node_Command d)
  then show ?thesis using assms by (cases d) (simp_all add: agree_node plain_command_def plain_node_def del: agrees_simp)
qed (use assms in \<open>simp_all add: plain_command_def\<close>)


text \<open>A host without files, and a machine nobody answers in.\<close>

definition demo_cli_host :: cli_host where
  "demo_cli_host = \<lparr>hs_files = (\<lambda>p. None), hs_stat = (\<lambda>p. False), hs_binaries = (\<lambda>p. None), hs_home = None,
     hs_data_dir = ''/d'', hs_init_binary = ''/init'', hs_registry_addr = '':5000'', hs_docker = (\<lambda>c. True),
     hs_export = (\<lambda>r. None), hs_virsh = False, hs_compose = demo_host, hs_compose_yaml = (\<lambda>t. None),
     hs_manifest_yaml = (\<lambda>t. None), hs_cwd = None\<rparr>"

definition demo_dead :: "'r channel" where
  "demo_dead = \<lparr>ch_dial = (\<lambda>a w. False), ch_send = (\<lambda>a c w. (w, None))\<rparr>"


end
