(* ===== verification/Cli_Spec.thy ===== *)
theory Cli_Spec
  imports Cli_Agree Server_Life
begin

text \<open>
  What the command line promises: the state file stays loadable, only the commands that open a runtime
  use one, and what \<open>compose up\<close> writes to the state file.
\<close>

section \<open>The state file\<close>


text \<open>A server registers a node, a command another one.\<close>

definition demo_server_run :: "(string \<Rightarrow> bool) libvirt_runtime server option \<times> string server_answer list \<times> server_error option" where
  "demo_server_run = run_server (\<lambda>u. Some u) demo_api_env None True NoFile ''/d'' KeyMissing (Some demo_runtime)
     (Some (\<lambda>n. False)) [Serve demo_api_env demo_register, Visit ''web.example.com''] (Signalled True)"

definition demo_command_run :: "disk_file \<Rightarrow> cli_error + (string \<Rightarrow> bool) libvirt_runtime cli" where
  "demo_command_run d = direct_process demo_cli_host demo_dead demo_api_env (demo_api_env\<lparr>rq_uuid := ''n2''\<rparr>) None True d ''/d''
     KeyMissing None demo_runtime (Node_Command (NodeRegister ''h2'' [] []))"


section \<open>Commands without a runtime\<close>

lemma with_ops:
  "rq_now (q\<lparr>rq_ops := ops\<rparr>) = rq_now q" "rq_save (q\<lparr>rq_ops := ops\<rparr>) = rq_save q"
  "rq_uuid (q\<lparr>rq_ops := ops\<rparr>) = rq_uuid q" "rq_env_allocated (q\<lparr>rq_ops := ops\<rparr>) = rq_env_allocated q"
  "rq_key_rand (q\<lparr>rq_ops := ops\<rparr>) = rq_key_rand q" "rq_key_mkdir (q\<lparr>rq_ops := ops\<rparr>) = rq_key_mkdir q"
  "rq_key_write (q\<lparr>rq_ops := ops\<rparr>) = rq_key_write q" "rq_sha256 (q\<lparr>rq_ops := ops\<rparr>) = rq_sha256 q"
  "rq_gcm (q\<lparr>rq_ops := ops\<rparr>) = rq_gcm q" "rq_nonce (q\<lparr>rq_ops := ops\<rparr>) = rq_nonce q"
  by simp_all

lemma helpers_with_ops:
  "save_project (q\<lparr>rq_ops := ops\<rparr>) n k p s = save_project q n k p s"
  "init_vault (q\<lparr>rq_ops := ops\<rparr>) s = init_vault q s"
  "open_vault (q\<lparr>rq_ops := ops\<rparr>) ov s = open_vault q ov s"
  "sealed_env (q\<lparr>rq_ops := ops\<rparr>) req s = sealed_env q req s"
  unfolding save_project_def sealed_env_def open_vault_def init_vault_def encrypt_all_def with_ops by (rule refl)+

lemma decrypt_values_ops: "decrypt_values (q\<lparr>rq_ops := ops\<rparr>) ov env s = decrypt_values q ov env s"
proof (induction env arbitrary: ov s)
  case (Cons e env)
  obtain k val where e: "e = (k, val)" by (rule prod.exhaust)
  show ?case unfolding e decrypt_values.simps Cons.IH helpers_with_ops by (rule refl)
qed simp

lemma project_without_runtime:
  assumes "\<not> needs_runtime ''project'' (project_use c)"
  shows "project_direct h ch (q\<lparr>rq_ops := ops\<rparr>) c s = project_direct h ch q c s"
  using assms by (cases c) (simp_all add: needs_runtime_def project_use_def)

lemma store_only_commands:
  "cli_app_create h (q\<lparr>rq_ops := ops\<rparr>) x n f s = cli_app_create h q x n f s"
  "cli_app_edit h (q\<lparr>rq_ops := ops\<rparr>) x n e s = cli_app_edit h q x n e s"
  "cli_env_set (q\<lparr>rq_ops := ops\<rparr>) x env secret s = cli_env_set q x env secret s"
  "cli_env_list (q\<lparr>rq_ops := ops\<rparr>) x show s = cli_env_list q x show s"
  "cli_env_delete (q\<lparr>rq_ops := ops\<rparr>) x keys s = cli_env_delete q x keys s"
  "cli_domain_set (q\<lparr>rq_ops := ops\<rparr>) x ds flag s = cli_domain_set q x ds flag s"
  "cli_domain_remove (q\<lparr>rq_ops := ops\<rparr>) x ds s = cli_domain_remove q x ds s"
  "cli_node_register (q\<lparr>rq_ops := ops\<rparr>) x ep labels s = cli_node_register q x ep labels s"
  "cli_node_remove (q\<lparr>rq_ops := ops\<rparr>) x s = cli_node_remove q x s"
  "cli_node_drain (q\<lparr>rq_ops := ops\<rparr>) x s = cli_node_drain q x s"
  unfolding cli_app_create_def cli_app_edit_def cli_env_set_def cli_env_list_def cli_env_delete_def cli_domain_set_def
    cli_domain_remove_def cli_node_register_def cli_node_remove_def cli_node_drain_def with_ops helpers_with_ops
    decrypt_values_ops by (rule refl)+

lemma app_without_runtime:
  assumes "\<not> needs_runtime ''app'' (app_use c)"
  shows "app_direct h ch (q\<lparr>rq_ops := ops\<rparr>) c s = app_direct h ch q c s"
  using assms by (cases c) (simp_all add: needs_runtime_def app_use_def store_only_commands)

lemma groups_without_runtime:
  "env_direct h ch (q\<lparr>rq_ops := ops\<rparr>) ce s = env_direct h ch q ce s"
  "domain_direct h ch (q\<lparr>rq_ops := ops\<rparr>) cd s = domain_direct h ch q cd s"
  "node_direct h ch (q\<lparr>rq_ops := ops\<rparr>) cn s = node_direct h ch q cn s"
    apply (cases ce; simp add: store_only_commands with_flags_def split: sum.split)
   apply (cases cd; simp add: store_only_commands)
  apply (cases cn; simp add: store_only_commands)
  done

text \<open>C33: the list of commands for which a process opens a runtime is complete: every other command does
  the same whatever the runtime's operations are, so none of them works on a runtime that was not opened.\<close>

theorem runtime_only_where_opened:
  assumes "\<not> needs_runtime (fst (parent_of c)) (snd (parent_of c))"
  shows "run_direct h ch (q\<lparr>rq_ops := ops\<rparr>) c s = run_direct h ch q c s"
proof (cases c)
  case (Project_Command d)
  then show ?thesis using assms project_without_runtime by (simp add: parent_of_def)
next
  case (App_Command d)
  then show ?thesis using assms app_without_runtime by (simp add: parent_of_def)
next
  case (Compose_Command d)
  then show ?thesis using assms by (cases d) (simp_all add: parent_of_def compose_use_def needs_runtime_def)
qed (use assms in \<open>simp_all add: groups_without_runtime parent_of_def needs_runtime_def\<close>)

theorem runtime_only_where_opened_witness:
  "run_direct demo_cli_host demo_dead (demo_api_env\<lparr>rq_ops := libvirt_ops (demo_hv False) demo_channel demo_rt_env\<rparr>)
     (Env_Command (EnvDelete ''web'' [''A''])) demo_web =
   run_direct demo_cli_host demo_dead demo_api_env (Env_Command (EnvDelete ''web'' [''A''])) demo_web"
  by (rule runtime_only_where_opened) (simp add: parent_of_def env_use_def needs_runtime_def)

section \<open>What compose up stores\<close>

lemma decrypt_values_rt:
  "decrypt_values q ov env (s\<lparr>srv_rt := r\<rparr>) = map_prod (\<lambda>t. t\<lparr>srv_rt := r\<rparr>) id (decrypt_values q ov env s)"
proof (induction env arbitrary: ov s)
  case (Cons e env)
  obtain k val where e: "e = (k, val)" by (rule prod.exhaust)
  have o: "open_vault q ov (s\<lparr>srv_rt := r\<rparr>) = map_prod (\<lambda>t. t\<lparr>srv_rt := r\<rparr>) id (open_vault q ov s)"
    by (auto simp: open_vault_def init_vault_def split: option.split prod.split sum.split)
  show ?case by (auto simp: e o Cons.IH split: prod.split sum.split)
qed simp

lemma decrypt_values_keys: "decrypt_values q ov env s = (s', Inr m) \<Longrightarrow> map fst m = map fst env"
proof (induction env arbitrary: ov s s' m)
  case (Cons e env)
  then show ?case by (cases e) (auto split: prod.splits sum.splits if_splits)
qed simp

definition with_project_env :: "string gomap \<Rightarrow> app_spec \<Rightarrow> app_spec" where
  "with_project_env m a = a\<lparr>app_env := gm_copy (gm_copy [] m) (app_env a)\<rparr>"

lemma merge_envs_stable:
  assumes "decrypt_values q None env s = (s, Inr m)" "env \<noteq> []"
  shows "merge_envs q env as s = (s, Inr (map (with_project_env m) as))"
  using assms by (induction as) (simp_all add: merge_project_env_def with_project_env_def)

lemma set_app_stores:
  assumes "set_app now io pid (Some a) st = (st', None)"
  shows "st_disk st' = StateFile (marshal_state (st_mem st'))"
    "get_app pid n st' = (if n = app_name a then Some a else get_app pid n st)"
  using assms
  by (auto simp: set_app_def save_def ls_set_app_def get_app_def get_project_apps_def Let_def gomap_simps
      split: option.splits save_env.splits)

lemma find_append: "find P (xs @ ys) = (case find P xs of Some x \<Rightarrow> Some x | None \<Rightarrow> find P ys)"
  by (induction xs) auto

context project_runtime
begin

lemma deploy_service_stores:
  assumes "rq_ops q = ops" "deploy_service q p iid n a s = (s', r)" "\<forall>e. r \<noteq> SvcStateFailed e"
  shows "st_disk (srv_store s') = StateFile (marshal_state (st_mem (srv_store s')))"
    "get_app (proj_id p) x (srv_store s') = (if x = app_name a then Some a else get_app (proj_id p) x (srv_store s))"
proof -
  obtain st' e where st: "set_app (rq_now q) (rq_save q n) (proj_id p) (Some a) (srv_store s) = (st', e)" by (rule prod.exhaust)
  have e: "e = None" using assms(2,3) st by (auto simp: deploy_service_def on_store_def split: option.splits)
  obtain s2 e2 where c: "rt_call ops iid (op_deploy ops iid a) (s\<lparr>srv_store := st'\<rparr>) = (s2, e2)" by (rule prod.exhaust)
  have "srv_store s2 = st'"
    using rt_call_quiet [where f = "op_deploy ops iid a" and ops = ops and iid = iid and s = "s\<lparr>srv_store := st'\<rparr>", OF deploy] c by simp
  moreover have "s' = s2" using assms(1,2) st e c by (auto simp: deploy_service_def on_store_def split: option.splits)
  ultimately show "st_disk (srv_store s') = StateFile (marshal_state (st_mem (srv_store s')))"
    "get_app (proj_id p) x (srv_store s') = (if x = app_name a then Some a else get_app (proj_id p) x (srv_store s))"
    using set_app_stores [OF st [unfolded e]] by simp_all
qed

lemma each_service_stores:
  assumes "rq_ops q = ops" "each_service (deploy_service q p iid) n as s = (s', rs)"
    "list_all (\<lambda>(n, r). \<forall>e. r \<noteq> SvcStateFailed e) rs" "as \<noteq> []"
  shows "map fst rs = map app_name as" "st_disk (srv_store s') = StateFile (marshal_state (st_mem (srv_store s')))"
    "get_app (proj_id p) x (srv_store s') =
       (case find (\<lambda>a. app_name a = x) (rev as) of Some a \<Rightarrow> Some a | None \<Rightarrow> get_app (proj_id p) x (srv_store s))"
proof -
  have "map fst rs = map app_name as \<and>
      (as \<noteq> [] \<longrightarrow> st_disk (srv_store s') = StateFile (marshal_state (st_mem (srv_store s')))) \<and>
      get_app (proj_id p) x (srv_store s') =
        (case find (\<lambda>a. app_name a = x) (rev as) of Some a \<Rightarrow> Some a | None \<Rightarrow> get_app (proj_id p) x (srv_store s))"
    using assms(2,3)
  proof (induction as arbitrary: n s rs)
    case (Cons a as)
    obtain s1 r rs' where 1: "deploy_service q p iid n a s = (s1, r)"
      and 2: "each_service (deploy_service q p iid) (Suc n) as s1 = (s', rs')" and rs: "rs = (app_name a, r) # rs'"
      using Cons.prems(1) by (auto split: prod.splits)
    have r: "\<forall>e. r \<noteq> SvcStateFailed e" and r': "list_all (\<lambda>(n, r). \<forall>e. r \<noteq> SvcStateFailed e) rs'"
      using Cons.prems(2) rs by simp_all
    note one = deploy_service_stores [OF assms(1) 1 r]
    have "s' = s1" if "as = []" using 2 that by simp
    then show ?case
      using Cons.IH [OF 2 r'] one(1) one(2) [of x]
      by (auto simp: rs find_append split: option.splits)
  qed simp
  then show "map fst rs = map app_name as" "st_disk (srv_store s') = StateFile (marshal_state (st_mem (srv_store s')))"
    "get_app (proj_id p) x (srv_store s') =
       (case find (\<lambda>a. app_name a = x) (rev as) of Some a \<Rightarrow> Some a | None \<Rightarrow> get_app (proj_id p) x (srv_store s))"
    using assms(4) by simp_all
qed

end

lemma with_project_env_var:
  assumes "gm_ok m" "gm_get m var = Some plain" "gm_get (app_env a) var = None"
  shows "gm_get (app_env (with_project_env m a)) var = Some plain"
proof -
  have "var \<notin> fst ` set (app_env a)" using assms(3) by (metis map_of_eq_None_iff)
  then show ?thesis using assms(1,2) by (simp add: with_project_env_def gm_get_copy_notin gm_get_copy)
qed

lemma build_or_skip_env:
  assumes "build_or_skip h build builds apps = (cs, Inr apps')" "list_all P apps"
  shows "list_all P apps'"
  using assms by (auto simp: build_or_skip_def without_builds_def list_all_iff split: if_splits prod.splits option.splits)

text \<open>C39: the environment of a project keeps its secrets encrypted, but \<open>compose up\<close> in direct mode writes
  every secret in plain text to the state file: each service it stored has the decrypted value of every
  variable that the service does not set itself.\<close>

theorem compose_up_writes_secrets:
  assumes "rq_ops q = libvirt_ops hv vch e" "find_project x (srv_store s) = Some (k, p)" "gm_ok (proj_env p)"
    and m: "decrypt_values q None (proj_env p) s = (s, Inr m)" "gm_get m var = Some plain"
    and "parse_compose h [registry_option h x] path = Inr (apps, builds, ws)"
    and "list_all (\<lambda>a. gm_get (app_env a) var = None) apps"
    and "cli_compose_up h q x path build s = (s', Inr (OutServices ws' cs rs))"
    and "list_all (\<lambda>(n, r). \<forall>e. r \<noteq> SvcStateFailed e) rs" "(n, r) \<in> set rs"
  shows "\<exists>l a. st_disk (srv_store s') = StateFile (marshal_state l) \<and>
    gm_get (get_project_apps (proj_id p) l) n = Some a \<and> gm_get (app_env a) var = Some plain"
proof -
  obtain i where i: "get_instance (proj_id p) (srv_store s) = Some i"
    and d: "deploy_parsed h q p i build 0 (apps, builds, ws) s = (s', Inr (OutServices ws' cs rs))"
    using assms(2,6,8) by (auto simp: cli_compose_up_def cli_guard_defs split: option.splits)
  let ?t = "rt_load (rq_ops q) i s"
  obtain apps1 where b: "build_or_skip h build builds apps = (cs, Inr apps1)"
    using d by (auto simp: deploy_parsed_def Let_def split: prod.splits sum.splits)
  have "proj_env p \<noteq> []" using m by auto
  moreover have "decrypt_values q None (proj_env p) ?t = (?t, Inr m)"
    using decrypt_values_rt [where q = q and ov = None and env = "proj_env p" and s = s] m(1) by (simp add: rt_load_def)
  ultimately have me: "merge_envs q (proj_env p) (map (cap_cpu c) apps1) ?t = (?t, Inr (map (with_project_env m) (map (cap_cpu c) apps1)))" for c
    by (intro merge_envs_stable)
  let ?as = "map (with_project_env m) (map (cap_cpu (res_cpu (proj_resources p))) apps1)"
  have e: "each_service (deploy_service q p (inst_id i)) 0 ?as ?t = (s', rs)"
    using d by (simp add: deploy_parsed_def Let_def b me split: prod.splits)
  have ne: "?as \<noteq> []" using assms(10) e by auto
  note st = lv.each_service_stores [OF assms(1) e assms(9) ne]
  have "n \<in> app_name ` set ?as" using assms(10) st(1) by (metis fst_conv image_eqI list.set_map)
  then obtain a where a: "find (\<lambda>a. app_name a = n) (rev ?as) = Some a" "a \<in> set ?as"
    by (cases "find (\<lambda>a. app_name a = n) (rev ?as)") (auto simp: find_None_iff dest: find_Some_mem)
  have "gm_get (app_env a) var = Some plain"
  proof -
    obtain a0 where a0: "a = with_project_env m (cap_cpu (res_cpu (proj_resources p)) a0)" "a0 \<in> set apps1" using a(2) by auto
    have "gm_ok m" using assms(3) decrypt_values_keys [OF m(1)] by (simp add: gm_ok_def)
    moreover have "gm_get (app_env (cap_cpu c a0)) var = None" for c
      using build_or_skip_env [OF b assms(7)] a0(2) by (auto simp: list_all_iff cap_cpu_def)
    ultimately show ?thesis using m(2) a0(1) with_project_env_var by simp
  qed
  then show ?thesis using st(2) st(3) [of n] a(1) by (auto simp: get_app_def)
qed

text \<open>A compose file of one service, and the project \<open>web\<close> after \<open>env set --secret\<close>.\<close>

definition demo_compose_host :: cli_host where
  "demo_compose_host = demo_cli_host\<lparr>hs_compose := demo_host\<lparr>he_files := (\<lambda>p. Some [])\<rparr>,
     hs_compose_yaml := (\<lambda>t. Some [(''api'', demo_service\<lparr>svc_env_file := None, svc_environment := None\<rparr>)])\<rparr>"

definition demo_sealed :: "(string \<Rightarrow> bool) libvirt_runtime server" where
  "demo_sealed = fst (cli_env_set demo_key_env ''web'' [(''TOKEN'', ''s3cret'')] True demo_web)"

lemma decrypt_values_key_only: "\<exists>key. fst (decrypt_values q ov env s) = s\<lparr>srv_key := key\<rparr>"
proof (induction env arbitrary: ov s)
  case Nil
  show ?case by (rule exI [of _ "srv_key s"]) simp
next
  case (Cons e env)
  obtain k val where e: "e = (k, val)" by (rule prod.exhaust)
  obtain s1 r1 where o: "open_vault q ov s = (s1, r1)" by (rule prod.exhaust)
  obtain key where s1: "s1 = s\<lparr>srv_key := key\<rparr>"
    using o that [of "srv_key s"] by (auto simp: open_vault_def init_vault_def split: option.splits prod.splits sum.splits)
  obtain k1 where "fst (decrypt_values q ov env s) = s\<lparr>srv_key := k1\<rparr>" using Cons.IH by blast
  moreover obtain k2 where "fst (decrypt_values q (case r1 of Inr v \<Rightarrow> Some v | Inl _ \<Rightarrow> None) env s1) = s\<lparr>srv_key := k2\<rparr>"
    using Cons.IH [of _ s1] s1 by fastforce
  ultimately show ?case
    using s1 by (cases r1) (auto simp: e o split: prod.split sum.split)
qed

theorem compose_up_writes_secrets_witness:
  "\<exists>l a. st_disk (srv_store (fst (cli_compose_up demo_compose_host demo_key_env ''web'' ''/p/compose.yml'' True demo_sealed))) =
       StateFile (marshal_state l) \<and>
     gm_get (get_project_apps ''u1'' l) ''api'' = Some a \<and> gm_get (app_env a) ''TOKEN'' = Some ''s3cret''"
proof -
  let ?up = "cli_compose_up demo_compose_host demo_key_env ''web'' ''/p/compose.yml'' True demo_sealed"
  let ?dec = "\<lambda>p. decrypt_values demo_key_env None (proj_env p) demo_sealed"
  have 1: "(case find_project ''web'' (srv_store demo_sealed) of None \<Rightarrow> False
     | Some (k, p) \<Rightarrow> distinct (map fst (proj_env p)) \<and> snd (?dec p) = Inr [(''TOKEN'', ''s3cret'')] \<and>
         srv_key (fst (?dec p)) = srv_key demo_sealed \<and> proj_id p = ''u1'')" by code_simp
  then obtain k p where p: "find_project ''web'' (srv_store demo_sealed) = Some (k, p)" "gm_ok (proj_env p)"
    "snd (?dec p) = Inr [(''TOKEN'', ''s3cret'')]" "srv_key (fst (?dec p)) = srv_key demo_sealed" "proj_id p = ''u1''"
    by (auto simp: gm_ok_def split: option.splits)
  have dec: "?dec p = (demo_sealed, Inr [(''TOKEN'', ''s3cret'')])"
    using decrypt_values_key_only [of demo_key_env None "proj_env p" demo_sealed] p(3,4) by (auto simp: prod_eq_iff)
  have "(case parse_compose demo_compose_host [registry_option demo_compose_host ''web''] ''/p/compose.yml'' of Inl e \<Rightarrow> False
     | Inr (apps, builds, ws) \<Rightarrow> list_all (\<lambda>a. gm_get (app_env a) ''TOKEN'' = None) apps)" by code_simp
  then obtain apps builds ws where c:
    "parse_compose demo_compose_host [registry_option demo_compose_host ''web''] ''/p/compose.yml'' = Inr (apps, builds, ws)"
    "list_all (\<lambda>a. gm_get (app_env a) ''TOKEN'' = None) apps" by (auto split: sum.splits)
  have "(case snd ?up of Inr (OutServices ws cs rs) \<Rightarrow> map fst rs = [''api''] \<and>
       list_all (\<lambda>(n, r). case r of SvcStateFailed e \<Rightarrow> False | _ \<Rightarrow> True) rs | _ \<Rightarrow> False)" by code_simp
  then obtain ws' cs rs where u: "?up = (fst ?up, Inr (OutServices ws' cs rs))" "map fst rs = [''api'']"
    "list_all (\<lambda>(n, r). case r of SvcStateFailed e \<Rightarrow> False | _ \<Rightarrow> True) rs"
    by (auto simp: prod_eq_iff split: sum.splits outcome.splits)
  have ok: "list_all (\<lambda>(n, r). \<forall>e. r \<noteq> SvcStateFailed e) rs"
    using u(3) by (auto simp: list_all_iff split: service_result.splits)
  obtain r where "(''api'', r) \<in> set rs" using u(2) by auto
  moreover have "rq_ops demo_key_env = libvirt_ops (demo_hv True) demo_channel demo_rt_env"
    by (simp add: demo_key_env_def demo_api_env_def)
  ultimately show ?thesis
    using compose_up_writes_secrets [OF _ p(1,2) dec _ c u(1) ok, of _ _ _ "''s3cret''" "''api''"] p(5) by simp
qed

section \<open>Services that exist already\<close>

lemma create_existing_app:
  assumes "find_project x (srv_store s) = Some (k, p)" "get_app (proj_id p) (ca_name req) (srv_store s) = Some old"
  shows "fst (handle_app_create q x (Some req) s) = s \<and> 400 \<le> rs_status (snd (handle_app_create q x (Some req) s))"
  using assms by (simp add: handle_app_create_def guard_defs write_error_def reply_def split: option.split)

lemma override_keeps:
  assumes "get_app (proj_id p) n (srv_store s) = Some old" "app_name old = n" "override_image q p n old b s = (s', r)"
  shows "\<exists>img. (img = app_image old \<or> b = ImageOverride img) \<and>
    get_app (proj_id p) n (srv_store s') = Some (old\<lparr>app_image := img\<rparr>)"
proof (cases "\<exists>img. b = ImageOverride img \<and> img \<noteq> []")
  case True
  then obtain img where b: "b = ImageOverride img" "img \<noteq> []" by blast
  let ?a = "old\<lparr>app_image := img\<rparr>"
  obtain s1 e where 1: "on_store (set_app (rq_now q) (rq_save q 0) (proj_id p) (Some ?a)) (put_app (proj_id p) n ?a s) = (s1, e)"
    by (rule prod.exhaust)
  have "get_app (proj_id p) n (srv_store s1) = Some ?a"
    using 1 assms(2) get_app_put [of "proj_id p" n ?a s]
    by (auto simp: on_store_def set_app_def save_def ls_set_app_def get_app_def get_project_apps_def Let_def gomap_simps
        split: option.splits save_env.splits prod.splits)
  moreover have "s' = s1" using assms(3) b 1 by (auto simp: override_image_def Let_def split: option.splits)
  ultimately show ?thesis using b(1) by auto
next
  case False
  then have "s' = s" using assms(3) by (auto simp: override_image_def split: deploy_body.splits)
  then show ?thesis using assms(1) by (intro exI [of _ "app_image old"]) simp
qed

context project_runtime
begin

lemma deploy_existing_app:
  assumes "rq_ops q = ops" "find_project x (srv_store s) = Some (k, p)"
    "get_app (proj_id p) n (srv_store s) = Some old" "app_name old = n"
  shows "\<exists>img. (img = app_image old \<or> b = ImageOverride img) \<and>
    get_app (proj_id p) n (srv_store (fst (handle_app_deploy q x n b s))) = Some (old\<lparr>app_image := img\<rparr>)"
proof -
  obtain s1 r where o: "override_image q p n old b s = (s1, r)" by (rule prod.exhaust)
  from override_keeps [OF assms(3,4) o] obtain img where img: "img = app_image old \<or> b = ImageOverride img"
    "get_app (proj_id p) n (srv_store s1) = Some (old\<lparr>app_image := img\<rparr>)" by blast
  have "srv_store s2 = srv_store s1" if "rt_call ops iid (op_deploy ops iid a) (rt_load ops i s1) = (s2, e)" for iid a i s2 e
    using rt_call_quiet [where f = "op_deploy ops iid a" and ops = ops and iid = iid and s = "rt_load ops i s1", OF deploy] that by simp
  then have "srv_store (fst (handle_app_deploy q x n b s)) \<in> {srv_store s1, srv_store s}"
    using assms(1-3) o by (auto simp: handle_app_deploy_def guard_defs split: sum.split option.split prod.split)
  moreover have "get_app (proj_id p) n (srv_store s) = Some (old\<lparr>app_image := app_image old\<rparr>)" using assms(3) by simp
  ultimately show ?thesis using img by (metis empty_iff insert_iff)
qed

end

text \<open>\<open>compose up\<close> and \<open>deploy\<close> through the API do not apply a compose file to an application that
  exists: whatever the new service is, the stored application keeps everything but its image.\<close>

theorem api_redeploy_changes_image_only:
  assumes "srv_wf s" "find_project pid (srv_store s) = Some (k, p)" "proj_id p = pid"
    and "url_name pid" "url_name (app_name a)" "get_app pid (app_name a) (srv_store s) = Some old"
    and "rq_ops (qs (2 * n + 1)) = libvirt_ops hv vch e"
  shows "\<exists>img. (img = app_image old \<or> img = app_image a) \<and>
    get_app pid (app_name a) (srv_store (fst (api_deploy_service qs pid n a s))) = Some (old\<lparr>app_image := img\<rparr>)"
proof -
  let ?q = "qs (2 * n)" and ?q' = "qs (2 * n + 1)"
  have name: "app_name old = app_name a" using get_app_wf(1) [OF assms(1,6)] by simp
  have "fst (client_call ?q (CreateApp pid (request_of_app a)) s) = s"
    using assms(4) create_existing_app [OF assms(2), of "request_of_app a" old ?q] assms(3,6)
    by (simp add: client_call_handle request_of_app_def)
  moreover have "fst (client_call ?q' (DeployApp pid (app_name a) (app_image a)) s) =
      fst (handle_app_deploy ?q' pid (app_name a) (ImageOverride (app_image a)) s)"
    using assms(4,5) by (simp add: client_call_handle)
  ultimately have "fst (api_deploy_service qs pid n a s) \<in>
      {s, fst (handle_app_deploy ?q' pid (app_name a) (ImageOverride (app_image a)) s)}"
    by (auto simp: api_deploy_service_def split: prod.split sum.split)
  moreover have "\<exists>img. (img = app_image old \<or> ImageOverride (app_image a) = ImageOverride img) \<and>
      get_app pid (app_name a) (srv_store (fst (handle_app_deploy ?q' pid (app_name a) (ImageOverride (app_image a)) s))) =
        Some (old\<lparr>app_image := img\<rparr>)"
    using lv.deploy_existing_app [OF assms(7,2), where n = "app_name a" and old = old and b = "ImageOverride (app_image a)"]
      assms(3,6) name by simp
  moreover have "get_app pid (app_name a) (srv_store s) = Some (old\<lparr>app_image := app_image old\<rparr>)" using assms(6) by simp
  ultimately show ?thesis by (metis empty_iff insert_iff deploy_body.inject(1))
qed

theorem api_redeploy_changes_image_only_witness:
  "\<exists>old img. get_app ''u1'' ''api'' (srv_store demo_web) = Some old \<and>
     get_app ''u1'' ''api'' (srv_store (fst (api_deploy_service (\<lambda>_. demo_api_env) ''u1'' 0
       (zero_app\<lparr>app_name := ''api'', app_image := ''v2'', app_command := [''serve'']\<rparr>) demo_web))) = Some (old\<lparr>app_image := img\<rparr>)"
proof -
  obtain p where p: "find_project ''u1'' (srv_store demo_web) = Some (''u1'', p)" "proj_id p = ''u1''"
  proof -
    have "map_option (\<lambda>(k, p). (k, proj_id p)) (find_project ''u1'' (srv_store demo_web)) = Some (''u1'', ''u1'')" by code_simp
    then show thesis using that by auto
  qed
  have "map_option app_name (get_app ''u1'' ''api'' (srv_store demo_web)) = Some ''api''" by code_simp
  then obtain old where old: "get_app ''u1'' ''api'' (srv_store demo_web) = Some old" by auto
  have "rq_ops demo_api_env = libvirt_ops (demo_hv True) demo_channel demo_rt_env" by (simp add: demo_api_env_def)
  with api_redeploy_changes_image_only [OF demo_web_wf p, of "zero_app\<lparr>app_name := ''api'', app_image := ''v2'', app_command := [''serve'']\<rparr>"
      old "\<lambda>_. demo_api_env" 0] old
  show ?thesis by (simp add: url_name_def unreserved_def) blast
qed

section \<open>What deploy leaves in the project\<close>

lemma save_project_name:
  assumes "save_project q n (proj_id p) p s = (s', p', e)"
  shows "proj_name p' = proj_name p"
  using assms
  by (auto simp: save_project_def on_store_def update_project_def put_project_def set_projects_def save_def Let_def gomap_simps
      split: option.splits prod.splits save_env.splits if_splits)

lemma create_with_vm_name:
  assumes "create_with_vm q name res s = (s', Inr (p, i))"
  shows "proj_name p = name"
proof -
  obtain s1 p0 where 1: "on_store (create_project (rq_now q) (rq_uuid q) (rq_save q 0) name RuntimeQEMU res) s = (s1, Inr p0)"
    using assms by (auto simp: create_with_vm_def split: prod.splits sum.splits)
  have n: "proj_name p0 = name"
    using 1 by (auto simp: on_store_def create_project_def save_def Let_def split: option.splits if_splits prod.splits save_env.splits)
  obtain r x where o: "op_create (rq_ops q) p0 (srv_rt s1) = (r, x)" by (rule prod.exhaust)
  obtain s2 p' e where sp: "save_project q 2 (proj_id p0) (p0\<lparr>proj_state := ProjRunning\<rparr>) (s1\<lparr>srv_rt := r\<rparr>) = (s2, p', e)"
    by (rule prod_cases3)
  have "p = p'" using assms by (auto simp: create_with_vm_def 1 o sp split: sum.splits)
  then show ?thesis using save_project_name [of q 2 "p0\<lparr>proj_state := ProjRunning\<rparr>"] sp n by simp
qed

lemma encrypt_marks: "encrypt v n plain = Inr c \<Longrightarrow> is_encrypted c"
  by (auto simp: encrypt_def is_encrypted_def split: option.splits if_splits)

lemma seal_secrets_env:
  assumes "seal_secrets q v m env0 = (env, None)" "gm_ok m"
  shows "if x \<in> fst ` set m then \<exists>c. gm_get env x = Some c \<and> is_encrypted c else gm_get env x = gm_get env0 x"
  using assms
proof (induction m arbitrary: env0)
  case (Cons e m)
  obtain k val where e: "e = (k, val)" by (rule prod.exhaust)
  obtain c where c: "encrypt v (rq_nonce q k) val = Inr c" "seal_secrets q v m (gm_set k c env0) = (env, None)"
    using Cons.prems(1) e by (auto split: sum.splits)
  have "gm_ok m" "k \<notin> fst ` set m" using Cons.prems(2) e by (auto simp: gm_ok_def)
  then show ?case
    using Cons.IH [OF c(2)] encrypt_marks [OF c(1)] e by (cases "x = k") (auto simp: gomap_simps)
qed simp

lemma manifest_env_result:
  assumes "manifest_env q m env0 s = (s', env, None)" "gm_ok (man_env m)" "gm_ok (man_secrets m)"
  shows "if x \<in> fst ` set (man_secrets m) then \<exists>c. gm_get env x = Some c \<and> is_encrypted c
    else gm_get env x = over (man_env m) env0 x"
proof (cases "man_secrets m = []")
  case True
  then show ?thesis using assms by (auto simp: manifest_env_def over_def gm_get_copy split: option.split)
next
  case False
  then obtain v where "seal_secrets q v (man_secrets m) (gm_copy env0 (man_env m)) = (env, None)"
    using assms(1) by (auto simp: manifest_env_def Let_def split: prod.splits sum.splits)
  then show ?thesis
    using seal_secrets_env [OF _ assms(3), where x = x] assms(2) by (fastforce simp: over_def gm_get_copy split: option.split)
qed

lemma set_app_projects: "projects (fst (set_app now io pid a st)) = projects st"
  by (auto simp: set_app_def save_def ls_set_app_def Let_def split: option.split save_env.split)

lemma each_service_projects:
  assumes "\<And>n a s. projects (srv_store (fst (f n a s))) = projects (srv_store s)"
  shows "projects (srv_store (fst (each_service f n as s))) = projects (srv_store s)"
proof (induction as arbitrary: n s)
  case (Cons a as)
  have "projects (srv_store (fst (each_service f (Suc n) as (fst (f n a s))))) = projects (srv_store (fst (f n a s)))" by (rule Cons.IH)
  then show ?case using assms [of n a s] by (simp split: prod.split) (metis fst_conv)
qed simp

context project_runtime
begin

lemma deploy_service_projects:
  assumes "rq_ops q = ops"
  shows "projects (srv_store (fst (deploy_service q p iid n a s))) = projects (srv_store s)"
proof -
  obtain st' e where st: "set_app (rq_now q) (rq_save q n) (proj_id p) (Some a) (srv_store s) = (st', e)" by (rule prod.exhaust)
  have 1: "projects st' = projects (srv_store s)" using set_app_projects st by (metis fst_conv)
  obtain s2 e2 where c: "rt_call ops iid (op_deploy ops iid a) (s\<lparr>srv_store := st'\<rparr>) = (s2, e2)" by (rule prod.exhaust)
  have "srv_store s2 = st'"
    using rt_call_quiet [where f = "op_deploy ops iid a" and ops = ops and iid = iid and s = "s\<lparr>srv_store := st'\<rparr>", OF deploy] c by simp
  then show ?thesis using assms 1 st c by (auto simp: deploy_service_def on_store_def split: option.split)
qed

lemma deploy_compose_projects:
  assumes "rq_ops q = ops" "deploy_compose h q path m p s = (s', r)"
  shows "projects (srv_store s') = projects (srv_store s)"
proof -
  have "projects (srv_store s2) = projects (srv_store s)" if d: "deploy_parsed h q p i build n parsed s = (s2, r2)" for i build n parsed s2 r2
  proof -
    obtain apps builds ws where ps: "parsed = (apps, builds, ws)" by (rule prod_cases3)
    obtain cs x where b: "build_or_skip h build builds apps = (cs, x)" by (rule prod.exhaust)
    show ?thesis
    proof (cases x)
      case (Inr apps1)
      obtain s3 y where m: "merge_envs q (proj_env p) (map (cap_cpu (res_cpu (proj_resources p))) apps1) (rt_load ops i s) = (s3, y)"
        by (rule prod.exhaust)
      have "srv_store s3 = srv_store s" using merge_envs_store [OF m] by simp
      then show ?thesis
        using d m ps b Inr each_service_projects [where f = "deploy_service q p (inst_id i)" and n = n and s = s3, OF deploy_service_projects [OF assms(1)]]
        by (auto simp: deploy_parsed_def Let_def assms(1) split: sum.splits prod.splits) (metis fst_conv)
    qed (use d ps b in \<open>auto simp: deploy_parsed_def Let_def\<close>)
  qed
  then show ?thesis
    using assms(2) by (auto simp: deploy_compose_def cli_guard_defs split: option.splits prod.splits sum.splits)
qed

lemma ensured_project:
  assumes "good s" "saves q" "rq_ops q = ops" "rq_uuid q \<noteq> []" "gm_get (projects (srv_store s)) (rq_uuid q) = None"
    "ensure_project q m res s = (s1, Inr (k, p))"
  shows "good s1" "gm_get (projects (srv_store s1)) k = Some p" "proj_name p = man_project m \<or> k = man_project m"
proof -
  have "good s1 \<and> gm_get (projects (srv_store s1)) k = Some p \<and> (proj_name p = man_project m \<or> k = man_project m)"
  proof (cases "find_project (man_project m) (srv_store s)")
    case None
    then obtain i where c: "create_with_vm q (man_project m) res s = (s1, Inr (p, i))" "k = proj_id p"
      using assms(6) by (auto simp: ensure_project_def split: prod.splits sum.splits)
    show ?thesis using good_create_with_vm [OF assms(1-5) c(1)] create_with_vm_name [OF c(1)] c(2) by simp
  next
    case (Some e)
    then have f: "find_project (man_project m) (srv_store s) = Some (k, p)" "s1 = s" using assms(6) by (auto simp: ensure_project_def)
    have "proj_name p = man_project m \<or> k = man_project m" using find_project_Some [OF api_wfD(2) [OF goodD(1) [OF assms(1)]] f(1)] by blast
    then show ?thesis using find_project_wf(1) [OF goodD(1) [OF assms(1)] f(1)] f(2) assms(1) by simp
  qed
  then show "good s1" "gm_get (projects (srv_store s1)) k = Some p" "proj_name p = man_project m \<or> k = man_project m" by simp_all
qed

lemma deploy_project:
  assumes "good s" "saves q" "rq_ops q = ops" "rq_uuid q \<noteq> []" "gm_get (projects (srv_store s)) (rq_uuid q) = None"
    "cli_deploy h q path m False s = (s', Inr out)"
  shows "\<exists>k p0 p s1 s2 env. gm_get (projects (srv_store s')) k = Some p \<and> (proj_name p = man_project m \<or> k = man_project m) \<and>
    manifest_env q m (proj_env p0) s1 = (s2, env, None) \<and> p = (manifest_domains m (p0\<lparr>proj_env := env\<rparr>))\<lparr>proj_updated_at := rq_now q\<rparr> \<and>
    (\<forall>e. find_project (man_project m) (srv_store s) = Some e \<longrightarrow> e = (k, p0))"
proof -
  obtain res where res: "manifest_resources m = Inr res" using assms(6) by (auto simp: cli_deploy_def split: sum.splits)
  obtain s1 k p0 where en: "ensure_project q m res s = (s1, Inr (k, p0))"
    using assms(6) res by (auto simp: cli_deploy_def split: sum.splits prod.splits)
  obtain s2 env where me: "manifest_env q m (proj_env p0) s1 = (s2, env, None)"
    using assms(6) res en by (auto simp: cli_deploy_def split: prod.splits option.splits)
  let ?p = "manifest_domains m (p0\<lparr>proj_env := env\<rparr>)"
  obtain s3 p' where sp: "save_project q 4 k ?p s2 = (s3, p', None)"
    using assms(6) res en me by (auto simp: cli_deploy_def split: prod.splits option.splits)
  have dc: "deploy_compose h q path m p' s3 = (s', Inr out)" using assms(6) res en me sp by (simp add: cli_deploy_def)
  note e1 = ensured_project [OF assms(1-5) en]
  have "srv_store s2 = srv_store s1"
    using me by (auto simp: manifest_env_def Let_def dest: init_vault_same split: if_splits prod.splits sum.splits)
  then have 2: "srv_wf s2" "gm_get (projects (srv_store s2)) k = Some p0" using e1 goodD(1) by simp_all
  have same: "proj_id ?p = proj_id p0" "proj_name ?p = proj_name p0" by (simp_all add: manifest_domains_def)
  note ok = save_project_ok [OF 2 same sp]
  have A: "gm_get (projects (srv_store s')) k = Some p'"
    using deploy_compose_projects [OF assms(3) dc] ok(4) by (simp add: gomap_simps)
  have B: "proj_name p' = man_project m \<or> k = man_project m" using ok(1) same(2) e1(3) by simp
  have C: "\<forall>e. find_project (man_project m) (srv_store s) = Some e \<longrightarrow> e = (k, p0)"
    using en by (auto simp: ensure_project_def)
  show ?thesis
    by (rule exI [of _ k], rule exI [of _ p0], rule exI [of _ p'], rule exI [of _ s1], rule exI [of _ s2], rule exI [of _ env])
      (intro conjI A B C me ok(1))
qed

end


definition demo_shop_manifest :: manifest where
  "demo_shop_manifest = \<lparr>man_version = ''1'', man_project = ''web'', man_resources = None, man_domains = [''shop.org''],
     man_default_domain = [], man_compose = None, man_env = [(''MODE'', ''prod'')], man_secrets = [(''TOKEN'', ''s3cret'')],
     man_secrets_file = [], man_environments = []\<rparr>"


end
