(* ===== verification/Cli_Tools.thy ===== *)
theory Cli_Tools
  imports Cli_Session Vm_Manager_Spec Reconcile
begin

text \<open>
  The commands that work on machines without the state file (cmd/goship/commands: vm.go and
  generate_xml.go), the command that runs the node agent (agent.go, and \<open>Run\<close> of
  internal/agent/agent.go), and the search for a running server at the start of a process (root.go).
\<close>

section \<open>Machines (vm.go)\<close>

record vm_create_flags =
  vf_base_image :: string
  vf_memory :: int
  vf_cpus :: int
  vf_enable_kvm :: bool
  vf_network_type :: string
  vf_network_source :: string
  vf_data_dir :: string
  vf_hostname :: string
  vf_ssh_key :: string
  vf_goship_init :: string
  vf_skip_guest_provision :: bool
  vf_install_docker :: bool

definition default_vm_flags :: vm_create_flags where
  "default_vm_flags = \<lparr>vf_base_image = ''~/.goship/images/goship-vm.qcow2'', vf_memory = 512, vf_cpus = 1,
     vf_enable_kvm = True, vf_network_type = ''network'', vf_network_source = ''default'', vf_data_dir = ''~/.goship'',
     vf_hostname = [], vf_ssh_key = [], vf_goship_init = ''./bin/goship-init'', vf_skip_guest_provision = False,
     vf_install_docker = True\<rparr>"

text \<open>What the surroundings of a command give: the home directory, whether a file is missing, the
  files that can be read, the daemons that answer, the user, and the tools of a creation.\<close>

record 'w vm_env =
  ve_home :: "string option"
  ve_missing :: "string \<Rightarrow> bool"
  ve_read :: "string \<Rightarrow> string option"
  ve_connects :: "string \<Rightarrow> bool"
  ve_uid :: int
  ve_create :: create_env
  ve_channel :: "'w channel"

datatype vm_command_error = InitBinaryMissing string | SshKeyUnreadable string | NoLibvirt | VmFailed vm_error
  | BadPingName name_error | VmDialFailed string | PingFailed string

datatype vm_outcome = VmCreated vm_desc | VmDestroyed destroy_result | VmListed "vm_desc list" | VmAlive

text \<open>\<open>NewVMManager\<close>: the manager needs a connection; its handle stands for itself.\<close>

definition with_manager ::
    "'w vm_env \<Rightarrow> ('w host \<Rightarrow> 'w host \<times> (vm_error + 'a)) \<Rightarrow> ('a \<Rightarrow> vm_outcome) \<Rightarrow> 'w host \<Rightarrow>
     'w host \<times> (vm_command_error + vm_outcome)" where
  "with_manager e f out h =
     (case connect_to_libvirt (ve_connects e) (ve_uid e) of None \<Rightarrow> (h, Inl NoLibvirt)
      | Some uri \<Rightarrow> (case f h of (h', Inl err) \<Rightarrow> (h', Inl (VmFailed err)) | (h', Inr x) \<Rightarrow> (h', Inr (out x))))"

definition read_ssh_key :: "'w vm_env \<Rightarrow> string \<Rightarrow> vm_command_error + string" where
  "read_ssh_key e path =
     (if path = [] then Inr []
      else let p = expand_path (ve_home e) path
        in (case ve_read e p of None \<Rightarrow> Inl (SshKeyUnreadable p) | Some key \<Rightarrow> Inr (trim_space key)))"

definition vm_create_options :: "'w vm_env \<Rightarrow> string \<Rightarrow> string \<Rightarrow> vm_create_flags \<Rightarrow> create_vm_options" where
  "vm_create_options e name ssh_key f =
     \<lparr>co_name = name, co_base_image = expand_path (ve_home e) (vf_base_image f), co_memory_mb = vf_memory f,
      co_disk_mb = 0, co_cpus = vf_cpus f, co_enable_kvm = vf_enable_kvm f, co_security_none = True,
      co_network_type = vf_network_type f, co_network_source = vf_network_source f, co_hostname = vf_hostname f,
      co_ssh_key = ssh_key, co_init_binary_path = expand_path (ve_home e) (vf_goship_init f),
      co_provision_guest = (\<not> vf_skip_guest_provision f), co_install_docker = vf_install_docker f,
      co_registry_addr = []\<rparr>"

definition run_vm_create ::
    "'w hypervisor \<Rightarrow> 'w vm_env \<Rightarrow> string \<Rightarrow> vm_create_flags \<Rightarrow> 'w host \<Rightarrow> 'w host \<times> (vm_command_error + vm_outcome)" where
  "run_vm_create hv e name f h =
     (let init = expand_path (ve_home e) (vf_goship_init f)
      in if \<not> vf_skip_guest_provision f \<and> ve_missing e init then (h, Inl (InitBinaryMissing init))
         else (case read_ssh_key e (vf_ssh_key f) of Inl err \<Rightarrow> (h, Inl err)
           | Inr key \<Rightarrow> with_manager e
               (manager_create hv (ve_create e) (expand_path (ve_home e) (vf_data_dir f)) (vm_create_options e name key f))
               VmCreated h))"

definition run_vm_destroy ::
    "'w hypervisor \<Rightarrow> 'w vm_env \<Rightarrow> string \<Rightarrow> string \<Rightarrow> bool \<Rightarrow> 'w host \<Rightarrow> 'w host \<times> (vm_command_error + vm_outcome)" where
  "run_vm_destroy hv e name data_dir keep_disk h =
     with_manager e (manager_destroy hv (ce_remove (ve_create e)) (expand_path (ve_home e) data_dir) name keep_disk)
       VmDestroyed h"

definition run_vm_list :: "'w hypervisor \<Rightarrow> 'w vm_env \<Rightarrow> 'w host \<Rightarrow> 'w host \<times> (vm_command_error + vm_outcome)" where
  "run_vm_list hv e h = with_manager e (\<lambda>h. (h, manager_list hv (ho_world h))) VmListed h"

text \<open>\<open>ping\<close> needs no libvirt, only the socket.\<close>

definition run_vm_ping :: "'w vm_env \<Rightarrow> string \<Rightarrow> string \<Rightarrow> 'w host \<Rightarrow> 'w host \<times> (vm_command_error + vm_outcome)" where
  "run_vm_ping e name data_dir h =
     (case vm_socket_path (expand_path (ve_home e) data_dir) name of Inl err \<Rightarrow> (h, Inl (BadPingName err))
      | Inr sock \<Rightarrow>
        if \<not> ch_dial (ve_channel e) sock (ho_world h) then (h, Inl (VmDialFailed name))
        else (case on_world (ping (ve_channel e) sock) h of
            (h', True) \<Rightarrow> (h', Inr VmAlive) | (h', False) \<Rightarrow> (h', Inl (PingFailed name))))"

datatype vm_command = VmCreate string vm_create_flags | VmDestroy string string bool | VmList | VmPing string string

definition run_vm :: "'w hypervisor \<Rightarrow> 'w vm_env \<Rightarrow> vm_command \<Rightarrow> 'w host \<Rightarrow> 'w host \<times> (vm_command_error + vm_outcome)" where
  "run_vm hv e c h = (case c of
       VmCreate name f \<Rightarrow> run_vm_create hv e name f h
     | VmDestroy name data_dir keep \<Rightarrow> run_vm_destroy hv e name data_dir keep h
     | VmList \<Rightarrow> run_vm_list hv e h
     | VmPing name data_dir \<Rightarrow> run_vm_ping e name data_dir h)"

text \<open>The table of \<open>vm list\<close>: name, domain and state in columns of 20 and 30.\<close>

definition pad :: "nat \<Rightarrow> string \<Rightarrow> string" where
  "pad n s = s @ replicate (n - length s) (CHR '' '')"

definition vm_row :: "string \<Rightarrow> string \<Rightarrow> string \<Rightarrow> string" where
  "vm_row a b c = pad 20 a @ ''  '' @ pad 30 b @ ''  '' @ c @ [CHR 0x0A]"

definition vm_table :: "vm_desc list \<Rightarrow> string" where
  "vm_table vms = vm_row ''NAME'' ''MACHINE'' ''STATE'' @
     vm_row (replicate 20 (CHR ''-'')) (replicate 30 (CHR ''-'')) (replicate 15 (CHR ''-'')) @
     (if vms = [] then ''No GoShip VMs found.'' @ [CHR 0x0A]
      else concat (map (\<lambda>v. vm_row (vd_name v) (vd_domain v) (vd_state v)) vms))"

section \<open>A domain document (generate_xml.go)\<close>

record xml_flags =
  xf_name :: string
  xf_uuid :: string
  xf_memory :: int
  xf_cpus :: int
  xf_enable_kvm :: bool
  xf_disk_path :: string
  xf_disk_format :: string
  xf_network_type :: string
  xf_network_source :: string

definition default_xml_flags :: xml_flags where
  "default_xml_flags = \<lparr>xf_name = ''goship-vm'', xf_uuid = [], xf_memory = 512, xf_cpus = 1, xf_enable_kvm = True,
     xf_disk_path = ''/var/lib/goship/disk.qcow2'', xf_disk_format = ''qcow2'', xf_network_type = ''network'',
     xf_network_source = ''default''\<rparr>"

definition xml_config :: "xml_flags \<Rightarrow> string \<Rightarrow> domain_config" where
  "xml_config f uuid =
     \<lparr>dc_name = xf_name f, dc_uuid = uuid, dc_memory_mb = xf_memory f,
      dc_cpu = \<lparr>cpu_sockets = 1, cpu_cores = xf_cpus f, cpu_threads = 1, cpu_model = [], cpu_features = []\<rparr>,
      dc_enable_kvm = xf_enable_kvm f,
      dc_disks = [\<lparr>disk_path = xf_disk_path f, disk_format = xf_disk_format f, disk_bus = ''virtio'',
        disk_read_only = False, disk_cache = []\<rparr>],
      dc_cdroms = [],
      dc_networks = [\<lparr>net_type = xf_network_type f, net_source = xf_network_source f, net_mac = [], net_model = ''virtio''\<rparr>],
      dc_serials = [], dc_memory_backing = None, dc_security_none = False, dc_dac_label = []\<rparr>"

text \<open>No identifier can be made when the system has no random bytes.\<close>

definition run_generate_xml :: "8 word list option \<Rightarrow> xml_flags \<Rightarrow> string option" where
  "run_generate_xml random f =
     (if xf_uuid f \<noteq> [] then Some (generate_domain_xml (xml_config f (xf_uuid f)))
      else (case random of None \<Rightarrow> None | Some bs \<Rightarrow> Some (generate_domain_xml (xml_config f (generate_uuid bs)))))"

section \<open>The node agent (agent.go)\<close>

definition agent_options :: "cli_host \<Rightarrow> bool \<Rightarrow> bool \<Rightarrow> string \<Rightarrow> string \<Rightarrow> string \<Rightarrow> runtime_option list" where
  "agent_options h provision docker uri net_ty net_src =
     [WithDataDir (hs_data_dir h), WithVMImage (hs_data_dir h @ ''/images/goship-vm.qcow2''),
      WithInitBinary (hs_init_binary h), WithProvisionGuest provision, WithInstallDocker docker] @
     (if uri = [] then [] else [WithLibvirtURI uri]) @
     (case network_option [] [] net_ty net_src of None \<Rightarrow> [] | Some (t, src) \<Rightarrow> [WithNetwork t src])"

text \<open>\<open>Run\<close>: a tick at once, then one per interval until the context is cancelled. A tick comes with
  which of its requests reach the server, and with what the two sides meet during it.\<close>

fun agent_loop ::
    "((nat \<Rightarrow> bool) \<times> 'r api_env \<times> (string \<Rightarrow> 'n runtime)) list \<Rightarrow> string \<Rightarrow> bool \<Rightarrow> 'r server \<Rightarrow> 'n \<Rightarrow> 'r server \<times> 'n" where
  "agent_loop [] node has_rt s r = (s, r)"
| "agent_loop ((reaches, q, ops) # ts) node has_rt s r =
     (case tick reaches q node has_rt ops s r of (s1, r1, _, _) \<Rightarrow> agent_loop ts node has_rt s1 r1)"

datatype node_agent_error = NodeIdRequired | AgentRuntimeFailed new_runtime_error

definition run_agent_command ::
    "string \<Rightarrow> (runtime_option list \<Rightarrow> new_runtime_error + 'n) \<Rightarrow> runtime_option list \<Rightarrow>
     ((nat \<Rightarrow> bool) \<times> 'r api_env \<times> (string \<Rightarrow> 'n runtime)) list \<Rightarrow> 'r server \<Rightarrow> 'r server \<times> (node_agent_error + 'n)" where
  "run_agent_command node start_rt options ticks s =
     (if node = [] then (s, Inl NodeIdRequired)
      else (case start_rt options of Inl e \<Rightarrow> (s, Inl (AgentRuntimeFailed e))
        | Inr r \<Rightarrow> (case agent_loop ticks node True s r of (s', r') \<Rightarrow> (s', Inr r'))))"


section \<open>The search for a server (root.go)\<close>

text \<open>\<open>net.SplitHostPort\<close>: the last colon parts host and port, brackets protect the colons of an IPv6
  address.\<close>

definition last_colon :: "string \<Rightarrow> nat option" where
  "last_colon s = (if CHR '':'' \<in> set s then Some (length s - 1 - length (takeWhile (\<lambda>c. c \<noteq> CHR '':'') (rev s))) else None)"

definition split_host_port :: "string \<Rightarrow> (string \<times> string) option" where
  "split_host_port s =
     (case last_colon s of None \<Rightarrow> None
      | Some i \<Rightarrow>
        if hd s = CHR ''[''
        then let stop = length (takeWhile (\<lambda>c. c \<noteq> CHR '']'') s)
          in if stop = length s \<or> stop + 1 \<noteq> i \<or> CHR ''['' \<in> set (tl s) \<or> CHR '']'' \<in> set (drop (stop + 1) s) then None
             else Some (drop 1 (take stop s), drop (i + 1) s)
        else if CHR '':'' \<in> set (take i s) \<or> CHR ''['' \<in> set s \<or> CHR '']'' \<in> set s then None
        else Some (take i s, drop (i + 1) s))"

definition join_host_port :: "string \<Rightarrow> string \<Rightarrow> string" where
  "join_host_port host port =
     (if CHR '':'' \<in> set host then ''['' @ host @ '']:'' @ port else host @ '':'' @ port)"

text \<open>\<open>net.ParseIP\<close> of an IPv6 text: groups of up to four hexadecimal digits, one gap, an IPv4 address
  at the end.\<close>

definition hex_group :: "string \<Rightarrow> int option" where
  "hex_group f =
     (if f = [] \<or> length f > 4 \<or> None \<in> set (map hex_val f) then None
      else Some (foldl (\<lambda>n c. 16 * n + int (the (hex_val c))) 0 f))"

definition ip4_part :: "string \<Rightarrow> int option" where
  "ip4_part f = (case digits_val 0 f of None \<Rightarrow> None
     | Some n \<Rightarrow> if f = [] \<or> n > 255 \<or> length f > 1 \<and> hd f = CHR ''0'' then None else Some (int n))"

definition parse_ip4 :: "string \<Rightarrow> int list option" where
  "parse_ip4 s =
     (let fs = split_on CHR ''.'' s
      in if length fs = 4 \<and> None \<notin> set (map ip4_part fs) then Some (map (the \<circ> ip4_part) fs) else None)"

fun ip_groups :: "bool \<Rightarrow> string list \<Rightarrow> int list option" where
  "ip_groups v4 [] = Some []"
| "ip_groups v4 [f] =
     (if v4 \<and> CHR ''.'' \<in> set f
      then map_option (\<lambda>q. [256 * q ! 0 + q ! 1, 256 * q ! 2 + q ! 3]) (parse_ip4 f)
      else map_option (\<lambda>n. [n]) (hex_group f))"
| "ip_groups v4 (f # fs) =
     (case (hex_group f, ip_groups v4 fs) of (Some n, Some ns) \<Rightarrow> Some (n # ns) | _ \<Rightarrow> None)"

definition colon_fields :: "string \<Rightarrow> string list" where
  "colon_fields s = (if s = [] then [] else split_on CHR '':'' s)"

definition parse_ip6 :: "string \<Rightarrow> int list option" where
  "parse_ip6 s =
     (case cut s ''::'' of
        (l, r, False) \<Rightarrow> (case ip_groups True (split_on CHR '':'' s) of
            Some g \<Rightarrow> if length g = 8 then Some g else None | None \<Rightarrow> None)
      | (l, r, True) \<Rightarrow> (case (ip_groups False (colon_fields l), ip_groups True (colon_fields r)) of
            (Some a, Some b) \<Rightarrow> if length a + length b < 8
              then Some (a @ replicate (8 - length a - length b) 0 @ b) else None
          | _ \<Rightarrow> None))"

text \<open>\<open>IsUnspecified\<close>: all zero, also as an IPv4 address that is mapped.\<close>

definition unspecified_ip :: "string \<Rightarrow> bool" where
  "unspecified_ip host \<longleftrightarrow> parse_ip4 host = Some [0, 0, 0, 0] \<or> parse_ip6 host = Some (replicate 8 0) \<or>
     parse_ip6 host = Some (replicate 5 0 @ [65535, 0, 0])"

definition server_probe_url :: "string \<Rightarrow> string option" where
  "server_probe_url listen_addr =
     (case split_host_port listen_addr of None \<Rightarrow> None
      | Some (host, port) \<Rightarrow>
        let h = (if host = [] \<or> unspecified_ip host then ''127.0.0.1'' else host)
        in Some (''http://'' @ join_host_port h port))"

text \<open>\<open>get_status\<close> is the status a request gets in time, if any.\<close>

definition detect_server :: "(string \<Rightarrow> nat option) \<Rightarrow> string \<Rightarrow> string option" where
  "detect_server get_status listen_addr =
     (case server_probe_url listen_addr of None \<Rightarrow> None
      | Some url \<Rightarrow> if get_status (url @ ''/healthz'') = Some 200 then Some url else None)"


lemma probe_urls:
  "server_probe_url '':8080'' = Some ''http://127.0.0.1:8080''"
  "server_probe_url ''0.0.0.0:80'' = Some ''http://127.0.0.1:80''"
  "server_probe_url ''[::]:8080'' = Some ''http://127.0.0.1:8080''"
  "server_probe_url ''[::ffff:0.0.0.0]:80'' = Some ''http://127.0.0.1:80''"
  "server_probe_url ''[fe80::1]:8080'' = Some ''http://[fe80::1]:8080''"
  "server_probe_url ''localhost:8080'' = Some ''http://localhost:8080''"
  "server_probe_url ''8080'' = None" "server_probe_url ''::1:8080'' = None"
  by (code_simp, code_simp, code_simp, code_simp, code_simp, code_simp, code_simp, code_simp)

section \<open>What the machine commands do\<close>

text \<open>
  What libvirt documents of removing domains: destroying one ends it, and leaves its definition if it
  has one; undefining one that is inactive removes it, one that is active goes on without a
  definition; a failure changes no domain, and a domain has one name.
\<close>

definition hv_removes :: "'w hypervisor \<Rightarrow> (nat \<Rightarrow> 'w \<Rightarrow> bool) \<Rightarrow> bool" where
  "hv_removes hv lives \<longleftrightarrow>
     (\<forall>d w n. hv_lookup hv n (fst (hv_destroy hv d w)) = hv_lookup hv n w \<or>
        hv_lookup hv n w = DomFound d \<and> hv_lookup hv n (fst (hv_destroy hv d w)) = DomNone) \<and>
     (\<forall>d w w'. hv_destroy hv d w = (w', True) \<longrightarrow> \<not> lives d w') \<and>
     (\<forall>d w n. hv_lookup hv n (fst (hv_undefine hv d w)) =
        (if hv_lookup hv n w = DomFound d \<and> snd (hv_undefine hv d w) \<and> \<not> lives d w then DomNone
         else hv_lookup hv n w)) \<and>
     (\<forall>d w n m. hv_lookup hv n w = DomFound d \<longrightarrow> hv_lookup hv m w = DomFound d \<longrightarrow> n = m)"

lemma hv_removesD:
  assumes "hv_removes hv lives"
  shows "hv_lookup hv n (fst (hv_destroy hv d w)) = hv_lookup hv n w \<or>
      hv_lookup hv n w = DomFound d \<and> hv_lookup hv n (fst (hv_destroy hv d w)) = DomNone"
    and "hv_destroy hv d w = (w', True) \<Longrightarrow> \<not> lives d w'"
    and "hv_lookup hv n (fst (hv_undefine hv d w)) =
        (if hv_lookup hv n w = DomFound d \<and> snd (hv_undefine hv d w) \<and> \<not> lives d w then DomNone
         else hv_lookup hv n w)"
    and "hv_lookup hv n w = DomFound d \<Longrightarrow> hv_lookup hv m w = DomFound d \<Longrightarrow> n = m"
  using assms unfolding hv_removes_def by blast+

definition keeps_running :: "'w hypervisor \<Rightarrow> (nat \<Rightarrow> 'w \<Rightarrow> bool) \<Rightarrow> nat \<Rightarrow> 'w \<Rightarrow> bool" where
  "keeps_running hv lives d w \<longleftrightarrow> lives d w \<and> hv_state hv d w \<noteq> Some DomRunning \<and> hv_state hv d w \<noteq> Some DomPaused"

lemma destroy_vm_lookups:
  assumes "hv_removes hv lives" "hv_lookup hv n w = DomFound d" "destroy_vm hv d w = (w', r)"
  shows "(m = n \<or> hv_lookup hv m w' = hv_lookup hv m w) \<and>
    (r = None \<longrightarrow> hv_lookup hv n w' = (if keeps_running hv lives d w then DomFound d else DomNone))"
proof (cases "hv_state hv d w")
  case (Some s)
  note R = hv_removesD [OF assms(1)]
  have other: "m \<noteq> n \<Longrightarrow> hv_lookup hv m w \<noteq> DomFound d" using R(4) assms(2) by blast
  let ?p = "if s = DomRunning \<or> s = DomPaused then hv_destroy hv d w else (w, True)"
  obtain w1 b where p: "?p = (w1, b)" by fastforce
  have l: "hv_lookup hv x w1 = hv_lookup hv x w \<or> hv_lookup hv x w = DomFound d \<and> hv_lookup hv x w1 = DomNone" for x
    using R(1) [of x d w] p by (auto split: if_splits)
  obtain w2 c where u: "hv_undefine hv d w1 = (w2, c)" by fastforce
  have l2: "hv_lookup hv x w2 = (if hv_lookup hv x w1 = DomFound d \<and> c \<and> \<not> lives d w1 then DomNone else hv_lookup hv x w1)" for x
    using R(3) [of x d w1] u by simp
  have e: "destroy_vm hv d w = (if b then (w2, if c then None else Some UndefineFailed) else (w1, Some DestroyFailed))"
    using Some p u by (simp add: destroy_vm_def split: bool.split)
  have m: "m = n \<or> hv_lookup hv m w1 = hv_lookup hv m w \<and> hv_lookup hv m w2 = hv_lookup hv m w"
    using other l [of m] l2 [of m] by auto
  have n: "hv_lookup hv n w2 = (if keeps_running hv lives d w then DomFound d else DomNone)" if "b" "c"
  proof (cases "s = DomRunning \<or> s = DomPaused")
    case True
    then have "\<not> lives d w1" using R(2) [of d w w1] p that(1) by simp
    then show ?thesis using True Some l [of n] l2 [of n] that assms(2) by (auto simp: keeps_running_def)
  next
    case False
    then have "w1 = w" using p by simp
    then show ?thesis using False Some l2 [of n] that assms(2) by (auto simp: keeps_running_def)
  qed
  show ?thesis using e m n assms(3) by (auto split: if_splits)
qed (use assms(3) in \<open>auto simp: destroy_vm_def\<close>)


text \<open>A host with one machine: whether it runs, and whether it is defined.\<close>

definition one_vm :: "(bool \<times> bool) hypervisor" where
  "one_vm = \<lparr>hv_connect = (\<lambda>_. True), hv_define = (\<lambda>_ w. (w, None)),
     hv_lookup = (\<lambda>n (r, f). if n = ''goship-db'' \<and> (r \<or> f) then DomFound 0 else DomNone),
     hv_state = (\<lambda>d (r, f). Some (if r then DomRunning else DomShutoff)), hv_create = (\<lambda>_ w. (w, False)),
     hv_destroy = (\<lambda>d (r, f). if d = 0 then ((False, f), True) else ((r, f), False)),
     hv_undefine = (\<lambda>d (r, f). if d = 0 then ((r, False), f) else ((r, f), False)),
     hv_shutdown = (\<lambda>_ w. (w, True)), hv_list = (\<lambda>_. Some []), hv_net_lookup = (\<lambda>_ _. None),
     hv_net_active = (\<lambda>_ _. None), hv_net_define = (\<lambda>_ w. (w, None)), hv_net_create = (\<lambda>_ w. (w, True)),
     hv_net_autostart = (\<lambda>_ w. (w, True))\<rparr>"

lemma one_vm_removes: "hv_removes one_vm (\<lambda>d w. fst w)"
  by (auto simp: hv_removes_def one_vm_def split: if_splits)

definition demo_vm_env :: "'w vm_env" where
  "demo_vm_env = \<lparr>ve_home = Some ''/root'', ve_missing = (\<lambda>_. False), ve_read = (\<lambda>_. None),
     ve_connects = (\<lambda>u. u = ''qemu:///system''), ve_uid = 0, ve_create = demo_create_env,
     ve_channel = \<lparr>ch_dial = (\<lambda>_ _. True), ch_send = (\<lambda>_ _ w. (w, Some ok_response))\<rparr>\<rparr>"

definition one_vm_host :: "(bool \<times> bool) host" where
  "one_vm_host = \<lparr>ho_world = (True, True), ho_fs = (\<lambda>p. p = ''/d/vms/db/disk.qcow2'' \<or> p = ''/d/vms/web/disk.qcow2''),
     ho_mode = (\<lambda>_. None)\<rparr>"


text \<open>Only a domain that runs or is paused is destroyed before its definition goes: one whose processor
  waits, which counts as running everywhere else, or that shuts down is only undefined, so it goes on as
  a transient domain while its disk is removed.\<close>

theorem active_domain_not_destroyed:
  assumes "hv_state hv d w = Some s" "s = DomBlocked \<or> s = DomShutdown"
  shows "map_libvirt_state s \<noteq> InstStopped \<and>
    destroy_vm hv d w = (case hv_undefine hv d w of (w', ok) \<Rightarrow> (w', if ok then None else Some UndefineFailed)) \<and>
    destroy_vm (hv\<lparr>hv_destroy := other\<rparr>) d w = destroy_vm hv d w"
  using assms by (auto simp: destroy_vm_def map_libvirt_state_def split: prod.split bool.split)

theorem active_domain_not_destroyed_witness:
  "map_libvirt_state DomBlocked = InstRunning \<and>
   destroy_vm (demo_hv True\<lparr>hv_state := (\<lambda>_ _. Some DomBlocked)\<rparr>) 0 (\<lambda>_. False) =
     (\<lambda>n. False, None)"
  using active_domain_not_destroyed [of "demo_hv True\<lparr>hv_state := (\<lambda>_ _. Some DomBlocked)\<rparr>" 0 "\<lambda>_. False" DomBlocked]
  by (simp add: demo_hv_def map_libvirt_state_def)

end
