(* ===== verification/Spec2Isabelle.thy ===== *)
theory Spec2Isabelle
  imports Store_Inv Sizes Proxy Compose_Spec Manifest Uploads Procs_Inv Guest_Run Vm_Manager_Spec Libvirt_Spec
    Host_Caps Images Api_Properties Api_Refusals Api_Routes Reconcile Server_Routes Cli_Spec Cli_Tools
begin

text \<open>
  \<^bold>\<open>GoShip.\<close> A self-hosted application platform: every project has a virtual machine of its own, and the
  applications of the project run inside it. This library models its Go code and proves what makes it
  correct. Paths are relative to the root of the repository.

  \<^bold>\<open>The program and its parts.\<close>

  \<^item> The command line (cmd/goship/commands) talks to the API server over HTTP (internal/client) or, in direct
    mode, works on the state file and the libvirt runtime itself.
  \<^item> The API server (internal/api) keeps the state store (internal/shared/state), calls the runtime, and
    maintains the routes of the reverse proxy (internal/proxy).
  \<^item> The libvirt runtime (internal/agent/runtime/libvirt) makes, starts, stops and deletes machines through
    libvirt, and sends commands and files to the agent in a machine over a serial socket.
  \<^item> The agent in the guest (internal/init, cmd/goship-init) answers those commands; it deploys
    applications as processes or docker containers and receives files in chunks.
  \<^item> The node agent (internal/agent) pulls the desired state from the server and reconciles its runtime.
  \<^item> The compose importer (internal/compose), the deployment manifest (internal/manifest), the parser of
    sizes (internal/shared/size) and the vault of secrets (internal/vault) are libraries of the above.

  \<^bold>\<open>How the code is read.\<close> A struct is a record, a group of string constants a datatype whose last constructor
  holds any other string, a string a list of bytes, a map a \<open>gomap\<close>: an association list with distinct keys
  in the order a range loop happens to visit them, so a statement about every list is a statement about
  every order. An int is an \<open>int\<close>, with \<open>wrap64\<close> where the arithmetic can leave the 64 bits. An operation
  takes the state and returns the new one; an error is a constructor of a datatype, one per place that
  makes one, on the left of a sum. The clock, random bytes, identifiers and the outcome of every system
  call are arguments (\<open>save_env\<close>, \<open>transfer_io\<close>, \<open>agent_env\<close>, \<open>create_env\<close>, \<open>api_env\<close>); a theorem that does not
  restrict them holds for every failure. Where the code shares a pointer between the store and the
  runtime, the model says so: \<open>rt_call\<close> of \<open>Api_State\<close> writes what the runtime changed back to the store.

  \<^bold>\<open>Theories, in the order of the parts.\<close>

  \<^item> \<open>Prelude\<close>, \<open>Paths\<close>: strings, maps, 64-bit numbers, and the lexical part of path/filepath.
  \<^item> \<open>Sizes\<close>: \<open>ParseSizeMB\<close> and \<open>formatMB\<close>.
  \<^item> \<open>Entities\<close>: pkg/domain/entities, with its validators. A valid name is exactly a name that stays one
    level below any directory it is joined to.
  \<^item> \<open>Store\<close>, \<open>Store_Inv\<close>: the state store. Its invariant holds in every reachable store, what was saved is
    what a new process loads, and the creation of a project has exactly the stated outcomes.
  \<^item> \<open>Proxy\<close>: the route table and the request handler. The table implements the interface \<open>route_map\<close>; a
    request reaches the backend of the Host header without its port.
  \<^item> \<open>Compose\<close>, \<open>Compose_Spec\<close>, \<open>Manifest\<close>: the importers, their precedence rules, and their independence
    of the visiting order.
  \<^item> \<open>Vault\<close>: encodings (interface \<open>codec\<close>), encryption of values, and the master key.
  \<^item> \<open>Protocol\<close>, \<open>Chunked\<close>, \<open>Chunked_Spec\<close>, \<open>Uploads\<close>: the chunked transfer between host and guest. The
    contract of a receiver is the locale \<open>receiver\<close>, interpreted on the three receivers of the guest; the
    senders deliver exactly the bytes they read.
  \<^item> \<open>Procs\<close>, \<open>Procs_Inv\<close>: the process manager as a step relation. The monitors of processes interleave
    freely with commands; an application has at most one process, and a stop is final.
  \<^item> \<open>Docker\<close>, \<open>Guest_Agent\<close>, \<open>Guest_Spec\<close>: the docker and executor managers, the command handlers and the
    loop of the agent. \<open>Guest_Boot\<close>, \<open>Guest_Run\<close>: how the agent starts (the serial device with its retries,
    the wait for docker), what it tells of its machine, its run until a shutdown, the program goship-init.
    It comes up if a device is there in time, and none of its processes outlives its run.
  \<^item> \<open>Vm_Names\<close>, \<open>Domain_Xml\<close>, \<open>Uuid\<close>, \<open>Vm_Manager\<close>, \<open>Vm_Manager_Spec\<close>: names and directories of machines,
    the generated documents, identifiers, and the manager. libvirt is the record \<open>hypervisor\<close> over a state
    of its own; \<open>hv_ok\<close> states what its documentation promises. A creation that fails leaves no machine.
  \<^item> \<open>Runtime_If\<close>, \<open>Libvirt_Runtime\<close>, \<open>Libvirt_Spec\<close>: the interface of a runtime, with its laws as the locale
    \<open>project_runtime\<close>, and the libvirt runtime, which is its interpretation \<open>lv\<close>. \<open>Host_Caps\<close>: the discovery
    of the host's capabilities, at the width of the numbers libvirt gives, and their cache.
  \<^item> \<open>Api_State\<close>, \<open>Api_Apps\<close>, \<open>Api_Projects\<close>, \<open>Api_Misc\<close>, \<open>Api_Requests\<close>: the handlers of the server;
    \<open>Api_Inv\<close>, \<open>Api_Keeps\<close>, \<open>Api_Lifecycle\<close>, \<open>Api_Spec\<close>, \<open>Api_Properties\<close>, \<open>Api_Refusals\<close>, \<open>Api_Routes\<close>: the
    judgement \<open>fine\<close> (invariant kept, success is on disk), proved per handler over \<open>project_runtime\<close>, and the
    properties over the life of a server with the libvirt runtime.
  \<^item> \<open>Reconcile\<close>: the node agent. A tick without failures brings the node to the desired state; an agent
    that was restarted does not know its machines: its first tick makes them again, which removes their files when it fails.
  \<^item> \<open>Client\<close>: the HTTP client of the command line, as requests on the wire, and the multiplexer that reads
    them back. A method reaches its handler for arguments of unreserved characters, and may not otherwise.
  \<^item> \<open>Cli_Flags\<close>, \<open>Cli_Projects\<close>, \<open>Cli_Apps\<close>, \<open>Cli_Deploy\<close>, \<open>Cli_Session\<close>: the flags, the commands in direct mode
    (\<open>cli_*\<close>) and through the API (\<open>api_*\<close>), and the start of a process (cmd/goship/commands). \<open>Cli_Commands\<close> has a data type of all commands, \<open>run_direct\<close> and \<open>run_api\<close>.
  \<^item> \<open>Cli_Agree\<close>: the two modes have the same effect where both can be used; \<open>Cli_Inv\<close>, \<open>Cli_Keeps\<close>: the
    judgement \<open>good\<close> (the state in memory is well-formed and the file can be loaded), per command over
    \<open>project_runtime\<close>; \<open>Server_Life\<close>: a server process with its
    requests, the visits of its proxy and its end, and the judgement for every handler; \<open>Server_Routes\<close>: what is
    deployed is what the proxy serves; \<open>Cli_Spec\<close>: the state
    file over the life of many processes and servers, the effect of \<open>deploy\<close>, and where the modes and the documentation differ.
  \<^item> \<open>Cli_Tools\<close>, \<open>Images\<close>: the commands that need no state file: machines (vm), the domain document
    (generate-xml), the node agent with its loop, the base image (image); and the probe for a running server.
    Destroying a machine touches no other; an image is replaced only as a whole.

  \<^bold>\<open>Bounds and fuel.\<close> The walk up the directories is a \<open>partial_function\<close> with a proof that it returns. The
  loops of the guest that look at the clock are functions with a measure, the time left: an attempt takes at
  least a nanosecond. A loop of the host that polls until a deadline runs over the list of its ticks, a
  parameter: the deadline is the end of the list. Reading loops run over the chunks their stream delivers.
  No other loop needs a bound.

  \<^bold>\<open>Not modelled.\<close> JSON, YAML and XML as text (decoded values instead; the generated XML and cloud-init are
  text), TLS and HTTP framing, tables and messages printed to the terminal (but for what they reveal of
  secrets, and the listings of machines and capabilities), logging, the mock runtime of the tests, the OCI
  registry (a library), and concurrency of requests: the store's mutex makes each of its operations a step,
  and requests are handled one at a time. Of the command line the library of its flags and of its
  configuration is left out.
\<close>

end
